(* ===== verification/Prelude.thy ===== *)
theory Prelude
  imports Main "HOL-Library.AList"
begin

text \<open>
  The vocabulary every component shares. Asynchronous operations of the server
  (\<open>async\<close> functions that read and write the store and may throw) are
  \<open>act\<close>s: functions from the state to a result, an exception \<open>Inl e\<close> or a
  value \<open>Inr x\<close>, and the new state. The state is kept when an exception is
  thrown, because the writes done before a \<open>throw\<close> are not undone. Pure functions
  that may throw are plain sums \<open>'e + 'a\<close>. The collection \<open>act_iff\<close> turns
  the fact that a sequence returned (or threw) into the facts about its parts.
  JavaScript's \<open>Map\<close> is an insertion-ordered association list.
\<close>

section \<open>Actions: state passing with exceptions\<close>

type_synonym ('s, 'e, 'a) act = "'s \<Rightarrow> ('e + 'a) \<times> 's"

definition returnE :: "'a \<Rightarrow> ('s, 'e, 'a) act" where
  "returnE x = (\<lambda>s. (Inr x, s))"

definition throwE :: "'e \<Rightarrow> ('s, 'e, 'a) act" where
  "throwE e = (\<lambda>s. (Inl e, s))"

definition bindE :: "('s, 'e, 'a) act \<Rightarrow> ('a \<Rightarrow> ('s, 'e, 'b) act) \<Rightarrow> ('s, 'e, 'b) act" where
  "bindE m f = (\<lambda>s. case m s of (Inl e, s') \<Rightarrow> (Inl e, s') | (Inr x, s') \<Rightarrow> f x s')"

definition throwIf :: "bool \<Rightarrow> 'e \<Rightarrow> ('s, 'e, unit) act" where
  "throwIf b e = (if b then throwE e else returnE ())"

definition liftE :: "'e + 'a \<Rightarrow> ('s, 'e, 'a) act" where
  "liftE r = (\<lambda>s. (r, s))"

definition catchE :: "('s, 'e, 'a) act \<Rightarrow> ('e \<Rightarrow> ('s, 'f, 'a) act) \<Rightarrow> ('s, 'f, 'a) act" where
  "catchE m h = (\<lambda>s. case m s of (Inl e, s') \<Rightarrow> h e s' | (Inr x, s') \<Rightarrow> (Inr x, s'))"

text \<open>The same sequencing for pure functions that may throw.\<close>

definition bindR :: "'e + 'a \<Rightarrow> ('a \<Rightarrow> 'e + 'b) \<Rightarrow> 'e + 'b" where
  "bindR r f = (case r of Inl e \<Rightarrow> Inl e | Inr x \<Rightarrow> f x)"

definition throwIfR :: "bool \<Rightarrow> 'e \<Rightarrow> 'e + unit" where
  "throwIfR b e = (if b then Inl e else Inr ())"

named_theorems act_iff \<open>what it means for a composed action to have returned or thrown\<close>

lemma bindE_Inr_iff [act_iff]:
  "bindE m f s = (Inr y, s') \<longleftrightarrow> (\<exists>x t. m s = (Inr x, t) \<and> f x t = (Inr y, s'))"
  by (auto simp: bindE_def split: prod.splits sum.splits)

lemma bindE_Inl_iff [act_iff]:
  "bindE m f s = (Inl e, s') \<longleftrightarrow>
     m s = (Inl e, s') \<or> (\<exists>x t. m s = (Inr x, t) \<and> f x t = (Inl e, s'))"
  by (auto simp: bindE_def split: prod.splits sum.splits)

lemma returnE_iff [act_iff]: "returnE x s = (r, s') \<longleftrightarrow> Inr x = r \<and> s' = s"
  by (auto simp: returnE_def)

lemma throwE_iff [act_iff]: "throwE e s = (r, s') \<longleftrightarrow> r = Inl e \<and> s' = s"
  by (auto simp: throwE_def)

lemma throwIf_Inr_iff [act_iff]: "throwIf b e s = (Inr u, s') \<longleftrightarrow> \<not> b \<and> s' = s"
  by (auto simp: throwIf_def throwE_def returnE_def)

lemma throwIf_Inl_iff [act_iff]: "throwIf b e s = (Inl e', s') \<longleftrightarrow> b \<and> e' = e \<and> s' = s"
  by (auto simp: throwIf_def throwE_def returnE_def)

lemma liftE_iff [act_iff]: "liftE r s = (r', s') \<longleftrightarrow> r = r' \<and> s' = s"
  by (auto simp: liftE_def)

lemma catchE_Inr_iff [act_iff]:
  "catchE m h s = (Inr y, s') \<longleftrightarrow>
     m s = (Inr y, s') \<or> (\<exists>e t. m s = (Inl e, t) \<and> h e t = (Inr y, s'))"
  by (auto simp: catchE_def split: prod.splits sum.splits)

lemma catchE_Inl_iff [act_iff]:
  "catchE m h s = (Inl x, s') \<longleftrightarrow> (\<exists>e t. m s = (Inl e, t) \<and> h e t = (Inl x, s'))"
  by (auto simp: catchE_def split: prod.splits sum.splits)

lemma bindR_Inr_iff [act_iff]: "bindR r f = Inr y \<longleftrightarrow> (\<exists>x. r = Inr x \<and> f x = Inr y)"
  by (auto simp: bindR_def split: sum.splits)

lemma bindR_Inl_iff [act_iff]:
  "bindR r f = Inl e \<longleftrightarrow> r = Inl e \<or> (\<exists>x. r = Inr x \<and> f x = Inl e)"
  by (auto simp: bindR_def split: sum.splits)

lemma throwIfR_Inr_iff [act_iff]: "throwIfR b e = Inr u \<longleftrightarrow> \<not> b"
  by (auto simp: throwIfR_def)

lemma throwIfR_Inl_iff [act_iff]: "throwIfR b e = Inl e' \<longleftrightarrow> b \<and> e' = e"
  by (auto simp: throwIfR_def)

text \<open>A missing value that is an error.\<close>

lemma case_option_throw_iff [act_iff]:
  "(case v of None \<Rightarrow> throwE e | Some y \<Rightarrow> f y) s = (Inr z, t) \<longleftrightarrow> (\<exists>y. v = Some y \<and> f y s = (Inr z, t))"
  by (cases v) (auto simp: throwE_def)

lemma case_option_Inl_iff [act_iff]:
  "(case v of None \<Rightarrow> Inl e | Some y \<Rightarrow> g y) = Inr z \<longleftrightarrow> (\<exists>y. v = Some y \<and> g y = Inr z)"
  by (cases v) auto

text \<open>Execution: how a sequence steps once the first part is known.\<close>

lemma bindE_simps [simp]:
  "bindE (returnE x) f = f x"
  "bindE (throwE e) f = throwE e"
  "bindE (throwIf True e) f = throwE e"
  "bindE (throwIf False e) f = f ()"
  by (simp_all add: bindE_def returnE_def throwE_def throwIf_def fun_eq_iff)

lemma bindR_simps [simp]:
  "bindR (Inr x) f = f x"
  "bindR (Inl e) f = Inl e"
  by (simp_all add: bindR_def)

lemma throwIfR_simps [simp]:
  "throwIfR True e = Inl e"
  "throwIfR False e = Inr ()"
  by (simp_all add: throwIfR_def)

lemmas act_defs = bindE_def returnE_def throwE_def throwIf_def liftE_def catchE_def

section \<open>JavaScript maps\<close>

text \<open>
  A \<open>Map\<close> keeps insertion order; \<open>set\<close> on a present key keeps its place
  (\<open>AList.update\<close>), \<open>delete\<close> removes it, \<open>size\<close> counts the entries.
\<close>

type_synonym ('k, 'v) jsmap = "('k \<times> 'v) list"

abbreviation map_get :: "('k, 'v) jsmap \<Rightarrow> 'k \<Rightarrow> 'v option" where
  "map_get m k \<equiv> map_of m k"

abbreviation map_set :: "'k \<Rightarrow> 'v \<Rightarrow> ('k, 'v) jsmap \<Rightarrow> ('k, 'v) jsmap" where
  "map_set k v m \<equiv> AList.update k v m"

text \<open>An in-place write to every row that satisfies a test (\<open>for (const row of rows.values())\<close>).\<close>

definition map_rows :: "('v \<Rightarrow> 'v) \<Rightarrow> ('k, 'v) jsmap \<Rightarrow> ('k, 'v) jsmap" where
  "map_rows f m = map (\<lambda>(k, v). (k, f v)) m"

text \<open>Dropping every row that satisfies a test (a sweep of expired rows).\<close>

definition drop_rows :: "('v \<Rightarrow> bool) \<Rightarrow> ('k, 'v) jsmap \<Rightarrow> ('k, 'v) jsmap" where
  "drop_rows p m = filter (\<lambda>(k, v). \<not> p v) m"

text \<open>A JavaScript \<open>Map\<close> never holds a key twice.\<close>

definition map_ok :: "('k, 'v) jsmap \<Rightarrow> bool" where
  "map_ok m \<longleftrightarrow> distinct (map fst m)"

lemma map_set_get [simp]: "map_of (AList.update k v m) = (map_of m)(k \<mapsto> v)"
  by (simp add: update_conv')

lemma map_rows_get [simp]: "map_of (map_rows f m) k = map_option f (map_of m k)"
  by (simp add: map_rows_def map_of_map)

lemma map_get_fresh: "k \<notin> fst ` set m \<Longrightarrow> map_of (filter p m) k = None"
  by (auto simp: map_of_eq_None_iff)

lemma drop_rows_get_Some:
  "map_ok m \<Longrightarrow> map_of (drop_rows p m) k = Some v \<longleftrightarrow> map_of m k = Some v \<and> \<not> p v"
  by (induction m) (auto simp: map_ok_def drop_rows_def map_get_fresh)

lemma map_ok_Nil [simp, intro]: "map_ok []"
  by (simp add: map_ok_def)

lemma map_ok_set [simp, intro]: "map_ok m \<Longrightarrow> map_ok (AList.update k v m)"
  by (simp add: map_ok_def distinct_update)

lemma map_ok_rows [simp, intro]: "map_ok (map_rows f m) \<longleftrightarrow> map_ok m"
  by (simp add: map_ok_def map_rows_def comp_def case_prod_beta)

lemma map_ok_drop [simp, intro]: "map_ok m \<Longrightarrow> map_ok (drop_rows p m)"
  by (induction m) (auto simp: map_ok_def drop_rows_def)

lemma length_map_set:
  "length (AList.update k v m) = (if k \<in> fst ` set m then length m else Suc (length m))"
  by (induction m) auto

lemma length_map_rows [simp]: "length (map_rows f m) = length m"
  by (simp add: map_rows_def)

lemma length_drop_rows: "length (drop_rows p m) \<le> length m"
  by (simp add: drop_rows_def)

lemma map_get_None_iff: "map_of m k = None \<longleftrightarrow> k \<notin> fst ` set m"
  by (rule map_of_eq_None_iff)

end
