(* ===== verification/JsText.thy ===== *)
theory JsText
  imports Prelude "HOL-Library.Char_ord"
begin

text \<open>
  The JavaScript string operations the server uses, on \<^typ>\<open>string\<close>: a
  character stands for one UTF-16 code unit, and the model holds the code units up to
  U+00FF (all the protocol's parameters are ASCII; the section sign of the error texts
  is U+00A7). Each operation is named after the method or the regular expression of the
  source it models.
\<close>

abbreviation code_of :: "char \<Rightarrow> nat" where
  "code_of c \<equiv> of_char c"

abbreviation space :: char where
  "space \<equiv> CHR '' ''"

section \<open>split, join, filter(Boolean)\<close>

text \<open>\<open>s.split(c)\<close> for a one-character separator; \<open>"".split(c)\<close> is \<open>[""]\<close>.\<close>

fun split_on :: "char \<Rightarrow> string \<Rightarrow> string list" where
  "split_on c [] = [[]]"
| "split_on c (x # xs) =
     (if x = c then [] # split_on c xs
      else (x # hd (split_on c xs)) # tl (split_on c xs))"

fun join_with :: "char \<Rightarrow> string list \<Rightarrow> string" where
  "join_with c [] = []"
| "join_with c [w] = w"
| "join_with c (w # ws) = w @ c # join_with c ws"

text \<open>\<open>s.split(" ").filter(Boolean)\<close>: the space-delimited words of a scope or prompt.\<close>

definition words_of :: "string \<Rightarrow> string list" where
  "words_of s = filter (\<lambda>w. w \<noteq> []) (split_on space s)"

lemma split_on_not_Nil [simp]: "split_on c s \<noteq> []"
  by (cases s) auto

lemma join_split_on [simp]: "join_with c (split_on c s) = s"
proof (induction s)
  case Nil
  show ?case by simp
next
  case (Cons x s)
  obtain w ws where w: "split_on c s = w # ws"
    by (meson list.exhaust split_on_not_Nil)
  with Cons.IH show ?case by (cases ws) auto
qed

lemma split_on_no_sep: "w \<in> set (split_on c s) \<Longrightarrow> c \<notin> set w"
proof (induction s arbitrary: w)
  case Nil
  then show ?case by simp
next
  case (Cons x s)
  obtain v ws where v: "split_on c s = v # ws"
    by (meson list.exhaust split_on_not_Nil)
  with Cons.IH have "c \<notin> set v" "\<And>w. w \<in> set ws \<Longrightarrow> c \<notin> set w" by auto
  with Cons.prems v show ?case by (auto split: if_splits)
qed

lemma split_on_plain: "c \<notin> set s \<Longrightarrow> split_on c s = [s]"
  by (induction s) auto

lemma split_on_append: "c \<notin> set s \<Longrightarrow> split_on c (s @ c # t) = s # split_on c t"
  by (induction s) auto

lemma words_of_not_empty: "w \<in> set (words_of s) \<Longrightarrow> w \<noteq> []"
  by (simp add: words_of_def)

lemma words_of_Nil [simp]: "words_of [] = []"
  by (simp add: words_of_def)

section \<open>trim, startsWith, indexOf, toLowerCase\<close>

definition js_space :: "char \<Rightarrow> bool" where
  "js_space c \<longleftrightarrow> code_of c \<in> {9, 10, 11, 12, 13, 32, 160 :: nat}"

definition trim :: "string \<Rightarrow> string" where
  "trim s = rev (dropWhile js_space (rev (dropWhile js_space s)))"

definition starts_with :: "string \<Rightarrow> string \<Rightarrow> bool" where
  "starts_with p s \<longleftrightarrow> take (length p) s = p"

text \<open>\<open>s.indexOf(c)\<close>, with \<open>None\<close> for -1.\<close>

fun index_of :: "char \<Rightarrow> string \<Rightarrow> nat option" where
  "index_of c [] = None"
| "index_of c (x # xs) = (if x = c then Some 0 else map_option Suc (index_of c xs))"

definition lower_char :: "char \<Rightarrow> char" where
  "lower_char c =
     (let n = code_of c
      in if 65 \<le> n \<and> n \<le> 90 \<or> 192 \<le> n \<and> n \<le> 222 \<and> n \<noteq> (215 :: nat) then char_of (n + 32) else c)"

definition to_lower :: "string \<Rightarrow> string" where
  "to_lower s = map lower_char s"

lemma index_of_append: "c \<notin> set s \<Longrightarrow> index_of c (s @ c # t) = Some (length s)"
  by (induction s) auto

lemma index_of_None: "index_of c s = None \<longleftrightarrow> c \<notin> set s"
  by (induction s) auto

lemma index_of_Some:
  "index_of c s = Some i \<Longrightarrow> i < length s \<and> s ! i = c \<and> c \<notin> set (take i s)"
  by (induction s arbitrary: i) (auto split: if_splits)

lemma starts_with_append [simp]: "starts_with p (p @ s)"
  by (simp add: starts_with_def)

lemma starts_with_iff: "starts_with p s \<longleftrightarrow> (\<exists>t. s = p @ t)"
  by (metis append_take_drop_id starts_with_append starts_with_def)

lemma dropWhile_id: "xs = [] \<or> \<not> P (hd xs) \<Longrightarrow> dropWhile P xs = xs"
  by (cases xs) auto

lemma trim_id: "s = [] \<or> \<not> js_space (hd s) \<and> \<not> js_space (last s) \<Longrightarrow> trim s = s"
  by (auto simp: trim_def dropWhile_id hd_rev)

lemma trim_ends: "trim s = [] \<or> \<not> js_space (hd (trim s)) \<and> \<not> js_space (last (trim s))"
proof (cases "trim s = []")
  case False
  let ?t = "dropWhile js_space s"
  let ?r = "dropWhile js_space (rev ?t)"
  from False have r: "?r \<noteq> []" by (simp add: trim_def)
  then have "\<not> js_space (hd ?r)" by (rule hd_dropWhile)
  then have last: "\<not> js_space (last (trim s))" by (simp add: trim_def last_rev)
  obtain p where p: "rev ?t = p @ ?r" by (metis takeWhile_dropWhile_id)
  then have t: "?t = rev ?r @ rev p" by (metis rev_append rev_rev_ident)
  have "hd ?t = hd (trim s)"
    by (subst t) (simp only: trim_def hd_append2 rev_is_Nil_conv r not_False_eq_True)
  moreover have "?t \<noteq> []" using t r by (metis append_is_Nil_conv rev_is_Nil_conv)
  ultimately have "\<not> js_space (hd (trim s))" by (metis hd_dropWhile)
  with last show ?thesis by simp
qed simp

lemma trim_idem [simp]: "trim (trim s) = trim s"
  by (rule trim_id [OF trim_ends])

lemma set_trim: "set (trim s) \<subseteq> set s"
  by (auto simp: trim_def dest!: set_dropWhileD)

section \<open>The regular expressions\<close>

definition is_digit :: "char \<Rightarrow> bool" where
  "is_digit c \<longleftrightarrow> 48 \<le> code_of c \<and> code_of c \<le> (57 :: nat)"

definition is_alnum :: "char \<Rightarrow> bool" where
  "is_alnum c \<longleftrightarrow> is_digit c \<or> 65 \<le> code_of c \<and> code_of c \<le> (90 :: nat) \<or>
     97 \<le> code_of c \<and> code_of c \<le> (122 :: nat)"

text \<open>\<open>/^[\x20-\x7e]*$/\<close>\<close>

definition VSCHAR :: "string \<Rightarrow> bool" where
  "VSCHAR s \<longleftrightarrow> list_all (\<lambda>c. 32 \<le> code_of c \<and> code_of c \<le> (126 :: nat)) s"

text \<open>\<open>[A-Za-z0-9\-._~]\<close>\<close>

definition unreserved :: "char \<Rightarrow> bool" where
  "unreserved c \<longleftrightarrow> is_alnum c \<or> c \<in> set ''-._~''"

text \<open>\<open>/^[A-Za-z0-9\-._~]{43,128}$/\<close> (both the challenge and the verifier)\<close>

definition CODE_CHALLENGE :: "string \<Rightarrow> bool" where
  "CODE_CHALLENGE s \<longleftrightarrow> 43 \<le> length s \<and> length s \<le> 128 \<and> list_all unreserved s"

text \<open>\<open>/^[A-Za-z0-9_-]{43}$/\<close>\<close>

definition JKT :: "string \<Rightarrow> bool" where
  "JKT s \<longleftrightarrow> length s = 43 \<and> list_all (\<lambda>c. is_alnum c \<or> c \<in> set ''_-'') s"

text \<open>\<open>/^\d+$/\<close>\<close>

definition DIGITS :: "string \<Rightarrow> bool" where
  "DIGITS s \<longleftrightarrow> s \<noteq> [] \<and> list_all is_digit s"

text \<open>\<open>/[\s,]/.test(s)\<close>\<close>

definition has_space_or_comma :: "string \<Rightarrow> bool" where
  "has_space_or_comma s \<longleftrightarrow> list_ex (\<lambda>c. js_space c \<or> c = CHR '','') s"

lemma CODE_CHALLENGE_not_Nil: "CODE_CHALLENGE s \<Longrightarrow> s \<noteq> []"
  by (auto simp: CODE_CHALLENGE_def)

lemma JKT_Nil [simp]: "\<not> JKT []"
  by (simp add: JKT_def)

lemma JKT_not_Nil: "JKT s \<Longrightarrow> s \<noteq> []"
  by auto

section \<open>UTF-8\<close>

text \<open>\<open>Buffer.from(s, "utf8")\<close> for code units up to U+00FF.\<close>

definition utf8_char :: "char \<Rightarrow> string" where
  "utf8_char c =
     (let n = code_of c :: nat
      in if n < 128 then [c] else [char_of (192 + n div 64), char_of (128 + n mod 64)])"

definition utf8 :: "string \<Rightarrow> string" where
  "utf8 s = concat (map utf8_char s)"

lemma utf8_char_small: "code_of c < (128::nat) \<Longrightarrow> utf8_char c = [c]"
  by (simp add: utf8_char_def)

lemma utf8_char_big:
  assumes "\<not> code_of c < (128::nat)"
  shows "utf8_char c = [char_of (192 + code_of c div 64 :: nat), char_of (128 + code_of c mod 64 :: nat)]"
  using assms by (simp add: utf8_char_def Let_def)

lemma utf8_char_not_Nil [simp]: "utf8_char c \<noteq> []"
  by (simp add: utf8_char_def Let_def)

lemma utf8_lead:
  assumes "\<not> code_of c < (128::nat)"
  shows "code_of (char_of (192 + code_of c div 64 :: nat)) = (192 + code_of c div 64 :: nat)"
proof -
  have "code_of c < (4 * 64 :: nat)" by simp
  then have "code_of c div 64 < (4 :: nat)" by (rule less_mult_imp_div_less)
  then have "192 + code_of c div 64 < (256 :: nat)" by linarith
  then show ?thesis by (simp only: of_char_of mod_less)
qed

lemma utf8_trail: "code_of (char_of (128 + code_of c mod 64 :: nat)) = (128 + code_of c mod 64 :: nat)"
proof -
  have "code_of c mod 64 < (64 :: nat)" by simp
  then have "128 + code_of c mod 64 < (256 :: nat)" by linarith
  then show ?thesis by (simp only: of_char_of mod_less)
qed

lemma utf8_char_append:
  assumes e: "utf8_char a @ xs = utf8_char b @ ys"
  shows "a = b \<and> xs = ys"
proof (cases "code_of a < (128::nat)"; cases "code_of b < (128::nat)")
  assume "code_of a < (128::nat)" "code_of b < (128::nat)"
  then show ?thesis using e by (simp add: utf8_char_small)
next
  assume a: "code_of a < (128::nat)" and b: "\<not> code_of b < (128::nat)"
  with e have "a = char_of (192 + code_of b div 64 :: nat)"
    by (simp add: utf8_char_small utf8_char_big)
  with a utf8_lead [OF b] show ?thesis by simp
next
  assume a: "\<not> code_of a < (128::nat)" and b: "code_of b < (128::nat)"
  with e have "b = char_of (192 + code_of a div 64 :: nat)"
    by (simp add: utf8_char_small utf8_char_big)
  with b utf8_lead [OF a] show ?thesis by simp
next
  assume a: "\<not> code_of a < (128::nat)" and b: "\<not> code_of b < (128::nat)"
  have l: "char_of (192 + code_of a div 64 :: nat) = (char_of (192 + code_of b div 64 :: nat) :: char)"
    and t: "char_of (128 + code_of a mod 64 :: nat) = (char_of (128 + code_of b mod 64 :: nat) :: char)"
    and xs: "xs = ys"
    using e by (simp_all only: utf8_char_big [OF a] utf8_char_big [OF b] append.simps list.inject simp_thms)
  have "code_of a div 64 = (code_of b div 64 :: nat)"
    using arg_cong [OF l, of "of_char :: char \<Rightarrow> nat"] utf8_lead [OF a] utf8_lead [OF b] by simp
  moreover have "code_of a mod 64 = (code_of b mod 64 :: nat)"
    using arg_cong [OF t, of "of_char :: char \<Rightarrow> nat"] utf8_trail [of a] utf8_trail [of b] by simp
  ultimately have "code_of a = (code_of b :: nat)"
    by (metis div_mult_mod_eq)
  then show ?thesis using xs by simp
qed

lemma utf8_inject [simp]: "utf8 s = utf8 t \<longleftrightarrow> s = t"
proof
  assume "utf8 s = utf8 t"
  then show "s = t"
  proof (induction s arbitrary: t)
    case Nil
    then show ?case by (cases t) (auto simp: utf8_def)
  next
    case (Cons a s)
    then obtain b u where t: "t = b # u"
      by (cases t) (auto simp: utf8_def)
    with Cons.prems have "utf8_char a @ utf8 s = utf8_char b @ utf8 u"
      by (simp add: utf8_def)
    then have "a = b \<and> utf8 s = utf8 u" by (rule utf8_char_append)
    with Cons.IH t show ?case by blast
  qed
qed simp

section \<open>Numbers in text\<close>

text \<open>A whole number in a template literal.\<close>

fun show_nat :: "nat \<Rightarrow> string" where
  "show_nat n = (if n < 10 then [char_of (48 + n)] else show_nat (n div 10) @ [char_of (48 + n mod 10)])"

declare show_nat.simps [simp del]

definition show_int :: "int \<Rightarrow> string" where
  "show_int i = (if i < 0 then CHR ''-'' # show_nat (nat (- i)) else show_nat (nat i))"

end
