(* ===== verification/Base64url.thy ===== *)
theory Base64url
  imports JsText
begin

text \<open>
  \<open>Buffer.toString("base64url")\<close> and \<open>Buffer.from(s, "base64url")\<close>: the
  encoding without padding under which the server stores digests, builds opaque codes and
  request references, seals sessions and forms replay identifiers. Decoding accepts both
  alphabets and skips foreign characters, as Node's does. What the components use: decoding
  inverts encoding, encoding is injective, and its output is over \<open>[A-Za-z0-9_-]\<close>,
  so it holds no dot, which is what separates the parts of the server's compound values.
\<close>

section \<open>Six-bit groups\<close>

fun b64_groups :: "nat list \<Rightarrow> nat list" where
  "b64_groups (a # b # c # r) =
     [a div 4, (a mod 4) * 16 + b div 16, (b mod 16) * 4 + c div 64, c mod 64] @ b64_groups r"
| "b64_groups [a, b] = [a div 4, (a mod 4) * 16 + b div 16, (b mod 16) * 4]"
| "b64_groups [a] = [a div 4, (a mod 4) * 16]"
| "b64_groups [] = []"

fun b64_bytes :: "nat list \<Rightarrow> nat list" where
  "b64_bytes (a # b # c # d # r) =
     [a * 4 + b div 16, (b mod 16) * 16 + c div 4, (c mod 4) * 64 + d] @ b64_bytes r"
| "b64_bytes [a, b, c] = [a * 4 + b div 16, (b mod 16) * 16 + c div 4]"
| "b64_bytes [a, b] = [a * 4 + b div 16]"
| "b64_bytes [a] = []"
| "b64_bytes [] = []"

lemma div_lt_4: "(a::nat) < 256 \<Longrightarrow> a div 64 < 4"
  by (rule less_mult_imp_div_less) simp

lemma div_lt_16: "(a::nat) < 256 \<Longrightarrow> a div 16 < 16"
  by (rule less_mult_imp_div_less) simp

lemma div_lt_64: "(a::nat) < 256 \<Longrightarrow> a div 4 < 64"
  by (rule less_mult_imp_div_less) simp

lemma div_add_small: "(b::nat) < k \<Longrightarrow> (a * k + b) div k = a"
  by simp

lemma mod_add_small: "(b::nat) < k \<Longrightarrow> (a * k + b) mod k = b"
  by simp

lemma b64_groups_small: "\<forall>x \<in> set bs. x < 256 \<Longrightarrow> \<forall>g \<in> set (b64_groups bs). g < 64"
proof (induction bs rule: b64_groups.induct)
  case (1 a b c r)
  have "a mod 4 < 4" "b mod 16 < 16" by simp_all
  with 1 show ?case using div_lt_64 [of a] div_lt_16 [of b] div_lt_4 [of c] by auto
next
  case (2 a b)
  have "a mod 4 < 4" "b mod 16 < 16" by simp_all
  with 2 show ?case using div_lt_64 [of a] div_lt_16 [of b] by auto
next
  case (3 a)
  have "a mod 4 < 4" by simp
  with 3 show ?case using div_lt_64 [of a] by auto
qed simp

lemma b64_bytes_groups: "\<forall>x \<in> set bs. x < 256 \<Longrightarrow> b64_bytes (b64_groups bs) = bs"
proof (induction bs rule: b64_groups.induct)
  case (1 a b c r)
  then show ?case using div_lt_16 [of b] div_lt_4 [of c] by simp
next
  case (2 a b)
  then show ?case using div_lt_16 [of b] by simp
qed simp_all

section \<open>The alphabet\<close>

definition b64_char :: "nat \<Rightarrow> char" where
  "b64_char n =
     (if n < 26 then char_of (65 + n) else if n < 52 then char_of (71 + n)
      else if n < 62 then char_of (n - 4) else if n = 62 then CHR ''-'' else CHR ''_'')"

definition b64_val :: "char \<Rightarrow> nat option" where
  "b64_val c =
     (let n = code_of c
      in if 65 \<le> n \<and> n \<le> 90 then Some (n - 65) else if 97 \<le> n \<and> n \<le> 122 then Some (n - 71)
         else if 48 \<le> n \<and> n \<le> 57 then Some (n + 4)
         else if c = CHR ''-'' \<or> c = CHR ''+'' then Some 62
         else if c = CHR ''_'' \<or> c = CHR ''/'' then Some 63 else None)"

definition b64_url_char :: "char \<Rightarrow> bool" where
  "b64_url_char c \<longleftrightarrow> is_alnum c \<or> c \<in> set ''_-''"

lemma code_of_char_of: "n < 256 \<Longrightarrow> code_of (char_of (n :: nat)) = n"
  by (simp only: of_char_of mod_less)

lemma code_of_b64_char:
  "n < 64 \<Longrightarrow> code_of (b64_char n) =
     (if n < 26 then 65 + n else if n < 52 then 71 + n else if n < 62 then n - 4
      else if n = 62 then 45 else 95 :: nat)"
  by (simp add: b64_char_def code_of_char_of)

lemma b64_val_char: "n < 64 \<Longrightarrow> b64_val (b64_char n) = Some n"
proof (cases "n < 62")
  case True
  then have "code_of (b64_char n) = (if n < 26 then 65 + n else if n < 52 then 71 + n else n - 4)"
    by (simp add: code_of_b64_char)
  with True show ?thesis by (auto simp: b64_val_def Let_def)
next
  case False
  moreover assume "n < 64"
  ultimately have "n = 62 \<or> n = 63" by linarith
  then show ?thesis by (auto simp: b64_val_def b64_char_def)
qed

lemma b64_url_char_char: "n < 64 \<Longrightarrow> b64_url_char (b64_char n)"
proof (cases "n < 62")
  case True
  then have "code_of (b64_char n) = (if n < 26 then 65 + n else if n < 52 then 71 + n else n - 4)"
    by (simp add: code_of_b64_char)
  with True show ?thesis by (auto simp: b64_url_char_def is_alnum_def is_digit_def)
next
  case False
  moreover assume "n < 64"
  ultimately have "n = 62 \<or> n = 63" by linarith
  then show ?thesis by (auto simp: b64_url_char_def b64_char_def)
qed

section \<open>Encoding and decoding\<close>

definition base64url :: "string \<Rightarrow> string" where
  "base64url s = map b64_char (b64_groups (map code_of s))"

definition base64url_decode :: "string \<Rightarrow> string" where
  "base64url_decode s = map char_of (b64_bytes (List.map_filter b64_val s))"

lemma map_filter_b64: "\<forall>g \<in> set gs. g < 64 \<Longrightarrow> List.map_filter b64_val (map b64_char gs) = gs"
  by (induction gs) (simp_all add: List.map_filter_def b64_val_char)

lemma bytes_small: "\<forall>x \<in> set (map code_of s). x < (256 :: nat)"
  by auto

theorem base64url_decode_encode: "base64url_decode (base64url s) = s"
proof -
  have "List.map_filter b64_val (base64url s) = b64_groups (map code_of s)"
    unfolding base64url_def by (rule map_filter_b64 [OF b64_groups_small [OF bytes_small]])
  then show ?thesis
    by (simp add: base64url_decode_def b64_bytes_groups [OF bytes_small] map_idI)
qed

lemma base64url_inject [simp]: "base64url s = base64url t \<longleftrightarrow> s = t"
  by (metis base64url_decode_encode)

lemma base64url_chars: "c \<in> set (base64url s) \<Longrightarrow> b64_url_char c"
  using b64_groups_small [OF bytes_small, of s] by (auto simp: base64url_def b64_url_char_char)

lemma base64url_no_dot [simp]: "CHR ''.'' \<notin> set (base64url s)"
proof
  assume "CHR ''.'' \<in> set (base64url s)"
  then have "b64_url_char (CHR ''.'')" by (rule base64url_chars)
  then show False by (simp add: b64_url_char_def is_alnum_def is_digit_def)
qed

lemma length_b64_groups:
  "length (b64_groups bs) = 4 * (length bs div 3) + (if length bs mod 3 = 0 then 0 else Suc (length bs mod 3))"
proof (induction bs rule: b64_groups.induct)
  case (1 a b c r)
  have l: "length (a # b # c # r) = 3 + length r" by simp
  have "length (a # b # c # r) div 3 = length r div 3 + 1"
    unfolding l by (rule div_add_self1) simp
  moreover have "length (a # b # c # r) mod 3 = length r mod 3"
    unfolding l by (rule mod_add_self1)
  ultimately show ?case using 1 by (simp only: b64_groups.simps length_append) simp
qed simp_all

lemma length_base64url:
  "length (base64url s) = 4 * (length s div 3) + (if length s mod 3 = 0 then 0 else Suc (length s mod 3))"
  by (simp add: base64url_def length_b64_groups)

text \<open>Two encoded parts joined by a dot determine both parts.\<close>

lemma append_sep_inject:
  "c \<notin> set a \<Longrightarrow> c \<notin> set a' \<Longrightarrow> a @ c # b = a' @ c # b' \<longleftrightarrow> a = a' \<and> b = b'"
proof (induction a arbitrary: a')
  case Nil
  then show ?case by (cases a') auto
next
  case (Cons x a)
  then show ?case by (cases a') auto
qed

lemma base64url_dot_inject:
  "base64url a @ CHR ''.'' # base64url b = base64url a' @ CHR ''.'' # base64url b' \<longleftrightarrow> a = a' \<and> b = b'"
  by (simp add: append_sep_inject)

end
