(* ===== verification/Json.thy ===== *)
theory Json
  imports Base64url Complex_Main
begin

text \<open>
  The values a handler receives from outside with the type \<open>unknown\<close>: form fields,
  query parameters, JWT headers and claims, stored client metadata. A number is a rational
  (JSON numbers need not be whole, and the claim checks compare them unrounded). An object is
  an association list; reading a missing property gives \<open>undefined\<close>, the \<open>None\<close>
  of \<open>jget\<close>.
\<close>

datatype json = JNull | JBool bool | JNum rat | JStr string | JArr "json list"
  | JObj "(string \<times> json) list"

type_synonym jobj = "(string \<times> json) list"

abbreviation jget :: "jobj \<Rightarrow> string \<Rightarrow> json option" where
  "jget ob k \<equiv> map_of ob k"

text \<open>\<open>typeof v === "string" && v !== "" ? v : undefined\<close>, the \<open>str\<close> and
  \<open>single\<close> helpers of the handlers.\<close>

definition str_of :: "json option \<Rightarrow> string option" where
  "str_of v = (case v of Some (JStr s) \<Rightarrow> if s = [] then None else Some s | _ \<Rightarrow> None)"

text \<open>\<open>v !== undefined && v !== ""\<close>\<close>

definition present :: "json option \<Rightarrow> bool" where
  "present v \<longleftrightarrow> v \<noteq> None \<and> v \<noteq> Some (JStr [])"

text \<open>\<open>Array.isArray(v)\<close>\<close>

definition is_array :: "json option \<Rightarrow> bool" where
  "is_array v \<longleftrightarrow> (case v of Some (JArr _) \<Rightarrow> True | _ \<Rightarrow> False)"

text \<open>Truthiness of an optional string (\<open>if (s)\<close>).\<close>

definition truthy :: "string option \<Rightarrow> bool" where
  "truthy v \<longleftrightarrow> v \<noteq> None \<and> v \<noteq> Some []"

lemma str_of_Some [simp]: "str_of v = Some s \<longleftrightarrow> v = Some (JStr s) \<and> s \<noteq> []"
  by (auto simp: str_of_def split: option.splits json.splits)

lemma str_of_simps [simp]:
  "str_of None = None"
  "str_of (Some (JStr s)) = (if s = [] then None else Some s)"
  "str_of (Some (JArr xs)) = None"
  by (simp_all add: str_of_def)

lemma present_simps [simp]:
  "\<not> present None"
  "present (Some (JStr s)) \<longleftrightarrow> s \<noteq> []"
  "present (Some (JArr xs))"
  by (simp_all add: present_def)

lemma is_array_simps [simp]:
  "\<not> is_array None"
  "\<not> is_array (Some (JStr s))"
  "is_array (Some (JArr xs))"
  by (simp_all add: is_array_def)

lemma truthy_simps [simp]:
  "\<not> truthy None"
  "truthy (Some s) \<longleftrightarrow> s \<noteq> []"
  by (simp_all add: truthy_def)

text \<open>A claim of the wrong type that is an error.\<close>

lemma case_JNum_iff [act_iff]:
  "(case v of JNum n \<Rightarrow> f n | _ \<Rightarrow> Inl e) = Inr z \<longleftrightarrow> (\<exists>n. v = JNum n \<and> f n = Inr z)"
  by (cases v) auto

lemma case_JStr_iff [act_iff]:
  "(case v of JStr t \<Rightarrow> g t | _ \<Rightarrow> Inl e) = Inr z \<longleftrightarrow> (\<exists>t. v = JStr t \<and> g t = Inr z)"
  by (cases v) auto

section \<open>Times\<close>

text \<open>\<open>Math.floor(now.getTime() / 1000)\<close>\<close>

definition sec_of :: "int \<Rightarrow> int" where
  "sec_of now = now div 1000"

text \<open>\<open>new Date(r)\<close> for a number of milliseconds: a time value is a whole number, the fraction is
  cut off towards zero.\<close>

definition js_date :: "rat \<Rightarrow> int" where
  "js_date r = (if 0 \<le> r then \<lfloor>r\<rfloor> else \<lceil>r\<rceil>)"

lemma js_date_of_int [simp]: "js_date (of_int n) = n"
  by (simp add: js_date_def)

lemma js_date_ge: "of_int n \<le> r \<Longrightarrow> n \<le> js_date r"
  by (auto simp: js_date_def le_floor_iff le_ceiling_iff)

lemma sec_of_bounds: "1000 * sec_of now \<le> now" "now < 1000 * sec_of now + 1000"
  unfolding sec_of_def by presburger+

lemma sec_of_mono: "a \<le> b \<Longrightarrow> sec_of a \<le> sec_of b"
  by (simp add: sec_of_def zdiv_mono1)

end
