(* ===== verification/Errors.thy ===== *)
theory Errors
  imports Json
begin

text \<open>
  The OAuth error model (\<open>src/domain/errors.ts\<close>): the error codes, the
  \<open>OAuthError\<close> class with its status and headers, its JSON body with the description
  cut down to the characters RFC 6749 allows, and the constructors the domain layer throws.
  The lemmas show that what is emitted is always within that character set and that
  sanitising is a projection.
\<close>

section \<open>Error codes\<close>

datatype token_error_code =
    invalid_request | invalid_client | invalid_grant | unauthorized_client
  | unsupported_grant_type | invalid_scope | unsupported_response_type | invalid_dpop_proof
  | use_dpop_nonce | unsupported_token_type | server_error

datatype authorize_error_code =
    az_invalid_request | az_unauthorized_client | az_access_denied | az_unsupported_response_type
  | az_invalid_scope | az_server_error | az_temporarily_unavailable | az_interaction_required
  | az_login_required | az_consent_required | az_invalid_request_uri | az_request_not_supported
  | az_request_uri_not_supported

section \<open>sanitizeErrorDescription\<close>

definition nqschar :: "char \<Rightarrow> bool" where
  "nqschar ch \<longleftrightarrow>
     (let c = code_of ch :: nat
      in c = 9 \<or> c = 10 \<or> c = 13 \<or> 32 \<le> c \<and> c \<le> 33 \<or> 35 \<le> c \<and> c \<le> 91 \<or> 93 \<le> c \<and> c \<le> 126)"

text \<open>\<open>out.replace(/ {2,}/g, " ")\<close>\<close>

fun collapse_spaces :: "string \<Rightarrow> string" where
  "collapse_spaces (x # y # r) =
     (if x = space \<and> y = space then collapse_spaces (y # r) else x # collapse_spaces (y # r))"
| "collapse_spaces r = r"

definition sanitizeErrorDescription :: "string \<Rightarrow> string" where
  "sanitizeErrorDescription text =
     trim (collapse_spaces (map (\<lambda>ch. if nqschar ch then ch else space) text))"

section \<open>OAuthError\<close>

record oauth_error =
  oe_error :: token_error_code
  oe_description :: "string option"
  oe_status :: nat
  oe_headers :: "(string \<times> string) list"

definition oauthError ::
  "token_error_code \<Rightarrow> string option \<Rightarrow> nat option \<Rightarrow> (string \<times> string) list option \<Rightarrow> oauth_error" where
  "oauthError error description status headers =
     \<lparr>oe_error = error, oe_description = description,
      oe_status = (case status of None \<Rightarrow> 400 | Some n \<Rightarrow> n),
      oe_headers = (case headers of None \<Rightarrow> [] | Some hs \<Rightarrow> hs)\<rparr>"

record error_body =
  eb_error :: token_error_code
  eb_error_description :: "string option"

definition toBody :: "oauth_error \<Rightarrow> error_body" where
  "toBody e =
     (if truthy (oe_description e)
      then \<lparr>eb_error = oe_error e,
            eb_error_description = map_option sanitizeErrorDescription (oe_description e)\<rparr>
      else \<lparr>eb_error = oe_error e, eb_error_description = None\<rparr>)"

text \<open>What an action can throw. \<open>JsExn\<close> is any other JavaScript error, with its
  \<open>code\<close> property if it has one; it surfaces as an opaque 500.\<close>

datatype exn = OAuthExn oauth_error | InvalidClientMetadataExn "string option"
  | JwsVerificationExn | JwksUnavailableExn | JsExn "string option"

abbreviation oauthExn :: "token_error_code \<Rightarrow> string \<Rightarrow> exn" where
  "oauthExn c d \<equiv> OAuthExn (oauthError c (Some d) None None)"

definition invalidRequest :: "string \<Rightarrow> exn" where
  "invalidRequest d = oauthExn invalid_request d"

definition invalidClient :: "string \<Rightarrow> string option \<Rightarrow> exn" where
  "invalidClient d wwwAuthenticate =
     OAuthExn (oauthError invalid_client (Some d) (Some 401)
       (Some (case wwwAuthenticate of Some w \<Rightarrow> if w = [] then [] else [(''www-authenticate'', w)] | None \<Rightarrow> [])))"

definition invalidGrant :: "string \<Rightarrow> exn" where
  "invalidGrant d = oauthExn invalid_grant d"

definition unsupportedGrantType :: "string \<Rightarrow> exn" where
  "unsupportedGrantType d = oauthExn unsupported_grant_type d"

definition unauthorizedClient :: "string \<Rightarrow> exn" where
  "unauthorizedClient d = oauthExn unauthorized_client d"

definition invalidScope :: "string \<Rightarrow> exn" where
  "invalidScope d = oauthExn invalid_scope d"

definition invalidDpopProof :: "string \<Rightarrow> exn" where
  "invalidDpopProof d = oauthExn invalid_dpop_proof d"

definition useDpopNonce :: "string \<Rightarrow> string option \<Rightarrow> exn" where
  "useDpopNonce nonce d =
     OAuthExn (oauthError use_dpop_nonce
       (Some (case d of None \<Rightarrow> ''authorization server requires nonce in DPoP proof'' | Some x \<Rightarrow> x))
       None (Some [(''dpop-nonce'', nonce)]))"

definition unsupportedTokenType :: "string \<Rightarrow> exn" where
  "unsupportedTokenType d = oauthExn unsupported_token_type d"

text \<open>The section sign of the specification references in the error texts.\<close>

definition sec :: string where
  "sec = [CHR 0xA7]"

lemmas error_defs = invalidRequest_def invalidClient_def invalidGrant_def unsupportedGrantType_def
  unauthorizedClient_def invalidScope_def invalidDpopProof_def useDpopNonce_def
  unsupportedTokenType_def oauthError_def

section \<open>The emitted description\<close>

definition double_space :: "string \<Rightarrow> bool" where
  "double_space s \<longleftrightarrow> (\<exists>u v. s = u @ space # space # v)"

lemma set_collapse: "set (collapse_spaces s) \<subseteq> set s"
  by (induction s rule: collapse_spaces.induct) auto

lemma hd_collapse: "s \<noteq> [] \<Longrightarrow> collapse_spaces s \<noteq> [] \<and> hd (collapse_spaces s) = hd s"
  by (induction s rule: collapse_spaces.induct) auto

lemma collapse_no_double: "\<not> double_space (collapse_spaces s)"
proof (induction s rule: collapse_spaces.induct)
  case (1 x y r)
  have h: "collapse_spaces (y # r) \<noteq> [] \<and> hd (collapse_spaces (y # r)) = y"
    using hd_collapse [of "y # r"] by simp
  show ?case
  proof (cases "x = space \<and> y = space")
    case True
    with 1 show ?thesis by simp
  next
    case False
    with 1 have ih: "\<not> double_space (collapse_spaces (y # r))" by blast
    show ?thesis
    proof
      assume "double_space (collapse_spaces (x # y # r))"
      then obtain u v where e: "x # collapse_spaces (y # r) = u @ space # space # v"
        using False by (auto simp: double_space_def)
      then show False
        using ih h False by (cases u) (auto simp: double_space_def)
    qed
  qed
qed (auto simp: double_space_def Cons_eq_append_conv)

lemma collapse_id: "\<not> double_space s \<Longrightarrow> collapse_spaces s = s"
proof (induction s rule: collapse_spaces.induct)
  case (1 x y r)
  then have "\<not> (x = space \<and> y = space)"
    by (auto simp: double_space_def)
  moreover have "\<not> double_space (y # r)"
    using 1(3) by (auto simp: double_space_def) (metis append_Cons)
  ultimately show ?case using 1 by auto
qed simp_all

lemma double_space_append: "double_space s \<Longrightarrow> double_space (u @ s @ v)"
  by (auto simp: double_space_def) (metis append.assoc append_Cons)

lemma trim_infix: "\<exists>u v. s = u @ trim s @ v"
proof -
  let ?t = "dropWhile js_space s"
  have "s = takeWhile js_space s @ ?t" by simp
  moreover have "?t = trim s @ rev (takeWhile js_space (rev ?t))"
    by (metis rev_append rev_rev_ident takeWhile_dropWhile_id trim_def)
  ultimately show ?thesis by metis
qed

lemma trim_no_double: "\<not> double_space s \<Longrightarrow> \<not> double_space (trim s)"
  using double_space_append trim_infix by metis

lemma nqschar_space [simp]: "nqschar space"
  by (simp add: nqschar_def)

lemma sanitize_chars: "c \<in> set (sanitizeErrorDescription t) \<Longrightarrow> nqschar c"
  using set_trim set_collapse unfolding sanitizeErrorDescription_def
  by (fastforce split: if_splits)

lemma sanitize_no_double: "\<not> double_space (sanitizeErrorDescription t)"
  by (simp add: sanitizeErrorDescription_def trim_no_double collapse_no_double)

lemma map_nqschar_id: "(\<And>c. c \<in> set t \<Longrightarrow> nqschar c) \<Longrightarrow>
    map (\<lambda>ch. if nqschar ch then ch else space) t = t"
  by (rule map_idI) simp

lemma sanitize_fixed:
  assumes "\<And>c. c \<in> set t \<Longrightarrow> nqschar c" and "\<not> double_space t" and "trim t = t"
  shows "sanitizeErrorDescription t = t"
  using assms by (simp add: sanitizeErrorDescription_def map_nqschar_id collapse_id)

lemma sanitize_trimmed: "trim (sanitizeErrorDescription t) = sanitizeErrorDescription t"
  by (simp add: sanitizeErrorDescription_def)

lemma filter_takeWhile: "filter (\<lambda>c. \<not> P c) (takeWhile P s) = []"
  by (auto simp: filter_empty_conv dest: set_takeWhileD)

lemma filter_dropWhile: "filter (\<lambda>c. \<not> P c) (dropWhile P s) = filter (\<lambda>c. \<not> P c) s"
  by (induction s) auto

lemma filter_trim: "filter (\<lambda>c. \<not> js_space c) (trim s) = filter (\<lambda>c. \<not> js_space c) s"
  by (simp add: trim_def filter_dropWhile flip: rev_filter)

lemma js_space_space [simp]: "js_space space"
  by (simp add: js_space_def)

lemma filter_collapse:
  "filter (\<lambda>c. \<not> js_space c) (collapse_spaces s) = filter (\<lambda>c. \<not> js_space c) s"
  by (induction s rule: collapse_spaces.induct) auto

lemma sanitize_keeps:
  "filter (\<lambda>c. \<not> js_space c) (sanitizeErrorDescription t) = filter (\<lambda>c. nqschar c \<and> \<not> js_space c) t"
proof -
  have "filter (\<lambda>c. \<not> js_space c) (map (\<lambda>ch. if nqschar ch then ch else space) t)
      = filter (\<lambda>c. nqschar c \<and> \<not> js_space c) t"
    by (induction t) auto
  then show ?thesis by (simp add: sanitizeErrorDescription_def filter_trim filter_collapse)
qed

text \<open>
  Whatever text the code attaches to an error, the \<open>error_description\<close>
  that is emitted consists of characters of RFC 6749's NQSCHAR set (plus tab and line breaks),
  has no run of spaces and no surrounding white space, holds every admissible non-blank character
  of the text in order and nothing else, and sanitising it again changes nothing.
\<close>

theorem sanitizeErrorDescription_conformant:
  "list_all nqschar (sanitizeErrorDescription t) \<and>
   \<not> double_space (sanitizeErrorDescription t) \<and>
   trim (sanitizeErrorDescription t) = sanitizeErrorDescription t \<and>
   filter (\<lambda>c. \<not> js_space c) (sanitizeErrorDescription t) =
     filter (\<lambda>c. nqschar c \<and> \<not> js_space c) t \<and>
   sanitizeErrorDescription (sanitizeErrorDescription t) = sanitizeErrorDescription t"
  using sanitize_fixed [OF sanitize_chars sanitize_no_double sanitize_trimmed, of t]
  by (simp add: list_all_iff sanitize_chars sanitize_no_double sanitize_trimmed sanitize_keeps)

end
