(* ===== verification/StoragePort.thy ===== *)
theory StoragePort
  imports Errors
begin

text \<open>
  The storage ports (\<open>src/db/repositories/types.ts\<close>). The domain layer depends on
  these interfaces only, so its model takes a \<open>storage\<close> record of operations over an
  abstract state type. Dates are milliseconds since the epoch. The contract every adapter has
  to meet is the locale \<open>storage_contract\<close>: an adapter has a view of its state as an
  abstract store of finite maps, and each operation acts on the view as the specification
  function of the same name says (an operation may instead throw, and then the view is as it
  was). The memory and the PostgreSQL adapter are its interpretations.
\<close>

section \<open>Records\<close>

datatype key_status = active | retired

record signing_key =
  sk_kid :: string
  sk_alg :: string
  sk_status :: key_status
  sk_privateJwk :: jobj
  sk_publicJwk :: jobj
  sk_createdAt :: int
  sk_retiredAt :: "int option"

record client_rec =
  cr_clientId :: string
  cr_clientName :: "string option"
  cr_metadata :: json

record par_rec =
  par_requestUri :: string
  par_clientId :: string
  par_params :: "(string \<times> string) list"
  par_dpopJkt :: "string option"
  par_expiresAt :: int

record grant_rec =
  grant_grantId :: string
  grant_clientId :: string
  grant_subject :: string
  grant_scope :: string
  grant_authTime :: int
  grant_createdAt :: int
  grant_revokedAt :: "int option"

record code_rec =
  code_codeHash :: string
  code_grantId :: string
  code_clientId :: string
  code_redirectUri :: string
  code_codeChallenge :: string
  code_codeChallengeMethod :: string
  code_dpopJkt :: "string option"
  code_nonce :: "string option"
  code_expiresAt :: int

datatype code_redemption = Redeem_ok code_rec | Redeem_consumed code_rec | Redeem_invalid

record at_rec =
  at_jti :: string
  at_grantId :: string
  at_clientId :: string
  at_subject :: string
  at_scope :: string
  at_cnfJkt :: "string option"
  at_expiresAt :: int
  at_revokedAt :: "int option"

record rt_rec =
  rt_tokenHash :: string
  rt_grantId :: string
  rt_clientId :: string
  rt_scope :: string
  rt_expiresAt :: int
  rt_revokedAt :: "int option"

record int_rec =
  int_id :: string
  int_clientId :: string
  int_requestUri :: string
  int_subject :: "string option"
  int_authTime :: "int option"
  int_acr :: "json option"
  int_amr :: "json option"
  int_createdAt :: int
  int_expiresAt :: int

section \<open>Repositories\<close>

record 's signing_key_repo =
  sk_list :: "('s, exn, signing_key list) act"
  sk_insert :: "signing_key \<Rightarrow> ('s, exn, unit) act"
  sk_setStatus :: "string \<Rightarrow> key_status \<Rightarrow> int option \<Rightarrow> ('s, exn, unit) act"

record 's client_repo =
  cl_findById :: "string \<Rightarrow> ('s, exn, client_rec option) act"
  cl_upsert :: "client_rec \<Rightarrow> ('s, exn, unit) act"

record 's par_repo =
  par_insert :: "par_rec \<Rightarrow> ('s, exn, unit) act"
  par_peek :: "string \<Rightarrow> int \<Rightarrow> ('s, exn, par_rec option) act"
  par_consume :: "string \<Rightarrow> int \<Rightarrow> ('s, exn, par_rec option) act"

record 's grant_repo =
  grant_insert :: "grant_rec \<Rightarrow> ('s, exn, unit) act"
  grant_find :: "string \<Rightarrow> ('s, exn, grant_rec option) act"
  grant_revoke :: "string \<Rightarrow> int \<Rightarrow> ('s, exn, unit) act"

record 's code_repo =
  code_insert :: "code_rec \<Rightarrow> ('s, exn, unit) act"
  code_redeem :: "string \<Rightarrow> int \<Rightarrow> ('s, exn, code_redemption) act"

record 's at_repo =
  at_insert :: "at_rec \<Rightarrow> ('s, exn, unit) act"
  at_findByJti :: "string \<Rightarrow> ('s, exn, at_rec option) act"
  at_revoke :: "string \<Rightarrow> int \<Rightarrow> ('s, exn, unit) act"
  at_revokeByGrant :: "string \<Rightarrow> int \<Rightarrow> ('s, exn, unit) act"

record 's rt_repo =
  rt_insert :: "rt_rec \<Rightarrow> ('s, exn, unit) act"
  rt_findByHash :: "string \<Rightarrow> ('s, exn, rt_rec option) act"
  rt_revoke :: "string \<Rightarrow> int \<Rightarrow> ('s, exn, unit) act"
  rt_revokeByGrant :: "string \<Rightarrow> int \<Rightarrow> ('s, exn, unit) act"

record 's int_repo =
  int_insert :: "int_rec \<Rightarrow> ('s, exn, unit) act"
  int_find :: "string \<Rightarrow> int \<Rightarrow> ('s, exn, int_rec option) act"
  int_setSubject :: "string \<Rightarrow> string \<Rightarrow> int \<Rightarrow> json option \<Rightarrow> json option \<Rightarrow> ('s, exn, unit) act"
  int_complete :: "string \<Rightarrow> int \<Rightarrow> ('s, exn, int_rec option) act"

record 's jti_repo =
  jti_register :: "string \<Rightarrow> string \<Rightarrow> int \<Rightarrow> int \<Rightarrow> ('s, exn, bool) act"

record 's storage =
  st_keys :: "'s signing_key_repo"
  st_clients :: "'s client_repo"
  st_par :: "'s par_repo"
  st_grants :: "'s grant_repo"
  st_codes :: "'s code_repo"
  st_accessTokens :: "'s at_repo"
  st_refreshTokens :: "'s rt_repo"
  st_jti :: "'s jti_repo"
  st_interactions :: "'s int_repo"
  st_ping :: "('s, exn, bool) act"

section \<open>Stored JSON objects\<close>

text \<open>
  A store may keep the members of a JSON object in an order of its own, as PostgreSQL does: by the length of the
  name, then by its bytes. Read by name, the object is the same.
\<close>

fun bytes_before :: "string \<Rightarrow> string \<Rightarrow> bool" where
  "bytes_before (c # cs) (d # ds) \<longleftrightarrow> code_of c < (code_of d :: nat) \<or> c = d \<and> bytes_before cs ds"
| "bytes_before [] (d # ds) \<longleftrightarrow> True"
| "bytes_before cs [] \<longleftrightarrow> False"

definition key_before :: "string \<Rightarrow> string \<Rightarrow> bool" where
  "key_before k l \<longleftrightarrow> length (utf8 k) < length (utf8 l) \<or> length (utf8 k) = length (utf8 l) \<and> bytes_before (utf8 k) (utf8 l)"

fun put_member :: "string \<Rightarrow> 'v \<Rightarrow> (string \<times> 'v) list \<Rightarrow> (string \<times> 'v) list" where
  "put_member k v [] = [(k, v)]"
| "put_member k v ((l, w) # r) =
     (if k = l then (k, v) # r else if key_before k l then (k, v) # (l, w) # r else (l, w) # put_member k v r)"

definition sort_members :: "(string \<times> 'v) list \<Rightarrow> (string \<times> 'v) list" where
  "sort_members o' = foldr (\<lambda>(k, v). put_member k v) o' []"

lemma map_of_put_member [simp]: "map_of (put_member k v l) = (map_of l)(k \<mapsto> v)"
  by (induction k v l rule: put_member.induct) (auto simp: fun_eq_iff)

lemma map_of_sort_members [simp]: "map_of (sort_members o') = map_of o'"
  by (induction o') (auto simp: sort_members_def)

lemma put_member_map: "put_member k (f v) (map (\<lambda>(l, w). (l, f w)) r) = map (\<lambda>(l, w). (l, f w)) (put_member k v r)"
  by (induction k v r rule: put_member.induct) auto

lemma sort_members_map: "sort_members (map (\<lambda>(l, w). (l, f w)) o') = map (\<lambda>(l, w). (l, f w)) (sort_members o')"
  by (induction o') (auto simp: sort_members_def put_member_map)

fun json_canon :: "json \<Rightarrow> json" where
  "json_canon (JArr js) = JArr (map json_canon js)"
| "json_canon (JObj ms) = JObj (sort_members (map (\<lambda>m. (fst m, json_canon (snd m))) ms))"
| "json_canon j = j"

text \<open>What a store keeps of the client and of the pushed request it is given.\<close>

definition keeps_client :: "client_rec \<Rightarrow> client_rec \<Rightarrow> bool" where
  "keeps_client c c' \<longleftrightarrow> c' = c \<or> c' = c\<lparr>cr_metadata := json_canon (cr_metadata c)\<rparr>"

definition keeps_request :: "par_rec \<Rightarrow> par_rec \<Rightarrow> bool" where
  "keeps_request p p' \<longleftrightarrow> p' = p \<or> p' = p\<lparr>par_params := sort_members (par_params p)\<rparr>"

lemma keeps_refl [simp]: "keeps_client c c" "keeps_request p p"
  by (simp_all add: keeps_client_def keeps_request_def)

lemma keeps_requestD:
  "keeps_request p p' \<Longrightarrow> par_requestUri p' = par_requestUri p \<and> par_clientId p' = par_clientId p \<and>
     par_dpopJkt p' = par_dpopJkt p \<and> par_expiresAt p' = par_expiresAt p \<and> map_of (par_params p') = map_of (par_params p)"
  by (auto simp: keeps_request_def)

section \<open>The abstract store and the specification of the operations\<close>

text \<open>
  A row of a single-use table carries the time it was used (\<open>consumedAt\<close>,
  \<open>completedAt\<close>). \<open>a_live c j t\<close>: a replay registered for \<open>(c, j)\<close> is
  still remembered at time \<open>t\<close>.
\<close>

record astore =
  a_clients :: "string \<Rightarrow> client_rec option"
  a_par :: "string \<Rightarrow> (par_rec \<times> int option) option"
  a_grants :: "string \<Rightarrow> grant_rec option"
  a_codes :: "string \<Rightarrow> (code_rec \<times> int option) option"
  a_at :: "string \<Rightarrow> at_rec option"
  a_rt :: "string \<Rightarrow> rt_rec option"
  a_int :: "string \<Rightarrow> (int_rec \<times> int option) option"
  a_live :: "string \<Rightarrow> string \<Rightarrow> int \<Rightarrow> bool"

text \<open>A single-use row can be used: it is there, unused and unexpired.\<close>

definition usable :: "('r \<Rightarrow> int) \<Rightarrow> int \<Rightarrow> ('r \<times> int option) option \<Rightarrow> 'r option" where
  "usable expiry now row =
     (case row of Some (r, None) \<Rightarrow> if expiry r \<le> now then None else Some r | _ \<Rightarrow> None)"

definition spec_client_upsert :: "client_rec \<Rightarrow> astore \<Rightarrow> astore" where
  "spec_client_upsert r a = a\<lparr>a_clients := (a_clients a)(cr_clientId r \<mapsto> r)\<rparr>"

definition spec_par_insert :: "par_rec \<Rightarrow> astore \<Rightarrow> astore" where
  "spec_par_insert r a = a\<lparr>a_par := (a_par a)(par_requestUri r \<mapsto> (r, None))\<rparr>"

definition spec_par_peek :: "string \<Rightarrow> int \<Rightarrow> astore \<Rightarrow> par_rec option" where
  "spec_par_peek u now a = usable par_expiresAt now (a_par a u)"

definition spec_par_consume :: "string \<Rightarrow> int \<Rightarrow> astore \<Rightarrow> astore" where
  "spec_par_consume u now a =
     (case spec_par_peek u now a of None \<Rightarrow> a
      | Some r \<Rightarrow> a\<lparr>a_par := (a_par a)(u \<mapsto> (r, Some now))\<rparr>)"

definition spec_grant_insert :: "grant_rec \<Rightarrow> astore \<Rightarrow> astore" where
  "spec_grant_insert r a = a\<lparr>a_grants := (a_grants a)(grant_grantId r \<mapsto> r)\<rparr>"

definition grant_mark :: "int \<Rightarrow> grant_rec \<Rightarrow> grant_rec" where
  "grant_mark t r = (if grant_revokedAt r = None then r\<lparr>grant_revokedAt := Some t\<rparr> else r)"

definition at_mark :: "int \<Rightarrow> at_rec \<Rightarrow> at_rec" where
  "at_mark t r = (if at_revokedAt r = None then r\<lparr>at_revokedAt := Some t\<rparr> else r)"

definition rt_mark :: "int \<Rightarrow> rt_rec \<Rightarrow> rt_rec" where
  "rt_mark t r = (if rt_revokedAt r = None then r\<lparr>rt_revokedAt := Some t\<rparr> else r)"

definition spec_grant_revoke :: "string \<Rightarrow> int \<Rightarrow> astore \<Rightarrow> astore" where
  "spec_grant_revoke g t a =
     a\<lparr>a_grants := (a_grants a)(g := map_option (grant_mark t) (a_grants a g))\<rparr>"

definition spec_code_insert :: "code_rec \<Rightarrow> astore \<Rightarrow> astore" where
  "spec_code_insert r a = a\<lparr>a_codes := (a_codes a)(code_codeHash r \<mapsto> (r, None))\<rparr>"

definition spec_code_redemption :: "string \<Rightarrow> int \<Rightarrow> astore \<Rightarrow> code_redemption" where
  "spec_code_redemption h now a =
     (case a_codes a h of
        None \<Rightarrow> Redeem_invalid
      | Some (r, Some _) \<Rightarrow> Redeem_consumed r
      | Some (r, None) \<Rightarrow> if code_expiresAt r \<le> now then Redeem_invalid else Redeem_ok r)"

definition spec_code_redeem :: "string \<Rightarrow> int \<Rightarrow> astore \<Rightarrow> astore" where
  "spec_code_redeem h now a =
     (case spec_code_redemption h now a of
        Redeem_ok r \<Rightarrow> a\<lparr>a_codes := (a_codes a)(h \<mapsto> (r, Some now))\<rparr> | _ \<Rightarrow> a)"

definition spec_at_insert :: "at_rec \<Rightarrow> astore \<Rightarrow> astore" where
  "spec_at_insert r a = a\<lparr>a_at := (a_at a)(at_jti r \<mapsto> r)\<rparr>"

definition spec_at_revoke :: "string \<Rightarrow> int \<Rightarrow> astore \<Rightarrow> astore" where
  "spec_at_revoke j t a = a\<lparr>a_at := (a_at a)(j := map_option (at_mark t) (a_at a j))\<rparr>"

definition spec_at_revokeByGrant :: "string \<Rightarrow> int \<Rightarrow> astore \<Rightarrow> astore" where
  "spec_at_revokeByGrant g t a =
     a\<lparr>a_at := (\<lambda>j. map_option (\<lambda>r. if at_grantId r = g then at_mark t r else r) (a_at a j))\<rparr>"

definition spec_rt_insert :: "rt_rec \<Rightarrow> astore \<Rightarrow> astore" where
  "spec_rt_insert r a = a\<lparr>a_rt := (a_rt a)(rt_tokenHash r \<mapsto> r)\<rparr>"

definition spec_rt_revoke :: "string \<Rightarrow> int \<Rightarrow> astore \<Rightarrow> astore" where
  "spec_rt_revoke h t a = a\<lparr>a_rt := (a_rt a)(h := map_option (rt_mark t) (a_rt a h))\<rparr>"

definition spec_rt_revokeByGrant :: "string \<Rightarrow> int \<Rightarrow> astore \<Rightarrow> astore" where
  "spec_rt_revokeByGrant g t a =
     a\<lparr>a_rt := (\<lambda>h. map_option (\<lambda>r. if rt_grantId r = g then rt_mark t r else r) (a_rt a h))\<rparr>"

definition spec_int_find :: "string \<Rightarrow> int \<Rightarrow> astore \<Rightarrow> int_rec option" where
  "spec_int_find i now a = usable int_expiresAt now (a_int a i)"

definition set_subject ::
  "string \<Rightarrow> int \<Rightarrow> json option \<Rightarrow> json option \<Rightarrow> int_rec \<Rightarrow> int_rec" where
  "set_subject sub authTime acr amr r =
     r\<lparr>int_subject := Some sub, int_authTime := Some authTime, int_acr := acr, int_amr := amr\<rparr>"

definition spec_int_setSubject ::
  "string \<Rightarrow> string \<Rightarrow> int \<Rightarrow> json option \<Rightarrow> json option \<Rightarrow> astore \<Rightarrow> astore" where
  "spec_int_setSubject i sub authTime acr amr a =
     (case a_int a i of
        Some (r, None) \<Rightarrow> a\<lparr>a_int := (a_int a)(i \<mapsto> (set_subject sub authTime acr amr r, None))\<rparr>
      | _ \<Rightarrow> a)"

definition spec_int_complete :: "string \<Rightarrow> int \<Rightarrow> astore \<Rightarrow> astore" where
  "spec_int_complete i now a =
     (case spec_int_find i now a of None \<Rightarrow> a
      | Some r \<Rightarrow> a\<lparr>a_int := (a_int a)(i \<mapsto> (r, Some now))\<rparr>)"

text \<open>
  Inserting an interaction may sweep expired rows away, and registering a replay identifier may
  drop entries that have expired or refuse a fresh one when the table is full. So these two are
  specified by what the caller can rely on.
\<close>

definition spec_int_sweep :: "int \<Rightarrow> astore \<Rightarrow> astore \<Rightarrow> bool" where
  "spec_int_sweep now a a' \<longleftrightarrow>
     (\<exists>m. a' = a\<lparr>a_int := m\<rparr> \<and> (\<forall>i. m i = a_int a i \<or>
        m i = None \<and> (case a_int a i of Some (q, _) \<Rightarrow> int_expiresAt q \<le> now | None \<Rightarrow> False)))"

definition spec_int_insert :: "int_rec \<Rightarrow> astore \<Rightarrow> astore \<Rightarrow> bool" where
  "spec_int_insert r a a' \<longleftrightarrow>
     (\<exists>m. a' = a\<lparr>a_int := m\<rparr> \<and> m (int_id r) = Some (r, None) \<and>
        (\<forall>i. i \<noteq> int_id r \<longrightarrow> m i = a_int a i \<or>
           m i = None \<and> (case a_int a i of Some (q, _) \<Rightarrow> int_expiresAt q \<le> int_createdAt r | None \<Rightarrow> False)))"

definition spec_jti_register :: "string \<Rightarrow> string \<Rightarrow> int \<Rightarrow> int \<Rightarrow> astore \<Rightarrow> bool \<Rightarrow> astore \<Rightarrow> bool" where
  "spec_jti_register c j expiry now a fresh a' \<longleftrightarrow>
     (\<exists>l. a' = a\<lparr>a_live := l\<rparr> \<and>
        (\<forall>c' j' t. now \<le> t \<longrightarrow> a_live a c' j' t \<longrightarrow> l c' j' t) \<and>
        (fresh \<longrightarrow> \<not> a_live a c j now \<and> (\<forall>t < expiry. l c j t)))"

lemmas spec_defs = spec_client_upsert_def spec_par_insert_def spec_par_peek_def spec_par_consume_def
  spec_grant_insert_def spec_grant_revoke_def spec_code_insert_def spec_code_redemption_def
  spec_code_redeem_def spec_at_insert_def spec_at_revoke_def spec_at_revokeByGrant_def
  spec_rt_insert_def spec_rt_revoke_def spec_rt_revokeByGrant_def spec_int_find_def
  spec_int_setSubject_def spec_int_complete_def

section \<open>The contract\<close>

text \<open>
  \<open>obeys ok view m R\<close>: from every well-formed state, \<open>m\<close> ends in a well-formed
  state; if it returns, \<open>R\<close> relates the view before, the value and the view after, and if it throws,
  the view is unchanged or as after some return, since the reply of a remote store may be lost on its way. \<open>reads\<close> and \<open>writes\<close> are the two usual
  shapes of \<open>R\<close>.
\<close>

definition obeys ::
  "('s \<Rightarrow> bool) \<Rightarrow> ('s \<Rightarrow> astore) \<Rightarrow> ('s, exn, 'a) act \<Rightarrow> (astore \<Rightarrow> 'a \<Rightarrow> astore \<Rightarrow> bool) \<Rightarrow> bool" where
  "obeys ok view m R \<longleftrightarrow>
     (\<forall>s r s'. ok s \<longrightarrow> m s = (r, s') \<longrightarrow> ok s' \<and>
        (case r of Inl e \<Rightarrow> view s' = view s \<or> (\<exists>x. R (view s) x (view s')) | Inr x \<Rightarrow> R (view s) x (view s')))"

abbreviation reads :: "(astore \<Rightarrow> 'a) \<Rightarrow> astore \<Rightarrow> 'a \<Rightarrow> astore \<Rightarrow> bool" where
  "reads f \<equiv> (\<lambda>a x a'. x = f a \<and> a' = a)"

abbreviation writes :: "(astore \<Rightarrow> astore) \<Rightarrow> astore \<Rightarrow> unit \<Rightarrow> astore \<Rightarrow> bool" where
  "writes f \<equiv> (\<lambda>a x a'. a' = f a)"

abbreviation steps :: "(astore \<Rightarrow> 'a) \<Rightarrow> (astore \<Rightarrow> astore) \<Rightarrow> astore \<Rightarrow> 'a \<Rightarrow> astore \<Rightarrow> bool" where
  "steps f g \<equiv> (\<lambda>a x a'. x = f a \<and> a' = g a)"

lemma obeysD:
  "obeys ok view m R \<Longrightarrow> ok s \<Longrightarrow> m s = (Inr x, s') \<Longrightarrow> ok s' \<and> R (view s) x (view s')"
  by (fastforce simp: obeys_def)

lemma obeys_throwD:
  "obeys ok view m R \<Longrightarrow> ok s \<Longrightarrow> m s = (Inl e, s') \<Longrightarrow> ok s' \<and> (view s' = view s \<or> (\<exists>x. R (view s) x (view s')))"
  by (fastforce simp: obeys_def)

text \<open>An operation that sweeps expired rows before its own work may have swept them also when it throws: \<open>F\<close>
  relates the views then.\<close>

definition obeys_or ::
  "('s \<Rightarrow> bool) \<Rightarrow> ('s \<Rightarrow> astore) \<Rightarrow> (astore \<Rightarrow> astore \<Rightarrow> bool) \<Rightarrow> ('s, exn, 'a) act \<Rightarrow> (astore \<Rightarrow> 'a \<Rightarrow> astore \<Rightarrow> bool) \<Rightarrow> bool" where
  "obeys_or ok view F m R \<longleftrightarrow>
     (\<forall>s r s'. ok s \<longrightarrow> m s = (r, s') \<longrightarrow> ok s' \<and>
        (case r of Inl e \<Rightarrow> F (view s) (view s') \<or> (\<exists>x. R (view s) x (view s')) | Inr x \<Rightarrow> R (view s) x (view s')))"

lemma obeys_orD:
  "obeys_or ok view F m R \<Longrightarrow> ok s \<Longrightarrow> m s = (Inr x, s') \<Longrightarrow> ok s' \<and> R (view s) x (view s')"
  by (fastforce simp: obeys_or_def)

lemma obeys_or_obeys: "obeys ok view m R \<Longrightarrow> (\<And>a. F a a) \<Longrightarrow> obeys_or ok view F m R"
  by (fastforce simp: obeys_def obeys_or_def split: sum.splits)

lemma obeys_kept:
  "obeys ok view m (writes (f c)) \<Longrightarrow> K c c \<Longrightarrow> obeys ok view m (\<lambda>a x a'. \<exists>c'. K c c' \<and> a' = f c' a)"
  by (fastforce simp: obeys_def split: sum.splits)

text \<open>
  \<open>moves ok view T m\<close>: however \<open>m\<close> ends, the views before and after are related by
  \<open>T\<close>. For a reflexive and transitive \<open>T\<close> this composes along a handler, so a relation
  that every single operation respects holds of the whole handler; \<open>quiet\<close> is the case of
  a handler that only reads.
\<close>

definition moves ::
  "('s \<Rightarrow> bool) \<Rightarrow> ('s \<Rightarrow> astore) \<Rightarrow> (astore \<Rightarrow> astore \<Rightarrow> bool) \<Rightarrow> ('s, exn, 'a) act \<Rightarrow> bool" where
  "moves ok view T m \<longleftrightarrow>
     (\<forall>s r s'. ok s \<longrightarrow> m s = (r, s') \<longrightarrow> ok s' \<and> T (view s) (view s'))"

abbreviation quiet :: "('s \<Rightarrow> bool) \<Rightarrow> ('s \<Rightarrow> astore) \<Rightarrow> ('s, exn, 'a) act \<Rightarrow> bool" where
  "quiet ok view m \<equiv> moves ok view (\<lambda>a a'. a' = a) m"

named_theorems moves_intro \<open>composition rules of moves\<close>

lemma movesD: "moves ok view T m \<Longrightarrow> ok s \<Longrightarrow> m s = (r, s') \<Longrightarrow> ok s' \<and> T (view s) (view s')"
  by (auto simp: moves_def)

lemma moves_return [moves_intro]: "reflp T \<Longrightarrow> moves ok view T (returnE x)"
  by (auto simp: moves_def act_iff dest: reflpD)

lemma moves_throw [moves_intro]: "reflp T \<Longrightarrow> moves ok view T (throwE e)"
  by (auto simp: moves_def act_iff dest: reflpD)

lemma moves_throwIf [moves_intro]: "reflp T \<Longrightarrow> moves ok view T (throwIf b e)"
  by (auto simp: moves_def throwIf_def act_iff dest: reflpD)

lemma moves_lift [moves_intro]: "reflp T \<Longrightarrow> moves ok view T (liftE r)"
  by (auto simp: moves_def act_iff dest: reflpD)

lemma moves_bind [moves_intro]:
  assumes "transp T" and m: "moves ok view T m" and f: "\<And>x. moves ok view T (f x)"
  shows "moves ok view T (bindE m f)"
proof -
  have "ok s' \<and> T (view s) (view s')" if "ok s" "bindE m f s = (r, s')" for s r s'
  proof (cases "m s")
    case (Pair r1 s1)
    with m that(1) have 1: "ok s1" "T (view s) (view s1)" by (auto dest: movesD)
    show ?thesis
    proof (cases r1)
      case (Inl e)
      with Pair that(2) 1 show ?thesis by (simp add: bindE_def)
    next
      case (Inr x)
      with Pair that(2) have "f x s1 = (r, s')" by (simp add: bindE_def)
      with 1 movesD [OF f] \<open>transp T\<close> show ?thesis by (blast dest: transpD)
    qed
  qed
  then show ?thesis by (simp add: moves_def)
qed

lemma moves_catch [moves_intro]:
  assumes "transp T" and m: "moves ok view T m" and h: "\<And>e. moves ok view T (h e)"
  shows "moves ok view T (catchE m h)"
proof -
  have "ok s' \<and> T (view s) (view s')" if "ok s" "catchE m h s = (r, s')" for s r s'
  proof (cases "m s")
    case (Pair r1 s1)
    with m that(1) have 1: "ok s1" "T (view s) (view s1)" by (auto dest: movesD)
    show ?thesis
    proof (cases r1)
      case (Inr y)
      with Pair that(2) 1 show ?thesis by (simp add: catchE_def)
    next
      case (Inl e)
      with Pair that(2) have "h e s1 = (r, s')" by (simp add: catchE_def)
      with 1 movesD [OF h] \<open>transp T\<close> show ?thesis by (blast dest: transpD)
    qed
  qed
  then show ?thesis by (simp add: moves_def)
qed

lemma moves_if [moves_intro]:
  "(b \<Longrightarrow> moves ok view T m) \<Longrightarrow> (\<not> b \<Longrightarrow> moves ok view T n) \<Longrightarrow> moves ok view T (if b then m else n)"
  by simp

lemma moves_case_option [moves_intro]:
  "(v = None \<Longrightarrow> moves ok view T m) \<Longrightarrow> (\<And>x. v = Some x \<Longrightarrow> moves ok view T (f x)) \<Longrightarrow>
     moves ok view T (case v of None \<Rightarrow> m | Some x \<Rightarrow> f x)"
  by (cases v) simp_all

lemma moves_obeys:
  assumes m: "obeys ok view m R" and "reflp T" and R: "\<And>a x a'. R a x a' \<Longrightarrow> T a a'"
  shows "moves ok view T m"
proof -
  have "ok s' \<and> T (view s) (view s')" if "ok s" "m s = (r, s')" for s r s'
  proof (cases r)
    case (Inl e)
    with that obeys_throwD [OF m] have "ok s' \<and> (view s' = view s \<or> (\<exists>x. R (view s) x (view s')))" by blast
    with R reflpD [OF \<open>reflp T\<close>] show ?thesis by metis
  next
    case (Inr x)
    with that obeysD [OF m] R show ?thesis by blast
  qed
  then show ?thesis by (simp add: moves_def)
qed

lemma moves_obeys_or:
  assumes m: "obeys_or ok view F m R" and F: "\<And>a a'. F a a' \<Longrightarrow> T a a'" and R: "\<And>a x a'. R a x a' \<Longrightarrow> T a a'"
  shows "moves ok view T m"
proof -
  have "ok s' \<and> T (view s) (view s')" if "ok s" "m s = (r, s')" for s r s'
  proof -
    have "ok s' \<and> (case r of Inl e \<Rightarrow> F (view s) (view s') \<or> (\<exists>x. R (view s) x (view s')) | Inr x \<Rightarrow> R (view s) x (view s'))"
      using m that unfolding obeys_or_def by blast
    with F R show ?thesis by (cases r) auto
  qed
  then show ?thesis by (simp add: moves_def)
qed

lemma moves_mono: "moves ok view T m \<Longrightarrow> (\<And>a a'. T a a' \<Longrightarrow> U a a') \<Longrightarrow> moves ok view U m"
  by (auto simp: moves_def)

lemma quiet_moves: "quiet ok view m \<Longrightarrow> reflp T \<Longrightarrow> moves ok view T m"
  by (auto simp: moves_def dest: reflpD)

lemma reflp_eq' [simp, intro]: "reflp (\<lambda>a a'. a' = a)"
  by (auto intro: reflpI)

lemma transp_eq' [simp, intro]: "transp (\<lambda>a a'. a' = a)"
  by (auto intro: transpI)

lemma quiet_reads: "obeys ok view m (reads f) \<Longrightarrow> quiet ok view m"
  by (erule moves_obeys) auto

locale client_port =
  fixes st :: "'s storage" and view :: "'s \<Rightarrow> astore" and ok :: "'s \<Rightarrow> bool"
  assumes cl_findById: "obeys ok view (cl_findById (st_clients st) i) (reads (\<lambda>a. a_clients a i))"
    and cl_upsert: "obeys ok view (cl_upsert (st_clients st) c)
          (\<lambda>a x a'. \<exists>c'. keeps_client c c' \<and> a' = spec_client_upsert c' a)"

locale par_port =
  fixes st :: "'s storage" and view :: "'s \<Rightarrow> astore" and ok :: "'s \<Rightarrow> bool"
  assumes par_insert: "obeys ok view (par_insert (st_par st) p)
          (\<lambda>a x a'. \<exists>p'. keeps_request p p' \<and> a' = spec_par_insert p' a)"
    and par_peek: "obeys ok view (par_peek (st_par st) u t) (reads (spec_par_peek u t))"
    and par_consume: "obeys ok view (par_consume (st_par st) u t)
          (steps (spec_par_peek u t) (spec_par_consume u t))"

text \<open>A store that keeps a pushed request exactly as it is given.\<close>

locale exact_par_port = par_port +
  assumes par_insert_exact: "obeys ok view (par_insert (st_par st) p) (writes (spec_par_insert p))"

locale grant_port =
  fixes st :: "'s storage" and view :: "'s \<Rightarrow> astore" and ok :: "'s \<Rightarrow> bool"
  assumes grant_insert: "obeys ok view (grant_insert (st_grants st) g) (writes (spec_grant_insert g))"
    and grant_find: "obeys ok view (grant_find (st_grants st) i) (reads (\<lambda>a. a_grants a i))"
    and grant_revoke: "obeys ok view (grant_revoke (st_grants st) i t) (writes (spec_grant_revoke i t))"

locale code_port =
  fixes st :: "'s storage" and view :: "'s \<Rightarrow> astore" and ok :: "'s \<Rightarrow> bool"
  assumes code_insert: "obeys ok view (code_insert (st_codes st) c) (writes (spec_code_insert c))"
    and code_redeem: "obeys ok view (code_redeem (st_codes st) h t)
          (steps (spec_code_redemption h t) (spec_code_redeem h t))"

locale token_port =
  fixes st :: "'s storage" and view :: "'s \<Rightarrow> astore" and ok :: "'s \<Rightarrow> bool"
  assumes at_insert: "obeys ok view (at_insert (st_accessTokens st) a) (writes (spec_at_insert a))"
    and at_findByJti: "obeys ok view (at_findByJti (st_accessTokens st) j) (reads (\<lambda>v. a_at v j))"
    and at_revoke: "obeys ok view (at_revoke (st_accessTokens st) j t) (writes (spec_at_revoke j t))"
    and at_revokeByGrant: "obeys ok view (at_revokeByGrant (st_accessTokens st) i t)
          (writes (spec_at_revokeByGrant i t))"
    and rt_insert: "obeys ok view (rt_insert (st_refreshTokens st) r) (writes (spec_rt_insert r))"
    and rt_findByHash: "obeys ok view (rt_findByHash (st_refreshTokens st) h) (reads (\<lambda>v. a_rt v h))"
    and rt_revoke: "obeys ok view (rt_revoke (st_refreshTokens st) h t) (writes (spec_rt_revoke h t))"
    and rt_revokeByGrant: "obeys ok view (rt_revokeByGrant (st_refreshTokens st) i t)
          (writes (spec_rt_revokeByGrant i t))"

locale int_port =
  fixes st :: "'s storage" and view :: "'s \<Rightarrow> astore" and ok :: "'s \<Rightarrow> bool"
  assumes int_insert: "obeys_or ok view (spec_int_sweep (int_createdAt n)) (int_insert (st_interactions st) n)
          (\<lambda>a x a'. spec_int_insert n a a')"
    and int_find: "obeys ok view (int_find (st_interactions st) i t) (reads (spec_int_find i t))"
    and int_setSubject: "obeys ok view (int_setSubject (st_interactions st) i sub tm acr amr)
          (writes (spec_int_setSubject i sub tm acr amr))"
    and int_complete: "obeys ok view (int_complete (st_interactions st) i t)
          (steps (spec_int_find i t) (spec_int_complete i t))"

locale jti_port =
  fixes st :: "'s storage" and view :: "'s \<Rightarrow> astore" and ok :: "'s \<Rightarrow> bool"
  assumes jti_register: "obeys_or ok view (\<lambda>a. spec_jti_register c j e t a False) (jti_register (st_jti st) c j e t)
          (spec_jti_register c j e t)"

text \<open>Between two points, replays that are remembered at time \<open>t\<close> stay remembered.\<close>

definition keeps_live :: "int \<Rightarrow> astore \<Rightarrow> astore \<Rightarrow> bool" where
  "keeps_live t a a' \<longleftrightarrow> (\<forall>c j. a_live a c j t \<longrightarrow> a_live a' c j t)"

locale storage_contract = client_port + par_port + grant_port + code_port + token_port + int_port + jti_port

text \<open>
  A storage whose operations on grants, codes and tokens always answer, as the in-memory one does.
  With it a handler's effect is determined also where the handler ends in an error.
\<close>

definition answers :: "('s, exn, 'a) act \<Rightarrow> bool" where
  "answers m \<longleftrightarrow> (\<forall>s. \<exists>x s'. m s = (Inr x, s'))"

lemma obeys_answers:
  assumes "obeys ok view m R" and "answers m" and "ok s"
  obtains x s' where "m s = (Inr x, s')" and "ok s'" and "R (view s) x (view s')"
  using assms unfolding answers_def by (meson obeysD)

locale reliable_storage = storage_contract +
  assumes grants_answer: "answers (grant_insert (st_grants st) g)" "answers (grant_find (st_grants st) i)"
      "answers (grant_revoke (st_grants st) i t)"
    and codes_answer: "answers (code_insert (st_codes st) c)" "answers (code_redeem (st_codes st) h t)"
    and tokens_answer: "answers (at_insert (st_accessTokens st) a)" "answers (at_revokeByGrant (st_accessTokens st) i t)"
      "answers (rt_insert (st_refreshTokens st) r)" "answers (rt_revokeByGrant (st_refreshTokens st) i t)"
      "answers (at_findByJti (st_accessTokens st) j)" "answers (rt_findByHash (st_refreshTokens st) h)"
      "answers (at_revoke (st_accessTokens st) j t)" "answers (rt_revoke (st_refreshTokens st) h t)"

end
