(* ===== verification/MemoryStorage.thy ===== *)
theory MemoryStorage
  imports StoragePort
begin

text \<open>
  The in-memory storage adapter (\<open>src/db/repositories/memory.ts\<close>): one definition per
  method of each repository class, on the class's \<open>rows\<close> map, and
  \<open>createMemoryStorage\<close> which puts them together over the record \<open>mem_store\<close> of all
  the maps. The interpretation \<open>mem\<close> shows that it meets the storage contract. A row of a
  single-use table is the pair of the record and its \<open>consumedAt\<close> or \<open>completedAt\<close>.
\<close>

section \<open>The tables\<close>

record mem_store =
  m_keys :: "(string, signing_key) jsmap"
  m_clients :: "(string, client_rec) jsmap"
  m_par :: "(string, par_rec \<times> int option) jsmap"
  m_grants :: "(string, grant_rec) jsmap"
  m_codes :: "(string, code_rec \<times> int option) jsmap"
  m_accessTokens :: "(string, at_rec) jsmap"
  m_refreshTokens :: "(string, rt_rec) jsmap"
  m_jti :: "(string, int) jsmap"
  m_lastSweepMs :: int
  m_interactions :: "(string, int_rec \<times> int option) jsmap"

text \<open>A method of a repository class works on its own table of the store.\<close>

definition on_table ::
  "('s \<Rightarrow> 't) \<Rightarrow> (('t \<Rightarrow> 't) \<Rightarrow> 's \<Rightarrow> 's) \<Rightarrow> ('t \<Rightarrow> 'a \<times> 't) \<Rightarrow> ('s, 'e, 'a) act" where
  "on_table get upd f = (\<lambda>s. case f (get s) of (x, t) \<Rightarrow> (Inr x, upd (\<lambda>_. t) s))"

section \<open>MemorySigningKeys\<close>

definition mem_keys_list :: "(string, signing_key) jsmap \<Rightarrow> signing_key list" where
  "mem_keys_list rows = map snd rows"

text \<open>The error mirrors PostgreSQL's \<open>unique_violation\<close> of the one-active-key index.\<close>

definition mem_keys_insert :: "signing_key \<Rightarrow> (mem_store, exn, unit) act" where
  "mem_keys_insert k =
     (\<lambda>s. if sk_status k = active \<and> list_ex (\<lambda>row. sk_status row = active) (map snd (m_keys s))
          then (Inl (JsExn (Some ''23505'')), s)
          else (Inr (), s\<lparr>m_keys := map_set (sk_kid k) k (m_keys s)\<rparr>))"

definition mem_keys_setStatus ::
  "string \<Rightarrow> key_status \<Rightarrow> int option \<Rightarrow> (string, signing_key) jsmap \<Rightarrow> (string, signing_key) jsmap" where
  "mem_keys_setStatus kid status retiredAt rows =
     (case map_get rows kid of
        None \<Rightarrow> rows
      | Some row \<Rightarrow> map_set kid (row\<lparr>sk_status := status, sk_retiredAt := retiredAt\<rparr>) rows)"

section \<open>MemoryClients\<close>

definition mem_clients_findById :: "string \<Rightarrow> (string, client_rec) jsmap \<Rightarrow> client_rec option" where
  "mem_clients_findById clientId rows = map_get rows clientId"

definition mem_clients_upsert :: "client_rec \<Rightarrow> (string, client_rec) jsmap \<Rightarrow> (string, client_rec) jsmap" where
  "mem_clients_upsert r rows = map_set (cr_clientId r) r rows"

section \<open>MemoryParRequests\<close>

type_synonym par_rows = "(string, par_rec \<times> int option) jsmap"

definition mem_par_insert :: "par_rec \<Rightarrow> par_rows \<Rightarrow> par_rows" where
  "mem_par_insert r rows = map_set (par_requestUri r) (r, None) rows"

definition mem_par_peek :: "string \<Rightarrow> int \<Rightarrow> par_rows \<Rightarrow> par_rec option" where
  "mem_par_peek requestUri now rows =
     (case map_get rows requestUri of
        None \<Rightarrow> None
      | Some (r, consumedAt) \<Rightarrow>
          if consumedAt \<noteq> None \<or> par_expiresAt r \<le> now then None else Some r)"

definition mem_par_consume :: "string \<Rightarrow> int \<Rightarrow> par_rows \<Rightarrow> par_rec option \<times> par_rows" where
  "mem_par_consume requestUri now rows =
     (case map_get rows requestUri of
        None \<Rightarrow> (None, rows)
      | Some (r, consumedAt) \<Rightarrow>
          if consumedAt \<noteq> None \<or> par_expiresAt r \<le> now then (None, rows)
          else (Some r, map_set requestUri (r, Some now) rows))"

section \<open>MemoryGrants\<close>

type_synonym grant_rows = "(string, grant_rec) jsmap"

definition mem_grants_insert :: "grant_rec \<Rightarrow> grant_rows \<Rightarrow> grant_rows" where
  "mem_grants_insert r rows = map_set (grant_grantId r) r rows"

definition mem_grants_find :: "string \<Rightarrow> grant_rows \<Rightarrow> grant_rec option" where
  "mem_grants_find grantId rows = map_get rows grantId"

definition mem_grants_revoke :: "string \<Rightarrow> int \<Rightarrow> grant_rows \<Rightarrow> grant_rows" where
  "mem_grants_revoke grantId tm rows =
     (case map_get rows grantId of
        None \<Rightarrow> rows
      | Some row \<Rightarrow>
          if grant_revokedAt row = None then map_set grantId (row\<lparr>grant_revokedAt := Some tm\<rparr>) rows
          else rows)"

section \<open>MemoryAuthorizationCodes\<close>

type_synonym code_rows = "(string, code_rec \<times> int option) jsmap"

definition mem_codes_insert :: "code_rec \<Rightarrow> code_rows \<Rightarrow> code_rows" where
  "mem_codes_insert r rows = map_set (code_codeHash r) (r, None) rows"

definition mem_codes_redeem :: "string \<Rightarrow> int \<Rightarrow> code_rows \<Rightarrow> code_redemption \<times> code_rows" where
  "mem_codes_redeem codeHash now rows =
     (case map_get rows codeHash of
        None \<Rightarrow> (Redeem_invalid, rows)
      | Some (r, consumedAt) \<Rightarrow>
          if consumedAt \<noteq> None then (Redeem_consumed r, rows)
          else if code_expiresAt r \<le> now then (Redeem_invalid, rows)
          else (Redeem_ok r, map_set codeHash (r, Some now) rows))"

section \<open>MemoryAccessTokens\<close>

type_synonym at_rows = "(string, at_rec) jsmap"

definition mem_at_insert :: "at_rec \<Rightarrow> at_rows \<Rightarrow> at_rows" where
  "mem_at_insert r rows = map_set (at_jti r) r rows"

definition mem_at_findByJti :: "string \<Rightarrow> at_rows \<Rightarrow> at_rec option" where
  "mem_at_findByJti j rows = map_get rows j"

definition mem_at_revoke :: "string \<Rightarrow> int \<Rightarrow> at_rows \<Rightarrow> at_rows" where
  "mem_at_revoke j tm rows =
     (case map_get rows j of
        None \<Rightarrow> rows
      | Some row \<Rightarrow>
          if at_revokedAt row = None then map_set j (row\<lparr>at_revokedAt := Some tm\<rparr>) rows else rows)"

definition mem_at_revokeByGrant :: "string \<Rightarrow> int \<Rightarrow> at_rows \<Rightarrow> at_rows" where
  "mem_at_revokeByGrant grantId tm rows =
     map_rows (\<lambda>row. if at_grantId row = grantId \<and> at_revokedAt row = None
                     then row\<lparr>at_revokedAt := Some tm\<rparr> else row) rows"

section \<open>MemoryRefreshTokens\<close>

type_synonym rt_rows = "(string, rt_rec) jsmap"

definition mem_rt_insert :: "rt_rec \<Rightarrow> rt_rows \<Rightarrow> rt_rows" where
  "mem_rt_insert r rows = map_set (rt_tokenHash r) r rows"

definition mem_rt_findByHash :: "string \<Rightarrow> rt_rows \<Rightarrow> rt_rec option" where
  "mem_rt_findByHash h rows = map_get rows h"

definition mem_rt_revoke :: "string \<Rightarrow> int \<Rightarrow> rt_rows \<Rightarrow> rt_rows" where
  "mem_rt_revoke h tm rows =
     (case map_get rows h of
        None \<Rightarrow> rows
      | Some row \<Rightarrow>
          if rt_revokedAt row = None then map_set h (row\<lparr>rt_revokedAt := Some tm\<rparr>) rows else rows)"

definition mem_rt_revokeByGrant :: "string \<Rightarrow> int \<Rightarrow> rt_rows \<Rightarrow> rt_rows" where
  "mem_rt_revokeByGrant grantId tm rows =
     map_rows (\<lambda>row. if rt_grantId row = grantId \<and> rt_revokedAt row = None
                     then row\<lparr>rt_revokedAt := Some tm\<rparr> else row) rows"

section \<open>MemoryJtiReplay\<close>

text \<open>The sweep runs at most once a second and only above 4096 entries; at 8192 entries the
  guard refuses every registration. The state is the map and \<open>lastSweepMs\<close>.\<close>

definition jti_key :: "string \<Rightarrow> string \<Rightarrow> string" where
  "jti_key c j = c @ CHR 0x00 # j"

definition mem_jti_sweep :: "int \<Rightarrow> (string, int) jsmap \<times> int \<Rightarrow> (string, int) jsmap \<times> int" where
  "mem_jti_sweep now = (\<lambda>(rows, lastSweepMs).
     if 4096 \<le> length rows \<and> 1000 \<le> now - lastSweepMs
     then (drop_rows (\<lambda>expiry. expiry \<le> now) rows, now) else (rows, lastSweepMs))"

definition mem_jti_register ::
  "string \<Rightarrow> string \<Rightarrow> int \<Rightarrow> int \<Rightarrow> (string, int) jsmap \<times> int \<Rightarrow> bool \<times> (string, int) jsmap \<times> int" where
  "mem_jti_register c j expiresAt now st =
     (let (rows, lastSweepMs) = mem_jti_sweep now st; key = jti_key c j
      in if 8192 \<le> length rows then (False, rows, lastSweepMs)
         else case map_get rows key of
           Some existing \<Rightarrow>
             if now < existing then (False, rows, lastSweepMs)
             else (True, map_set key expiresAt rows, lastSweepMs)
         | None \<Rightarrow> (True, map_set key expiresAt rows, lastSweepMs))"

definition mem_jti_act :: "string \<Rightarrow> string \<Rightarrow> int \<Rightarrow> int \<Rightarrow> (mem_store, exn, bool) act" where
  "mem_jti_act c j expiresAt now =
     (\<lambda>s. case mem_jti_register c j expiresAt now (m_jti s, m_lastSweepMs s) of
            (fresh, rows, lastSweepMs) \<Rightarrow>
              (Inr fresh, s\<lparr>m_jti := rows, m_lastSweepMs := lastSweepMs\<rparr>))"

section \<open>MemoryInteractions\<close>

type_synonym int_rows = "(string, int_rec \<times> int option) jsmap"

definition mem_int_insert :: "int_rec \<Rightarrow> int_rows \<Rightarrow> int_rows" where
  "mem_int_insert r rows =
     (let swept = (if 1024 \<le> length rows
                   then drop_rows (\<lambda>(q, _). int_expiresAt q \<le> int_createdAt r) rows else rows)
      in map_set (int_id r) (r, None) swept)"

definition mem_int_find :: "string \<Rightarrow> int \<Rightarrow> int_rows \<Rightarrow> int_rec option" where
  "mem_int_find i now rows =
     (case map_get rows i of
        None \<Rightarrow> None
      | Some (r, completedAt) \<Rightarrow>
          if completedAt \<noteq> None \<or> int_expiresAt r \<le> now then None else Some r)"

definition mem_int_setSubject ::
  "string \<Rightarrow> string \<Rightarrow> int \<Rightarrow> json option \<Rightarrow> json option \<Rightarrow> int_rows \<Rightarrow> int_rows" where
  "mem_int_setSubject i subject authTime acr amr rows =
     (case map_get rows i of
        None \<Rightarrow> rows
      | Some (r, completedAt) \<Rightarrow>
          if completedAt = None
          then map_set i (r\<lparr>int_subject := Some subject, int_authTime := Some authTime,
                            int_acr := acr, int_amr := amr\<rparr>, None) rows
          else rows)"

definition mem_int_complete :: "string \<Rightarrow> int \<Rightarrow> int_rows \<Rightarrow> int_rec option \<times> int_rows" where
  "mem_int_complete i now rows =
     (case map_get rows i of
        None \<Rightarrow> (None, rows)
      | Some (r, completedAt) \<Rightarrow>
          if completedAt \<noteq> None \<or> int_expiresAt r \<le> now then (None, rows)
          else (Some r, map_set i (r, Some now) rows))"

section \<open>createMemoryStorage\<close>

definition reading :: "('t \<Rightarrow> 'a) \<Rightarrow> 't \<Rightarrow> 'a \<times> 't" where
  "reading f t = (f t, t)"

definition writing :: "('t \<Rightarrow> 't) \<Rightarrow> 't \<Rightarrow> unit \<times> 't" where
  "writing f t = ((), f t)"

definition memory_keys :: "mem_store signing_key_repo" where
  "memory_keys =
     \<lparr>sk_list = on_table m_keys m_keys_update (reading mem_keys_list),
      sk_insert = mem_keys_insert,
      sk_setStatus = (\<lambda>kid status r. on_table m_keys m_keys_update (writing (mem_keys_setStatus kid status r)))\<rparr>"

definition memory_clients :: "mem_store client_repo" where
  "memory_clients =
     \<lparr>cl_findById = (\<lambda>i. on_table m_clients m_clients_update (reading (mem_clients_findById i))),
      cl_upsert = (\<lambda>r. on_table m_clients m_clients_update (writing (mem_clients_upsert r)))\<rparr>"

definition memory_par :: "mem_store par_repo" where
  "memory_par =
     \<lparr>par_insert = (\<lambda>r. on_table m_par m_par_update (writing (mem_par_insert r))),
      par_peek = (\<lambda>u now. on_table m_par m_par_update (reading (mem_par_peek u now))),
      par_consume = (\<lambda>u now. on_table m_par m_par_update (mem_par_consume u now))\<rparr>"

definition memory_grants :: "mem_store grant_repo" where
  "memory_grants =
     \<lparr>grant_insert = (\<lambda>r. on_table m_grants m_grants_update (writing (mem_grants_insert r))),
      grant_find = (\<lambda>i. on_table m_grants m_grants_update (reading (mem_grants_find i))),
      grant_revoke = (\<lambda>i t. on_table m_grants m_grants_update (writing (mem_grants_revoke i t)))\<rparr>"

definition memory_codes :: "mem_store code_repo" where
  "memory_codes =
     \<lparr>code_insert = (\<lambda>r. on_table m_codes m_codes_update (writing (mem_codes_insert r))),
      code_redeem = (\<lambda>h now. on_table m_codes m_codes_update (mem_codes_redeem h now))\<rparr>"

definition memory_accessTokens :: "mem_store at_repo" where
  "memory_accessTokens =
     \<lparr>at_insert = (\<lambda>r. on_table m_accessTokens m_accessTokens_update (writing (mem_at_insert r))),
      at_findByJti = (\<lambda>j. on_table m_accessTokens m_accessTokens_update (reading (mem_at_findByJti j))),
      at_revoke = (\<lambda>j t. on_table m_accessTokens m_accessTokens_update (writing (mem_at_revoke j t))),
      at_revokeByGrant = (\<lambda>g t. on_table m_accessTokens m_accessTokens_update (writing (mem_at_revokeByGrant g t)))\<rparr>"

definition memory_refreshTokens :: "mem_store rt_repo" where
  "memory_refreshTokens =
     \<lparr>rt_insert = (\<lambda>r. on_table m_refreshTokens m_refreshTokens_update (writing (mem_rt_insert r))),
      rt_findByHash = (\<lambda>h. on_table m_refreshTokens m_refreshTokens_update (reading (mem_rt_findByHash h))),
      rt_revoke = (\<lambda>h t. on_table m_refreshTokens m_refreshTokens_update (writing (mem_rt_revoke h t))),
      rt_revokeByGrant = (\<lambda>g t. on_table m_refreshTokens m_refreshTokens_update (writing (mem_rt_revokeByGrant g t)))\<rparr>"

definition memory_interactions :: "mem_store int_repo" where
  "memory_interactions =
     \<lparr>int_insert = (\<lambda>r. on_table m_interactions m_interactions_update (writing (mem_int_insert r))),
      int_find = (\<lambda>i now. on_table m_interactions m_interactions_update (reading (mem_int_find i now))),
      int_setSubject = (\<lambda>i sub t acr amr.
         on_table m_interactions m_interactions_update (writing (mem_int_setSubject i sub t acr amr))),
      int_complete = (\<lambda>i now. on_table m_interactions m_interactions_update (mem_int_complete i now))\<rparr>"

definition createMemoryStorage :: "mem_store storage" where
  "createMemoryStorage =
     \<lparr>st_keys = memory_keys, st_clients = memory_clients, st_par = memory_par,
      st_grants = memory_grants, st_codes = memory_codes, st_accessTokens = memory_accessTokens,
      st_refreshTokens = memory_refreshTokens, st_jti = \<lparr>jti_register = mem_jti_act\<rparr>,
      st_interactions = memory_interactions, st_ping = returnE True\<rparr>"

definition empty_store :: mem_store where
  "empty_store =
     \<lparr>m_keys = [], m_clients = [], m_par = [], m_grants = [], m_codes = [], m_accessTokens = [],
      m_refreshTokens = [], m_jti = [], m_lastSweepMs = 0, m_interactions = []\<rparr>"

lemmas memory_defs = createMemoryStorage_def memory_keys_def memory_clients_def memory_par_def
  memory_grants_def memory_codes_def memory_accessTokens_def memory_refreshTokens_def
  memory_interactions_def on_table_def reading_def writing_def

section \<open>The adapter meets the contract\<close>

definition mem_view :: "mem_store \<Rightarrow> astore" where
  "mem_view s =
     \<lparr>a_clients = map_of (m_clients s), a_par = map_of (m_par s), a_grants = map_of (m_grants s),
      a_codes = map_of (m_codes s), a_at = map_of (m_accessTokens s),
      a_rt = map_of (m_refreshTokens s), a_int = map_of (m_interactions s),
      a_live = (\<lambda>c j t. case map_of (m_jti s) (jti_key c j) of Some e \<Rightarrow> t < e | None \<Rightarrow> False)\<rparr>"

definition mem_ok :: "mem_store \<Rightarrow> bool" where
  "mem_ok s \<longleftrightarrow> map_ok (m_jti s) \<and> map_ok (m_interactions s)"

lemma obeys_on_table:
  assumes "\<And>s x t. ok s \<Longrightarrow> f (get s) = (x, t) \<Longrightarrow> ok (upd (\<lambda>_. t) s) \<and> R (view s) x (view (upd (\<lambda>_. t) s))"
  shows "obeys ok view (on_table get upd f) R"
  using assms by (fastforce simp: obeys_def on_table_def split: prod.splits)

lemma map_of_rows_upd:
  "map_of (map_rows f m) = (\<lambda>k. map_option f (map_of m k))"
  by (rule ext) simp

lemma mem_upsert_exact: "obeys mem_ok mem_view (cl_upsert (st_clients createMemoryStorage) c) (writes (spec_client_upsert c))"
  by (auto simp: createMemoryStorage_def memory_clients_def writing_def mem_ok_def mem_view_def mem_clients_upsert_def
      spec_client_upsert_def fun_eq_iff intro!: obeys_on_table)

lemma mem_par_exact: "obeys mem_ok mem_view (par_insert (st_par createMemoryStorage) p) (writes (spec_par_insert p))"
  by (auto simp: createMemoryStorage_def memory_par_def writing_def mem_ok_def mem_view_def mem_par_insert_def
      spec_par_insert_def fun_eq_iff intro!: obeys_on_table)

interpretation mem: client_port createMemoryStorage mem_view mem_ok
proof (unfold_locales, goal_cases)
  case (2 c)
  show ?case by (rule obeys_kept [OF mem_upsert_exact]) simp
qed (auto simp: createMemoryStorage_def memory_clients_def reading_def mem_ok_def mem_view_def mem_clients_findById_def
      intro!: obeys_on_table)

interpretation mem: grant_port createMemoryStorage mem_view mem_ok
  by unfold_locales
    (auto simp: createMemoryStorage_def memory_grants_def reading_def writing_def mem_ok_def
       mem_view_def mem_grants_insert_def mem_grants_find_def mem_grants_revoke_def spec_grant_insert_def
       spec_grant_revoke_def grant_mark_def fun_eq_iff split: option.splits
       intro!: obeys_on_table)

interpretation mem: exact_par_port createMemoryStorage mem_view mem_ok
proof (unfold_locales, goal_cases)
  case (1 p)
  show ?case by (rule obeys_kept [OF mem_par_exact]) simp
next
  case (4 p)
  show ?case by (rule mem_par_exact)
qed (auto simp: createMemoryStorage_def memory_par_def reading_def mem_ok_def
       mem_view_def mem_par_peek_def mem_par_consume_def spec_par_peek_def spec_par_consume_def usable_def fun_eq_iff
       split: option.splits if_splits intro!: obeys_on_table)

interpretation mem: code_port createMemoryStorage mem_view mem_ok
  by unfold_locales
    (auto simp: createMemoryStorage_def memory_codes_def reading_def writing_def mem_ok_def
       mem_view_def mem_codes_insert_def mem_codes_redeem_def spec_code_insert_def
       spec_code_redemption_def spec_code_redeem_def fun_eq_iff
       split: option.splits if_splits intro!: obeys_on_table)

interpretation mem: token_port createMemoryStorage mem_view mem_ok
  by unfold_locales
    (auto simp: createMemoryStorage_def memory_accessTokens_def memory_refreshTokens_def
       reading_def writing_def mem_ok_def mem_view_def mem_at_insert_def mem_at_findByJti_def
       mem_at_revoke_def mem_at_revokeByGrant_def mem_rt_insert_def mem_rt_findByHash_def
       mem_rt_revoke_def mem_rt_revokeByGrant_def spec_at_insert_def spec_at_revoke_def
       spec_at_revokeByGrant_def spec_rt_insert_def spec_rt_revoke_def spec_rt_revokeByGrant_def
       at_mark_def rt_mark_def map_of_rows_upd fun_eq_iff
       intro!: obeys_on_table ext option.map_cong split: option.splits)

lemma mem_int_insert_spec:
  assumes "map_ok (m_interactions s)"
  shows "spec_int_insert r (mem_view s)
           (mem_view (s\<lparr>m_interactions := mem_int_insert r (m_interactions s)\<rparr>))"
proof -
  let ?rows = "m_interactions s"
  let ?m = "map_of (mem_int_insert r ?rows)"
  have "?m i = map_of ?rows i \<or> ?m i = None \<and>
      (case map_of ?rows i of Some (q, _) \<Rightarrow> int_expiresAt q \<le> int_createdAt r | None \<Rightarrow> False)"
    if i: "i \<noteq> int_id r" for i
  proof (cases "?m i")
    case None
    with i show ?thesis
      using drop_rows_get_Some [OF assms, of "\<lambda>(q, _). int_expiresAt q \<le> int_createdAt r" i]
      by (cases "map_of ?rows i") (auto simp: mem_int_insert_def Let_def split: if_splits)
  next
    case (Some v)
    with i show ?thesis
      by (auto simp: mem_int_insert_def Let_def drop_rows_get_Some [OF assms] split: if_splits)
  qed
  then show ?thesis
    by (auto simp: spec_int_insert_def mem_view_def mem_int_insert_def Let_def
        intro!: exI [where x = ?m])
qed

lemma mem_int_ok: "map_ok rows \<Longrightarrow> map_ok (mem_int_insert r rows)"
  by (simp add: mem_int_insert_def Let_def)

lemma mem_int_insert_obeys:
  "obeys mem_ok mem_view (int_insert (st_interactions createMemoryStorage) r) (\<lambda>a x a'. spec_int_insert r a a')"
  by (auto simp: createMemoryStorage_def memory_interactions_def writing_def mem_ok_def
      mem_int_ok mem_int_insert_spec intro!: obeys_on_table)

interpretation mem: int_port createMemoryStorage mem_view mem_ok
proof (unfold_locales, goal_cases)
  case (1 n)
  have "spec_int_sweep t a a" for t a by (auto simp: spec_int_sweep_def intro!: exI [where x = "a_int a"])
  then show ?case by (rule obeys_or_obeys [OF mem_int_insert_obeys])
qed (auto simp: createMemoryStorage_def memory_interactions_def reading_def writing_def mem_ok_def
       mem_view_def mem_int_find_def mem_int_setSubject_def mem_int_complete_def
       spec_int_find_def spec_int_setSubject_def spec_int_complete_def set_subject_def usable_def
       fun_eq_iff split: option.splits if_splits intro!: obeys_on_table)

text \<open>
  The replay guard: the sweep only forgets entries that have expired, and an entry that is
  registered or kept stays until it expires.
\<close>

definition jti_live :: "(string, int) jsmap \<Rightarrow> string \<Rightarrow> int \<Rightarrow> bool" where
  "jti_live rows k t \<longleftrightarrow> (case map_of rows k of Some e \<Rightarrow> t < e | None \<Rightarrow> False)"

lemma jti_live_iff: "jti_live rows k t \<longleftrightarrow> (\<exists>e. map_of rows k = Some e \<and> t < e)"
  by (auto simp: jti_live_def split: option.splits)

lemma mem_jti_sweep_live:
  assumes "map_ok rows" and "mem_jti_sweep now (rows, l) = (rows', l')"
  shows "map_ok rows'" and "now \<le> t \<Longrightarrow> jti_live rows' k t = jti_live rows k t"
  using assms by (auto simp: mem_jti_sweep_def jti_live_iff drop_rows_get_Some split: if_splits)

lemma mem_jti_register_live:
  assumes ok: "map_ok rows" and reg: "mem_jti_register c j e now (rows, l) = (fresh, rows', l')"
  shows "map_ok rows'"
    and "now \<le> t \<Longrightarrow> jti_live rows k t \<Longrightarrow> jti_live rows' k t"
    and "fresh \<Longrightarrow> \<not> jti_live rows (jti_key c j) now"
    and "fresh \<Longrightarrow> t < e \<Longrightarrow> jti_live rows' (jti_key c j) t"
proof -
  obtain q m where sw: "mem_jti_sweep now (rows, l) = (q, m)" by fastforce
  note sweep = mem_jti_sweep_live [OF ok sw]
  show "map_ok rows'"
    using reg sw sweep(1) by (auto simp: mem_jti_register_def Let_def split: if_splits option.splits)
  show "jti_live rows' k t" if "now \<le> t" "jti_live rows k t"
  proof -
    have "jti_live q k t" using sweep(2) that by blast
    with reg sw that(1) show ?thesis
      by (auto simp: mem_jti_register_def Let_def jti_live_iff split: if_splits option.splits)
  qed
  show "\<not> jti_live rows (jti_key c j) now" if fresh
    using reg sw that sweep(2) [of now "jti_key c j"]
    by (auto simp: mem_jti_register_def Let_def jti_live_iff split: if_splits option.splits)
  show "jti_live rows' (jti_key c j) t" if fresh "t < e"
    using reg sw that by (auto simp: mem_jti_register_def Let_def jti_live_iff split: if_splits option.splits)
qed

lemma mem_jti_register_bounded:
  assumes "map_ok rows" and "length rows \<le> 8192"
    and reg: "mem_jti_register c j e now (rows, l) = (fresh, rows', l')"
  shows "length rows' \<le> 8192 \<and> map_ok rows' \<and>
    (\<forall>k t. map_of rows k = Some t \<longrightarrow> now < t \<longrightarrow> map_of rows' k = Some t)"
proof -
  obtain q m where sw: "mem_jti_sweep now (rows, l) = (q, m)" by fastforce
  then have q: "length q \<le> 8192" "map_ok q" "\<And>k t. map_of rows k = Some t \<Longrightarrow> now < t \<Longrightarrow> map_of q k = Some t"
    using assms(1,2) length_drop_rows [of "\<lambda>expiry. expiry \<le> now" rows]
    by (auto simp: mem_jti_sweep_def drop_rows_get_Some split: if_splits)
  with reg sw show ?thesis
    by (auto simp: mem_jti_register_def Let_def length_map_set not_le split: if_splits option.splits)
qed

lemma mem_jti_obeys:
  "obeys mem_ok mem_view (mem_jti_act c j e now) (spec_jti_register c j e now)"
proof -
  have "mem_ok s' \<and> (case r of Inl x \<Rightarrow> mem_view s' = mem_view s
      | Inr x \<Rightarrow> spec_jti_register c j e now (mem_view s) x (mem_view s'))"
    if ok: "mem_ok s" and act: "mem_jti_act c j e now s = (r, s')" for s r s'
  proof -
    obtain fresh rows l where reg: "mem_jti_register c j e now (m_jti s, m_lastSweepMs s) = (fresh, rows, l)"
      using prod_cases3 by blast
    with act have r: "r = Inr fresh" and s': "s' = s\<lparr>m_jti := rows, m_lastSweepMs := l\<rparr>"
      by (auto simp: mem_jti_act_def)
    have mok: "map_ok (m_jti s)" using ok by (simp add: mem_ok_def)
    note live = mem_jti_register_live [OF mok reg]
    have "mem_ok s'" using ok live(1) by (simp add: s' mem_ok_def)
    moreover have "mem_view s' = (mem_view s)\<lparr>a_live := (\<lambda>c j t. jti_live rows (jti_key c j) t)\<rparr>"
      by (simp add: mem_view_def s' jti_live_def)
    moreover have "a_live (mem_view s) = (\<lambda>c j t. jti_live (m_jti s) (jti_key c j) t)"
      by (simp add: mem_view_def jti_live_def)
    ultimately show ?thesis using live(2-4) by (auto simp: r spec_jti_register_def)
  qed
  then show ?thesis unfolding obeys_def by (fastforce split: sum.splits)
qed

interpretation mem: storage_contract createMemoryStorage mem_view mem_ok
proof (unfold_locales, goal_cases)
  case (1 c j e t)
  have "spec_jti_register c j e t a False a" for a by (auto simp: spec_jti_register_def intro!: exI [where x = "a_live a"])
  then show ?case by (simp add: createMemoryStorage_def obeys_or_obeys [OF mem_jti_obeys])
qed

lemma mem_ok_empty [simp]: "mem_ok empty_store"
  by (simp add: mem_ok_def empty_store_def)

lemma answers_on_table: "answers (on_table get upd f)"
  by (simp add: answers_def on_table_def split: prod.split)

interpretation mem: reliable_storage createMemoryStorage mem_view mem_ok
  by unfold_locales
    (simp_all add: createMemoryStorage_def memory_grants_def memory_codes_def memory_accessTokens_def
      memory_refreshTokens_def answers_on_table)

end
