(* ===== verification/KeyPort.thy ===== *)
theory KeyPort
  imports StoragePort
begin

text \<open>
  The interface of the signing keystore as the token components use it: \<open>ensure\<close>,
  \<open>publicJwks\<close> and \<open>signJwt\<close> of the class \<open>KeyStore\<close> (\<open>src/crypto/keys.ts\<close>, modelled in
  the theory KeyStore). None of them touches the tables of the protocol; that is the contract
  \<open>key_port\<close>.
\<close>

text \<open>What the generation of a key draws from outside: the new key pair (as a handle and as
  the exported JWK), the initialisation vector of its encryption and the clock readings.\<close>

record key_env =
  ke_privateKey :: string
  ke_privateJwk :: jobj
  ke_iv :: string
  ke_t_stale :: "string \<Rightarrow> int"
  ke_t_previous :: int
  ke_t_created :: int

record 's keystore =
  ks_ensure :: "key_env \<Rightarrow> ('s, exn, unit) act"
  ks_publicJwks :: "int \<Rightarrow> ('s, exn, jobj list) act"
  ks_signJwt :: "jobj \<Rightarrow> string option \<Rightarrow> ('s, exn, string) act"

text \<open>The repository of the keys leaves the tables of the protocol alone.\<close>

locale key_rows =
  fixes repo :: "'s signing_key_repo" and view :: "'s \<Rightarrow> astore" and ok :: "'s \<Rightarrow> bool"
  assumes sk_list: "quiet ok view (sk_list repo)"
    and sk_insert: "quiet ok view (sk_insert repo k)"
    and sk_setStatus: "quiet ok view (sk_setStatus repo kid status t)"

locale key_port =
  fixes ks :: "'s keystore" and view :: "'s \<Rightarrow> astore" and ok :: "'s \<Rightarrow> bool"
  assumes ks_ensure: "quiet ok view (ks_ensure ks env)"
    and ks_publicJwks: "quiet ok view (ks_publicJwks ks now)"
    and ks_signJwt: "quiet ok view (ks_signJwt ks claims typ)"

end
