(* ===== verification/Externals.thy ===== *)
theory Externals
  imports Errors
begin

text \<open>
  What the server calls and this repository does not define: the SHA-256 and HMAC primitives, the
  URL and JSON parsers, and the JOSE library. They are the fields of a record \<open>ext\<close> which the
  definitions that use them take as an argument, so every theorem holds for whatever these
  functions do, unless it names an assumption about them.
\<close>

text \<open>The members of a parsed \<open>URL\<close> the code reads.\<close>

record url =
  u_protocol :: string
  u_hostname :: string
  u_host :: string
  u_port :: string
  u_pathname :: string
  u_hash :: string
  u_origin :: string
  u_password :: string

text \<open>
  The outcome of \<open>jwtVerify\<close>: the verified payload, or an error with the \<open>code\<close>
  property it has (errors of the library have one, network errors do not).
\<close>

datatype jose_outcome = Jose_ok jobj | Jose_error "string option"

text \<open>Where a client's keys come from: an inline key set or a URL to fetch.\<close>

datatype key_source = Local_jwks "jobj list" | Remote_jwks string

record ext =
  x_sha256 :: "string \<Rightarrow> string"
  x_hmac :: "string \<Rightarrow> string \<Rightarrow> string"
  x_url :: "string \<Rightarrow> url option"
  x_url_set :: "string \<Rightarrow> string \<Rightarrow> string \<Rightarrow> string"
  x_form_pairs :: "string \<Rightarrow> (string \<times> string) list"
  x_json_parse :: "string \<Rightarrow> json option"
  x_json_stringify :: "json \<Rightarrow> string"
  x_show :: "json \<Rightarrow> string"
  x_decode_header :: "string \<Rightarrow> jobj option"
  x_jwt_verify :: "key_source \<Rightarrow> string list \<Rightarrow> string \<Rightarrow> jose_outcome"
  x_verify_embedded :: "string list \<Rightarrow> string \<Rightarrow> jobj option"
  x_thumbprint :: "json \<Rightarrow> string option"
  x_verify_issued :: "jobj list \<Rightarrow> string \<Rightarrow> string \<Rightarrow> string \<Rightarrow> jobj option"
  x_sign_jwt :: "string \<Rightarrow> jobj \<Rightarrow> jobj \<Rightarrow> string"
  x_import_jwk :: "jobj \<Rightarrow> string option"
  x_gcm_seal :: "string \<Rightarrow> string \<Rightarrow> string \<Rightarrow> string \<Rightarrow> string \<times> string"
  x_gcm_open :: "string \<Rightarrow> string \<Rightarrow> string \<Rightarrow> string \<Rightarrow> string \<Rightarrow> string option"

text \<open>
  \<open>x_json_parse\<close> takes the UTF-8 bytes of the text and \<open>x_json_stringify\<close> gives them;
  \<open>x_show\<close> is the text of a value in a template literal. \<open>x_url_set u k v\<close> is the URL \<open>u\<close>
  after \<open>searchParams.set(k, v)\<close>, and \<open>x_form_pairs\<close> what iterating over
  \<open>new URLSearchParams(raw)\<close> gives. \<open>x_import_jwk\<close> imports a private key, \<open>x_sign_jwt\<close> signs
  with an imported key, and \<open>x_gcm_seal\<close> and \<open>x_gcm_open\<close> are AES-256-GCM on a key, an
  initialisation vector and associated data (the last two arguments of \<open>x_gcm_open\<close> are the
  ciphertext and the tag).
\<close>

text \<open>\<open>sha256Base64Url\<close> (\<open>src/crypto/hash.ts\<close>): the digest of the UTF-8 bytes, encoded.\<close>

definition sha256Base64Url :: "ext \<Rightarrow> string \<Rightarrow> string" where
  "sha256Base64Url x value = base64url (x_sha256 x (utf8 value))"

lemma sha256Base64Url_eq:
  "sha256Base64Url x v = sha256Base64Url x w \<longleftrightarrow> x_sha256 x (utf8 v) = x_sha256 x (utf8 w)"
  by (simp add: sha256Base64Url_def)

section \<open>FAPI2 signature algorithms\<close>

text \<open>\<open>FAPI2_JWS_ALGS\<close> and \<open>acceptedJwsAlgs\<close> (\<open>src/crypto/jws.ts\<close>).\<close>

definition FAPI2_JWS_ALGS :: "string list" where
  "FAPI2_JWS_ALGS = [''ES256'', ''PS256'', ''EdDSA'']"

definition acceptedJwsAlgs :: "string list option \<Rightarrow> string list" where
  "acceptedJwsAlgs requested =
     (let narrowed = filter (\<lambda>a. a \<in> set FAPI2_JWS_ALGS)
                       (case requested of None \<Rightarrow> FAPI2_JWS_ALGS | Some r \<Rightarrow> r)
      in if length narrowed > 0 then narrowed else FAPI2_JWS_ALGS)"

lemma acceptedJwsAlgs_ceiling: "set (acceptedJwsAlgs r) \<subseteq> {''ES256'', ''PS256'', ''EdDSA''}"
  by (auto simp: acceptedJwsAlgs_def FAPI2_JWS_ALGS_def Let_def)

lemma acceptedJwsAlgs_not_Nil: "acceptedJwsAlgs r \<noteq> []"
  by (auto simp: acceptedJwsAlgs_def FAPI2_JWS_ALGS_def Let_def)

section \<open>verifyJws\<close>

text \<open>
  \<open>isJwksUnavailable\<close> tells a key set that could not be fetched from a bad token, by the
  error's \<open>code\<close>.
\<close>

definition isJwksUnavailable :: "string option \<Rightarrow> bool" where
  "isJwksUnavailable code \<longleftrightarrow>
     code = Some ''ERR_JWKS_TIMEOUT'' \<or>
     (case code of None \<Rightarrow> True | Some c \<Rightarrow> \<not> starts_with ''ERR_JW'' c)"

definition clientKeyResolver :: "jobj list option \<Rightarrow> string option \<Rightarrow> exn + key_source" where
  "clientKeyResolver jwks jwksUri =
     (case jwks of Some ks \<Rightarrow> Inr (Local_jwks ks)
      | None \<Rightarrow> if truthy jwksUri then Inr (Remote_jwks (the jwksUri)) else Inl JwsVerificationExn)"

definition verifyJws :: "ext \<Rightarrow> string \<Rightarrow> key_source \<Rightarrow> string list option \<Rightarrow> exn + jobj" where
  "verifyJws x token keys algs =
     (let allowed = acceptedJwsAlgs algs
      in case x_decode_header x token of
           None \<Rightarrow> Inl JwsVerificationExn
         | Some header \<Rightarrow>
             (case jget header ''alg'' of
                Some (JStr alg) \<Rightarrow>
                  if alg = [] \<or> alg \<notin> set allowed then Inl JwsVerificationExn
                  else (case x_jwt_verify x keys allowed token of
                          Jose_ok payload \<Rightarrow> Inr payload
                        | Jose_error code \<Rightarrow>
                            if isJwksUnavailable code then Inl JwksUnavailableExn
                            else Inl JwsVerificationExn)
              | _ \<Rightarrow> Inl JwsVerificationExn))"

lemma verifyJws_Inr:
  "verifyJws x token keys algs = Inr payload \<Longrightarrow>
     (\<exists>header alg. x_decode_header x token = Some header \<and> jget header ''alg'' = Some (JStr alg) \<and>
        alg \<in> set (acceptedJwsAlgs algs)) \<and>
     x_jwt_verify x keys (acceptedJwsAlgs algs) token = Jose_ok payload"
  by (auto simp: verifyJws_def Let_def split: option.splits json.splits jose_outcome.splits if_splits)

lemma verifyJws_Inl:
  "verifyJws x token keys algs = Inl e \<Longrightarrow> e = JwsVerificationExn \<or> e = JwksUnavailableExn"
  unfolding verifyJws_def Let_def
  by (cases "x_decode_header x token"; cases "jget (the (x_decode_header x token)) ''alg''")
    (auto split: json.splits jose_outcome.splits if_splits)

lemma clientKeyResolver_Inl: "clientKeyResolver ks uri = Inl e \<Longrightarrow> e = JwsVerificationExn"
  by (auto simp: clientKeyResolver_def split: option.splits if_splits)

end
