(* ===== verification/JsNumber.thy ===== *)
theory JsNumber
  imports JsText "HOL-Library.Log_Nat"
begin

text \<open>
  \<open>Number(s)\<close> on a string, for the settings of the configuration and \<open>max_age\<close>: white space around it is
  ignored, the empty string is 0, the prefixes \<open>0x\<close>, \<open>0o\<close> and \<open>0b\<close> give the radix of an integer, otherwise it
  is a decimal literal with an optional sign, fraction and exponent, or \<open>Infinity\<close>; the value is rounded to the
  nearest double, and anything else is not a number. The sign of zero is not distinguished.
\<close>

datatype js_num = Num rat | Infinite bool | NaN

text \<open>\<open>m < r\<close> for a number and a finite one; \<open>Infinite True\<close> is the negative infinity.\<close>

definition num_less :: "js_num \<Rightarrow> rat \<Rightarrow> bool" where
  "num_less m r \<longleftrightarrow> (case m of Num v \<Rightarrow> v < r | Infinite negative \<Rightarrow> negative | NaN \<Rightarrow> False)"

section \<open>Rounding to a double\<close>

definition round_even :: "rat \<Rightarrow> int" where
  "round_even r =
     (let f = floor r; d = r - of_int f
      in if d < 1 / 2 then f else if 1 / 2 < d then f + 1 else if even f then f else f + 1)"

definition pow2 :: "int \<Rightarrow> rat" where
  "pow2 k = (if 0 \<le> k then 2 ^ nat k else 1 / 2 ^ nat (- k))"

text \<open>The exponent of the leading bit of a positive number, from the lengths of its numerator and denominator.\<close>

definition leading_bit :: "rat \<Rightarrow> int" where
  "leading_bit r =
     (case quotient_of r of (a, b) \<Rightarrow>
        let k = bitlen a - bitlen b in if pow2 k \<le> r then k else k - 1)"

text \<open>53 bits of mantissa, or fewer where the exponent would fall below -1074.\<close>

definition to_double :: "bool \<Rightarrow> rat \<Rightarrow> js_num" where
  "to_double neg r =
     (if r = 0 then Num 0
      else let u = pow2 (max (leading_bit r - 52) (- 1074)); v = of_int (round_even (r / u)) * u
           in if pow2 1024 \<le> v then Infinite neg else Num (if neg then - v else v))"

section \<open>The literals\<close>

definition digit_val :: "char \<Rightarrow> int option" where
  "digit_val c =
     (let n = code_of c :: int
      in if 48 \<le> n \<and> n \<le> 57 then Some (n - 48) else if 97 \<le> n \<and> n \<le> 122 then Some (n - 87)
         else if 65 \<le> n \<and> n \<le> 90 then Some (n - 55) else None)"

text \<open>A digit string in a radix; the accumulator is the value of the digits read so far.\<close>

fun digits :: "int \<Rightarrow> int \<Rightarrow> string \<Rightarrow> int option" where
  "digits base acc [] = Some acc"
| "digits base acc (c # cs) =
     (case digit_val c of None \<Rightarrow> None | Some d \<Rightarrow> if d < base then digits base (acc * base + d) cs else None)"

definition radix_literal :: "int \<Rightarrow> string \<Rightarrow> js_num" where
  "radix_literal base s =
     (if s = [] then NaN else case digits base 0 s of None \<Rightarrow> NaN | Some n \<Rightarrow> to_double False (of_int n))"

text \<open>A string up to the first character of a kind, and what follows that character if there is one.\<close>

definition cut_at :: "(char \<Rightarrow> bool) \<Rightarrow> string \<Rightarrow> string \<times> string option" where
  "cut_at p s =
     (case dropWhile (\<lambda>c. \<not> p c) s of [] \<Rightarrow> (s, None) | _ # rest \<Rightarrow> (takeWhile (\<lambda>c. \<not> p c) s, Some rest))"

definition exponent :: "string option \<Rightarrow> int option" where
  "exponent e =
     (case e of
        None \<Rightarrow> Some 0
      | Some [] \<Rightarrow> None
      | Some (c # cs) \<Rightarrow>
          if c = CHR ''+'' \<and> cs \<noteq> [] then digits 10 0 cs
          else if c = CHR ''-'' \<and> cs \<noteq> [] then map_option uminus (digits 10 0 cs)
          else digits 10 0 (c # cs))"

definition pow10 :: "int \<Rightarrow> rat" where
  "pow10 k = (if 0 \<le> k then 10 ^ nat k else 1 / 10 ^ nat (- k))"

definition unsigned_decimal :: "bool \<Rightarrow> string \<Rightarrow> js_num" where
  "unsigned_decimal neg s =
     (if s = ''Infinity'' then Infinite neg
      else case cut_at (\<lambda>c. c = CHR ''e'' \<or> c = CHR ''E'') s of (mantissa, e) \<Rightarrow>
           case cut_at (\<lambda>c. c = CHR ''.'') mantissa of (whole, fraction) \<Rightarrow>
             let frac = (case fraction of Some f \<Rightarrow> f | None \<Rightarrow> [])
             in if whole = [] \<and> frac = [] then NaN
                else case (digits 10 0 (whole @ frac), exponent e) of
                       (Some n, Some k) \<Rightarrow> to_double neg (of_int n * pow10 (k - int (length frac)))
                     | _ \<Rightarrow> NaN)"

definition js_Number :: "string \<Rightarrow> js_num" where
  "js_Number s =
     (case trim s of
        [] \<Rightarrow> Num 0
      | c # cs \<Rightarrow>
          if c = CHR ''0'' \<and> cs \<noteq> [] \<and> hd cs \<in> set ''xX'' then radix_literal 16 (tl cs)
          else if c = CHR ''0'' \<and> cs \<noteq> [] \<and> hd cs \<in> set ''oO'' then radix_literal 8 (tl cs)
          else if c = CHR ''0'' \<and> cs \<noteq> [] \<and> hd cs \<in> set ''bB'' then radix_literal 2 (tl cs)
          else if c = CHR ''+'' then unsigned_decimal False cs
          else if c = CHR ''-'' then unsigned_decimal True cs
          else unsigned_decimal False (c # cs))"

section \<open>Integers are read as they are written\<close>

lemma round_even_of_int [simp]: "round_even (of_int k) = k"
  by (simp add: round_even_def)

lemma to_double_int:
  assumes "0 \<le> n" and "n < 2 ^ 53"
  shows "to_double neg (of_int n) = Num (if neg then - of_int n else of_int n)"
proof (cases "n = 0")
  case False
  with assms(1) have "0 < n" by simp
  then have low: "2 ^ nat (bitlen n - 1) \<le> n" and b: "1 \<le> bitlen n"
    using bitlen_bounds [of n] bitlen_ge_iff_power [of 1 n] by auto
  have "bitlen n \<le> 53" using assms by (simp add: bitlen_le_iff_power)
  have "(2::rat) ^ nat (bitlen n - 1) \<le> of_int n" using low by (metis of_int_le_iff of_int_numeral of_int_power)
  with b have lead: "leading_bit (of_int n) = bitlen n - 1"
    using bitlen_pow2 [of 1 0] by (simp add: leading_bit_def pow2_def Let_def bitlen_alt_def)
  let ?e = "max (bitlen n - 1 - 52) (- 1074)"
  have e: "?e \<le> 0" using \<open>bitlen n \<le> 53\<close> by simp
  then have u: "of_int n / pow2 ?e = of_int (n * 2 ^ nat (- ?e))" "0 < pow2 ?e"
    by (auto simp: pow2_def field_simps)
  have "of_int (round_even (of_int n / pow2 ?e)) * pow2 ?e = (of_int n :: rat)"
  proof -
    have "of_int (round_even (of_int n / pow2 ?e)) = of_int n / pow2 ?e" by (simp only: u(1) round_even_of_int)
    with u(2) show ?thesis by simp
  qed
  moreover have "\<not> pow2 1024 \<le> (of_int n :: rat)"
  proof -
    have "(of_int n :: rat) < of_int (2 ^ 53)" using assms(2) by (rule of_int_less_iff [THEN iffD2])
    then show ?thesis by (simp add: pow2_def)
  qed
  ultimately show ?thesis using False by (simp add: to_double_def lead Let_def)
qed (simp add: to_double_def)

end
