(* ===== verification/Config.thy ===== *)
theory Config
  imports Externals JsNumber
begin

text \<open>
  The runtime configuration (\<open>src/config.ts\<close>): the \<open>AppConfig\<close> type every component
  reads, the bounds the schema puts on its protocol lifetimes, and the endpoint paths and URLs
  derived from the issuer.
\<close>

record metadata_config =
  md_scopesSupported :: "string list"
  md_claimsSupported :: "string list"
  md_subjectTypesSupported :: "string list"
  md_idTokenSigningAlgs :: "string list"
  md_clientAuthMethods :: "string list"
  md_clientAuthSigningAlgs :: "string list"
  md_dpopSigningAlgs :: "string list"
  md_codeChallengeMethods :: "string list"

datatype trust_proxy = Trust_bool bool | Trust_hops js_num | Trust_list string

record app_config =
  cfg_port :: int
  cfg_issuer :: string
  cfg_logLevel :: string
  cfg_databaseUrl :: string
  cfg_databaseSsl :: bool
  cfg_storage :: string
  cfg_pdp_kind :: string
  cfg_pdp_authzenUrl :: string
  cfg_pdp_authzenToken :: string
  cfg_redisUrl :: string
  cfg_devInteractionSub :: string
  cfg_devLoginUsers :: "string list"
  cfg_sessionSecret :: string
  cfg_interactionTtlSec :: int
  cfg_sessionTtlSec :: int
  cfg_authCodeTtlSec :: int
  cfg_parTtlSec :: int
  cfg_accessTokenTtlSec :: int
  cfg_refreshTokenTtlSec :: int
  cfg_idTokenTtlSec :: int
  cfg_clientAssertionMaxLifetimeSec :: int
  cfg_clockSkewFutureAcceptSec :: int
  cfg_dpopProofMaxAgeSec :: int
  cfg_dpopNonceRequired :: bool
  cfg_dpopNonceSecret :: string
  cfg_accessTokenAudience :: string
  cfg_rateLimitPerMin :: int
  cfg_trustProxy :: trust_proxy
  cfg_tls :: "(string \<times> string) option"
  cfg_keystoreKek :: "string option"
  cfg_metadata :: metadata_config
  cfg_devModeWarnings :: "string list"

section \<open>Endpoint paths and URLs\<close>

record endpoint_paths =
  p_authorization :: string
  p_token :: string
  p_par :: string
  p_jwks :: string
  p_revocation :: string
  p_introspection :: string
  p_userinfo :: string
  p_interaction :: string
  p_interactionLogin :: string
  p_interactionConsent :: string

text \<open>\<open>s.replace(/\/$/, "")\<close>: one trailing slash is dropped.\<close>

definition drop_trailing_slash :: "string \<Rightarrow> string" where
  "drop_trailing_slash s = (if s \<noteq> [] \<and> last s = CHR ''/'' then butlast s else s)"

text \<open>\<open>new URL\<close> throws on an issuer that is not a URL; a loaded configuration has been through
  that parser, so the paths are optional only formally.\<close>

definition endpointPaths :: "ext \<Rightarrow> app_config \<Rightarrow> endpoint_paths option" where
  "endpointPaths x config =
     (case x_url x (cfg_issuer config) of
        None \<Rightarrow> None
      | Some u \<Rightarrow>
          let prefix = drop_trailing_slash (u_pathname u)
          in Some \<lparr>p_authorization = prefix @ ''/authorize'', p_token = prefix @ ''/token'',
               p_par = prefix @ ''/par'', p_jwks = prefix @ ''/jwks'',
               p_revocation = prefix @ ''/revoke'', p_introspection = prefix @ ''/introspect'',
               p_userinfo = prefix @ ''/userinfo'', p_interaction = prefix @ ''/interaction'',
               p_interactionLogin = prefix @ ''/interaction/login'',
               p_interactionConsent = prefix @ ''/interaction/consent''\<rparr>)"

record endpoint_urls =
  e_authorization :: string
  e_token :: string
  e_par :: string
  e_jwks :: string
  e_revocation :: string
  e_introspection :: string
  e_userinfo :: string

definition endpointUrls :: "ext \<Rightarrow> app_config \<Rightarrow> endpoint_urls option" where
  "endpointUrls x config =
     (case x_url x (cfg_issuer config) of
        None \<Rightarrow> None
      | Some u \<Rightarrow> map_option (\<lambda>p.
          \<lparr>e_authorization = u_origin u @ p_authorization p, e_token = u_origin u @ p_token p,
           e_par = u_origin u @ p_par p, e_jwks = u_origin u @ p_jwks p,
           e_revocation = u_origin u @ p_revocation p,
           e_introspection = u_origin u @ p_introspection p,
           e_userinfo = u_origin u @ p_userinfo p\<rparr>) (endpointPaths x config))"

section \<open>The bounds of the schema\<close>

text \<open>
  What \<open>z.number().int().positive().max(...)\<close> and \<open>.min(0).max(60)\<close> leave of the
  protocol lifetimes of a loaded configuration.
\<close>

definition config_bounds :: "app_config \<Rightarrow> bool" where
  "config_bounds c \<longleftrightarrow>
     0 < cfg_interactionTtlSec c \<and> cfg_interactionTtlSec c \<le> 3600 \<and> 0 < cfg_sessionTtlSec c \<and>
     0 < cfg_authCodeTtlSec c \<and> cfg_authCodeTtlSec c \<le> 60 \<and>
     0 < cfg_parTtlSec c \<and> cfg_parTtlSec c \<le> 599 \<and>
     0 < cfg_accessTokenTtlSec c \<and> cfg_accessTokenTtlSec c \<le> 86400 \<and>
     0 < cfg_refreshTokenTtlSec c \<and>
     0 < cfg_idTokenTtlSec c \<and> cfg_idTokenTtlSec c \<le> 86400 \<and>
     0 < cfg_clientAssertionMaxLifetimeSec c \<and>
     0 \<le> cfg_clockSkewFutureAcceptSec c \<and> cfg_clockSkewFutureAcceptSec c \<le> 60 \<and>
     0 < cfg_dpopProofMaxAgeSec c \<and> 0 \<le> cfg_rateLimitPerMin c"

end
