(* ===== verification/KeyStore.thy ===== *)
theory KeyStore
  imports KeyPort Config "HOL-Library.Multiset"
begin

text \<open>
  The ES256 signing keystore (\<open>src/crypto/keys.ts\<close>): lazy loading with self-healing, rotation,
  recovery from a lost first-boot race, envelope encryption of the private keys, and the
  published key set. The state is the keys in memory, which of them signs, and whether the
  initialisation has completed; it runs over the state of the key repository. After
  \<open>ensure\<close> the signing key is among the published ones, and what is published never contains a
  private member.
\<close>

section \<open>Keys\<close>

record loaded_key =
  lk_record :: signing_key
  lk_privateKey :: string

record keystore_state =
  kx_keys :: "(string, loaded_key) jsmap"
  kx_active :: "string option"
  kx_ready :: bool

definition fresh_keystore :: keystore_state where
  "fresh_keystore = \<lparr>kx_keys = [], kx_active = None, kx_ready = False\<rparr>"

definition RETIRED_KEY_RETENTION_MS :: int where
  "RETIRED_KEY_RETENTION_MS = 24 * 3600 * 1000"

text \<open>A member that is \<open>undefined\<close> is as good as absent.\<close>

definition public_members :: "string list" where
  "public_members = [''kty'', ''crv'', ''x'', ''y'', ''kid'', ''alg'', ''use'']"

definition toPublicJwk :: "jobj \<Rightarrow> jobj" where
  "toPublicJwk jwk =
     List.map_filter (\<lambda>n. case jget jwk n of None \<Rightarrow> None | Some v \<Rightarrow> Some (n, v)) public_members"

section \<open>Encryption at rest\<close>

text \<open>Standard base64, with padding; decoding is the lenient one.\<close>

definition base64 :: "string \<Rightarrow> string" where
  "base64 s =
     (let t = map (\<lambda>c. if c = CHR ''-'' then CHR ''+'' else if c = CHR ''_'' then CHR ''/'' else c) (base64url s)
      in t @ replicate ((4 - length t mod 4) mod 4) (CHR ''=''))"

definition isEncrypted :: "jobj \<Rightarrow> bool" where
  "isEncrypted v \<longleftrightarrow>
     jget v ''enc'' = Some (JStr ''aes-256-gcm'') \<and> (case jget v ''data'' of Some (JStr _) \<Rightarrow> True | _ \<Rightarrow> False)"

definition encryptJwk :: "ext \<Rightarrow> jobj \<Rightarrow> string \<Rightarrow> string \<Rightarrow> string \<Rightarrow> jobj" where
  "encryptJwk x jwk kek kid iv =
     (case x_gcm_seal x kek iv (utf8 kid) (x_json_stringify x (JObj jwk)) of
        (data, tag) \<Rightarrow>
          [(''enc'', JStr ''aes-256-gcm''), (''iv'', JStr (base64 iv)), (''data'', JStr (base64 data)),
           (''tag'', JStr (base64 tag))])"

text \<open>A member that is no string makes \<open>Buffer.from\<close> throw, a wrong tag \<open>final()\<close>.\<close>

definition decryptJwk :: "ext \<Rightarrow> jobj \<Rightarrow> string \<Rightarrow> string \<Rightarrow> exn + jobj" where
  "decryptJwk x stored kek kid =
     (case (jget stored ''iv'', jget stored ''data'', jget stored ''tag'') of
        (Some (JStr iv), Some (JStr data), Some (JStr tag)) \<Rightarrow>
          (case Option.bind (x_gcm_open x kek (base64url_decode iv) (utf8 kid) (base64url_decode data)
                               (base64url_decode tag)) (x_json_parse x) of
             Some (JObj jwk) \<Rightarrow> Inr jwk
           | _ \<Rightarrow> Inl (JsExn None))
      | _ \<Rightarrow> Inl (JsExn None))"

text \<open>\<open>importPrivate\<close>\<close>

definition importPrivate :: "ext \<Rightarrow> string option \<Rightarrow> signing_key \<Rightarrow> exn + string" where
  "importPrivate x kek record' =
     bindR (if isEncrypted (sk_privateJwk record')
            then (case kek of
                    None \<Rightarrow> Inl (JsExn None)
                  | Some k \<Rightarrow>
                      bindR (decryptJwk x (sk_privateJwk record') k (sk_kid record')) (\<lambda>jwk.
                      if jget jwk ''kid'' \<noteq> Some (JStr (sk_kid record')) then Inl (JsExn None) else Inr jwk))
            else Inr (sk_privateJwk record')) (\<lambda>jwk.
     case x_import_jwk x jwk of None \<Rightarrow> Inl (JsExn None) | Some key \<Rightarrow> Inr key)"

section \<open>The class KeyStore\<close>

type_synonym 's kstate = "keystore_state \<times> 's"

definition on_repo :: "('s, exn, 'a) act \<Rightarrow> ('s kstate, exn, 'a) act" where
  "on_repo m = (\<lambda>(k, s). case m s of (r, s') \<Rightarrow> (r, (k, s')))"

definition get_keys :: "('s kstate, exn, keystore_state) act" where
  "get_keys = (\<lambda>(k, s). (Inr k, (k, s)))"

definition put_keys :: "(keystore_state \<Rightarrow> keystore_state) \<Rightarrow> ('s kstate, exn, unit) act" where
  "put_keys f = (\<lambda>(k, s). (Inr (), (f k, s)))"

definition retire :: "int \<Rightarrow> loaded_key \<Rightarrow> loaded_key" where
  "retire now k = k\<lparr>lk_record := (lk_record k)\<lparr>sk_status := retired, sk_retiredAt := Some now\<rparr>\<rparr>"

definition isUniqueViolation :: "exn \<Rightarrow> bool" where
  "isUniqueViolation e \<longleftrightarrow> e = JsExn (Some ''23505'')"

definition new_record :: "ext \<Rightarrow> string option \<Rightarrow> key_env \<Rightarrow> string \<Rightarrow> signing_key" where
  "new_record x kek env kid =
     (let stamped = map_set ''use'' (JStr ''sig'') (map_set ''alg'' (JStr ''ES256'')
                      (map_set ''kid'' (JStr kid) (ke_privateJwk env)))
      in \<lparr>sk_kid = kid, sk_alg = ''ES256'', sk_status = active,
          sk_privateJwk = (case kek of Some k \<Rightarrow> encryptJwk x stamped k kid (ke_iv env) | None \<Rightarrow> stamped),
          sk_publicJwk = toPublicJwk stamped, sk_createdAt = ke_t_created env, sk_retiredAt = None\<rparr>)"

text \<open>Losing the race for the one active row: the winner's key is adopted.\<close>

definition adopt_winner ::
  "ext \<Rightarrow> string option \<Rightarrow> 's signing_key_repo \<Rightarrow> exn \<Rightarrow> ('s kstate, exn, string) act" where
  "adopt_winner x kek repo err =
     bindE (throwIf (\<not> isUniqueViolation err) err) (\<lambda>_.
     bindE (on_repo (sk_list repo)) (\<lambda>records.
     case List.find (\<lambda>r. sk_status r = active) records of
       None \<Rightarrow> throwE err
     | Some winner \<Rightarrow>
         bindE (liftE (importPrivate x kek winner)) (\<lambda>key.
         bindE (put_keys (\<lambda>k. k\<lparr>kx_keys := map_set (sk_kid winner) \<lparr>lk_record = winner, lk_privateKey = key\<rparr> (kx_keys k),
                               kx_active := Some (sk_kid winner)\<rparr>)) (\<lambda>_.
         returnE (sk_kid winner)))))"

definition rotate ::
  "ext \<Rightarrow> string option \<Rightarrow> 's signing_key_repo \<Rightarrow> key_env \<Rightarrow> ('s kstate, exn, string) act" where
  "rotate x kek repo env =
     bindE get_keys (\<lambda>k.
     bindE (case kx_active k of
              None \<Rightarrow> returnE ()
            | Some prev \<Rightarrow>
                bindE (put_keys (\<lambda>k. k\<lparr>kx_keys := map (\<lambda>(i, v). if i = prev then (i, retire (ke_t_previous env) v) else (i, v))
                                        (kx_keys k)\<rparr>)) (\<lambda>_.
                on_repo (sk_setStatus repo prev retired (Some (ke_t_previous env))))) (\<lambda>_.
     case x_thumbprint x (JObj (toPublicJwk (ke_privateJwk env))) of
       None \<Rightarrow> throwE (JsExn None)
     | Some kid \<Rightarrow>
         let record' = new_record x kek env kid in
         catchE
           (bindE (on_repo (sk_insert repo record')) (\<lambda>_.
            bindE (put_keys (\<lambda>k. k\<lparr>kx_keys := map_set kid \<lparr>lk_record = record', lk_privateKey = ke_privateKey env\<rparr> (kx_keys k),
                                  kx_active := Some kid\<rparr>)) (\<lambda>_.
            returnE kid)))
           (adopt_winner x kek repo)))"

fun import_all :: "ext \<Rightarrow> string option \<Rightarrow> signing_key list \<Rightarrow> (string, loaded_key) jsmap \<Rightarrow>
    exn + (string, loaded_key) jsmap" where
  "import_all x kek [] m = Inr m"
| "import_all x kek (r # rs) m =
     bindR (importPrivate x kek r) (\<lambda>key.
     import_all x kek rs (map_set (sk_kid r) \<lparr>lk_record = r, lk_privateKey = key\<rparr> m))"

text \<open>The active ones, oldest first; \<open>sort\<close> is stable.\<close>

definition actives_of :: "(string, loaded_key) jsmap \<Rightarrow> loaded_key list" where
  "actives_of m = sort_key (\<lambda>k. sk_createdAt (lk_record k)) (filter (\<lambda>k. sk_status (lk_record k) = active) (map snd m))"

text \<open>Each key is retired at its own reading of the clock, \<open>at_time kid\<close>.\<close>

fun retire_rows :: "'s signing_key_repo \<Rightarrow> (string \<Rightarrow> int) \<Rightarrow> string list \<Rightarrow> ('s kstate, exn, unit) act" where
  "retire_rows repo at_time [] = returnE ()"
| "retire_rows repo at_time (kid # kids) =
     bindE (on_repo (sk_setStatus repo kid retired (Some (at_time kid)))) (\<lambda>_. retire_rows repo at_time kids)"

definition kid_of :: "loaded_key \<Rightarrow> string" where
  "kid_of k = sk_kid (lk_record k)"

definition init :: "ext \<Rightarrow> string option \<Rightarrow> 's signing_key_repo \<Rightarrow> key_env \<Rightarrow> ('s kstate, exn, unit) act" where
  "init x kek repo env =
     bindE (on_repo (sk_list repo)) (\<lambda>records.
     bindE (liftE (import_all x kek records [])) (\<lambda>loaded.
     let actives = actives_of loaded; stale = map kid_of (butlast actives) in
     bindE (retire_rows repo (ke_t_stale env) stale) (\<lambda>_.
     bindE (put_keys (\<lambda>k. k\<lparr>kx_keys := map (\<lambda>(i, v). if i \<in> set stale then (i, retire (ke_t_stale env i) v) else (i, v)) loaded,
                           kx_active := (if actives = [] then None else Some (kid_of (last actives)))\<rparr>)) (\<lambda>_.
     if actives = [] then bindE (rotate x kek repo env) (\<lambda>_. returnE ()) else returnE ()))))"

text \<open>A completed initialisation is remembered, a failed one is tried again on the next use.\<close>

definition ensure :: "ext \<Rightarrow> string option \<Rightarrow> 's signing_key_repo \<Rightarrow> key_env \<Rightarrow> ('s kstate, exn, unit) act" where
  "ensure x kek repo env =
     bindE get_keys (\<lambda>k.
     if kx_ready k then returnE ()
     else bindE (init x kek repo env) (\<lambda>_. put_keys (\<lambda>k. k\<lparr>kx_ready := True\<rparr>)))"

definition published :: "int \<Rightarrow> signing_key \<Rightarrow> bool" where
  "published now r \<longleftrightarrow>
     sk_status r = active \<or>
     (case sk_retiredAt r of None \<Rightarrow> True | Some t \<Rightarrow> now - t < RETIRED_KEY_RETENTION_MS)"

definition publicJwks_of :: "int \<Rightarrow> (string, loaded_key) jsmap \<Rightarrow> jobj list" where
  "publicJwks_of now m =
     (let records = filter (published now) (map (lk_record \<circ> snd) m)
      in map (toPublicJwk \<circ> sk_publicJwk)
           (filter (\<lambda>r. sk_status r = active) records @ filter (\<lambda>r. sk_status r \<noteq> active) records))"

definition publicJwks :: "int \<Rightarrow> ('s kstate, exn, jobj list) act" where
  "publicJwks now = bindE get_keys (\<lambda>k. returnE (publicJwks_of now (kx_keys k)))"

definition mustActive :: "keystore_state \<Rightarrow> exn + loaded_key" where
  "mustActive k =
     (case Option.bind (kx_active k) (map_get (kx_keys k)) of None \<Rightarrow> Inl (JsExn None) | Some l \<Rightarrow> Inr l)"

definition activeKid :: "('s kstate, exn, string) act" where
  "activeKid = bindE get_keys (\<lambda>k. bindE (liftE (mustActive k)) (\<lambda>l. returnE (kid_of l)))"

definition signJwt :: "ext \<Rightarrow> jobj \<Rightarrow> string option \<Rightarrow> ('s kstate, exn, string) act" where
  "signJwt x payload typ =
     bindE get_keys (\<lambda>k.
     bindE (liftE (mustActive k)) (\<lambda>l.
     returnE (x_sign_jwt x (lk_privateKey l)
       ([(''alg'', JStr ''ES256''), (''kid'', JStr (kid_of l))] @ (if truthy typ then [(''typ'', JStr (the typ))] else []))
       payload)))"

definition key_store :: "ext \<Rightarrow> string option \<Rightarrow> 's signing_key_repo \<Rightarrow> 's kstate keystore" where
  "key_store x kek repo =
     \<lparr>ks_ensure = ensure x kek repo, ks_publicJwks = publicJwks, ks_signJwt = signJwt x\<rparr>"

section \<open>The tables of the protocol are left alone\<close>

abbreviation k_view :: "('s \<Rightarrow> astore) \<Rightarrow> 's kstate \<Rightarrow> astore" where
  "k_view view \<equiv> \<lambda>(k, s). view s"

abbreviation k_ok :: "('s \<Rightarrow> bool) \<Rightarrow> 's kstate \<Rightarrow> bool" where
  "k_ok ok \<equiv> \<lambda>(k, s). ok s"

lemma quiet_on_repo [moves_intro]: "quiet ok view m \<Longrightarrow> quiet (k_ok ok) (k_view view) (on_repo m)"
  by (fastforce simp: moves_def on_repo_def split: prod.splits)

lemma quiet_get_keys [moves_intro]: "quiet (k_ok ok) (k_view view) get_keys"
  by (auto simp: moves_def get_keys_def)

lemma quiet_put_keys [moves_intro]: "quiet (k_ok ok) (k_view view) (put_keys f)"
  by (auto simp: moves_def put_keys_def)

context key_rows begin

lemma adopt_winner_quiet: "quiet (k_ok ok) (k_view view) (adopt_winner x kek repo err)"
  unfolding adopt_winner_def by (auto intro!: moves_intro sk_list)

lemma rotate_quiet: "quiet (k_ok ok) (k_view view) (rotate x kek repo env)"
  unfolding rotate_def Let_def
  by (auto intro!: moves_intro sk_setStatus sk_insert adopt_winner_quiet)

lemma retire_rows_quiet: "quiet (k_ok ok) (k_view view) (retire_rows repo now kids)"
  by (induction kids) (auto intro!: moves_intro sk_setStatus)

lemma init_quiet: "quiet (k_ok ok) (k_view view) (init x kek repo env)"
  unfolding init_def Let_def by (auto intro!: moves_intro sk_list retire_rows_quiet rotate_quiet)

lemma ensure_quiet: "quiet (k_ok ok) (k_view view) (ensure x kek repo env)"
  unfolding ensure_def by (auto intro!: moves_intro init_quiet)

lemma publicJwks_quiet: "quiet (k_ok ok) (k_view view) (publicJwks now)"
  unfolding publicJwks_def by (auto intro!: moves_intro)

lemma signJwt_quiet: "quiet (k_ok ok) (k_view view) (signJwt x claims typ)"
  unfolding signJwt_def by (auto intro!: moves_intro)

end


section \<open>What is published\<close>

lemma toPublicJwk_get: "jget (toPublicJwk jwk) n = (if n \<in> set public_members then jget jwk n else None)"
proof -
  have "map_of (List.map_filter (\<lambda>n. case jget jwk n of None \<Rightarrow> None | Some v \<Rightarrow> Some (n, v)) ns) n =
      (if n \<in> set ns then jget jwk n else None)" for ns
    by (induction ns) (auto simp: List.map_filter_simps split: option.splits)
  then show ?thesis by (simp only: toPublicJwk_def)
qed

lemma publicJwks_of_public:
  "jwk \<in> set (publicJwks_of now m) \<Longrightarrow> n \<notin> set public_members \<Longrightarrow> jget jwk n = None"
  by (auto simp: publicJwks_of_def Let_def toPublicJwk_get)

section \<open>The signing key\<close>

text \<open>Every entry is filed under its own \<open>kid\<close>.\<close>

definition filed :: "(string, loaded_key) jsmap \<Rightarrow> bool" where
  "filed m \<longleftrightarrow> map_ok m \<and> list_all (\<lambda>(i, v). kid_of v = i) m"

definition keystore_ok :: "keystore_state \<Rightarrow> bool" where
  "keystore_ok k \<longleftrightarrow>
     (kx_ready k \<longrightarrow>
        (\<exists>l. mustActive k = Inr l \<and> kx_active k = Some (kid_of l) \<and> sk_status (lk_record l) = active))"

lemma kid_retire [simp]: "kid_of (retire t v) = kid_of v"
  by (simp add: kid_of_def retire_def)

lemma set_update: "set (AList.update k v m) \<subseteq> insert (k, v) (set m)"
  by (induction m) auto

lemma filed_set: "filed m \<Longrightarrow> kid_of v = i \<Longrightarrow> filed (map_set i v m)"
  using set_update [of i v m] by (auto simp: filed_def list_all_iff)

lemma import_all_filed: "import_all x kek rs m = Inr m' \<Longrightarrow> filed m \<Longrightarrow> filed m'"
proof (induction rs arbitrary: m)
  case (Cons r rs)
  then obtain key where "import_all x kek rs (map_set (sk_kid r) \<lparr>lk_record = r, lk_privateKey = key\<rparr> m) = Inr m'"
    by (auto simp: act_iff)
  then show ?case by (rule Cons.IH) (auto intro!: filed_set Cons.prems simp: kid_of_def)
qed simp

lemma filed_get: "filed m \<Longrightarrow> v \<in> snd ` set m \<Longrightarrow> map_of m (kid_of v) = Some v"
  by (auto simp: filed_def map_ok_def list_all_iff intro: map_of_is_SomeI)

lemma filed_kids: "filed m \<Longrightarrow> map kid_of (map snd m) = map fst m"
  by (auto simp: filed_def list_all_iff)

lemma actives_distinct: "filed m \<Longrightarrow> distinct (map kid_of (actives_of m))"
proof -
  assume f: "filed m"
  then have "distinct (map kid_of (map snd m))" by (simp only: filed_kids) (simp add: filed_def map_ok_def)
  then have d: "distinct (map kid_of (filter (\<lambda>k. sk_status (lk_record k) = active) (map snd m)))"
    by (rule distinct_map_filter)
  have "mset (map kid_of (actives_of m)) =
      mset (map kid_of (filter (\<lambda>k. sk_status (lk_record k) = active) (map snd m)))"
    by (simp only: actives_of_def mset_map mset_sort)
  then show ?thesis using d by (metis mset_eq_imp_distinct_iff)
qed

lemma actives_in: "v \<in> set (actives_of m) \<longleftrightarrow> v \<in> snd ` set m \<and> sk_status (lk_record v) = active"
  by (auto simp: actives_of_def)

text \<open>The newest active key survives the self-healing as it is.\<close>

lemma healed_last:
  assumes "filed m" and "actives_of m \<noteq> []"
  shows "map_of (map (\<lambda>(i, v). if i \<in> set (map kid_of (butlast (actives_of m))) then (i, retire (t i) v) else (i, v)) m)
           (kid_of (last (actives_of m))) = Some (last (actives_of m))"
proof -
  let ?l = "last (actives_of m)"
  have "?l \<in> set (actives_of m)" using assms(2) by simp
  then have m: "map_of m (kid_of ?l) = Some ?l" using filed_get [OF assms(1)] by (simp only: actives_in)
  have "map kid_of (actives_of m) = map kid_of (butlast (actives_of m)) @ [kid_of ?l]"
    using assms(2) by (metis append_butlast_last_id list.simps(8) list.simps(9) map_append)
  with actives_distinct [OF assms(1)] have n: "kid_of ?l \<notin> set (map kid_of (butlast (actives_of m)))"
    by (metis distinct_append disjoint_iff list.set_intros(1))
  have "map_of (map (\<lambda>(i, v). if P i then (i, f i v) else (i, v)) q) i = (if P i then map_option (f i) (map_of q i) else map_of q i)"
    for P :: "string \<Rightarrow> bool" and f :: "string \<Rightarrow> loaded_key \<Rightarrow> loaded_key" and q i
    by (induction q) auto
  with m n show ?thesis by simp
qed

lemma rotate_active:
  assumes "rotate x kek repo env (k, s) = (Inr kid, (k', s'))"
  shows "\<exists>l. mustActive k' = Inr l \<and> kx_active k' = Some (kid_of l) \<and> sk_status (lk_record l) = active"
proof -
  have set: "mustActive (q\<lparr>kx_keys := map_set (kid_of l) l (kx_keys q), kx_active := Some (kid_of l)\<rparr>) = Inr l" for q l
    by (simp add: mustActive_def)
  have adopt: "\<exists>l. mustActive k' = Inr l \<and> kx_active k' = Some (kid_of l) \<and> sk_status (lk_record l) = active"
    if "adopt_winner x kek repo e t = (Inr kid, (k', s'))" for e t
    using that unfolding adopt_winner_def act_iff
    by (auto simp: act_iff put_keys_def find_Some_iff mustActive_def kid_of_def split: option.splits prod.splits)
  show ?thesis
    using assms adopt unfolding rotate_def act_iff Let_def
    by (auto simp: act_iff put_keys_def mustActive_def kid_of_def new_record_def Let_def split: prod.splits option.splits)
qed

lemma init_active:
  assumes "init x kek repo env (k, s) = (Inr (), (k', s'))"
  shows "\<exists>l. mustActive k' = Inr l \<and> kx_active k' = Some (kid_of l) \<and> sk_status (lk_record l) = active"
proof -
  from assms obtain rs loaded k1 s1 k2 s2 where imp: "import_all x kek rs [] = Inr loaded" and
    k2: "k2 = k1\<lparr>kx_keys := map (\<lambda>(i, v). if i \<in> set (map kid_of (butlast (actives_of loaded)))
                 then (i, retire (ke_t_stale env i) v) else (i, v)) loaded,
               kx_active := (if actives_of loaded = [] then None else Some (kid_of (last (actives_of loaded))))\<rparr>" and
    fin: "(if actives_of loaded = [] then bindE (rotate x kek repo env) (\<lambda>_. returnE ()) else returnE ()) (k2, s2)
            = (Inr (), (k', s'))"
    unfolding init_def act_iff Let_def by (auto simp: put_keys_def act_iff split: prod.splits)
  have f: "filed loaded" using import_all_filed [OF imp] by (simp add: filed_def)
  show ?thesis
  proof (cases "actives_of loaded = []")
    case True
    with fin obtain kid where "rotate x kek repo env (k2, s2) = (Inr kid, (k', s'))" by (auto simp: act_iff)
    then show ?thesis by (rule rotate_active)
  next
    case False
    then have "last (actives_of loaded) \<in> set (actives_of loaded)" by simp
    then have "sk_status (lk_record (last (actives_of loaded))) = active" by (simp only: actives_in)
    with False fin healed_last [OF f False] k2 show ?thesis by (auto simp: act_iff mustActive_def)
  qed
qed

lemma ensure_ok:
  assumes "keystore_ok k" and "ensure x kek repo env (k, s) = (Inr (), (k', s'))"
  shows "keystore_ok k'" and "kx_ready k'"
proof -
  from assms(2) consider "kx_ready k" "k' = k"
    | k1 s1 where "init x kek repo env (k, s) = (Inr (), (k1, s1))" "k' = k1\<lparr>kx_ready := True\<rparr>"
    unfolding ensure_def act_iff by (auto simp: get_keys_def put_keys_def act_iff split: if_splits prod.splits)
  then have "keystore_ok k' \<and> kx_ready k'"
  proof cases
    case 1
    with assms(1) show ?thesis by simp
  next
    case 2
    from init_active [OF 2(1)] show ?thesis by (auto simp: 2(2) keystore_ok_def mustActive_def)
  qed
  then show "keystore_ok k'" "kx_ready k'" by simp_all
qed

text \<open>The invariant survives also where the initialisation fails: it is then not complete.\<close>

abbreviation k_settled :: "('s \<Rightarrow> bool) \<Rightarrow> 's kstate \<Rightarrow> bool" where
  "k_settled ok \<equiv> \<lambda>(k, s). ok s \<and> keystore_ok k"

abbreviation k_unready :: "('s \<Rightarrow> bool) \<Rightarrow> 's kstate \<Rightarrow> bool" where
  "k_unready ok \<equiv> \<lambda>(k, s). ok s \<and> \<not> kx_ready k"

lemma unready_on_repo: "quiet ok view m \<Longrightarrow> quiet (k_unready ok) (k_view view) (on_repo m)"
  by (fastforce simp: moves_def on_repo_def split: prod.splits)

lemma unready_put_keys:
  "(\<And>k. kx_ready (f k) = kx_ready k) \<Longrightarrow> quiet (k_unready ok) (k_view view) (put_keys f)"
  by (auto simp: moves_def put_keys_def)

lemma unready_get_keys: "quiet (k_unready ok) (k_view view) get_keys"
  by (auto simp: moves_def get_keys_def)

context key_rows begin

lemma rotate_unready: "quiet (k_unready ok) (k_view view) (rotate x kek repo env)"
  unfolding rotate_def adopt_winner_def Let_def
  by (auto intro!: moves_intro(1-8) unready_on_repo unready_put_keys unready_get_keys sk_list sk_setStatus sk_insert)

lemma init_unready: "quiet (k_unready ok) (k_view view) (init x kek repo env)"
proof -
  have "quiet (k_unready ok) (k_view view) (retire_rows repo now kids)" for now kids
    by (induction kids) (auto intro!: moves_intro(1-8) unready_on_repo sk_setStatus)
  then show ?thesis
    unfolding init_def Let_def
    by (auto intro!: moves_intro(1-8) unready_on_repo unready_put_keys sk_list rotate_unready)
qed

lemma ensure_settled: "quiet (k_settled ok) (k_view view) (ensure x kek repo env)"
proof -
  have "ok s' \<and> keystore_ok k' \<and> view s' = view s"
    if ok: "ok s" "keystore_ok k" and run: "ensure x kek repo env (k, s) = (r, (k', s'))" for k s r k' s'
  proof -
    from movesD [OF ensure_quiet _ run] ok(1) have q: "ok s'" "view s' = view s" by auto
    have "keystore_ok k'"
    proof (cases r)
      case (Inr u)
      with ensure_ok(1) [OF ok(2)] run show ?thesis by simp
    next
      case (Inl e)
      obtain r1 k1 s1 where i: "init x kek repo env (k, s) = (r1, (k1, s1))" by (metis surj_pair)
      have e: "ensure x kek repo env (k, s) = (if kx_ready k then (Inr (), (k, s))
          else bindE (init x kek repo env) (\<lambda>_. put_keys (\<lambda>k. k\<lparr>kx_ready := True\<rparr>)) (k, s))"
        by (simp add: ensure_def get_keys_def bindE_def returnE_def)
      with run Inl have nr: "\<not> kx_ready k" by (cases "kx_ready k") simp_all
      with e run Inl i have k: "k1 = k'" by (cases r1) (auto simp: bindE_def put_keys_def)
      have "k_unready ok (k, s)" using nr ok by simp
      from movesD [OF init_unready this i] have "\<not> kx_ready k1" by simp
      with k show ?thesis by (simp add: keystore_ok_def)
    qed
    with q show ?thesis by simp
  qed
  then show ?thesis unfolding moves_def split_paired_All prod.case by blast
qed

end

lemma settled_same:
  assumes "\<And>k s r k' s'. m (k, s) = (r, (k', s')) \<Longrightarrow> k' = k \<and> s' = s"
  shows "quiet (k_settled ok) (k_view view) m"
  using assms by (fastforce simp: moves_def)

lemma publicJwks_settled: "quiet (k_settled ok) (k_view view) (publicJwks now)"
  by (rule settled_same) (auto simp: publicJwks_def bindE_def returnE_def get_keys_def)

lemma signJwt_settled: "quiet (k_settled ok) (k_view view) (signJwt x claims typ)"
proof -
  have "k' = k \<and> s' = s" if "signJwt x claims typ (k, s) = (r, (k', s'))" for k s r k' s'
    using that
    by (auto simp: signJwt_def bindE_def returnE_def liftE_def get_keys_def split: sum.splits)
  then show ?thesis by (rule settled_same)
qed

sublocale key_rows \<subseteq> ks: key_port "key_store x kek repo" "k_view view" "k_settled ok"
  by unfold_locales (simp_all add: key_store_def ensure_settled publicJwks_settled signJwt_settled)

text \<open>The key that signs is a published one.\<close>

lemma signing_key_published:
  assumes "keystore_ok k" and "kx_ready k"
  shows "\<exists>l. mustActive k = Inr l \<and> toPublicJwk (sk_publicJwk (lk_record l)) \<in> set (publicJwks_of now (kx_keys k))"
proof -
  from assms obtain l where l: "mustActive k = Inr l" "sk_status (lk_record l) = active" "kx_active k = Some (kid_of l)"
    by (auto simp: keystore_ok_def)
  then have "map_of (kx_keys k) (kid_of l) = Some l" by (auto simp: mustActive_def split: option.splits)
  then have "(kid_of l, l) \<in> set (kx_keys k)" by (rule map_of_SomeD)
  with l show ?thesis by (force simp: publicJwks_of_def Let_def published_def)
qed

lemma decode_base64: "base64url_decode (base64 s) = s"
proof -
  let ?f = "\<lambda>c. if c = CHR ''-'' then CHR ''+'' else if c = CHR ''_'' then CHR ''/'' else c"
  have v: "b64_val (?f c) = b64_val c" for c
    by (simp add: b64_val_def)
  have m: "List.map_filter b64_val (map ?f cs) = List.map_filter b64_val cs" for cs
    by (induction cs) (simp_all only: list.map List.map_filter_simps v)
  have p: "List.map_filter b64_val (replicate k (CHR ''='')) = []" for k
    by (induction k) (simp_all add: List.map_filter_simps b64_val_def)
  have a: "List.map_filter b64_val (cs @ ds) = List.map_filter b64_val cs @ List.map_filter b64_val ds" for cs ds
    by (induction cs) (simp_all add: List.map_filter_simps split: option.split)
  have "List.map_filter b64_val (base64 s) = List.map_filter b64_val (base64url s)"
    unfolding base64_def Let_def a p m by simp
  then show ?thesis using base64url_decode_encode [of s] by (simp add: base64url_decode_def)
qed

text \<open>A stored key opens again under the KEK and the \<open>kid\<close> it was sealed with, when GCM and the JSON
  printer invert.\<close>

lemma decrypt_encrypt:
  assumes "x_gcm_open x kek iv (utf8 kid) data tag = Some (x_json_stringify x (JObj jwk))"
    and "x_gcm_seal x kek iv (utf8 kid) (x_json_stringify x (JObj jwk)) = (data, tag)"
    and "x_json_parse x (x_json_stringify x (JObj jwk)) = Some (JObj jwk)"
  shows "decryptJwk x (encryptJwk x jwk kek kid iv) kek kid = Inr jwk"
  using assms by (simp add: decryptJwk_def encryptJwk_def decode_base64)

end
