(* ===== verification/RateLimit.thy ===== *)
theory RateLimit
  imports Prelude
begin

text \<open>
  The fixed-window rate limiter (\<open>src/endpoints/rate-limit.ts\<close>). A window is the time it started
  and the number of requests counted in it. Any half-open interval of one window length sees at
  most twice the limit of allowed requests of one source, and the table never holds more than
  the maximal number of sources.
\<close>

record limiter =
  rl_windows :: "(string, int \<times> nat) jsmap"
  rl_lastSweepMs :: int

record limiter_config =
  rl_limit :: int
  rl_windowMs :: int
  rl_maxKeys :: nat

definition fresh_limiter :: limiter where
  "fresh_limiter = \<lparr>rl_windows = [], rl_lastSweepMs = 0\<rparr>"

definition sweep_windows :: "limiter_config \<Rightarrow> int \<Rightarrow> limiter \<Rightarrow> limiter" where
  "sweep_windows c now l =
     (if rl_maxKeys c \<le> length (rl_windows l) \<and> rl_windowMs c \<le> now - rl_lastSweepMs l
      then \<lparr>rl_windows = drop_rows (\<lambda>w. rl_windowMs c \<le> now - fst w) (rl_windows l), rl_lastSweepMs = now\<rparr>
      else l)"

definition allow :: "limiter_config \<Rightarrow> string \<Rightarrow> int \<Rightarrow> limiter \<Rightarrow> bool \<times> limiter" where
  "allow c key now l =
     (if rl_limit c \<le> 0 then (True, l)
      else case map_get (rl_windows l) key of
        Some (start, count) \<Rightarrow>
          if now - start < rl_windowMs c
          then (int (count + 1) \<le> rl_limit c,
                l\<lparr>rl_windows := map_set key (start, count + 1) (rl_windows l)\<rparr>)
          else (True, let l' = sweep_windows c now l
                      in l'\<lparr>rl_windows := map_set key (now, 1) (rl_windows l')\<rparr>)
      | None \<Rightarrow>
          let l' = sweep_windows c now l
          in if rl_maxKeys c \<le> length (rl_windows l') then (False, l')
             else (True, l'\<lparr>rl_windows := map_set key (now, 1) (rl_windows l')\<rparr>))"

text \<open>A sequence of requests, with the answers.\<close>

fun allow_all :: "limiter_config \<Rightarrow> (string \<times> int) list \<Rightarrow> limiter \<Rightarrow> bool list \<times> limiter" where
  "allow_all c [] l = ([], l)"
| "allow_all c ((key, now) # rs) l =
     (case allow c key now l of (b, l') \<Rightarrow> case allow_all c rs l' of (bs, l'') \<Rightarrow> (b # bs, l''))"

section \<open>The bound on the table\<close>

definition limiter_ok :: "limiter_config \<Rightarrow> limiter \<Rightarrow> bool" where
  "limiter_ok c l \<longleftrightarrow> map_ok (rl_windows l) \<and> length (rl_windows l) \<le> rl_maxKeys c"

lemma sweep_ok: "limiter_ok c l \<Longrightarrow> limiter_ok c (sweep_windows c now l)"
  using length_drop_rows [of "\<lambda>w. rl_windowMs c \<le> now - fst w" "rl_windows l"]
  by (auto simp: limiter_ok_def sweep_windows_def)

lemma sweep_get:
  "limiter_ok c l \<Longrightarrow> map_of (rl_windows (sweep_windows c now l)) k = Some w \<Longrightarrow> map_of (rl_windows l) k = Some w"
  by (auto simp: limiter_ok_def sweep_windows_def drop_rows_get_Some split: if_splits)

lemma sweep_keeps:
  "limiter_ok c l \<Longrightarrow> map_of (rl_windows l) k = Some w \<Longrightarrow> now - fst w < rl_windowMs c \<Longrightarrow>
     map_of (rl_windows (sweep_windows c now l)) k = Some w"
  by (auto simp: limiter_ok_def sweep_windows_def drop_rows_get_Some)

lemma limiter_ok_fresh: "limiter_ok c fresh_limiter"
  by (simp add: limiter_ok_def fresh_limiter_def)

lemma length_set_present: "map_of m k \<noteq> None \<Longrightarrow> length (AList.update k v m) = length m"
  by (simp add: length_map_set map_of_eq_None_iff)

lemma sweep_drops_key:
  assumes "limiter_ok c l" and "map_of (rl_windows l) k = Some w"
    and "map_of (rl_windows (sweep_windows c now l)) k = None"
  shows "length (rl_windows (sweep_windows c now l)) < length (rl_windows l)"
proof -
  have "map_of (rl_windows (sweep_windows c now l)) k \<noteq> map_of (rl_windows l) k" using assms by simp
  then have sw: "rl_windows (sweep_windows c now l) = drop_rows (\<lambda>w. rl_windowMs c \<le> now - fst w) (rl_windows l)"
    by (auto simp: sweep_windows_def split: if_splits)
  have "\<exists>r \<in> set (rl_windows l). \<not> (case r of (k, v) \<Rightarrow> \<not> rl_windowMs c \<le> now - fst v)"
    using assms map_of_SomeD [OF assms(2)] drop_rows_get_Some [of "rl_windows l" "\<lambda>w. rl_windowMs c \<le> now - fst w" k w]
    by (fastforce simp: sw limiter_ok_def)
  then show ?thesis unfolding sw drop_rows_def by (metis length_filter_less)
qed

lemma allow_ok:
  assumes ok: "limiter_ok c l" and a: "allow c key now l = (b, l')"
  shows "limiter_ok c l'"
proof (cases "rl_limit c \<le> 0")
  case False
  let ?s = "sweep_windows c now l"
  note so = sweep_ok [OF ok, of now]
  show ?thesis
  proof (cases "map_of (rl_windows l) key")
    case None
    with a False show ?thesis using so ok
      by (auto simp: allow_def Let_def limiter_ok_def length_map_set split: if_splits)
  next
    case (Some w)
    obtain start count where w: "w = (start, count)" by fastforce
    show ?thesis
    proof (cases "now - start < rl_windowMs c")
      case True
      with a False Some w ok show ?thesis
        by (auto simp: allow_def limiter_ok_def length_set_present)
    next
      case old: False
      with a False Some w have l': "l' = ?s\<lparr>rl_windows := map_set key (now, 1) (rl_windows ?s)\<rparr>"
        by (simp add: allow_def Let_def)
      show ?thesis
      proof (cases "map_of (rl_windows ?s) key")
        case None
        from sweep_drops_key [OF ok Some None] have "length (rl_windows ?s) < rl_maxKeys c"
          using ok by (simp add: limiter_ok_def)
        with so show ?thesis by (simp add: l' limiter_ok_def length_map_set)
      next
        case (Some w')
        with so show ?thesis by (simp add: l' limiter_ok_def length_set_present)
      qed
    qed
  qed
qed (use a ok in \<open>simp add: allow_def\<close>)

section \<open>The bound on the requests\<close>

text \<open>How many more requests of a source can be allowed before the time \<open>a + windowMs\<close>: what its
  window leaves, and a whole window more if the present one was opened before \<open>a\<close>.\<close>

definition budget :: "limiter_config \<Rightarrow> int \<Rightarrow> string \<Rightarrow> limiter \<Rightarrow> nat" where
  "budget c a k l =
     (case map_get (rl_windows l) k of
        None \<Rightarrow> nat (rl_limit c)
      | Some (start, count) \<Rightarrow> (nat (rl_limit c) - count) + (if start < a then nat (rl_limit c) else 0))"

lemma budget_sweep:
  assumes ok: "limiter_ok c l" and "now < a + rl_windowMs c"
  shows "budget c a k (sweep_windows c now l) \<le> budget c a k l"
proof (cases "map_of (rl_windows l) k")
  case None
  then have "map_of (rl_windows (sweep_windows c now l)) k = None"
    using sweep_get [OF ok] by (metis not_None_eq option.distinct(1))
  with None show ?thesis by (simp add: budget_def)
next
  case (Some w)
  show ?thesis
  proof (cases "now - fst w < rl_windowMs c")
    case True
    with sweep_keeps [OF ok Some] Some show ?thesis by (simp add: budget_def)
  next
    case False
    with assms(2) have "fst w < a" by linarith
    then have "budget c a k l \<ge> nat (rl_limit c)" using Some by (cases w) (simp add: budget_def)
    moreover have "budget c a k (sweep_windows c now l) = budget c a k l
        \<or> budget c a k (sweep_windows c now l) = nat (rl_limit c)"
      using sweep_get [OF ok] Some
      by (cases "map_of (rl_windows (sweep_windows c now l)) k") (fastforce simp: budget_def)+
    ultimately show ?thesis by linarith
  qed
qed

lemma allow_budget:
  assumes ok: "limiter_ok c l" and lim: "0 < rl_limit c" and t: "a \<le> now" "now < a + rl_windowMs c"
    and al: "allow c key now l = (b, l')"
  shows "(if key = k \<and> b then 1 else 0) + budget c a k l' \<le> budget c a k l"
proof -
  let ?s = "sweep_windows c now l"
  let ?set = "\<lambda>m :: limiter. m\<lparr>rl_windows := map_set key (now, 1) (rl_windows m)\<rparr>"
  note bs = budget_sweep [OF ok t(2)]
  have other: "budget c a k (?set m) = budget c a k m" if "key \<noteq> k" for m
    using that by (simp add: budget_def)
  have same: "budget c a k (?set m) = nat (rl_limit c) - 1" if "key = k" for m
    using that t(1) by (simp add: budget_def)
  show ?thesis
  proof (cases "map_of (rl_windows l) key")
    case None
    then have "key = k \<Longrightarrow> budget c a k l = nat (rl_limit c)" by (simp add: budget_def)
    with al None lim show ?thesis using bs [of k] other [of ?s] same [of ?s]
      by (cases "key = k") (auto simp: allow_def Let_def split: if_splits)
  next
    case (Some w)
    obtain start count where w: "w = (start, count)" by fastforce
    show ?thesis
    proof (cases "now - start < rl_windowMs c")
      case True
      with al Some w lim have r: "b = (int (count + 1) \<le> rl_limit c)"
        "l' = l\<lparr>rl_windows := map_set key (start, count + 1) (rl_windows l)\<rparr>"
        by (auto simp: allow_def)
      show ?thesis using Some w lim by (auto simp: r budget_def)
    next
      case False
      with al Some w lim have r: "b" "l' = ?set ?s"
        by (simp_all add: allow_def Let_def)
      from False t have "start < a" by linarith
      then have "key = k \<Longrightarrow> nat (rl_limit c) \<le> budget c a k l" using Some w by (auto simp: budget_def)
      with lim show ?thesis using bs [of k] other [of ?s] same [of ?s]
        by (cases "key = k") (auto simp: r)
    qed
  qed
qed

definition allowed_count :: "string \<Rightarrow> (string \<times> int) list \<Rightarrow> bool list \<Rightarrow> nat" where
  "allowed_count k rs bs = length (filter (\<lambda>((key, _), b). key = k \<and> b) (zip rs bs))"

lemma allow_all_ok: "limiter_ok c l \<Longrightarrow> allow_all c rs l = (bs, l') \<Longrightarrow> limiter_ok c l'"
  by (induction c rs l arbitrary: bs l' rule: allow_all.induct) (auto dest: allow_ok split: prod.splits)

lemma allow_all_budget:
  assumes "limiter_ok c l" and "0 < rl_limit c"
    and "\<And>key now. (key, now) \<in> set rs \<Longrightarrow> a \<le> now \<and> now < a + rl_windowMs c"
    and "allow_all c rs l = (bs, l')"
  shows "allowed_count k rs bs + budget c a k l' \<le> budget c a k l"
  using assms
proof (induction c rs l arbitrary: bs l' rule: allow_all.induct)
  case (1 c l)
  then show ?case by (simp add: allowed_count_def)
next
  case (2 c key now rs l)
  obtain b l1 where 1: "allow c key now l = (b, l1)" by fastforce
  obtain bs1 l2 where r: "allow_all c rs l1 = (bs1, l2)" by fastforce
  have e: "bs = b # bs1" "l' = l2" using 2(5) 1 r by simp_all
  have t: "a \<le> now" "now < a + rl_windowMs c" using 2(4) [of key now] by simp_all
  have "allowed_count k rs bs1 + budget c a k l2 \<le> budget c a k l1"
    by (rule 2(1) [OF 1 [symmetric] allow_ok [OF 2(2) 1] 2(3) _ r]) (erule 2(4) [OF list.set_intros(2)])
  moreover have "(if key = k \<and> b then 1 else 0) + budget c a k l1 \<le> budget c a k l"
    by (rule allow_budget [OF 2(2,3) t 1])
  ultimately show ?case by (auto simp: e allowed_count_def)
qed

lemma budget_le: "budget c a k l \<le> 2 * nat (rl_limit c)"
  by (auto simp: budget_def split: option.splits)

end
