(* ===== verification/Dpop.thy ===== *)
theory Dpop
  imports Config StoragePort
begin

text \<open>
  Verification of a DPoP proof (\<open>src/domain/dpop.ts\<close>) at the token endpoint, on a pushed
  authorization request and at the resource endpoint, with the stateless nonces. An accepted
  proof carries a public key only, is signed by it under an allowed algorithm, is for this method
  and URL, within its time window, and its identifier has been registered as used for as long as
  the window lasts.
\<close>

section \<open>The operations\<close>

record dpop_context =
  dc_htm :: string
  dc_htu :: string
  dc_ath :: "string option"
  dc_replayContext :: "string option"

text \<open>A request header: missing, sent once, or repeated.\<close>

datatype header_value = Hdr_none | Hdr_one string | Hdr_many "string list"

definition normalizeHtu :: "ext \<Rightarrow> string \<Rightarrow> string" where
  "normalizeHtu x url =
     (case x_url x url of
        None \<Rightarrow> url
      | Some u \<Rightarrow>
          let defaultPort = u_protocol u = ''https:'' \<and> u_port u = ''443'' \<or>
                            u_protocol u = ''http:'' \<and> u_port u = ''80'';
              host = (if defaultPort then u_hostname u else u_host u)
          in u_protocol u @ ''//'' @ host @ u_pathname u)"

definition NONCE_WINDOW_SEC :: int where
  "NONCE_WINDOW_SEC = 60"

definition nonceFor :: "ext \<Rightarrow> string \<Rightarrow> string \<Rightarrow> int \<Rightarrow> app_config \<Rightarrow> string" where
  "nonceFor x jkt htu window config =
     base64url (x_hmac x (cfg_dpopNonceSecret config)
       (utf8 (jkt @ '':'' @ htu @ '':'' @ show_int window)))"

definition nonce_window :: "int \<Rightarrow> int" where
  "nonce_window now = now div (1000 * NONCE_WINDOW_SEC)"

definition issueNonce :: "ext \<Rightarrow> string \<Rightarrow> string \<Rightarrow> app_config \<Rightarrow> int \<Rightarrow> string" where
  "issueNonce x jkt htu config now = nonceFor x jkt htu (nonce_window now) config"

definition validNonce :: "ext \<Rightarrow> string \<Rightarrow> string \<Rightarrow> string \<Rightarrow> app_config \<Rightarrow> int \<Rightarrow> bool" where
  "validNonce x nonce jkt htu config now \<longleftrightarrow>
     (let w = nonce_window now
      in nonce = nonceFor x jkt htu w config \<or> nonce = nonceFor x jkt htu (w - 1) config)"

text \<open>The header checks, before the signature.\<close>

definition check_jwk :: "jobj \<Rightarrow> exn + json" where
  "check_jwk header =
     (case jget header ''jwk'' of
       None \<Rightarrow> Inl (invalidDpopProof (''DPoP proof jwk header required [RFC9449 '' @ sec @ ''4.2]''))
     | Some jwk \<Rightarrow>
         (case jwk of
            JObj m \<Rightarrow>
              if jget m ''d'' \<noteq> None
              then Inl (invalidDpopProof (''DPoP proof jwk must not contain a private key [RFC9449 '' @ sec @ ''4.3]''))
              else Inr jwk
          | JArr _ \<Rightarrow> Inr jwk
          | _ \<Rightarrow> Inl (invalidDpopProof (''DPoP proof jwk header required [RFC9449 '' @ sec @ ''4.2]''))))"

definition check_alg :: "ext \<Rightarrow> string list \<Rightarrow> jobj \<Rightarrow> exn + unit" where
  "check_alg x allowedAlgs header =
     (let v = jget header ''alg'';
          shown = (case v of None \<Rightarrow> ''undefined'' | Some (JStr a) \<Rightarrow> a | Some j \<Rightarrow> x_show x j)
      in throwIfR (case v of Some (JStr a) \<Rightarrow> a = [] \<or> a \<notin> set allowedAlgs | _ \<Rightarrow> True)
           (invalidDpopProof (''DPoP proof alg not allowed: '' @ shown @ '' [FAPI2 5.4.1]'')))"

text \<open>The claim checks; the result is the identifier and the issue time.\<close>

definition check_claims :: "ext \<Rightarrow> app_config \<Rightarrow> int \<Rightarrow> dpop_context \<Rightarrow> jobj \<Rightarrow> exn + string \<times> rat" where
  "check_claims x config now ctx payload =
     (case jget payload ''jti'' of
        Some (JStr jti) \<Rightarrow>
          bindR (throwIfR (jti = []) (invalidDpopProof (''DPoP proof jti required [RFC9449 '' @ sec @ ''4.2]''))) (\<lambda>_.
          bindR (throwIfR (jget payload ''htm'' \<noteq> Some (JStr (dc_htm ctx)))
            (invalidDpopProof (''DPoP proof htm mismatch [RFC9449 '' @ sec @ ''4.3]''))) (\<lambda>_.
          bindR (throwIfR (case jget payload ''htu'' of
                             Some (JStr htu) \<Rightarrow> normalizeHtu x htu \<noteq> normalizeHtu x (dc_htu ctx) | _ \<Rightarrow> True)
            (invalidDpopProof (''DPoP proof htu mismatch [RFC9449 '' @ sec @ ''4.3]''))) (\<lambda>_.
          case jget payload ''iat'' of
            Some (JNum iat) \<Rightarrow>
              let nowSec = sec_of now in
              bindR (throwIfR (of_int (nowSec + cfg_clockSkewFutureAcceptSec config) < iat)
                (invalidDpopProof (''DPoP proof iat is in the future [RFC9449 '' @ sec @ ''11.1]''))) (\<lambda>_.
              bindR (throwIfR (of_int (cfg_dpopProofMaxAgeSec config) < of_int nowSec - iat)
                (invalidDpopProof (''DPoP proof has expired [RFC9449 '' @ sec @ ''11.1]''))) (\<lambda>_.
              bindR (throwIfR (dc_ath ctx \<noteq> None \<and> jget payload ''ath'' \<noteq> map_option JStr (dc_ath ctx))
                (invalidDpopProof (''DPoP proof ath does not match the access token [RFC9449 '' @ sec @
                                   ''4.3, '' @ sec @ ''7]''))) (\<lambda>_.
              Inr (jti, iat))))
          | _ \<Rightarrow> Inl (invalidDpopProof (''DPoP proof iat required [RFC9449 '' @ sec @ ''4.2]'')))))
      | _ \<Rightarrow> Inl (invalidDpopProof (''DPoP proof jti required [RFC9449 '' @ sec @ ''4.2]'')))"

definition check_nonce :: "ext \<Rightarrow> app_config \<Rightarrow> int \<Rightarrow> dpop_context \<Rightarrow> string \<Rightarrow> jobj \<Rightarrow> exn + unit" where
  "check_nonce x config now ctx jkt payload =
     (let htuKey = normalizeHtu x (dc_htu ctx)
      in throwIfR (cfg_dpopNonceRequired config \<and>
                   (case jget payload ''nonce'' of
                      Some (JStr n) \<Rightarrow> \<not> validNonce x n jkt htuKey config now | _ \<Rightarrow> True))
           (useDpopNonce (issueNonce x jkt htuKey config now) None))"

definition dpop_replay_context :: "ext \<Rightarrow> dpop_context \<Rightarrow> string" where
  "dpop_replay_context x ctx =
     (case dc_replayContext ctx of Some c \<Rightarrow> c | None \<Rightarrow> ''dpop:'' @ normalizeHtu x (dc_htu ctx))"

definition dpop_replay_id :: "string \<Rightarrow> string \<Rightarrow> string" where
  "dpop_replay_id jkt jti = jkt @ ''.'' @ base64url (utf8 jti)"

definition dpop_expiry :: "app_config \<Rightarrow> rat \<Rightarrow> int" where
  "dpop_expiry config iat =
     js_date ((iat + of_int (cfg_dpopProofMaxAgeSec config)
                   + of_int (cfg_clockSkewFutureAcceptSec config)) * 1000)"

text \<open>The checks that depend on the proof alone; the result is the thumbprint, the identifier
  and the issue time.\<close>

definition check_proof ::
  "ext \<Rightarrow> app_config \<Rightarrow> int \<Rightarrow> dpop_context \<Rightarrow> header_value \<Rightarrow> exn + string \<times> string \<times> rat" where
  "check_proof x config now ctx proofHeader =
     (case proofHeader of
        Hdr_many _ \<Rightarrow> Inl (invalidDpopProof (''multiple DPoP headers [RFC9449 '' @ sec @ ''4.3]''))
      | Hdr_none \<Rightarrow> Inl (invalidDpopProof (''DPoP proof required [RFC9449 '' @ sec @ ''5]''))
      | Hdr_one proof' \<Rightarrow>
          bindR (throwIfR (proof' = []) (invalidDpopProof (''DPoP proof required [RFC9449 '' @ sec @ ''5]''))) (\<lambda>_.
          case x_decode_header x proof' of
            None \<Rightarrow> Inl (invalidDpopProof (''malformed DPoP proof [RFC9449 '' @ sec @ ''4.3]''))
          | Some header \<Rightarrow>
              let allowedAlgs = acceptedJwsAlgs (Some (md_dpopSigningAlgs (cfg_metadata config))) in
              bindR (throwIfR (jget header ''typ'' \<noteq> Some (JStr ''dpop+jwt''))
                (invalidDpopProof (''DPoP proof typ must be dpop+jwt [RFC9449 '' @ sec @ ''4.2, '' @ sec @ ''11.5]''))) (\<lambda>_.
              bindR (check_alg x allowedAlgs header) (\<lambda>_.
              bindR (check_jwk header) (\<lambda>jwk.
              case x_verify_embedded x allowedAlgs proof' of
                None \<Rightarrow> Inl (invalidDpopProof (''DPoP proof signature invalid [RFC9449 '' @ sec @ ''4.3]''))
              | Some payload \<Rightarrow>
                  bindR (check_claims x config now ctx payload) (\<lambda>(jti, iat).
                  case x_thumbprint x jwk of
                    None \<Rightarrow> Inl (JsExn None)
                  | Some jkt \<Rightarrow>
                      bindR (check_nonce x config now ctx jkt payload) (\<lambda>_. Inr (jkt, jti, iat))))))))"

definition verifyDpopProof ::
  "ext \<Rightarrow> 's storage \<Rightarrow> app_config \<Rightarrow> int \<Rightarrow> dpop_context \<Rightarrow> header_value \<Rightarrow> ('s, exn, string) act" where
  "verifyDpopProof x st config now ctx proofHeader =
     bindE (liftE (check_proof x config now ctx proofHeader)) (\<lambda>(jkt, jti, iat).
     bindE (jti_register (st_jti st) (dpop_replay_context x ctx) (dpop_replay_id jkt jti)
              (dpop_expiry config iat) now) (\<lambda>fresh.
     bindE (throwIf (\<not> fresh) (invalidDpopProof (''DPoP proof replay detected [RFC9449 '' @ sec @ ''11.1]''))) (\<lambda>_.
     returnE jkt)))"

section \<open>What the checks establish\<close>

text \<open>A proof as the checks leave it: \<open>jkt\<close> is the thumbprint of the key in its header, \<open>j\<close> its
  identifier and \<open>iat\<close> its issue time, at server time \<open>now\<close>.\<close>

definition proof_ok ::
  "ext \<Rightarrow> app_config \<Rightarrow> int \<Rightarrow> dpop_context \<Rightarrow> string \<Rightarrow> string \<Rightarrow> string \<Rightarrow> rat \<Rightarrow> bool" where
  "proof_ok x config now ctx pf jkt j iat \<longleftrightarrow>
     (\<exists>header alg jwk payload htu.
        x_decode_header x pf = Some header \<and> jget header ''typ'' = Some (JStr ''dpop+jwt'') \<and>
        jget header ''alg'' = Some (JStr alg) \<and>
        alg \<in> set (acceptedJwsAlgs (Some (md_dpopSigningAlgs (cfg_metadata config)))) \<and>
        jget header ''jwk'' = Some jwk \<and> (\<forall>m. jwk = JObj m \<longrightarrow> jget m ''d'' = None) \<and>
        x_verify_embedded x (acceptedJwsAlgs (Some (md_dpopSigningAlgs (cfg_metadata config)))) pf = Some payload \<and>
        x_thumbprint x jwk = Some jkt \<and>
        jget payload ''jti'' = Some (JStr j) \<and> j \<noteq> [] \<and>
        jget payload ''htm'' = Some (JStr (dc_htm ctx)) \<and>
        jget payload ''htu'' = Some (JStr htu) \<and> normalizeHtu x htu = normalizeHtu x (dc_htu ctx) \<and>
        jget payload ''iat'' = Some (JNum iat) \<and>
        of_int (sec_of now - cfg_dpopProofMaxAgeSec config) \<le> iat \<and>
        iat \<le> of_int (sec_of now + cfg_clockSkewFutureAcceptSec config) \<and>
        (\<forall>a. dc_ath ctx = Some a \<longrightarrow> jget payload ''ath'' = Some (JStr a)) \<and>
        (cfg_dpopNonceRequired config \<longrightarrow>
           (\<exists>n. jget payload ''nonce'' = Some (JStr n) \<and>
                validNonce x n jkt (normalizeHtu x (dc_htu ctx)) config now)))"

lemma check_jwk_Inr:
  "check_jwk header = Inr k \<Longrightarrow>
     jget header ''jwk'' = Some k \<and> (\<forall>m. k = JObj m \<longrightarrow> jget m ''d'' = None)"
  unfolding check_jwk_def act_iff
  by (cases "jget header ''jwk''"; cases "the (jget header ''jwk'')") (auto split: if_splits)

lemma check_alg_Inr:
  "check_alg x algs header = Inr u \<Longrightarrow> \<exists>a. jget header ''alg'' = Some (JStr a) \<and> a \<in> set algs"
  unfolding check_alg_def Let_def act_iff
  by (cases "jget header ''alg''"; cases "the (jget header ''alg'')") auto

lemma not_case_JStr:
  "\<not> (case v of Some (JStr t) \<Rightarrow> \<not> Q t | _ \<Rightarrow> True) \<longleftrightarrow> (\<exists>t. v = Some (JStr t) \<and> Q t)"
  by (cases v; cases "the v") auto

lemma check_claims_Inr:
  assumes "check_claims x config now ctx payload = Inr (j, iat)"
  shows "jget payload ''jti'' = Some (JStr j)" "j \<noteq> []"
    and "jget payload ''htm'' = Some (JStr (dc_htm ctx))"
    and "\<exists>htu. jget payload ''htu'' = Some (JStr htu) \<and> normalizeHtu x htu = normalizeHtu x (dc_htu ctx)"
    and "jget payload ''iat'' = Some (JNum iat)"
    and "of_int (sec_of now - cfg_dpopProofMaxAgeSec config) \<le> iat"
    and "iat \<le> of_int (sec_of now + cfg_clockSkewFutureAcceptSec config)"
    and "\<And>a. dc_ath ctx = Some a \<Longrightarrow> jget payload ''ath'' = Some (JStr a)"
  using assms unfolding check_claims_def Let_def act_iff not_case_JStr
  by auto

lemma check_nonce_Inr:
  assumes "check_nonce x config now ctx jkt payload = Inr u" and "cfg_dpopNonceRequired config"
  shows "\<exists>n. jget payload ''nonce'' = Some (JStr n) \<and>
           validNonce x n jkt (normalizeHtu x (dc_htu ctx)) config now"
  using assms unfolding check_nonce_def Let_def act_iff de_Morgan_conj not_case_JStr by blast

lemma check_proof_Inr:
  assumes "check_proof x config now ctx h = Inr (jkt, j, iat)"
  obtains pf where "h = Hdr_one pf" and "proof_ok x config now ctx pf jkt j iat"
proof -
  from assms obtain pf where h: "h = Hdr_one pf" by (cases h) (simp_all add: check_proof_def)
  let ?algs = "acceptedJwsAlgs (Some (md_dpopSigningAlgs (cfg_metadata config)))"
  from assms obtain header jwk payload where p:
    "x_decode_header x pf = Some header" "jget header ''typ'' = Some (JStr ''dpop+jwt'')"
    "check_alg x ?algs header = Inr ()" "check_jwk header = Inr jwk"
    "x_verify_embedded x ?algs pf = Some payload" "check_claims x config now ctx payload = Inr (j, iat)"
    "x_thumbprint x jwk = Some jkt" "check_nonce x config now ctx jkt payload = Inr ()"
    unfolding check_proof_def h header_value.case act_iff Let_def by (auto simp: act_iff)
  then have "proof_ok x config now ctx pf jkt j iat"
    using check_alg_Inr [OF p(3)] check_jwk_Inr [OF p(4)] check_claims_Inr [OF p(6)]
      check_nonce_Inr [OF p(8)]
    unfolding proof_ok_def by blast
  with h show thesis by (rule that)
qed

text \<open>The proof alone determines the key, the identifier and the issue time.\<close>

lemma proof_ok_unique:
  "proof_ok x config t ctx pf k j i \<Longrightarrow> proof_ok x config t' ctx' pf k' j' i' \<Longrightarrow>
     k' = k \<and> j' = j \<and> i' = i"
  unfolding proof_ok_def by fastforce

text \<open>The entry of an accepted proof in the replay table outlives every later time at which the
  proof is still in its window, as long as some clock skew is configured.\<close>

lemma proof_expiry_outlives:
  assumes "of_int (sec_of now - cfg_dpopProofMaxAgeSec config) \<le> iat"
    and "1 \<le> cfg_clockSkewFutureAcceptSec config"
  shows "now < dpop_expiry config iat"
proof -
  have "(1::rat) \<le> of_int (cfg_clockSkewFutureAcceptSec config)" using assms(2) by linarith
  with assms(1) have "of_int (sec_of now + 1) \<le>
      iat + of_int (cfg_dpopProofMaxAgeSec config) + of_int (cfg_clockSkewFutureAcceptSec config)"
    by simp
  then have "(of_int ((sec_of now + 1) * 1000) :: rat) \<le>
      (iat + of_int (cfg_dpopProofMaxAgeSec config) + of_int (cfg_clockSkewFutureAcceptSec config)) * 1000"
    by simp
  from js_date_ge [OF this] sec_of_bounds(2) [of now] show ?thesis by (simp add: dpop_expiry_def)
qed

context jti_port begin

lemma verifyDpopProof_Inr:
  assumes "ok s" and "verifyDpopProof x st config now ctx h s = (Inr jkt, s')"
  obtains pf j iat where "h = Hdr_one pf" and "proof_ok x config now ctx pf jkt j iat" and "ok s'"
    and "\<not> a_live (view s) (dpop_replay_context x ctx) (dpop_replay_id jkt j) now"
    and "\<And>t. t < dpop_expiry config iat \<Longrightarrow>
           a_live (view s') (dpop_replay_context x ctx) (dpop_replay_id jkt j) t"
proof -
  from assms(2) obtain j iat where c: "check_proof x config now ctx h = Inr (jkt, j, iat)" and
    r: "jti_register (st_jti st) (dpop_replay_context x ctx) (dpop_replay_id jkt j)
          (dpop_expiry config iat) now s = (Inr True, s')"
    unfolding verifyDpopProof_def act_iff by (auto simp: act_iff split: if_splits)
  from obeys_orD [OF jti_register assms(1) r] have post: "ok s'"
    "spec_jti_register (dpop_replay_context x ctx) (dpop_replay_id jkt j) (dpop_expiry config iat) now
       (view s) True (view s')" by simp_all
  show thesis
  proof (rule check_proof_Inr [OF c])
    fix pf assume "h = Hdr_one pf" and "proof_ok x config now ctx pf jkt j iat"
    then show thesis using post by (intro that) (auto simp: spec_jti_register_def)
  qed
qed

text \<open>A proof that has been accepted and is accepted again in the same replay context while its registration is
  remembered: no skew is configured, and the entry in the replay table has expired in the last second of the proof.\<close>

lemma proof_replay:
  assumes first: "ok s" "verifyDpopProof x st config t1 ctx h s = (Inr k, s1)"
    and between: "ok s2" "keeps_live t2 (view s1) (view s2)"
    and second: "verifyDpopProof x st config t2 ctx' h s2 = (Inr k', s3)"
    and same: "dpop_replay_context x ctx' = dpop_replay_context x ctx"
  obtains pf j iat where "h = Hdr_one pf" and "proof_ok x config t1 ctx pf k j iat" and "proof_ok x config t2 ctx' pf k j iat"
    and "k' = k" and "cfg_clockSkewFutureAcceptSec config \<le> 0" and "dpop_expiry config iat \<le> t2"
proof -
  from verifyDpopProof_Inr [OF first] obtain pf j iat where 1: "h = Hdr_one pf"
    "proof_ok x config t1 ctx pf k j iat"
    "\<And>t. t < dpop_expiry config iat \<Longrightarrow>
       a_live (view s1) (dpop_replay_context x ctx) (dpop_replay_id k j) t" by metis
  from verifyDpopProof_Inr [OF between(1) second] obtain pf' j' iat' where 2: "h = Hdr_one pf'"
    "proof_ok x config t2 ctx' pf' k' j' iat'"
    "\<not> a_live (view s2) (dpop_replay_context x ctx') (dpop_replay_id k' j') t2" by metis
  with proof_ok_unique 1 have eq: "pf' = pf" "k' = k" "j' = j" "iat' = iat" by auto
  have late: "dpop_expiry config iat \<le> t2"
    using 1(3) 2(3) between(2) by (force simp: eq same keeps_live_def not_less [symmetric])
  moreover have "cfg_clockSkewFutureAcceptSec config \<le> 0"
  proof (rule ccontr)
    assume "\<not> ?thesis"
    then have "t2 < dpop_expiry config iat"
      using 2(2) unfolding proof_ok_def eq by (intro proof_expiry_outlives) auto
    with late show False by simp
  qed
  ultimately show thesis using 1(1,2) 2(2) eq by (intro that) simp_all
qed

lemma verifyDpopProof_moves:
  assumes "reflp T" "transp T" and "\<And>c j e n r a a'. spec_jti_register c j e n a r a' \<Longrightarrow> T a a'"
  shows "moves ok view T (verifyDpopProof x st config now ctx h)"
  using assms unfolding verifyDpopProof_def
  by (auto intro!: moves_intro moves_obeys_or [OF jti_register] simp: case_prod_beta)

end

end
