(* ===== verification/Http.thy ===== *)
theory Http
  imports Dpop
begin

text \<open>
  Requests and replies, and what all endpoints share: the form body parser
  (\<open>src/endpoints/form.ts\<close>), the redirect helpers (\<open>src/endpoints/redirect.ts\<close>), and the error
  handler and the response hook of \<open>src/endpoints/index.ts\<close>. A repeated form parameter always
  arrives as an array, and every reply carries the clickjacking headers.
\<close>

section \<open>Requests and replies\<close>

record http_req =
  rq_method :: string
  rq_ip :: string
  rq_contentType :: "string option"
  rq_authorization :: "string option"
  rq_dpop :: header_value
  rq_cookie :: "string option"
  rq_body :: jobj
  rq_query :: jobj

datatype reply_body = No_body | Json_body jobj | Html_body string

record reply =
  rp_status :: nat
  rp_headers :: "(string \<times> string) list"
  rp_body :: reply_body

definition set_headers :: "(string \<times> string) list \<Rightarrow> (string \<times> string) list \<Rightarrow> (string \<times> string) list" where
  "set_headers hs out = foldl (\<lambda>m (k, v). map_set k v m) out hs"

definition reply_with :: "nat \<Rightarrow> (string \<times> string) list \<Rightarrow> reply_body \<Rightarrow> reply" where
  "reply_with status headers body = \<lparr>rp_status = status, rp_headers = set_headers headers [], rp_body = body\<rparr>"

definition no_store :: "string \<times> string" where
  "no_store = (''cache-control'', ''no-store'')"

definition no_cache :: "string \<times> string" where
  "no_cache = (''pragma'', ''no-cache'')"

text \<open>The answer of the endpoints to a source over its limit.\<close>

definition too_many_requests :: reply where
  "too_many_requests =
     reply_with 429 [no_store]
       (Json_body [(''error'', JStr ''invalid_request''), (''error_description'', JStr ''too many requests'')])"

text \<open>\<open>contentType?.toLowerCase().startsWith("application/x-www-form-urlencoded")\<close>\<close>

definition is_form :: "http_req \<Rightarrow> bool" where
  "is_form rq \<longleftrightarrow>
     (case rq_contentType rq of
        None \<Rightarrow> False | Some t \<Rightarrow> starts_with ''application/x-www-form-urlencoded'' (to_lower t))"

section \<open>Error codes on the wire\<close>

fun error_text :: "token_error_code \<Rightarrow> string" where
  "error_text invalid_request = ''invalid_request''"
| "error_text invalid_client = ''invalid_client''"
| "error_text invalid_grant = ''invalid_grant''"
| "error_text unauthorized_client = ''unauthorized_client''"
| "error_text unsupported_grant_type = ''unsupported_grant_type''"
| "error_text invalid_scope = ''invalid_scope''"
| "error_text unsupported_response_type = ''unsupported_response_type''"
| "error_text invalid_dpop_proof = ''invalid_dpop_proof''"
| "error_text use_dpop_nonce = ''use_dpop_nonce''"
| "error_text unsupported_token_type = ''unsupported_token_type''"
| "error_text server_error = ''server_error''"

fun authorize_error_text :: "authorize_error_code \<Rightarrow> string" where
  "authorize_error_text az_invalid_request = ''invalid_request''"
| "authorize_error_text az_unauthorized_client = ''unauthorized_client''"
| "authorize_error_text az_access_denied = ''access_denied''"
| "authorize_error_text az_unsupported_response_type = ''unsupported_response_type''"
| "authorize_error_text az_invalid_scope = ''invalid_scope''"
| "authorize_error_text az_server_error = ''server_error''"
| "authorize_error_text az_temporarily_unavailable = ''temporarily_unavailable''"
| "authorize_error_text az_interaction_required = ''interaction_required''"
| "authorize_error_text az_login_required = ''login_required''"
| "authorize_error_text az_consent_required = ''consent_required''"
| "authorize_error_text az_invalid_request_uri = ''invalid_request_uri''"
| "authorize_error_text az_request_not_supported = ''request_not_supported''"
| "authorize_error_text az_request_uri_not_supported = ''request_uri_not_supported''"

section \<open>The error handler\<close>

definition body_json :: "error_body \<Rightarrow> jobj" where
  "body_json b =
     (''error'', JStr (error_text (eb_error b))) #
     (case eb_error_description b of Some d \<Rightarrow> [(''error_description'', JStr d)] | None \<Rightarrow> [])"

text \<open>An error with an HTTP status of its own is one of the framework's.\<close>

definition framework_error :: "nat \<Rightarrow> reply" where
  "framework_error status =
     (if 400 \<le> status \<and> status < 500
      then reply_with status [no_store, no_cache]
             (Json_body [(''error'', JStr ''invalid_request''),
                (''error_description'', JStr (if status = 413 then ''request entity too large''
                                             else if status = 415 then ''unsupported media type''
                                             else ''malformed request''))])
      else reply_with 500 [no_store, no_cache] (Json_body [(''error'', JStr ''server_error'')]))"

definition handle_error :: "exn \<Rightarrow> reply" where
  "handle_error e =
     (case e of
        OAuthExn err \<Rightarrow>
          reply_with (oe_status err) ([no_store, no_cache] @ oe_headers err) (Json_body (body_json (toBody err)))
      | _ \<Rightarrow> framework_error 500)"

text \<open>What the client of an endpoint sees: the reply, or the rendered error.\<close>

definition serve :: "('s, exn, reply) act \<Rightarrow> 's \<Rightarrow> reply \<times> 's" where
  "serve m s = (case m s of (Inl e, s') \<Rightarrow> (handle_error e, s') | (Inr r, s') \<Rightarrow> (r, s'))"

definition BASE_CSP :: string where
  "BASE_CSP = ''default-src '' @ [CHR 0x27] @ ''none'' @ [CHR 0x27] @ ''; frame-ancestors '' @ [CHR 0x27] @
     ''none'' @ [CHR 0x27] @ ''; base-uri '' @ [CHR 0x27] @ ''none'' @ [CHR 0x27] @ ''; form-action '' @
     [CHR 0x27] @ ''self'' @ [CHR 0x27]"

definition on_send :: "reply \<Rightarrow> reply" where
  "on_send r =
     (let hs = map_set ''x-frame-options'' ''DENY'' (rp_headers r)
      in r\<lparr>rp_headers := (if map_get hs ''content-security-policy'' = None
                         then map_set ''content-security-policy'' BASE_CSP hs else hs)\<rparr>)"

section \<open>The form body parser\<close>

definition form_add :: "jobj \<Rightarrow> string \<times> string \<Rightarrow> jobj" where
  "form_add out p =
     (case p of (key, v) \<Rightarrow>
        (case jget out key of
           None \<Rightarrow> map_set key (JStr v) out
         | Some (JArr vs) \<Rightarrow> map_set key (JArr (vs @ [JStr v])) out
         | Some existing \<Rightarrow> map_set key (JArr [existing, JStr v]) out))"

text \<open>The error is the HTTP status of a body with too many parameters.\<close>

definition parse_form :: "ext \<Rightarrow> string \<Rightarrow> nat + jobj" where
  "parse_form x raw =
     (if 256 \<le> count_list raw (CHR ''&'') then Inl 400
      else Inr (foldl form_add [] (x_form_pairs x raw)))"

definition values_of :: "string \<Rightarrow> (string \<times> string) list \<Rightarrow> string list" where
  "values_of k ps = map snd (filter (\<lambda>p. fst p = k) ps)"

definition form_value :: "string list \<Rightarrow> json option" where
  "form_value vs = (case vs of [] \<Rightarrow> None | [v] \<Rightarrow> Some (JStr v) | _ \<Rightarrow> Some (JArr (map JStr vs)))"

lemma form_value_snoc:
  "form_value (vs @ [v]) =
     (case form_value vs of None \<Rightarrow> Some (JStr v) | Some (JArr js) \<Rightarrow> Some (JArr (js @ [JStr v]))
      | Some j \<Rightarrow> Some (JArr [j, JStr v]))"
  by (cases vs rule: list.exhaust; cases "tl vs") (auto simp: form_value_def)

lemma form_add_get:
  "jget (form_add out (k', v)) k =
     (if k = k' then (case jget out k of None \<Rightarrow> Some (JStr v) | Some (JArr js) \<Rightarrow> Some (JArr (js @ [JStr v]))
                      | Some j \<Rightarrow> Some (JArr [j, JStr v]))
      else jget out k)"
  by (auto simp: form_add_def split: option.split json.split)

lemma foldl_form_add: "jget (foldl form_add [] ps) k = form_value (values_of k ps)"
proof (induction ps rule: rev_induct)
  case Nil
  then show ?case by (simp add: values_of_def form_value_def)
next
  case (snoc p ps)
  obtain k' v where p: "p = (k', v)" by fastforce
  show ?case
  proof (cases "k' = k")
    case True
    then have "values_of k (ps @ [p]) = values_of k ps @ [v]" by (simp add: values_of_def p)
    with snoc True show ?thesis by (simp add: p form_add_get form_value_snoc)
  next
    case False
    then have "values_of k (ps @ [p]) = values_of k ps" by (simp add: values_of_def p)
    with snoc False show ?thesis by (simp add: p form_add_get)
  qed
qed

section \<open>Redirects\<close>

definition consentCsp :: "ext \<Rightarrow> string \<Rightarrow> exn + string" where
  "consentCsp x redirectUri =
     (case x_url x redirectUri of None \<Rightarrow> Inl (JsExn None) | Some u \<Rightarrow> Inr (BASE_CSP @ '' '' @ u_origin u))"

definition buildRedirect :: "ext \<Rightarrow> string \<Rightarrow> (string \<times> string) list \<Rightarrow> exn + string" where
  "buildRedirect x redirectUri params =
     (case x_url x redirectUri of
        None \<Rightarrow> Inl (JsExn None)
      | Some _ \<Rightarrow> Inr (foldl (\<lambda>url (k, v). x_url_set x url k v) redirectUri params))"

definition errorPage :: "authorize_error_code \<Rightarrow> string \<Rightarrow> reply" where
  "errorPage error description =
     reply_with 400 [no_store]
       (Json_body [(''error'', JStr (authorize_error_text error)),
                   (''error_description'', JStr (sanitizeErrorDescription description))])"

definition opt_param :: "string \<Rightarrow> string option \<Rightarrow> (string \<times> string) list" where
  "opt_param k v = (case v of None \<Rightarrow> [] | Some s \<Rightarrow> [(k, s)])"

definition see_other :: "string \<Rightarrow> reply" where
  "see_other location = reply_with 303 [no_store, (''location'', location)] No_body"

definition redirectError ::
  "ext \<Rightarrow> string \<Rightarrow> authorize_error_code \<Rightarrow> string option \<Rightarrow> string option \<Rightarrow> string \<Rightarrow> exn + reply" where
  "redirectError x redirectUri error description state iss =
     bindR (buildRedirect x redirectUri
       ([(''error'', authorize_error_text error)] @
        (if truthy description then [(''error_description'', sanitizeErrorDescription (the description))] else []) @
        opt_param ''state'' state @ [(''iss'', iss)])) (\<lambda>location.
     Inr (see_other location))"

definition redirectCode :: "ext \<Rightarrow> string \<Rightarrow> string \<Rightarrow> string option \<Rightarrow> string \<Rightarrow> exn + reply" where
  "redirectCode x redirectUri code state iss =
     bindR (buildRedirect x redirectUri ([(''code'', code)] @ opt_param ''state'' state @ [(''iss'', iss)])) (\<lambda>location.
     Inr (see_other location))"

text \<open>\<open>encodeURIComponent\<close>\<close>

definition uri_unreserved :: "char \<Rightarrow> bool" where
  "uri_unreserved c \<longleftrightarrow> is_alnum c \<or> c \<in> set (''-_.!~*()'' @ [CHR 0x27])"

definition hex_digit :: "nat \<Rightarrow> char" where
  "hex_digit n = (if n < 10 then char_of (48 + n) else char_of (55 + n))"

definition encodeURIComponent :: "string \<Rightarrow> string" where
  "encodeURIComponent s =
     concat (map (\<lambda>c. if uri_unreserved c then [c]
                      else concat (map (\<lambda>b. [CHR ''%'', hex_digit (code_of b div 16), hex_digit (code_of b mod 16)])
                                     (utf8_char c))) s)"

end
