(* ===== verification/Clients.thy ===== *)
theory Clients
  imports Config StoragePort "HOL-Library.Monad_Syntax"
begin

text \<open>
  Registered clients (\<open>src/domain/clients.ts\<close>): the metadata schema, the registration checks
  on top of it, loading a client from the store, and the two membership tests the protocol
  makes, redirect URI by exact string and scope by subset.
\<close>

section \<open>The metadata schema\<close>

record client_metadata =
  redirect_uris :: "string list"
  token_endpoint_auth_method :: string
  jwks :: "jobj list option"
  jwks_uri :: "string option"
  grant_types :: "string list"
  response_types :: "string list"
  md_scope :: string
  id_token_signed_response_alg :: string
  dpop_bound_access_tokens :: bool
  require_pushed_authorization_requests :: bool

record client =
  clientId :: string
  clientName :: "string option"
  metadata :: client_metadata

text \<open>The combinators of the schema library the schema uses. A member that is absent takes its
  default; any other value, \<open>null\<close> included, has to match.\<close>

definition z_default :: "'a \<Rightarrow> (json \<Rightarrow> 'a option) \<Rightarrow> json option \<Rightarrow> 'a option" where
  "z_default d p v = (case v of None \<Rightarrow> Some d | Some j \<Rightarrow> p j)"

definition z_optional :: "(json \<Rightarrow> 'a option) \<Rightarrow> json option \<Rightarrow> 'a option option" where
  "z_optional p v = (case v of None \<Rightarrow> Some None | Some j \<Rightarrow> map_option Some (p j))"

definition z_required :: "(json \<Rightarrow> 'a option) \<Rightarrow> json option \<Rightarrow> 'a option" where
  "z_required p v = Option.bind v p"

definition z_string :: "json \<Rightarrow> string option" where
  "z_string j = (case j of JStr s \<Rightarrow> Some s | _ \<Rightarrow> None)"

definition z_enum :: "string list \<Rightarrow> json \<Rightarrow> string option" where
  "z_enum vals j = (case j of JStr s \<Rightarrow> if s \<in> set vals then Some s else None | _ \<Rightarrow> None)"

definition z_boolean :: "json \<Rightarrow> bool option" where
  "z_boolean j = (case j of JBool b \<Rightarrow> Some b | _ \<Rightarrow> None)"

definition z_array :: "(json \<Rightarrow> 'a option) \<Rightarrow> json \<Rightarrow> 'a list option" where
  "z_array p j = (case j of JArr js \<Rightarrow> those (map p js) | _ \<Rightarrow> None)"

definition z_url :: "ext \<Rightarrow> json \<Rightarrow> string option" where
  "z_url x j = (case j of JStr s \<Rightarrow> if x_url x s = None then None else Some s | _ \<Rightarrow> None)"

definition z_nonempty :: "(json \<Rightarrow> 'a list option) \<Rightarrow> json \<Rightarrow> 'a list option" where
  "z_nonempty p j = (case p j of Some xs \<Rightarrow> if xs = [] then None else Some xs | None \<Rightarrow> None)"

definition jwkSchema :: "json \<Rightarrow> jobj option" where
  "jwkSchema j =
     (case j of JObj o' \<Rightarrow> (case jget o' ''kty'' of Some (JStr _) \<Rightarrow> Some o' | _ \<Rightarrow> None) | _ \<Rightarrow> None)"

definition jwksSchema :: "json \<Rightarrow> jobj list option" where
  "jwksSchema j = (case j of JObj o' \<Rightarrow> z_required (z_array jwkSchema) (jget o' ''keys'') | _ \<Rightarrow> None)"

text \<open>
  The refinement of \<open>jwks_uri\<close> parses the URL again and the schema library runs it on any
  string, so a string that is no URL makes the refinement itself throw.
\<close>

definition jwks_uri_refine :: "ext \<Rightarrow> json \<Rightarrow> string option" where
  "jwks_uri_refine x j =
     (case j of
        JStr s \<Rightarrow> (case x_url x s of Some u \<Rightarrow> if u_protocol u = ''https:'' then Some s else None | None \<Rightarrow> None)
      | _ \<Rightarrow> None)"

definition jwks_uri_throws :: "ext \<Rightarrow> json option \<Rightarrow> bool" where
  "jwks_uri_throws x v = (case v of Some (JStr s) \<Rightarrow> x_url x s = None | _ \<Rightarrow> False)"

definition metadataSchema :: "ext \<Rightarrow> json \<Rightarrow> client_metadata option" where
  "metadataSchema x j =
     (case j of
        JObj m \<Rightarrow> do {
          uris \<leftarrow> z_required (z_nonempty (z_array (z_url x))) (jget m ''redirect_uris'');
          auth \<leftarrow> z_default ''private_key_jwt'' (z_enum [''private_key_jwt'']) (jget m ''token_endpoint_auth_method'');
          ks \<leftarrow> z_optional jwksSchema (jget m ''jwks'');
          uri \<leftarrow> z_optional (jwks_uri_refine x) (jget m ''jwks_uri'');
          grants \<leftarrow> z_default [''authorization_code'', ''refresh_token'']
            (z_array (z_enum [''authorization_code'', ''refresh_token''])) (jget m ''grant_types'');
          resp \<leftarrow> z_default [''code''] (z_array (z_enum [''code''])) (jget m ''response_types'');
          scope \<leftarrow> z_default ''openid'' z_string (jget m ''scope'');
          alg \<leftarrow> z_default ''ES256'' (z_enum [''ES256'']) (jget m ''id_token_signed_response_alg'');
          bound \<leftarrow> z_default True z_boolean (jget m ''dpop_bound_access_tokens'');
          par \<leftarrow> z_default True z_boolean (jget m ''require_pushed_authorization_requests'');
          Some \<lparr>redirect_uris = uris, token_endpoint_auth_method = auth, jwks = ks, jwks_uri = uri,
                grant_types = grants, response_types = resp, md_scope = scope,
                id_token_signed_response_alg = alg, dpop_bound_access_tokens = bound,
                require_pushed_authorization_requests = par\<rparr>
        }
      | _ \<Rightarrow> None)"

section \<open>parseClientMetadata\<close>

text \<open>The loop over the redirect URIs; \<open>new URL\<close> throws on a string that is no URL.\<close>

fun check_redirect_uris :: "ext \<Rightarrow> string list \<Rightarrow> exn + unit" where
  "check_redirect_uris x [] = Inr ()"
| "check_redirect_uris x (uri # uris) =
     (case x_url x uri of
        None \<Rightarrow> Inl (JsExn None)
      | Some u \<Rightarrow>
          if u_protocol u \<noteq> ''https:'' \<or> u_hash u \<noteq> []
          then Inl (InvalidClientMetadataExn
                 (Some ''redirect_uri must be https without fragment [FAPI2 5.3.2.2(8)]''))
          else check_redirect_uris x uris)"

definition parseClientMetadata :: "ext \<Rightarrow> json \<Rightarrow> exn + client_metadata" where
  "parseClientMetadata x raw =
     (if (case raw of JObj m \<Rightarrow> jwks_uri_throws x (jget m ''jwks_uri'') | _ \<Rightarrow> False)
      then Inl (JsExn None)
      else case metadataSchema x raw of
        None \<Rightarrow> Inl (InvalidClientMetadataExn None)
      | Some md \<Rightarrow>
          bindR (check_redirect_uris x (redirect_uris md)) (\<lambda>_.
          bindR (throwIfR (jwks md = None \<and> \<not> truthy (jwks_uri md))
            (InvalidClientMetadataExn
               (Some (''client needs jwks or jwks_uri for private_key_jwt [RFC7523 '' @ sec @ ''3(9)]'')))) (\<lambda>_.
          Inr md)))"

section \<open>loadClient and the membership tests\<close>

definition loadClient :: "ext \<Rightarrow> 's client_repo \<Rightarrow> string \<Rightarrow> ('s, exn, client option) act" where
  "loadClient x repo cid =
     (if cid = [] then returnE None
      else bindE (cl_findById repo cid) (\<lambda>r.
        case r of
          None \<Rightarrow> returnE None
        | Some r \<Rightarrow>
            bindE (liftE (parseClientMetadata x (cr_metadata r))) (\<lambda>md.
            returnE (Some \<lparr>clientId = cr_clientId r, clientName = cr_clientName r, metadata = md\<rparr>))))"

definition redirectUriRegistered :: "client \<Rightarrow> string \<Rightarrow> bool" where
  "redirectUriRegistered c redirectUri \<longleftrightarrow> redirectUri \<in> set (redirect_uris (metadata c))"

definition scopeAllowed :: "client \<Rightarrow> string \<Rightarrow> bool" where
  "scopeAllowed c requestedScope \<longleftrightarrow>
     (let allowed = set (words_of (md_scope (metadata c)))
      in list_all (\<lambda>s. s \<in> allowed) (words_of requestedScope))"

definition clientJwksSource :: "client \<Rightarrow> jobj list option \<times> string option" where
  "clientJwksSource c = (jwks (metadata c), jwks_uri (metadata c))"

section \<open>What a loaded client satisfies\<close>

text \<open>The registration profile: https redirect URIs without fragment, a way to find the keys over
  TLS, only the grants, response types and algorithms the server implements.\<close>

definition registration_ok :: "ext \<Rightarrow> client_metadata \<Rightarrow> bool" where
  "registration_ok x md \<longleftrightarrow>
     redirect_uris md \<noteq> [] \<and>
     list_all (\<lambda>uri. case x_url x uri of Some u \<Rightarrow> u_protocol u = ''https:'' \<and> u_hash u = [] | None \<Rightarrow> False)
       (redirect_uris md) \<and>
     (jwks md \<noteq> None \<or> truthy (jwks_uri md)) \<and>
     (case jwks_uri md of None \<Rightarrow> True
      | Some s \<Rightarrow> (case x_url x s of Some u \<Rightarrow> u_protocol u = ''https:'' | None \<Rightarrow> False)) \<and>
     token_endpoint_auth_method md = ''private_key_jwt'' \<and>
     list_all (\<lambda>g. g \<in> {''authorization_code'', ''refresh_token''}) (grant_types md) \<and>
     list_all (\<lambda>r. r = ''code'') (response_types md) \<and>
     id_token_signed_response_alg md = ''ES256''"

lemma those_map_SomeD: "those (map p js) = Some xs \<Longrightarrow> v \<in> set xs \<Longrightarrow> \<exists>j. p j = Some v"
  by (induction js arbitrary: xs) (auto split: option.splits)

lemma z_array_SomeD: "z_array p j = Some xs \<Longrightarrow> v \<in> set xs \<Longrightarrow> \<exists>i. p i = Some v"
  by (auto simp: z_array_def split: json.splits dest: those_map_SomeD)

lemma z_enum_SomeD: "z_enum vals j = Some v \<Longrightarrow> v \<in> set vals"
  by (auto simp: z_enum_def split: json.splits if_splits)

lemma z_default_enum: "z_default d (z_enum vals) v = Some s \<Longrightarrow> s = d \<or> s \<in> set vals"
  by (auto simp: z_default_def split: option.splits dest: z_enum_SomeD)

lemma z_default_enums:
  "z_default ds (z_array (z_enum vals)) v = Some ss \<Longrightarrow> ss = ds \<or> set ss \<subseteq> set vals"
  by (auto simp: z_default_def split: option.splits dest: z_array_SomeD z_enum_SomeD)

lemma z_optional_uri:
  "z_optional (jwks_uri_refine x) v = Some (Some s) \<Longrightarrow>
     \<exists>u. x_url x s = Some u \<and> u_protocol u = ''https:''"
  by (auto simp: z_optional_def jwks_uri_refine_def split: option.splits json.splits if_splits)

lemma z_nonempty_not_Nil: "z_required (z_nonempty p) v = Some xs \<Longrightarrow> xs \<noteq> []"
  by (auto simp: z_required_def z_nonempty_def Option.bind_eq_Some_conv split: option.splits if_splits)

lemma check_redirect_uris_Inr:
  "check_redirect_uris x uris = Inr u \<longleftrightarrow>
     list_all (\<lambda>uri. case x_url x uri of Some u \<Rightarrow> u_protocol u = ''https:'' \<and> u_hash u = [] | None \<Rightarrow> False) uris"
  by (induction uris) (auto split: option.splits)

lemma metadataSchema_fields:
  assumes "metadataSchema x raw = Some md"
  obtains m where "raw = JObj m"
    and "z_required (z_nonempty (z_array (z_url x))) (jget m ''redirect_uris'') = Some (redirect_uris md)"
    and "z_optional (jwks_uri_refine x) (jget m ''jwks_uri'') = Some (jwks_uri md)"
    and "z_default ''private_key_jwt'' (z_enum [''private_key_jwt'']) (jget m ''token_endpoint_auth_method'')
           = Some (token_endpoint_auth_method md)"
    and "z_default [''authorization_code'', ''refresh_token'']
           (z_array (z_enum [''authorization_code'', ''refresh_token''])) (jget m ''grant_types'')
           = Some (grant_types md)"
    and "z_default [''code''] (z_array (z_enum [''code''])) (jget m ''response_types'') = Some (response_types md)"
    and "z_default ''ES256'' (z_enum [''ES256'']) (jget m ''id_token_signed_response_alg'')
           = Some (id_token_signed_response_alg md)"
  using assms by (auto simp: metadataSchema_def Option.bind_eq_Some_conv split: json.splits)

lemma metadataSchema_registration:
  assumes "metadataSchema x raw = Some md"
  shows "redirect_uris md \<noteq> []"
    and "case jwks_uri md of None \<Rightarrow> True
         | Some s \<Rightarrow> (case x_url x s of Some u \<Rightarrow> u_protocol u = ''https:'' | None \<Rightarrow> False)"
    and "token_endpoint_auth_method md = ''private_key_jwt''"
    and "list_all (\<lambda>g. g \<in> {''authorization_code'', ''refresh_token''}) (grant_types md)"
    and "list_all (\<lambda>r. r = ''code'') (response_types md)"
    and "id_token_signed_response_alg md = ''ES256''"
proof -
  from assms obtain m where
      uris: "z_required (z_nonempty (z_array (z_url x))) (jget m ''redirect_uris'') = Some (redirect_uris md)"
    and uri: "z_optional (jwks_uri_refine x) (jget m ''jwks_uri'') = Some (jwks_uri md)"
    and auth: "z_default ''private_key_jwt'' (z_enum [''private_key_jwt'']) (jget m ''token_endpoint_auth_method'')
           = Some (token_endpoint_auth_method md)"
    and grants: "z_default [''authorization_code'', ''refresh_token'']
           (z_array (z_enum [''authorization_code'', ''refresh_token''])) (jget m ''grant_types'')
           = Some (grant_types md)"
    and resp: "z_default [''code''] (z_array (z_enum [''code''])) (jget m ''response_types'') = Some (response_types md)"
    and alg: "z_default ''ES256'' (z_enum [''ES256'']) (jget m ''id_token_signed_response_alg'')
           = Some (id_token_signed_response_alg md)"
    by (rule metadataSchema_fields)
  show "redirect_uris md \<noteq> []" using uris by (rule z_nonempty_not_Nil)
  show "case jwks_uri md of None \<Rightarrow> True
         | Some s \<Rightarrow> (case x_url x s of Some u \<Rightarrow> u_protocol u = ''https:'' | None \<Rightarrow> False)"
    using uri by (cases "jwks_uri md") (auto dest: z_optional_uri)
  show "token_endpoint_auth_method md = ''private_key_jwt''" using z_default_enum [OF auth] by simp
  show "list_all (\<lambda>g. g \<in> {''authorization_code'', ''refresh_token''}) (grant_types md)"
    using z_default_enums [OF grants] by (auto simp: list_all_iff)
  show "list_all (\<lambda>r. r = ''code'') (response_types md)"
    using z_default_enums [OF resp] by (auto simp: list_all_iff)
  show "id_token_signed_response_alg md = ''ES256''" using z_default_enum [OF alg] by simp
qed

lemma parseClientMetadata_Inr:
  "parseClientMetadata x raw = Inr md \<Longrightarrow> metadataSchema x raw = Some md \<and>
     check_redirect_uris x (redirect_uris md) = Inr () \<and> (jwks md \<noteq> None \<or> truthy (jwks_uri md))"
  by (auto simp: parseClientMetadata_def act_iff split: option.splits if_splits json.splits)

lemma parseClientMetadata_ok: "parseClientMetadata x raw = Inr md \<Longrightarrow> registration_ok x md"
  using parseClientMetadata_Inr metadataSchema_registration
  by (fastforce simp: registration_ok_def check_redirect_uris_Inr)

context client_port begin

lemma loadClient_quiet: "quiet ok view (loadClient x (st_clients st) cid)"
  by (auto simp: loadClient_def intro!: moves_intro quiet_reads [OF cl_findById])

lemma loadClient_Some:
  assumes "ok s" and "loadClient x (st_clients st) cid s = (Inr (Some c), s')"
  shows "\<exists>r. a_clients (view s) cid = Some r \<and> clientId c = cr_clientId r \<and>
           parseClientMetadata x (cr_metadata r) = Inr (metadata c)"
  using assms obeysD [OF cl_findById]
  by (fastforce simp: loadClient_def act_iff split: option.splits if_splits)

end

end
