(* ===== verification/ClientAuth.thy ===== *)
theory ClientAuth
  imports Clients
begin

text \<open>
  \<open>private_key_jwt\<close> client authentication (\<open>src/domain/client-auth.ts\<close>), used by the token, the
  pushed authorization request, the revocation and the introspection endpoint. A client that is
  let in has signed an assertion with its registered keys, for this server, in its validity
  window, and the assertion's identifier has been registered as used. For an assertion with a
  whole-second expiry that means a single use; with a fractional one there is a gap of less
  than a second.
\<close>

section \<open>The operations\<close>

definition CLIENT_ASSERTION_TYPE_JWT_BEARER :: string where
  "CLIENT_ASSERTION_TYPE_JWT_BEARER = ''urn:ietf:params:oauth:client-assertion-type:jwt-bearer''"

definition AUTH_FAILED :: string where
  "AUTH_FAILED = ''client authentication failed''"

text \<open>The replay identifier of a (client, \<open>jti\<close>) pair.\<close>

definition replayId :: "string \<Rightarrow> string \<Rightarrow> string" where
  "replayId cid jti = base64url (utf8 cid) @ ''.'' @ base64url (utf8 jti)"

text \<open>The unverified subject of the assertion, to find the client by.\<close>

definition decodeSubjectHint :: "ext \<Rightarrow> string \<Rightarrow> string option" where
  "decodeSubjectHint x assertion =
     (let parts = split_on (CHR ''.'') assertion;
          part = (if 1 < length parts then parts ! 1 else [])
      in case x_json_parse x (base64url_decode part) of
           Some (JObj payload) \<Rightarrow> str_of (jget payload ''sub'')
         | _ \<Rightarrow> None)"

text \<open>The loop over \<open>iat\<close> and \<open>nbf\<close>.\<close>

fun check_not_future :: "jobj \<Rightarrow> rat \<Rightarrow> string list \<Rightarrow> exn + unit" where
  "check_not_future claims bound [] = Inr ()"
| "check_not_future claims bound (claim # names) =
     (case jget claims claim of
        None \<Rightarrow> check_not_future claims bound names
      | Some (JNum v) \<Rightarrow>
          if bound < v
          then Inl (invalidClient (''client assertion '' @ claim @ '' is in the future [FAPI2 5.3.2.1(13)]'') None)
          else check_not_future claims bound names
      | Some _ \<Rightarrow> Inl (invalidClient (''client assertion '' @ claim @ '' must be a number'') None))"

text \<open>The checks on the request that come before any look at the assertion.\<close>

definition assertion_param :: "jobj \<Rightarrow> string option \<Rightarrow> exn + string" where
  "assertion_param body authorizationHeader =
     (let assertionPresent = present (jget body ''client_assertion'') \<or> present (jget body ''client_assertion_type'');
          secretPresent = present (jget body ''client_secret'');
          headerPresent = present (map_option JStr authorizationHeader);
          mechanisms = length (filter (\<lambda>b. b) [assertionPresent, secretPresent, headerPresent])
      in
     bindR (throwIfR (1 < mechanisms)
       (invalidRequest (''multiple client authentication mechanisms used [RFC7521 '' @ sec @ ''4.2.1]''))) (\<lambda>_.
     bindR (throwIfR (secretPresent \<or> headerPresent)
       (invalidClient ''unsupported client authentication method [FAPI2 5.3.2.1(6)]'' None)) (\<lambda>_.
     bindR (throwIfR (is_array (jget body ''client_assertion'') \<or> is_array (jget body ''client_assertion_type'') \<or>
                      is_array (jget body ''client_id''))
       (invalidRequest (''request parameters must not be repeated [RFC6749 '' @ sec @ ''3.2]''))) (\<lambda>_.
     case (str_of (jget body ''client_assertion''), str_of (jget body ''client_assertion_type'')) of
       (Some assertionStr, Some typeStr) \<Rightarrow>
         bindR (throwIfR (typeStr \<noteq> CLIENT_ASSERTION_TYPE_JWT_BEARER)
           (invalidClient (''unsupported client_assertion_type [RFC7523 '' @ sec @ ''2.2]'') None)) (\<lambda>_.
         bindR (throwIfR (length (split_on (CHR ''.'') assertionStr) \<noteq> 3 \<or> has_space_or_comma assertionStr)
           (invalidClient AUTH_FAILED None)) (\<lambda>_.
         Inr assertionStr))
     | _ \<Rightarrow> Inl (invalidClient ''client authentication required (private_key_jwt) [FAPI2 5.3.2.2(4)]'' None)))))"

text \<open>Finding the client; a malformed registration row counts as no client.\<close>

definition find_client :: "ext \<Rightarrow> 's client_repo \<Rightarrow> string option \<Rightarrow> ('s, exn, client) act" where
  "find_client x repo subjectHint =
     bindE (catchE (case subjectHint of None \<Rightarrow> returnE None | Some h \<Rightarrow> loadClient x repo h)
              (\<lambda>err. case err of
                       InvalidClientMetadataExn _ \<Rightarrow> throwE (invalidClient AUTH_FAILED None)
                     | e \<Rightarrow> throwE e)) (\<lambda>client.
     case client of
       None \<Rightarrow> throwE (invalidClient AUTH_FAILED None)
     | Some client \<Rightarrow> returnE client)"

text \<open>The signature check, with its errors mapped.\<close>

definition verify_assertion :: "ext \<Rightarrow> app_config \<Rightarrow> client \<Rightarrow> string \<Rightarrow> exn + jobj" where
  "verify_assertion x config client assertionStr =
     (case bindR (case clientJwksSource client of (ks, uri) \<Rightarrow> clientKeyResolver ks uri)
             (\<lambda>keys. verifyJws x assertionStr keys
                       (Some (md_clientAuthSigningAlgs (cfg_metadata config)))) of
        Inl JwksUnavailableExn \<Rightarrow>
          Inl (OAuthExn (oauthError server_error (Some ''client key set is temporarily unavailable'') (Some 503) None))
      | Inl JwsVerificationExn \<Rightarrow> Inl (invalidClient AUTH_FAILED None)
      | r \<Rightarrow> r)"

text \<open>The claim checks; the result is the expiry and the identifier.\<close>

definition check_assertion :: "app_config \<Rightarrow> int \<Rightarrow> jobj \<Rightarrow> client \<Rightarrow> jobj \<Rightarrow> exn + rat \<times> string" where
  "check_assertion config now body client claims =
     (let nowSec = sec_of now; skew = cfg_clockSkewFutureAcceptSec config;
          clientIdParam = str_of (jget body ''client_id'')
      in
     bindR (throwIfR (jget claims ''sub'' \<noteq> Some (JStr (clientId client)) \<or>
                      jget claims ''iss'' \<noteq> Some (JStr (clientId client)))
       (invalidClient AUTH_FAILED None)) (\<lambda>_.
     bindR (throwIfR (clientIdParam \<noteq> None \<and> clientIdParam \<noteq> Some (clientId client))
       (invalidClient AUTH_FAILED None)) (\<lambda>_.
     bindR (throwIfR (jget claims ''aud'' \<noteq> Some (JStr (cfg_issuer config)))
       (invalidClient ''client assertion aud must be the issuer identifier string [FAPI2 5.3.2.1(8)]'' None)) (\<lambda>_.
     case jget claims ''exp'' of
       Some (JNum e) \<Rightarrow>
         bindR (throwIfR (e \<le> of_int nowSec)
           (invalidClient (''client assertion has expired [RFC7523 '' @ sec @ ''3(4)]'') None)) (\<lambda>_.
         bindR (throwIfR (of_int (cfg_clientAssertionMaxLifetimeSec config) < e - of_int nowSec)
           (invalidClient (''client assertion exp is unreasonably far in the future [RFC7523 '' @ sec @ ''3(4)]'') None)) (\<lambda>_.
         bindR (check_not_future claims (of_int (nowSec + skew)) [''iat'', ''nbf'']) (\<lambda>_.
         case jget claims ''jti'' of
           Some (JStr jti) \<Rightarrow>
             if jti = []
             then Inl (invalidClient (''client assertion jti is required [OIDC Core '' @ sec @ ''9]'') None)
             else Inr (e, jti)
         | _ \<Rightarrow> Inl (invalidClient (''client assertion jti is required [OIDC Core '' @ sec @ ''9]'') None))))
     | _ \<Rightarrow> Inl (invalidClient (''client assertion exp is required [RFC7523 '' @ sec @ ''3(4)]'') None)))))"

definition authenticateClient ::
  "ext \<Rightarrow> 's storage \<Rightarrow> app_config \<Rightarrow> int \<Rightarrow> jobj \<Rightarrow> string option \<Rightarrow> ('s, exn, client) act" where
  "authenticateClient x st config now body authorizationHeader =
     bindE (liftE (assertion_param body authorizationHeader)) (\<lambda>assertionStr.
     bindE (find_client x (st_clients st) (decodeSubjectHint x assertionStr)) (\<lambda>client.
     bindE (liftE (verify_assertion x config client assertionStr)) (\<lambda>claims.
     bindE (liftE (check_assertion config now body client claims)) (\<lambda>(e, jti).
     bindE (jti_register (st_jti st) ''client-assertion'' (replayId (clientId client) jti)
              (js_date (e * 1000)) now) (\<lambda>fresh.
     bindE (throwIf (\<not> fresh)
       (invalidClient (''client assertion jti has already been used [RFC7523 '' @ sec @ ''3(7)]'') None)) (\<lambda>_.
     returnE client))))))"

section \<open>What the checks establish\<close>

lemma replayId_inject: "replayId c j = replayId c' j' \<longleftrightarrow> c = c' \<and> j = j'"
  by (simp add: replayId_def base64url_dot_inject)

lemma assertion_param_Inr:
  assumes "assertion_param body h = Inr a"
  shows "jget body ''client_assertion'' = Some (JStr a)"
    and "jget body ''client_assertion_type'' = Some (JStr CLIENT_ASSERTION_TYPE_JWT_BEARER)"
    and "length (split_on (CHR ''.'') a) = 3" and "\<not> has_space_or_comma a"
    and "\<not> present (jget body ''client_secret'')" and "h = None \<or> h = Some []"
    and "\<not> is_array (jget body ''client_id'')"
  using assms unfolding assertion_param_def Let_def
  by (auto simp: act_iff present_def split: option.splits)

definition time_claim_ok :: "jobj \<Rightarrow> rat \<Rightarrow> string \<Rightarrow> bool" where
  "time_claim_ok claims bound n \<longleftrightarrow>
     (case jget claims n of None \<Rightarrow> True | Some (JNum v) \<Rightarrow> v \<le> bound | Some _ \<Rightarrow> False)"

lemma check_not_future_Inr:
  "check_not_future claims bound ns = Inr u \<longleftrightarrow> list_all (time_claim_ok claims bound) ns"
  by (induction ns) (auto simp: time_claim_ok_def not_less split: option.splits json.splits)

text \<open>The verified claims a client is let in on, at server time \<open>now\<close>.\<close>

definition claims_ok :: "app_config \<Rightarrow> int \<Rightarrow> client \<Rightarrow> jobj \<Rightarrow> rat \<Rightarrow> string \<Rightarrow> bool" where
  "claims_ok config now c claims e j \<longleftrightarrow>
     jget claims ''iss'' = Some (JStr (clientId c)) \<and> jget claims ''sub'' = Some (JStr (clientId c)) \<and>
     jget claims ''aud'' = Some (JStr (cfg_issuer config)) \<and>
     jget claims ''exp'' = Some (JNum e) \<and> of_int (sec_of now) < e \<and>
     e \<le> of_int (sec_of now + cfg_clientAssertionMaxLifetimeSec config) \<and>
     time_claim_ok claims (of_int (sec_of now + cfg_clockSkewFutureAcceptSec config)) ''iat'' \<and>
     time_claim_ok claims (of_int (sec_of now + cfg_clockSkewFutureAcceptSec config)) ''nbf'' \<and>
     jget claims ''jti'' = Some (JStr j) \<and> j \<noteq> []"

lemma check_assertion_Inr:
  "check_assertion config now body c claims = Inr (e, j) \<longleftrightarrow>
     claims_ok config now c claims e j \<and>
     (str_of (jget body ''client_id'') = None \<or> str_of (jget body ''client_id'') = Some (clientId c))"
proof -
  have if_Inl: "(if b then Inl m else Inr v) = Inr w \<longleftrightarrow> \<not> b \<and> v = w" for b and m :: exn and v w :: "rat \<times> string"
    by simp
  have diff: "(a :: rat) - b \<le> d \<longleftrightarrow> a \<le> b + d" for a b d by linarith
  show ?thesis
    unfolding check_assertion_def Let_def claims_ok_def
    by (simp only: act_iff check_not_future_Inr if_Inl not_less not_le diff of_int_add list.pred_inject
        de_Morgan_conj not_not prod.inject simp_thms ex_simps) blast
qed

text \<open>The assertion verifies against the client's registered keys under an allowed algorithm.\<close>

definition signed_by :: "ext \<Rightarrow> app_config \<Rightarrow> client \<Rightarrow> string \<Rightarrow> jobj \<Rightarrow> bool" where
  "signed_by x config c a claims \<longleftrightarrow>
     (\<exists>keys alg header.
        clientKeyResolver (jwks (metadata c)) (jwks_uri (metadata c)) = Inr keys \<and>
        x_decode_header x a = Some header \<and> jget header ''alg'' = Some (JStr alg) \<and>
        alg \<in> set (acceptedJwsAlgs (Some (md_clientAuthSigningAlgs (cfg_metadata config)))) \<and>
        x_jwt_verify x keys (acceptedJwsAlgs (Some (md_clientAuthSigningAlgs (cfg_metadata config)))) a
          = Jose_ok claims)"

lemma verify_assertion_Inr:
  "verify_assertion x config c a = Inr claims \<Longrightarrow> signed_by x config c a claims"
  unfolding verify_assertion_def signed_by_def clientJwksSource_def
  by (fastforce simp: act_iff dest!: verifyJws_Inr split: sum.splits exn.splits)

lemma verify_assertion_exn:
  assumes "verify_assertion x config c a = Inl e"
  shows "e = OAuthExn (oauthError server_error (Some ''client key set is temporarily unavailable'') (Some 503) None) \<or>
     e = invalidClient AUTH_FAILED None"
proof -
  obtain ks uri where src: "clientJwksSource c = (ks, uri)" by fastforce
  have "r = JwsVerificationExn \<or> r = JwksUnavailableExn"
    if "bindR (clientKeyResolver ks uri) (\<lambda>keys. verifyJws x a keys algs) = Inl r" for r algs
    using that by (auto simp: act_iff dest: clientKeyResolver_Inl verifyJws_Inl)
  then show ?thesis
    using assms by (auto simp: verify_assertion_def src split: sum.splits exn.splits)
qed

lemma find_client_handler:
  "(case err of InvalidClientMetadataExn m \<Rightarrow> throwE e | q \<Rightarrow> throwE q) t \<noteq> (Inr y, s')"
  by (cases err) (simp_all add: throwE_def)

context client_port begin

lemma find_client_quiet: "quiet ok view (find_client x (st_clients st) h)"
  by (auto simp: find_client_def intro!: moves_intro loadClient_quiet split: exn.splits)

lemma find_client_Inr:
  assumes "ok s" and "find_client x (st_clients st) h s = (Inr c, s')"
  shows "\<exists>i r. h = Some i \<and> a_clients (view s) i = Some r \<and> clientId c = cr_clientId r \<and>
           parseClientMetadata x (cr_metadata r) = Inr (metadata c)"
proof -
  from assms(2) obtain i where "h = Some i" "loadClient x (st_clients st) i s = (Inr (Some c), s')"
    unfolding find_client_def act_iff find_client_handler
    by (auto simp: returnE_def find_client_handler split: option.splits)
  with loadClient_Some [OF assms(1)] show ?thesis by blast
qed

end

context storage_contract begin

lemma authenticateClient_Inr:
  assumes "ok s" and "authenticateClient x st config now body h s = (Inr c, s')"
  obtains a claims e j i r where "assertion_param body h = Inr a"
    and "decodeSubjectHint x a = Some i" and "a_clients (view s) i = Some r"
    and "clientId c = cr_clientId r" and "parseClientMetadata x (cr_metadata r) = Inr (metadata c)"
    and "signed_by x config c a claims" and "claims_ok config now c claims e j"
    and "str_of (jget body ''client_id'') = None \<or> str_of (jget body ''client_id'') = Some (clientId c)"
    and "ok s'" and "spec_jti_register ''client-assertion'' (replayId (clientId c) j) (js_date (e * 1000)) now
           (view s) True (view s')"
proof -
  from assms(2) obtain a claims e j s1 where 1: "assertion_param body h = Inr a"
    "find_client x (st_clients st) (decodeSubjectHint x a) s = (Inr c, s1)"
    "verify_assertion x config c a = Inr claims" "check_assertion config now body c claims = Inr (e, j)" and
    r: "jti_register (st_jti st) ''client-assertion'' (replayId (clientId c) j) (js_date (e * 1000)) now s1
          = (Inr True, s')"
    unfolding authenticateClient_def act_iff by (auto simp: act_iff split: if_splits)
  from movesD [OF find_client_quiet assms(1) 1(2)] have s1: "ok s1" "view s1 = view s" by simp_all
  from find_client_Inr [OF assms(1) 1(2)] obtain i q where 2: "decodeSubjectHint x a = Some i"
    "a_clients (view s) i = Some q" "clientId c = cr_clientId q"
    "parseClientMetadata x (cr_metadata q) = Inr (metadata c)" by blast
  from obeys_orD [OF jti_register s1(1) r] have "ok s'"
    "spec_jti_register ''client-assertion'' (replayId (clientId c) j) (js_date (e * 1000)) now
       (view s) True (view s')" by (simp_all add: s1(2))
  with 1 2 verify_assertion_Inr [OF 1(3)] show thesis
    by (intro that) (auto simp: check_assertion_Inr)
qed

lemma authenticateClient_moves:
  assumes "reflp T" "transp T" and "\<And>c j e n r a a'. spec_jti_register c j e n a r a' \<Longrightarrow> T a a'"
  shows "moves ok view T (authenticateClient x st config now body h)"
  using assms unfolding authenticateClient_def
  by (auto intro!: moves_intro moves_obeys_or [OF jti_register] quiet_moves [OF find_client_quiet]
      simp: case_prod_beta)

text \<open>
  An assertion that has been accepted and is accepted again while its registration is remembered: it lets the same client in,
  its expiry is not a whole number of seconds, and it is the second it expires in, after the entry in the replay table has
  expired.
\<close>

lemma assertion_replay:
  assumes first: "ok s" "authenticateClient x st config t1 body h s = (Inr c, s1)"
    and between: "ok s2" "keeps_live t2 (view s1) (view s2)" "a_clients (view s2) = a_clients (view s)"
    and second: "authenticateClient x st config t2 body' h' s2 = (Inr c', s3)"
    and same: "jget body' ''client_assertion'' = jget body ''client_assertion''"
  obtains a claims e where "jget body ''client_assertion'' = Some (JStr a)" and "signed_by x config c a claims"
    and "jget claims ''exp'' = Some (JNum e)" and "e \<notin> \<int>" and "of_int (sec_of t2) < e" and "js_date (e * 1000) \<le> t2"
    and "clientId c' = clientId c" and "metadata c' = metadata c"
proof -
  from authenticateClient_Inr [OF first] obtain a claims e j i r where 1: "assertion_param body h = Inr a"
    "decodeSubjectHint x a = Some i" "a_clients (view s) i = Some r"
    "clientId c = cr_clientId r" "parseClientMetadata x (cr_metadata r) = Inr (metadata c)"
    "signed_by x config c a claims" "claims_ok config t1 c claims e j"
    "spec_jti_register ''client-assertion'' (replayId (clientId c) j) (js_date (e * 1000)) t1
       (view s) True (view s1)" by metis
  from authenticateClient_Inr [OF between(1) second] obtain a' claims' e' j' i' r' where
    2: "assertion_param body' h' = Inr a'"
    "decodeSubjectHint x a' = Some i'" "a_clients (view s2) i' = Some r'"
    "clientId c' = cr_clientId r'" "parseClientMetadata x (cr_metadata r') = Inr (metadata c')"
    "signed_by x config c' a' claims'" "claims_ok config t2 c' claims' e' j'"
    "spec_jti_register ''client-assertion'' (replayId (clientId c') j') (js_date (e' * 1000)) t2
       (view s2) True (view s3)" by metis
  have "a' = a" using assertion_param_Inr(1) [OF 1(1)] assertion_param_Inr(1) [OF 2(1)] same by simp
  with 1 2 between(3) have c: "clientId c' = clientId c" "metadata c' = metadata c" by auto
  with 1(6) 2(6) \<open>a' = a\<close> have "claims' = claims" by (auto simp: signed_by_def)
  with 1(7) 2(7) have ej: "e' = e" "j' = j" by (auto simp: claims_ok_def)
  have late: "js_date (e * 1000) \<le> t2"
  proof (rule ccontr)
    assume "\<not> ?thesis"
    then have "a_live (view s1) ''client-assertion'' (replayId (clientId c) j) t2"
      using 1(8) by (auto simp: spec_jti_register_def)
    with between(2) 2(8) c ej show False by (auto simp: keeps_live_def spec_jti_register_def)
  qed
  have young: "of_int (sec_of t2) < e" using 2(7) by (simp add: claims_ok_def ej)
  have "e \<notin> \<int>"
  proof
    assume "e \<in> \<int>"
    then obtain n where n: "e = of_int n" by (auto elim: Ints_cases)
    then have "sec_of t2 < n" using young by simp
    then have "t2 < n * 1000" using sec_of_bounds(2) [of t2] by linarith
    also have "n * 1000 = js_date (e * 1000)" using js_date_of_int [of "n * 1000"] by (simp add: n)
    finally show False using late by simp
  qed
  with late young c assertion_param_Inr(1) [OF 1(1)] 1(6,7) show thesis by (intro that) (auto simp: claims_ok_def)
qed

end

end
