(* ===== verification/Pkce.thy ===== *)
theory Pkce
  imports Externals
begin

text \<open>
  The PKCE S256 check of the token endpoint (\<open>src/domain/pkce.ts\<close>).
\<close>

definition verifyS256 :: "ext \<Rightarrow> string \<Rightarrow> string \<Rightarrow> bool" where
  "verifyS256 x verifier challenge \<longleftrightarrow>
     (if \<not> CODE_CHALLENGE verifier then False else sha256Base64Url x verifier = challenge)"

text \<open>Only a well-formed preimage of the challenge passes; two verifiers that pass for one challenge
  have the same digest.\<close>

lemma verifyS256_iff:
  "verifyS256 x v ch \<longleftrightarrow> CODE_CHALLENGE v \<and> base64url (x_sha256 x (utf8 v)) = ch"
  by (simp add: verifyS256_def sha256Base64Url_def)

lemma verifyS256_collision:
  "verifyS256 x v ch \<Longrightarrow> verifyS256 x w ch \<Longrightarrow> x_sha256 x (utf8 v) = x_sha256 x (utf8 w)"
  by (auto simp: verifyS256_iff)

end
