(* ===== verification/AuthzRequest.thy ===== *)
theory AuthzRequest
  imports Clients
begin

text \<open>
  Validation of an authorization request (\<open>src/domain/authz-request.ts\<close>), shared by the
  pushed authorization request endpoint and the authorization endpoint, and the flattening of a
  validated request into the string map a pushed request is stored as. The main result is that
  the second validation of what the first one stored gives the same request, so the
  authorization endpoint acts on exactly what was pushed.
\<close>

section \<open>The validated request\<close>

record authz_request =
  vr_clientId :: string
  vr_responseType :: string
  vr_redirectUri :: string
  vr_scope :: string
  vr_codeChallenge :: string
  vr_codeChallengeMethod :: string
  vr_state :: "string option"
  vr_nonce :: "string option"
  vr_dpopJkt :: "string option"
  vr_prompt :: "string option"
  vr_maxAge :: "js_num option"
  vr_passthrough :: "(string \<times> string) list"

definition PASSTHROUGH_PARAMS :: "string list" where
  "PASSTHROUGH_PARAMS =
     [''acr_values'', ''max_age'', ''login_hint'', ''id_token_hint'', ''ui_locales'', ''claims'',
      ''claims_locales'', ''display'']"

section \<open>Validation\<close>

text \<open>An absent or empty value is omitted, a repeated one an error, any other non-string ignored.\<close>

definition param :: "jobj \<Rightarrow> string \<Rightarrow> exn + string option" where
  "param body name =
     (case jget body name of
        None \<Rightarrow> Inr None
      | Some v \<Rightarrow>
          if v = JStr [] then Inr None
          else (case v of
                  JArr _ \<Rightarrow> Inl (invalidRequest
                     (''parameter '' @ name @ '' must not be repeated [RFC6749 '' @ sec @ ''3.1]''))
                | JStr s \<Rightarrow> Inr (Some s)
                | _ \<Rightarrow> Inr None))"

fun collect_passthrough :: "jobj \<Rightarrow> string list \<Rightarrow> exn + (string \<times> string) list" where
  "collect_passthrough body [] = Inr []"
| "collect_passthrough body (name # names) =
     bindR (param body name) (\<lambda>value.
     case value of
       None \<Rightarrow> collect_passthrough body names
     | Some v \<Rightarrow>
         bindR (throwIfR (\<not> VSCHAR v \<or> 2048 < length v) (invalidRequest (''malformed '' @ name))) (\<lambda>_.
         bindR (collect_passthrough body names) (\<lambda>rest. Inr ((name, v) # rest))))"

definition check_vschar :: "string option \<Rightarrow> nat \<Rightarrow> string \<Rightarrow> exn + unit" where
  "check_vschar v bound msg =
     throwIfR (case v of Some s \<Rightarrow> \<not> VSCHAR s \<or> bound < length s | None \<Rightarrow> False) (invalidRequest msg)"

definition validateAuthorizationRequest :: "jobj \<Rightarrow> client \<Rightarrow> exn + authz_request" where
  "validateAuthorizationRequest body cl =
     bindR (param body ''request'') (\<lambda>request.
     bindR (throwIfR (request \<noteq> None)
       (invalidRequest (''request objects are not supported [RFC9126 '' @ sec @ ''3]''))) (\<lambda>_.
     bindR (param body ''client_id'') (\<lambda>cid.
     bindR (throwIfR (cid \<noteq> None \<and> cid \<noteq> Some (clientId cl))
       (invalidRequest (''client_id does not match the authenticated client [RFC9126 '' @ sec @ ''2.1]''))) (\<lambda>_.
     bindR (param body ''response_type'') (\<lambda>responseType.
     bindR (throwIfR (responseType = None)
       (invalidRequest (''response_type is required [RFC6749 '' @ sec @ ''4.1.1]''))) (\<lambda>_.
     bindR (throwIfR (responseType \<noteq> Some ''code'')
       (oauthExn unsupported_response_type ''only response_type=code is supported [FAPI2 5.3.2.2(1)]'')) (\<lambda>_.
     bindR (param body ''redirect_uri'') (\<lambda>redirectUri.
     case redirectUri of
       None \<Rightarrow> Inl (invalidRequest ''redirect_uri is required [FAPI2 5.3.2.2(6)]'')
     | Some redirectUri \<Rightarrow>
     bindR (throwIfR (\<not> redirectUriRegistered cl redirectUri)
       (invalidRequest (''redirect_uri is not registered for this client [RFC9700 '' @ sec @ ''2.1]''))) (\<lambda>_.
     bindR (param body ''scope'') (\<lambda>rawScope.
     let scope = (case rawScope of Some r \<Rightarrow> if trim r \<noteq> [] then r else md_scope (metadata cl)
                                 | None \<Rightarrow> md_scope (metadata cl)) in
     bindR (throwIfR (\<not> VSCHAR scope \<or> 512 < length scope) (invalidRequest ''malformed scope'')) (\<lambda>_.
     bindR (throwIfR (\<not> scopeAllowed cl scope)
       (invalidScope (''requested scope exceeds the client registration [RFC6749 '' @ sec @ ''3.3]''))) (\<lambda>_.
     bindR (param body ''code_challenge'') (\<lambda>codeChallenge.
     case codeChallenge of
       None \<Rightarrow> Inl (invalidRequest (''code challenge required [RFC7636 '' @ sec @ ''4.4.1]''))
     | Some codeChallenge \<Rightarrow>
     bindR (param body ''code_challenge_method'') (\<lambda>method.
     bindR (throwIfR (method \<noteq> Some ''S256'')
       (invalidRequest (''transform algorithm not supported (S256 required) [RFC7636 '' @ sec @
                        ''4.4.1; FAPI2 5.3.2.2(5)]''))) (\<lambda>_.
     bindR (throwIfR (\<not> CODE_CHALLENGE codeChallenge)
       (invalidRequest (''malformed code_challenge [RFC7636 '' @ sec @ ''4.2]''))) (\<lambda>_.
     bindR (param body ''state'') (\<lambda>state.
     bindR (check_vschar state 512 (''malformed state [RFC6749 '' @ sec @ ''10.14]'')) (\<lambda>_.
     bindR (param body ''nonce'') (\<lambda>nonce.
     bindR (check_vschar nonce 512 ''malformed nonce'') (\<lambda>_.
     bindR (param body ''dpop_jkt'') (\<lambda>dpopJkt.
     bindR (throwIfR (case dpopJkt of Some j \<Rightarrow> \<not> JKT j | None \<Rightarrow> False)
       (invalidRequest (''malformed dpop_jkt (expected a base64url SHA-256 JWK thumbprint) [RFC9449 '' @ sec @ ''10]''))) (\<lambda>_.
     bindR (param body ''prompt'') (\<lambda>prompt.
     bindR (throwIfR (case prompt of Some p \<Rightarrow> ''none'' \<in> set (words_of p) \<and> 1 < length (words_of p) | None \<Rightarrow> False)
       (invalidRequest (''prompt=none must not be combined with other values [OIDC '' @ sec @ ''3.1.2.1]''))) (\<lambda>_.
     bindR (collect_passthrough body PASSTHROUGH_PARAMS) (\<lambda>passthrough.
     bindR (param body ''max_age'') (\<lambda>maxAgeRaw.
     bindR (throwIfR (case maxAgeRaw of Some m \<Rightarrow> \<not> DIGITS m | None \<Rightarrow> False)
       (invalidRequest (''malformed max_age [OIDC '' @ sec @ ''3.1.2.1]''))) (\<lambda>_.
     Inr \<lparr>vr_clientId = clientId cl, vr_responseType = ''code'', vr_redirectUri = redirectUri,
          vr_scope = scope, vr_codeChallenge = codeChallenge, vr_codeChallengeMethod = ''S256'',
          vr_state = state, vr_nonce = nonce, vr_dpopJkt = dpopJkt, vr_prompt = prompt,
          vr_maxAge = map_option js_Number maxAgeRaw,
          vr_passthrough = passthrough\<rparr>)))))))))))))))))))))))))))"

section \<open>Storage form\<close>

text \<open>\<open>if (v !== undefined) out[k] = v\<close> and \<open>Object.assign\<close>.\<close>

definition set_opt :: "string \<Rightarrow> string option \<Rightarrow> (string \<times> string) list \<Rightarrow> (string \<times> string) list" where
  "set_opt k v out = (case v of None \<Rightarrow> out | Some s \<Rightarrow> map_set k s out)"

definition object_assign :: "(string \<times> string) list \<Rightarrow> (string \<times> string) list \<Rightarrow> (string \<times> string) list" where
  "object_assign out src = foldl (\<lambda>m (k, v). map_set k v m) out src"

definition toStoredParams :: "authz_request \<Rightarrow> (string \<times> string) list" where
  "toStoredParams v =
     object_assign
       (set_opt ''prompt'' (vr_prompt v)
       (set_opt ''dpop_jkt'' (vr_dpopJkt v)
       (set_opt ''nonce'' (vr_nonce v)
       (set_opt ''state'' (vr_state v)
          [(''client_id'', vr_clientId v), (''response_type'', vr_responseType v),
           (''redirect_uri'', vr_redirectUri v), (''scope'', vr_scope v),
           (''code_challenge'', vr_codeChallenge v),
           (''code_challenge_method'', vr_codeChallengeMethod v)]))))
       (vr_passthrough v)"

text \<open>Stored parameters passed back to the validation, as strings.\<close>

definition params_body :: "(string \<times> string) list \<Rightarrow> jobj" where
  "params_body ps = map (\<lambda>(k, v). (k, JStr v)) ps"

section \<open>What a validated request satisfies\<close>

definition effective_scope :: "client \<Rightarrow> string option \<Rightarrow> string" where
  "effective_scope cl raw =
     (case raw of Some r \<Rightarrow> if trim r \<noteq> [] then r else md_scope (metadata cl)
                | None \<Rightarrow> md_scope (metadata cl))"

definition short_vschar :: "nat \<Rightarrow> string option \<Rightarrow> bool" where
  "short_vschar n v \<longleftrightarrow> (case v of Some s \<Rightarrow> VSCHAR s \<and> length s \<le> n | None \<Rightarrow> True)"

text \<open>The request as a conjunction over its parameters.\<close>

definition request_ok :: "jobj \<Rightarrow> client \<Rightarrow> authz_request \<Rightarrow> bool" where
  "request_ok body cl v \<longleftrightarrow>
     param body ''request'' = Inr None \<and>
     (param body ''client_id'' = Inr None \<or> param body ''client_id'' = Inr (Some (clientId cl))) \<and>
     param body ''response_type'' = Inr (Some ''code'') \<and>
     param body ''redirect_uri'' = Inr (Some (vr_redirectUri v)) \<and>
     redirectUriRegistered cl (vr_redirectUri v) \<and>
     (\<exists>raw. param body ''scope'' = Inr raw \<and> vr_scope v = effective_scope cl raw) \<and>
     VSCHAR (vr_scope v) \<and> length (vr_scope v) \<le> 512 \<and> scopeAllowed cl (vr_scope v) \<and>
     param body ''code_challenge'' = Inr (Some (vr_codeChallenge v)) \<and>
     param body ''code_challenge_method'' = Inr (Some ''S256'') \<and>
     CODE_CHALLENGE (vr_codeChallenge v) \<and>
     param body ''state'' = Inr (vr_state v) \<and> short_vschar 512 (vr_state v) \<and>
     param body ''nonce'' = Inr (vr_nonce v) \<and> short_vschar 512 (vr_nonce v) \<and>
     param body ''dpop_jkt'' = Inr (vr_dpopJkt v) \<and>
     (case vr_dpopJkt v of Some j \<Rightarrow> JKT j | None \<Rightarrow> True) \<and>
     param body ''prompt'' = Inr (vr_prompt v) \<and>
     (case vr_prompt v of Some p \<Rightarrow> \<not> (''none'' \<in> set (words_of p) \<and> 1 < length (words_of p)) | None \<Rightarrow> True) \<and>
     collect_passthrough body PASSTHROUGH_PARAMS = Inr (vr_passthrough v) \<and>
     (\<exists>m. param body ''max_age'' = Inr m \<and> (case m of Some d \<Rightarrow> DIGITS d | None \<Rightarrow> True) \<and>
          vr_maxAge v = map_option js_Number m) \<and>
     vr_clientId v = clientId cl \<and> vr_responseType v = ''code'' \<and> vr_codeChallengeMethod v = ''S256''"

lemma check_vschar_Inr: "check_vschar v n msg = Inr u \<longleftrightarrow> short_vschar n v"
  by (auto simp: check_vschar_def short_vschar_def act_iff split: option.splits)

lemma effective_scope_fold:
  "(case raw of Some r \<Rightarrow> if trim r \<noteq> [] then r else md_scope (metadata cl)
              | None \<Rightarrow> md_scope (metadata cl)) = effective_scope cl raw"
  by (simp add: effective_scope_def)

lemma not_case_option:
  "(\<not> (case v of None \<Rightarrow> False | Some j \<Rightarrow> Q j)) \<longleftrightarrow> (case v of None \<Rightarrow> True | Some j \<Rightarrow> \<not> Q j)"
  by (cases v) auto

lemma not_case_option_not:
  "(\<not> (case v of None \<Rightarrow> False | Some j \<Rightarrow> \<not> Q j)) \<longleftrightarrow> (case v of None \<Rightarrow> True | Some j \<Rightarrow> Q j)"
  by (cases v) auto

lemma validate_iff: "validateAuthorizationRequest body cl = Inr v \<longleftrightarrow> request_ok body cl v"
proof
  assume "validateAuthorizationRequest body cl = Inr v"
  then show "request_ok body cl v"
    unfolding validateAuthorizationRequest_def effective_scope_fold Let_def
    by (clarsimp simp only: act_iff check_vschar_Inr not_case_option_not not_case_option)
      (auto simp: request_ok_def not_less)
next
  assume "request_ok body cl v"
  then show "validateAuthorizationRequest body cl = Inr v"
    unfolding validateAuthorizationRequest_def effective_scope_fold Let_def
      act_iff check_vschar_Inr not_case_option_not not_case_option request_ok_def
    by (cases v) auto
qed

section \<open>Storing and validating again\<close>

lemma param_Some: "param body n = Inr (Some s) \<longleftrightarrow> jget body n = Some (JStr s) \<and> s \<noteq> []"
  by (auto simp: param_def split: option.splits json.splits)

lemma param_params_body:
  "param (params_body ps) n =
     Inr (case map_of ps n of Some s \<Rightarrow> if s = [] then None else Some s | None \<Rightarrow> None)"
  by (auto simp: param_def params_body_def map_of_map split: option.splits)

lemma set_opt_get:
  "map_of (set_opt k v out) n = (if n = k \<and> v \<noteq> None then v else map_of out n)"
  by (auto simp: set_opt_def split: option.splits)

lemma object_assign_get:
  "map_of (object_assign out src) n =
     (case map_of (rev src) n of Some v \<Rightarrow> Some v | None \<Rightarrow> map_of out n)"
  unfolding object_assign_def
  by (induction src arbitrary: out) (auto simp: map_add_def split: option.splits)

lemma collect_passthrough_get:
  assumes "collect_passthrough body names = Inr pt" and "distinct names"
  shows "distinct (map fst pt) \<and> fst ` set pt \<subseteq> set names \<and>
         (\<forall>n \<in> set names. param body n = Inr (map_of pt n))"
  using assms
proof (induction names arbitrary: pt)
  case Nil
  then show ?case by simp
next
  case (Cons name names)
  from Cons.prems obtain val where val: "param body name = Inr val"
    by (simp add: act_iff) blast
  show ?case
  proof (cases val)
    case None
    with Cons.prems val have "collect_passthrough body names = Inr pt" by simp
    with Cons have ih: "distinct (map fst pt)" "fst ` set pt \<subseteq> set names"
      "\<forall>n \<in> set names. param body n = Inr (map_of pt n)" by simp_all
    moreover from ih(2) Cons.prems(2) have "map_of pt name = None"
      by (auto simp: map_of_eq_None_iff)
    ultimately show ?thesis using val None by auto
  next
    case (Some v)
    with Cons.prems val obtain rest where
      r: "collect_passthrough body names = Inr rest" and pt: "pt = (name, v) # rest"
      by (auto simp: act_iff)
    from r Cons have ih: "distinct (map fst rest)" "fst ` set rest \<subseteq> set names"
      "\<forall>n \<in> set names. param body n = Inr (map_of rest n)" by simp_all
    moreover have "name \<notin> set names" using Cons.prems(2) by simp
    ultimately show ?thesis using val Some pt by auto
  qed
qed

lemma collect_passthrough_cong:
  "(\<And>n. n \<in> set names \<Longrightarrow> param body n = param body' n) \<Longrightarrow>
     collect_passthrough body names = collect_passthrough body' names"
  by (induction names) (auto simp: bindR_def split: sum.splits option.splits)

text \<open>A request is read by name only, so the order of its parameters does not matter.\<close>

lemma validate_same_params:
  assumes "map_of ps = map_of ps'"
  shows "validateAuthorizationRequest (params_body ps) cl = validateAuthorizationRequest (params_body ps') cl"
proof -
  have p: "param (params_body ps) n = param (params_body ps') n" for n using assms by (simp add: param_params_body)
  moreover from p have "collect_passthrough (params_body ps) ns = collect_passthrough (params_body ps') ns" for ns
    by (intro collect_passthrough_cong) simp
  ultimately show ?thesis by (simp only: validateAuthorizationRequest_def)
qed

lemma map_of_rev_distinct: "distinct (map fst ps) \<Longrightarrow> map_of (rev ps) k = map_of ps k"
proof (induction ps)
  case (Cons p ps)
  then have ih: "map_of (rev ps) k = map_of ps k" and n: "map_of ps (fst p) = None"
    by (simp_all add: map_of_eq_None_iff)
  then show ?case by (cases "k = fst p"; cases "map_of ps k") (auto simp: map_add_def)
qed simp

lemma distinct_PASSTHROUGH: "distinct PASSTHROUGH_PARAMS"
  by (simp add: PASSTHROUGH_PARAMS_def)

text \<open>What a stored request gives back for each name.\<close>

lemma stored_passthrough:
  assumes "request_ok body cl v" and "n \<in> set PASSTHROUGH_PARAMS"
  shows "param (params_body (set_opt ''dpop_jkt'' j (toStoredParams v))) n = param body n"
proof -
  have pt: "distinct (map fst (vr_passthrough v))" "param body n = Inr (map_of (vr_passthrough v) n)"
    using assms collect_passthrough_get [OF _ distinct_PASSTHROUGH] by (auto simp: request_ok_def)
  moreover have "n \<notin> {''client_id'', ''response_type'', ''redirect_uri'', ''scope'', ''code_challenge'',
      ''code_challenge_method'', ''state'', ''nonce'', ''dpop_jkt'', ''prompt''}"
    using assms(2) by (auto simp: PASSTHROUGH_PARAMS_def)
  moreover have "map_of (rev (vr_passthrough v)) n = map_of (vr_passthrough v) n"
    using pt(1) by (simp add: map_of_rev_distinct)
  ultimately show ?thesis
    by (auto simp: param_params_body set_opt_get toStoredParams_def object_assign_get param_Some
        split: option.splits)
qed

lemma stored_own:
  assumes "request_ok body cl v" and "n \<notin> set PASSTHROUGH_PARAMS"
  shows "map_of (set_opt ''dpop_jkt'' j (toStoredParams v)) n =
    map_of (set_opt ''dpop_jkt'' j
       (set_opt ''prompt'' (vr_prompt v)
       (set_opt ''dpop_jkt'' (vr_dpopJkt v)
       (set_opt ''nonce'' (vr_nonce v)
       (set_opt ''state'' (vr_state v)
          [(''client_id'', vr_clientId v), (''response_type'', vr_responseType v),
           (''redirect_uri'', vr_redirectUri v), (''scope'', vr_scope v),
           (''code_challenge'', vr_codeChallenge v),
           (''code_challenge_method'', vr_codeChallengeMethod v)]))))) n"
proof -
  have "fst ` set (vr_passthrough v) \<subseteq> set PASSTHROUGH_PARAMS"
    using assms(1) collect_passthrough_get [OF _ distinct_PASSTHROUGH] by (auto simp: request_ok_def)
  with assms(2) have "map_of (rev (vr_passthrough v)) n = None"
    by (auto simp: map_of_eq_None_iff)
  then have "map_of (toStoredParams v) n = map_of
       (set_opt ''prompt'' (vr_prompt v)
       (set_opt ''dpop_jkt'' (vr_dpopJkt v)
       (set_opt ''nonce'' (vr_nonce v)
       (set_opt ''state'' (vr_state v)
          [(''client_id'', vr_clientId v), (''response_type'', vr_responseType v),
           (''redirect_uri'', vr_redirectUri v), (''scope'', vr_scope v),
           (''code_challenge'', vr_codeChallenge v),
           (''code_challenge_method'', vr_codeChallengeMethod v)])))) n"
    by (simp only: toStoredParams_def object_assign_get option.case)
  then show ?thesis by (simp only: set_opt_get)
qed

lemma effective_scope_again:
  "s = effective_scope cl raw \<Longrightarrow> effective_scope cl (if s = [] then None else Some s) = s"
proof -
  have "trim [] = ([] :: string)" by (rule trim_id) simp
  then show "s = effective_scope cl raw \<Longrightarrow> ?thesis"
    by (cases raw) (auto simp: effective_scope_def)
qed

text \<open>
  Validating what was stored gives the same request again, except that a \<open>dpop_jkt\<close> taken from
  the proof on the pushed request is now part of it.
\<close>

lemma request_ok_stored:
  assumes ok: "request_ok body cl v" and j: "\<And>x. j = Some x \<Longrightarrow> JKT x"
  shows "request_ok (params_body (set_opt ''dpop_jkt'' j (toStoredParams v))) cl
           (v\<lparr>vr_dpopJkt := (case j of None \<Rightarrow> vr_dpopJkt v | Some x \<Rightarrow> Some x)\<rparr>)"
proof -
  let ?b = "params_body (set_opt ''dpop_jkt'' j (toStoredParams v))"
  note own = stored_own [OF ok, of _ j] and stored = param_params_body set_opt_get PASSTHROUGH_PARAMS_def
  have opt: "param body n = Inr w \<Longrightarrow> w \<noteq> Some []" for n w
    by (auto simp: param_Some)
  have opts: "vr_state v \<noteq> Some []" "vr_nonce v \<noteq> Some []" "vr_dpopJkt v \<noteq> Some []" "vr_prompt v \<noteq> Some []"
    "Some (vr_redirectUri v) \<noteq> Some []"
    using ok opt unfolding request_ok_def by blast+
  have jn: "j \<noteq> Some []" using j JKT_not_Nil by blast
  have eff: "effective_scope cl (if vr_scope v = [] then None else Some (vr_scope v)) = vr_scope v"
    using ok effective_scope_again unfolding request_ok_def by metis
  have fixed: "param ?b ''request'' = Inr None"
    "param ?b ''client_id'' = Inr (if vr_clientId v = [] then None else Some (vr_clientId v))"
    "param ?b ''response_type'' = Inr (if vr_responseType v = [] then None else Some (vr_responseType v))"
    "param ?b ''redirect_uri'' = Inr (Some (vr_redirectUri v))"
    "param ?b ''scope'' = Inr (if vr_scope v = [] then None else Some (vr_scope v))"
    "param ?b ''code_challenge'' = Inr (if vr_codeChallenge v = [] then None else Some (vr_codeChallenge v))"
    "param ?b ''code_challenge_method'' =
       Inr (if vr_codeChallengeMethod v = [] then None else Some (vr_codeChallengeMethod v))"
    using own [of "''request''"] own [of "''client_id''"] own [of "''response_type''"]
      own [of "''redirect_uri''"] own [of "''scope''"] own [of "''code_challenge''"]
      own [of "''code_challenge_method''"] opts
    by (simp_all add: stored)
  have optional: "param ?b ''state'' = Inr (vr_state v)" "param ?b ''nonce'' = Inr (vr_nonce v)"
    "param ?b ''prompt'' = Inr (vr_prompt v)"
    "param ?b ''dpop_jkt'' = Inr (case j of None \<Rightarrow> vr_dpopJkt v | Some x \<Rightarrow> Some x)"
    using own [of "''state''"] own [of "''nonce''"] own [of "''prompt''"] own [of "''dpop_jkt''"] opts jn
    by (auto simp: stored split: option.splits)
  have pass: "collect_passthrough ?b PASSTHROUGH_PARAMS = Inr (vr_passthrough v)"
    using collect_passthrough_cong [OF stored_passthrough [OF ok]] ok by (simp add: request_ok_def)
  have age: "param ?b ''max_age'' = param body ''max_age''"
    by (rule stored_passthrough [OF ok]) (simp add: PASSTHROUGH_PARAMS_def)
  show ?thesis
    using ok j eff unfolding request_ok_def
    by (auto simp: fixed optional pass age CODE_CHALLENGE_not_Nil split: option.splits)
qed

lemma validate_stored:
  assumes "validateAuthorizationRequest body cl = Inr v" and "\<And>x. j = Some x \<Longrightarrow> JKT x"
  shows "validateAuthorizationRequest (params_body (set_opt ''dpop_jkt'' j (toStoredParams v))) cl
           = Inr (v\<lparr>vr_dpopJkt := (case j of None \<Rightarrow> vr_dpopJkt v | Some x \<Rightarrow> Some x)\<rparr>)"
  using assms request_ok_stored by (simp add: validate_iff)

end
