(* ===== verification/Sessions.thy ===== *)
theory Sessions
  imports Externals
begin

text \<open>
  The stateless login session and the CSRF tokens (\<open>src/domain/sessions.ts\<close>). A session opens
  only if its value carries the MAC of its payload under the session secret and it has not
  expired; a sealed session opens to itself; the data a CSRF token authenticates is never that
  of a session cookie, although both use the same secret.
\<close>

section \<open>The operations\<close>

text \<open>The optional members are not checked when a session is opened, so they are arbitrary JSON.\<close>

record login_session =
  ls_sid :: string
  ls_sub :: string
  ls_authTime :: rat
  ls_exp :: rat
  ls_acr :: "json option"
  ls_amr :: "json option"

definition session_mac :: "ext \<Rightarrow> string \<Rightarrow> string \<Rightarrow> string" where
  "session_mac x secret payload = base64url (x_hmac x secret (utf8 payload))"

definition safeEqual :: "string \<Rightarrow> string \<Rightarrow> bool" where
  "safeEqual a b \<longleftrightarrow>
     (let ab = utf8 a; bb = utf8 b in length ab = length bb \<and> list_all2 (=) ab bb)"

text \<open>\<open>JSON.stringify\<close> leaves out the members that are \<open>undefined\<close>.\<close>

definition session_json :: "login_session \<Rightarrow> json" where
  "session_json s =
     JObj ([(''sid'', JStr (ls_sid s)), (''sub'', JStr (ls_sub s)), (''authTime'', JNum (ls_authTime s)),
            (''exp'', JNum (ls_exp s))] @
           (case ls_acr s of None \<Rightarrow> [] | Some v \<Rightarrow> [(''acr'', v)]) @
           (case ls_amr s of None \<Rightarrow> [] | Some v \<Rightarrow> [(''amr'', v)]))"

definition sealSession :: "ext \<Rightarrow> login_session \<Rightarrow> string \<Rightarrow> string" where
  "sealSession x session secret =
     (let payload = base64url (x_json_stringify x (session_json session))
      in payload @ ''.'' @ session_mac x secret payload)"

definition session_of_json :: "json \<Rightarrow> login_session option" where
  "session_of_json j =
     (case j of
        JObj m \<Rightarrow>
          (case (jget m ''sid'', jget m ''sub'', jget m ''authTime'', jget m ''exp'') of
             (Some (JStr sid), Some (JStr sub), Some (JNum authTime), Some (JNum e)) \<Rightarrow>
               Some \<lparr>ls_sid = sid, ls_sub = sub, ls_authTime = authTime, ls_exp = e,
                     ls_acr = jget m ''acr'', ls_amr = jget m ''amr''\<rparr>
           | _ \<Rightarrow> None)
      | _ \<Rightarrow> None)"

definition openSession :: "ext \<Rightarrow> string option \<Rightarrow> string \<Rightarrow> int \<Rightarrow> login_session option" where
  "openSession x value secret nowSec =
     (case value of
        None \<Rightarrow> None
      | Some v \<Rightarrow>
          (case index_of (CHR ''.'') v of
             None \<Rightarrow> None
           | Some 0 \<Rightarrow> None
           | Some dot \<Rightarrow>
               let payload = take dot v; sig = drop (dot + 1) v
               in if \<not> safeEqual sig (session_mac x secret payload) then None
                  else (case x_json_parse x (base64url_decode payload) of
                          None \<Rightarrow> None
                        | Some j \<Rightarrow>
                            (case session_of_json j of
                               None \<Rightarrow> None
                             | Some s \<Rightarrow> if ls_exp s \<le> of_int nowSec then None else Some s))))"

text \<open>\<open>newSessionId\<close> encodes sixteen random bytes.\<close>

definition newSessionId :: "string \<Rightarrow> string" where
  "newSessionId bytes = base64url bytes"

definition issueCsrfToken :: "ext \<Rightarrow> string \<Rightarrow> string \<Rightarrow> string" where
  "issueCsrfToken x sid secret = base64url (x_hmac x secret (utf8 (''csrf:'' @ sid)))"

definition verifyCsrfToken :: "ext \<Rightarrow> string option \<Rightarrow> string \<Rightarrow> string \<Rightarrow> bool" where
  "verifyCsrfToken x token sid secret \<longleftrightarrow>
     (case token of None \<Rightarrow> False | Some t \<Rightarrow> t \<noteq> [] \<and> safeEqual t (issueCsrfToken x sid secret))"

definition SESSION_COOKIE :: string where
  "SESSION_COOKIE = ''__Host-as_session''"

definition sessionCookie :: "string \<Rightarrow> int \<Rightarrow> string" where
  "sessionCookie value maxAgeSec =
     SESSION_COOKIE @ ''='' @ (if maxAgeSec \<le> 0 then [] else value) @
     ''; Path=/; HttpOnly; Secure; SameSite=Lax; '' @
     (if maxAgeSec \<le> 0 then ''Max-Age=0'' else ''Max-Age='' @ show_int maxAgeSec)"

fun read_parts :: "string \<Rightarrow> string list \<Rightarrow> string option" where
  "read_parts name [] = None"
| "read_parts name (part # parts) =
     (case index_of (CHR ''='') part of
        None \<Rightarrow> read_parts name parts
      | Some eq \<Rightarrow> if trim (take eq part) = name then Some (trim (drop (eq + 1) part))
                  else read_parts name parts)"

definition readCookie :: "string option \<Rightarrow> string \<Rightarrow> string option" where
  "readCookie cookieHeader name =
     (case cookieHeader of
        None \<Rightarrow> None
      | Some h \<Rightarrow> if h = [] then None else read_parts name (split_on (CHR '';'') h))"

section \<open>Sessions\<close>

lemma safeEqual_iff [simp]: "safeEqual a b \<longleftrightarrow> a = b"
  by (auto simp: safeEqual_def Let_def list.rel_eq)

lemma session_of_json_inverse [simp]: "session_of_json (session_json s) = Some s"
  by (cases s) (simp add: session_of_json_def session_json_def split: option.split)

lemma openSession_Some:
  assumes "openSession x value secret nowSec = Some s"
  obtains payload j where "value = Some (payload @ ''.'' @ session_mac x secret payload)"
    and "x_json_parse x (base64url_decode payload) = Some j" and "session_of_json j = Some s"
    and "of_int nowSec < ls_exp s"
proof -
  from assms obtain v dot j where v: "value = Some v" "index_of (CHR ''.'') v = Some dot"
    "drop (dot + 1) v = session_mac x secret (take dot v)"
    "x_json_parse x (base64url_decode (take dot v)) = Some j" "session_of_json j = Some s"
    "\<not> ls_exp s \<le> of_int nowSec"
    by (auto simp: openSession_def Let_def split: option.splits nat.splits if_splits)
  from index_of_Some [OF v(2)] have "v = take dot v @ CHR ''.'' # drop (dot + 1) v"
    by (metis Suc_eq_plus1 id_take_nth_drop)
  with v show thesis by (intro that [of "take dot v" j]) auto
qed

text \<open>Exactly those values open.\<close>

lemma openSession_iff:
  "openSession x value secret nowSec = Some s \<longleftrightarrow>
     (\<exists>payload j. value = Some (payload @ ''.'' @ session_mac x secret payload) \<and> payload \<noteq> [] \<and>
        CHR ''.'' \<notin> set payload \<and> x_json_parse x (base64url_decode payload) = Some j \<and>
        session_of_json j = Some s \<and> of_int nowSec < ls_exp s)" (is "_ \<longleftrightarrow> ?opens")
proof
  assume o: "openSession x value secret nowSec = Some s"
  then obtain v dot j where v: "value = Some v" "index_of (CHR ''.'') v = Some dot" "dot \<noteq> 0"
    "drop (dot + 1) v = session_mac x secret (take dot v)"
    "x_json_parse x (base64url_decode (take dot v)) = Some j" "session_of_json j = Some s"
    "\<not> ls_exp s \<le> of_int nowSec"
    by (auto simp: openSession_def Let_def split: option.splits nat.splits if_splits)
  note i = index_of_Some [OF v(2)]
  then have "v = take dot v @ CHR ''.'' # drop (dot + 1) v" by (metis Suc_eq_plus1 id_take_nth_drop)
  with v i show ?opens by (intro exI [of _ "take dot v"] exI [of _ j]) auto
next
  assume ?opens
  then obtain payload j where p: "value = Some (payload @ ''.'' @ session_mac x secret payload)" "payload \<noteq> []"
    "CHR ''.'' \<notin> set payload" "x_json_parse x (base64url_decode payload) = Some j"
    "session_of_json j = Some s" "of_int nowSec < ls_exp s" by blast
  then obtain n where "length payload = Suc n" by (cases "length payload") auto
  moreover have "index_of (CHR ''.'') (payload @ CHR ''.'' # m) = Some (length payload)" for m
    by (rule index_of_append) (rule p)
  ultimately show "openSession x value secret nowSec = Some s"
    using p by (simp add: openSession_def Let_def)
qed

lemma openSession_seal:
  assumes "x_json_parse x (x_json_stringify x (session_json s)) = Some (session_json s)"
    and "x_json_stringify x (session_json s) \<noteq> []"
  shows "openSession x (Some (sealSession x s secret)) secret nowSec =
           (if ls_exp s \<le> of_int nowSec then None else Some s)"
proof -
  let ?p = "base64url (x_json_stringify x (session_json s))"
  have "length ?p \<noteq> 0"
    using assms(2) by (cases "x_json_stringify x (session_json s)") (auto simp: length_base64url)
  then obtain n where "length ?p = Suc n" by (cases "length ?p") auto
  moreover have "index_of (CHR ''.'') (?p @ CHR ''.'' # m) = Some (length ?p)" for m
    by (rule index_of_append) simp
  ultimately show ?thesis
    by (simp add: openSession_def sealSession_def Let_def assms(1) base64url_decode_encode)
qed

text \<open>Session cookies and CSRF tokens authenticate different data.\<close>

lemma verifyCsrfToken_iff:
  "verifyCsrfToken x token sid secret \<longleftrightarrow>
     token = Some (issueCsrfToken x sid secret) \<and> issueCsrfToken x sid secret \<noteq> []"
  by (auto simp: verifyCsrfToken_def split: option.splits)

lemma csrf_data_not_payload: "''csrf:'' @ sid \<noteq> base64url p"
proof
  assume e: "''csrf:'' @ sid = base64url p"
  have "CHR '':'' \<in> set (''csrf:'' @ sid)" by simp
  then have "b64_url_char (CHR '':'')" unfolding e by (rule base64url_chars)
  then show False by (simp add: b64_url_char_def is_alnum_def is_digit_def)
qed

section \<open>The cookie\<close>

definition cookie_text :: "string \<times> string \<Rightarrow> string" where
  "cookie_text c = fst c @ CHR ''='' # snd c"

definition cookie_ok :: "string \<times> string \<Rightarrow> bool" where
  "cookie_ok c \<longleftrightarrow> CHR ''='' \<notin> set (fst c) \<and> CHR '';'' \<notin> set (fst c) \<and> CHR '';'' \<notin> set (snd c) \<and>
     trim (fst c) = fst c \<and> trim (snd c) = snd c"

text \<open>The \<open>Cookie\<close> header a browser sends.\<close>

fun cookie_header :: "(string \<times> string) list \<Rightarrow> string" where
  "cookie_header [] = []"
| "cookie_header [c] = cookie_text c"
| "cookie_header (c # cs) = cookie_text c @ CHR '';'' # space # cookie_header cs"

lemma trim_space: "trim (space # s) = trim s"
  by (simp add: trim_def js_space_def)

lemma split_cookie_header:
  "list_all cookie_ok (c # cs) \<Longrightarrow>
     split_on (CHR '';'') (cookie_header (c # cs)) = cookie_text c # map (\<lambda>d. space # cookie_text d) cs"
proof (induction cs arbitrary: c)
  case Nil
  then show ?case by (auto simp: cookie_ok_def cookie_text_def split_on_plain)
next
  case (Cons d cs)
  have "CHR '';'' \<notin> set (cookie_text c)" using Cons.prems by (auto simp: cookie_ok_def cookie_text_def)
  then have "split_on (CHR '';'') (cookie_header (c # d # cs)) =
      cookie_text c # split_on (CHR '';'') (space # cookie_header (d # cs))"
    by (simp add: split_on_append)
  with Cons show ?case by simp
qed

lemma read_cookie_part:
  assumes "cookie_ok c"
  shows "read_parts name (cookie_text c # parts) = (if fst c = name then Some (snd c) else read_parts name parts)"
    and "read_parts name ((space # cookie_text c) # parts) =
           (if fst c = name then Some (snd c) else read_parts name parts)"
proof -
  have i: "index_of (CHR ''='') (cookie_text c) = Some (length (fst c))"
    "index_of (CHR ''='') (space # cookie_text c) = Some (Suc (length (fst c)))"
    using assms by (auto simp: cookie_text_def cookie_ok_def index_of_append)
  show "read_parts name (cookie_text c # parts) = (if fst c = name then Some (snd c) else read_parts name parts)"
    using assms i(1) by (simp add: cookie_text_def cookie_ok_def)
  show "read_parts name ((space # cookie_text c) # parts) =
           (if fst c = name then Some (snd c) else read_parts name parts)"
    using assms i(2) by (simp add: cookie_text_def cookie_ok_def trim_space)
qed

lemma read_parts_cookies:
  "list_all cookie_ok cs \<Longrightarrow> read_parts name (map (\<lambda>d. space # cookie_text d) cs) = map_of cs name"
  by (induction cs) (auto simp: read_cookie_part simp del: read_parts.simps(2))

lemma readCookie_header:
  assumes "list_all cookie_ok cs"
  shows "readCookie (Some (cookie_header cs)) name = map_of cs name"
proof (cases cs)
  case (Cons c ds)
  have "cookie_header cs \<noteq> []" unfolding Cons by (cases ds) (simp_all add: cookie_text_def)
  moreover have "read_parts name (cookie_text c # map (\<lambda>d. space # cookie_text d) ds) = map_of cs name"
    using assms unfolding Cons
    by (cases c) (simp add: read_cookie_part read_parts_cookies del: read_parts.simps(2))
  ultimately show ?thesis
    using assms split_cookie_header [of c ds] by (simp add: readCookie_def Cons)
qed (simp add: readCookie_def)

end
