(* ===== verification/Authz.thy ===== *)
theory Authz
  imports Externals
begin

text \<open>
  The policy decision boundary (\<open>src/authz/pdp.ts\<close>) and its two adapters: the mock that allows
  everything (\<open>adapters/mock.ts\<close>) and the AuthZEN client (\<open>adapters/authzen-http.ts\<close>), which
  posts the request to an external decision point. The HTTP exchange is a parameter; the adapter
  grants access only on a successful response whose body says \<open>decision: true\<close>, and never throws.
\<close>

record authzen_entity =
  ze_type :: string
  ze_id :: string

record evaluation_request =
  er_subject :: authzen_entity
  er_action :: string
  er_resource :: authzen_entity
  er_context :: "jobj option"

record evaluation_response =
  es_decision :: bool
  es_context :: "json option"

type_synonym pdp = "evaluation_request \<Rightarrow> exn + evaluation_response"

section \<open>MockPdp\<close>

definition mock_evaluate :: pdp where
  "mock_evaluate req =
     Inr \<lparr>es_decision = True, es_context = Some (JObj [(''reason'', JStr ''mock-allow-all'')])\<rparr>"

section \<open>AuthZenHttpPdp\<close>

record http_request =
  hq_url :: string
  hq_method :: string
  hq_headers :: "(string \<times> string) list"
  hq_body :: jobj

text \<open>What the exchange ends in: an error of the given name (a timeout, a network failure), or a
  response whose body parses or does not.\<close>

datatype fetch_outcome = Fetch_error string | Fetch_response bool nat "string + json"

definition entity_json :: "authzen_entity \<Rightarrow> json" where
  "entity_json e = JObj [(''type'', JStr (ze_type e)), (''id'', JStr (ze_id e))]"

definition authzen_request :: "string \<Rightarrow> string \<Rightarrow> evaluation_request \<Rightarrow> http_request" where
  "authzen_request url token req =
     \<lparr>hq_url = url, hq_method = ''POST'',
      hq_headers = [(''content-type'', ''application/json''), (''accept'', ''application/json'')] @
        (if token \<noteq> [] then [(''authorization'', ''Bearer '' @ token)] else []),
      hq_body =
        [(''subject'', entity_json (er_subject req)),
         (''action'', JObj [(''name'', JStr (er_action req))]),
         (''resource'', entity_json (er_resource req))] @
        (case er_context req of Some c \<Rightarrow> [(''context'', JObj c)] | None \<Rightarrow> [])\<rparr>"

definition pdp_denied :: "string \<Rightarrow> exn + evaluation_response" where
  "pdp_denied reason = Inr \<lparr>es_decision = False, es_context = Some (JObj [(''reason'', JStr reason)])\<rparr>"

text \<open>Reading \<open>decision\<close> of a body that is \<open>null\<close> is a \<open>TypeError\<close>, of any other value that is
  no object it is \<open>undefined\<close>.\<close>

definition authzen_evaluate :: "(http_request \<Rightarrow> fetch_outcome) \<Rightarrow> string \<Rightarrow> string \<Rightarrow> pdp" where
  "authzen_evaluate fetch url token req =
     (case fetch (authzen_request url token req) of
        Fetch_error name \<Rightarrow> pdp_denied (''pdp-error:'' @ name)
      | Fetch_response res_ok status body \<Rightarrow>
          if \<not> res_ok then pdp_denied (''pdp-http-'' @ show_nat status)
          else (case body of
                  Inl name \<Rightarrow> pdp_denied (''pdp-error:'' @ name)
                | Inr JNull \<Rightarrow> pdp_denied ''pdp-error:TypeError''
                | Inr (JObj m) \<Rightarrow>
                    Inr \<lparr>es_decision = (jget m ''decision'' = Some (JBool True)), es_context = jget m ''context''\<rparr>
                | Inr _ \<Rightarrow> Inr \<lparr>es_decision = False, es_context = None\<rparr>))"

lemma authzen_total: "\<exists>r. authzen_evaluate fetch url token req = Inr r"
  by (auto simp: authzen_evaluate_def pdp_denied_def split: fetch_outcome.split sum.split json.split)

lemma authzen_grants_iff:
  "(\<exists>r. authzen_evaluate fetch url token req = Inr r \<and> es_decision r) \<longleftrightarrow>
     (\<exists>status m. fetch (authzen_request url token req) = Fetch_response True status (Inr (JObj m)) \<and>
        jget m ''decision'' = Some (JBool True))"
  by (auto simp: authzen_evaluate_def pdp_denied_def split: fetch_outcome.split sum.split json.split)

end
