(* ===== verification/Interaction.thy ===== *)
theory Interaction
  imports AuthzRequest Sessions Authz
begin

text \<open>
  Authentication and the authorization decision (\<open>src/domain/interaction.ts\<close>): the development
  login, when a login session has to be renewed for a request, and the consent decision, which a
  denial by the user settles and otherwise the decision point.
\<close>

record authenticated_user =
  au_sub :: string
  au_authTime :: int
  au_acr :: "json option"
  au_amr :: "json option"

type_synonym auth_provider = "string option \<Rightarrow> int \<Rightarrow> authenticated_user option"

text \<open>\<open>DevLoginProvider.authenticate\<close>; \<open>now\<close> is the clock reading of the login.\<close>

definition dev_authenticate :: "app_config \<Rightarrow> auth_provider" where
  "dev_authenticate config username now =
     (case map_option trim username of
        None \<Rightarrow> None
      | Some u \<Rightarrow>
          if u = [] \<or> u \<notin> set (cfg_devLoginUsers config) then None
          else Some \<lparr>au_sub = u, au_authTime = now, au_acr = Some (JStr ''urn:dev:pwd''),
                     au_amr = Some (JArr [JStr ''pwd''])\<rparr>)"

definition needsReauthentication :: "login_session option \<Rightarrow> authz_request \<Rightarrow> int \<Rightarrow> bool" where
  "needsReauthentication session request nowSec \<longleftrightarrow>
     (case session of
        None \<Rightarrow> True
      | Some s \<Rightarrow>
          ''login'' \<in> set (case vr_prompt request of Some p \<Rightarrow> words_of p | None \<Rightarrow> []) \<or>
          (case vr_maxAge request of
             Some m \<Rightarrow> num_less m (of_int nowSec - ls_authTime s) | None \<Rightarrow> False))"

definition decision_request ::
  "authenticated_user \<Rightarrow> client \<Rightarrow> authz_request \<Rightarrow> bool option \<Rightarrow> evaluation_request" where
  "decision_request user client request userApproved =
     \<lparr>er_subject = \<lparr>ze_type = ''user'', ze_id = au_sub user\<rparr>, er_action = ''oauth.authorize'',
      er_resource = \<lparr>ze_type = ''oauth_client'', ze_id = clientId client\<rparr>,
      er_context = Some
        ([(''scope'', JStr (vr_scope request)), (''redirect_uri'', JStr (vr_redirectUri request))] @
         (case au_acr user of Some v \<Rightarrow> [(''acr'', v)] | None \<Rightarrow> []) @
         [(''user_approved'', case userApproved of Some b \<Rightarrow> JBool b | None \<Rightarrow> JNull)])\<rparr>"

definition decideAuthorization ::
  "pdp \<Rightarrow> authenticated_user \<Rightarrow> client \<Rightarrow> authz_request \<Rightarrow> bool option \<Rightarrow> exn + bool" where
  "decideAuthorization pdp user client request userApproved =
     (if userApproved = Some False then Inr False
      else bindR (pdp (decision_request user client request userApproved)) (\<lambda>decision.
           Inr (es_decision decision)))"

lemma decide_allows:
  "decideAuthorization pdp user client request ua = Inr True \<Longrightarrow>
     ua \<noteq> Some False \<and> (\<exists>d. pdp (decision_request user client request ua) = Inr d \<and> es_decision d)"
  by (auto simp: decideAuthorization_def act_iff split: if_splits)

lemma dev_authenticate_Some:
  "dev_authenticate config username now = Some u \<Longrightarrow>
     au_sub u \<in> set (cfg_devLoginUsers config) \<and> au_authTime u = now"
  by (auto simp: dev_authenticate_def Let_def split: option.splits if_splits)

text \<open>With \<open>prompt=login\<close> every session has to be renewed, however fresh it is.\<close>

lemma prompt_login_always:
  "vr_prompt request = Some p \<Longrightarrow> ''login'' \<in> set (words_of p) \<Longrightarrow> needsReauthentication session request nowSec"
  by (simp add: needsReauthentication_def split: option.split)

end
