(* ===== verification/Grant.thy ===== *)
theory Grant
  imports Pkce Interaction
begin

text \<open>
  Issue and redemption of authorization codes and the refresh-token check
  (\<open>src/domain/grant.ts\<close>). A code is redeemed at most once, by the client it was issued to, with
  the redirect URI, the PKCE verifier and the DPoP key of its authorization request, and while
  its grant is not revoked. A second attempt revokes the grant and every token issued from it.
\<close>

section \<open>The operations\<close>

text \<open>\<open>uuid\<close> and \<open>bytes\<close> are the random values drawn for the grant and the code.\<close>

definition issueAuthorizationCode ::
  "ext \<Rightarrow> 's storage \<Rightarrow> app_config \<Rightarrow> int \<Rightarrow> string \<Rightarrow> string \<Rightarrow> string \<Rightarrow> authenticated_user \<Rightarrow>
     authz_request \<Rightarrow> ('s, exn, string \<times> string) act" where
  "issueAuthorizationCode x st config now uuid bytes cid user request =
     (let grantId = uuid; code = base64url bytes in
      bindE (grant_insert (st_grants st)
        \<lparr>grant_grantId = grantId, grant_clientId = cid, grant_subject = au_sub user,
         grant_scope = vr_scope request, grant_authTime = au_authTime user,
         grant_createdAt = now, grant_revokedAt = None\<rparr>) (\<lambda>_.
      bindE (code_insert (st_codes st)
        \<lparr>code_codeHash = sha256Base64Url x code, code_grantId = grantId, code_clientId = cid,
         code_redirectUri = vr_redirectUri request, code_codeChallenge = vr_codeChallenge request,
         code_codeChallengeMethod = vr_codeChallengeMethod request,
         code_dpopJkt = vr_dpopJkt request, code_nonce = vr_nonce request,
         code_expiresAt = now + cfg_authCodeTtlSec config * 1000\<rparr>) (\<lambda>_.
      returnE (code, grantId))))"

text \<open>The grant of a code or a refresh token, which must not be revoked.\<close>

definition valid_grant :: "'s storage \<Rightarrow> string \<Rightarrow> ('s, exn, grant_rec) act" where
  "valid_grant st grantId =
     bindE (grant_find (st_grants st) grantId) (\<lambda>grant.
     case grant of
       None \<Rightarrow> throwE (invalidGrant ''grant is no longer valid'')
     | Some g \<Rightarrow> if grant_revokedAt g \<noteq> None then throwE (invalidGrant ''grant is no longer valid'') else returnE g)"

text \<open>The checks of a code against the token request.\<close>

definition check_code ::
  "ext \<Rightarrow> string \<Rightarrow> string option \<Rightarrow> string option \<Rightarrow> string \<Rightarrow> code_rec \<Rightarrow> exn + unit" where
  "check_code x cid redirectUri codeVerifier dpopJkt r =
     bindR (throwIfR (code_clientId r \<noteq> cid)
       (invalidGrant (''authorization code was issued to a different client [RFC6749 '' @ sec @ ''4.1.3]''))) (\<lambda>_.
     bindR (throwIfR (redirectUri \<noteq> Some (code_redirectUri r))
       (invalidGrant (''redirect_uri does not match the authorization request [RFC6749 '' @ sec @ ''4.1.3]''))) (\<lambda>_.
     bindR (throwIfR (\<not> truthy codeVerifier \<or> \<not> verifyS256 x (the codeVerifier) (code_codeChallenge r))
       (invalidGrant (''PKCE verification failed [RFC7636 '' @ sec @ ''4.6]''))) (\<lambda>_.
     throwIfR (truthy (code_dpopJkt r) \<and> code_dpopJkt r \<noteq> Some dpopJkt)
       (invalidGrant (''DPoP key does not match the authorization request [RFC9449 '' @ sec @ ''10]'')))))"

definition redeemAuthorizationCode ::
  "ext \<Rightarrow> 's storage \<Rightarrow> int \<Rightarrow> string \<Rightarrow> string \<Rightarrow> string option \<Rightarrow> string option \<Rightarrow> string \<Rightarrow>
     ('s, exn, code_rec \<times> grant_rec) act" where
  "redeemAuthorizationCode x st now code cid redirectUri codeVerifier dpopJkt =
     bindE (code_redeem (st_codes st) (sha256Base64Url x code) now) (\<lambda>res.
     case res of
       Redeem_consumed r \<Rightarrow>
         bindE (grant_revoke (st_grants st) (code_grantId r) now) (\<lambda>_.
         bindE (at_revokeByGrant (st_accessTokens st) (code_grantId r) now) (\<lambda>_.
         bindE (rt_revokeByGrant (st_refreshTokens st) (code_grantId r) now) (\<lambda>_.
         throwE (invalidGrant (''authorization code has already been used [RFC6749 '' @ sec @ ''4.1.2]'')))))
     | Redeem_invalid \<Rightarrow>
         throwE (invalidGrant (''authorization code is invalid or expired [RFC6749 '' @ sec @ ''4.1.2]''))
     | Redeem_ok r \<Rightarrow>
         bindE (liftE (check_code x cid redirectUri codeVerifier dpopJkt r)) (\<lambda>_.
         bindE (valid_grant st (code_grantId r)) (\<lambda>grant. returnE (r, grant))))"

definition loadRefreshGrant ::
  "ext \<Rightarrow> 's storage \<Rightarrow> int \<Rightarrow> string \<Rightarrow> string \<Rightarrow> ('s, exn, grant_rec \<times> string) act" where
  "loadRefreshGrant x st now refreshToken cid =
     bindE (rt_findByHash (st_refreshTokens st) (sha256Base64Url x refreshToken)) (\<lambda>row.
     case row of
       None \<Rightarrow> throwE (invalidGrant (''refresh token is invalid or expired [RFC6749 '' @ sec @ ''6]''))
     | Some r \<Rightarrow>
         bindE (throwIf (rt_revokedAt r \<noteq> None \<or> rt_expiresAt r \<le> now)
           (invalidGrant (''refresh token is invalid or expired [RFC6749 '' @ sec @ ''6]''))) (\<lambda>_.
         bindE (throwIf (rt_clientId r \<noteq> cid)
           (invalidGrant (''refresh token was issued to a different client [RFC6749 '' @ sec @ ''6]''))) (\<lambda>_.
         bindE (valid_grant st (rt_grantId r)) (\<lambda>grant. returnE (grant, rt_scope r)))))"

section \<open>Revoking everything of a grant\<close>

definition revoke_all :: "string \<Rightarrow> int \<Rightarrow> astore \<Rightarrow> astore" where
  "revoke_all g t a = spec_rt_revokeByGrant g t (spec_at_revokeByGrant g t (spec_grant_revoke g t a))"

text \<open>Nothing issued under the grant is valid any more.\<close>

definition grant_dead :: "string \<Rightarrow> astore \<Rightarrow> bool" where
  "grant_dead g a \<longleftrightarrow>
     (\<forall>r. a_grants a g = Some r \<longrightarrow> grant_revokedAt r \<noteq> None) \<and>
     (\<forall>j r. a_at a j = Some r \<longrightarrow> at_grantId r = g \<longrightarrow> at_revokedAt r \<noteq> None) \<and>
     (\<forall>h r. a_rt a h = Some r \<longrightarrow> rt_grantId r = g \<longrightarrow> rt_revokedAt r \<noteq> None)"

lemma marks [simp]:
  "grant_revokedAt (grant_mark t r) \<noteq> None"
  "at_revokedAt (at_mark t a) \<noteq> None" "at_grantId (at_mark t a) = at_grantId a"
  "rt_revokedAt (rt_mark t q) \<noteq> None" "rt_grantId (rt_mark t q) = rt_grantId q"
  by (simp_all add: grant_mark_def at_mark_def rt_mark_def)

lemma revoke_all_tables:
  "a_grants (revoke_all g t a) = (a_grants a)(g := map_option (grant_mark t) (a_grants a g))"
  "a_at (revoke_all g t a) j = map_option (\<lambda>r. if at_grantId r = g then at_mark t r else r) (a_at a j)"
  "a_rt (revoke_all g t a) h = map_option (\<lambda>r. if rt_grantId r = g then rt_mark t r else r) (a_rt a h)"
  by (simp_all add: revoke_all_def spec_rt_revokeByGrant_def spec_at_revokeByGrant_def spec_grant_revoke_def)

lemma revoke_all_dead: "grant_dead g (revoke_all g t a)"
  unfolding grant_dead_def revoke_all_tables
proof (intro conjI allI impI)
  show "grant_revokedAt r \<noteq> None" if "((a_grants a)(g := map_option (grant_mark t) (a_grants a g))) g = Some r" for r
    using that by (cases "a_grants a g") (auto simp: grant_mark_def)
  show "at_revokedAt r \<noteq> None"
    if "map_option (\<lambda>r. if at_grantId r = g then at_mark t r else r) (a_at a j) = Some r" "at_grantId r = g" for j r
    using that by (cases "a_at a j") (auto simp: at_mark_def split: if_splits)
  show "rt_revokedAt r \<noteq> None"
    if "map_option (\<lambda>r. if rt_grantId r = g then rt_mark t r else r) (a_rt a h) = Some r" "rt_grantId r = g" for h r
    using that by (cases "a_rt a h") (auto simp: rt_mark_def split: if_splits)
qed

text \<open>Other grants and their tokens are left alone, and nothing appears or disappears.\<close>

lemma revoke_all_frame:
  "g' \<noteq> g \<Longrightarrow> a_grants (revoke_all g t a) g' = a_grants a g'"
  "a_at a j = Some r \<Longrightarrow> at_grantId r \<noteq> g \<Longrightarrow> a_at (revoke_all g t a) j = Some r"
  "a_rt a h = Some q \<Longrightarrow> rt_grantId q \<noteq> g \<Longrightarrow> a_rt (revoke_all g t a) h = Some q"
  "a_codes (revoke_all g t a) = a_codes a" "a_clients (revoke_all g t a) = a_clients a"
  "a_live (revoke_all g t a) = a_live a"
  by (simp_all add: revoke_all_def spec_rt_revokeByGrant_def spec_at_revokeByGrant_def spec_grant_revoke_def)

definition code_used :: "string \<Rightarrow> astore \<Rightarrow> bool" where
  "code_used h a \<longleftrightarrow> (\<exists>r t. a_codes a h = Some (r, Some t))"

definition code_grant :: "string \<Rightarrow> astore \<Rightarrow> string option" where
  "code_grant h a = map_option (code_grantId \<circ> fst) (a_codes a h)"

section \<open>What the operations establish\<close>

context grant_port begin

lemma valid_grant_quiet: "quiet ok view (valid_grant st g)"
  by (auto simp: valid_grant_def intro!: moves_intro quiet_reads [OF grant_find])

lemma valid_grant_Inr:
  assumes "ok s" and "valid_grant st i s = (Inr g, s')"
  shows "a_grants (view s) i = Some g \<and> grant_revokedAt g = None"
  using assms obeysD [OF grant_find]
  by (fastforce simp: valid_grant_def act_iff split: option.splits if_splits)

end

text \<open>A code that may be redeemed with these parameters.\<close>

definition code_matches ::
  "ext \<Rightarrow> string \<Rightarrow> string option \<Rightarrow> string option \<Rightarrow> string \<Rightarrow> code_rec \<Rightarrow> bool" where
  "code_matches x cid redirectUri codeVerifier dpopJkt r \<longleftrightarrow>
     code_clientId r = cid \<and> redirectUri = Some (code_redirectUri r) \<and>
     (\<exists>v. codeVerifier = Some v \<and> verifyS256 x v (code_codeChallenge r)) \<and>
     (truthy (code_dpopJkt r) \<longrightarrow> code_dpopJkt r = Some dpopJkt)"

lemma check_code_Inr: "check_code x cid uri ver jkt r = Inr u \<longleftrightarrow> code_matches x cid uri ver jkt r"
  unfolding check_code_def code_matches_def act_iff
  by (cases ver) (auto simp: verifyS256_iff CODE_CHALLENGE_not_Nil)

context storage_contract begin

lemma redeem_Inr:
  assumes "ok s" and "redeemAuthorizationCode x st now code cid uri ver jkt s = (Inr (r, g), s')"
  shows "a_codes (view s) (sha256Base64Url x code) = Some (r, None)" "now < code_expiresAt r"
    and "code_matches x cid uri ver jkt r"
    and "a_grants (view s) (code_grantId r) = Some g" "grant_revokedAt g = None"
    and "ok s'" "view s' = (view s)\<lparr>a_codes := (a_codes (view s))(sha256Base64Url x code \<mapsto> (r, Some now))\<rparr>"
proof -
  from assms(2) obtain res s1 where
    c: "code_redeem (st_codes st) (sha256Base64Url x code) now s = (Inr res, s1)" and
    body: "(case res of
       Redeem_ok q \<Rightarrow> bindE (liftE (check_code x cid uri ver jkt q)) (\<lambda>_.
         bindE (valid_grant st (code_grantId q)) (\<lambda>grant. returnE (q, grant))) s1 = (Inr (r, g), s')
     | _ \<Rightarrow> False)"
    unfolding redeemAuthorizationCode_def act_iff
    by (fastforce simp: act_iff split: code_redemption.splits)
  from obeysD [OF code_redeem assms(1) c] have s1: "ok s1"
    "res = spec_code_redemption (sha256Base64Url x code) now (view s)"
    "view s1 = spec_code_redeem (sha256Base64Url x code) now (view s)" by simp_all
  from body have res: "res = Redeem_ok r" and m: "code_matches x cid uri ver jkt r"
    and v: "valid_grant st (code_grantId r) s1 = (Inr g, s')"
    by (auto simp: act_iff check_code_Inr split: code_redemption.splits)
  from res s1(2) show "a_codes (view s) (sha256Base64Url x code) = Some (r, None)" "now < code_expiresAt r"
    by (auto simp: spec_code_redemption_def split: option.splits if_splits)
  show "code_matches x cid uri ver jkt r" by (rule m)
  have v1: "view s1 = (view s)\<lparr>a_codes := (a_codes (view s))(sha256Base64Url x code \<mapsto> (r, Some now))\<rparr>"
    unfolding s1(3) spec_code_redeem_def s1(2) [symmetric] res by simp
  from movesD [OF valid_grant_quiet s1(1) v] show "ok s'"
    "view s' = (view s)\<lparr>a_codes := (a_codes (view s))(sha256Base64Url x code \<mapsto> (r, Some now))\<rparr>"
    by (simp_all add: v1)
  from valid_grant_Inr [OF s1(1) v] show "a_grants (view s) (code_grantId r) = Some g" "grant_revokedAt g = None"
    by (simp_all add: v1)
qed

lemma loadRefreshGrant_Inr:
  assumes "ok s" and "loadRefreshGrant x st now token cid s = (Inr (g, scope), s')"
  shows "\<exists>r. a_rt (view s) (sha256Base64Url x token) = Some r \<and> rt_revokedAt r = None \<and>
           now < rt_expiresAt r \<and> rt_clientId r = cid \<and> scope = rt_scope r \<and>
           a_grants (view s) (rt_grantId r) = Some g \<and> grant_revokedAt g = None"
    and "ok s'" "view s' = view s"
proof -
  from assms(2) obtain r s1 where
    f: "rt_findByHash (st_refreshTokens st) (sha256Base64Url x token) s = (Inr (Some r), s1)" and
    c: "rt_revokedAt r = None" "now < rt_expiresAt r" "rt_clientId r = cid" "scope = rt_scope r" and
    v: "valid_grant st (rt_grantId r) s1 = (Inr g, s')"
    unfolding loadRefreshGrant_def act_iff by (auto simp: act_iff not_le split: if_splits)
  from obeysD [OF rt_findByHash assms(1) f] have s1: "ok s1" "view s1 = view s"
    "a_rt (view s) (sha256Base64Url x token) = Some r" by simp_all
  with movesD [OF valid_grant_quiet s1(1) v] show "ok s'" "view s' = view s" by simp_all
  from valid_grant_Inr [OF s1(1) v] s1 c show "\<exists>r. a_rt (view s) (sha256Base64Url x token) = Some r \<and>
      rt_revokedAt r = None \<and> now < rt_expiresAt r \<and> rt_clientId r = cid \<and> scope = rt_scope r \<and>
      a_grants (view s) (rt_grantId r) = Some g \<and> grant_revokedAt g = None" by auto
qed

lemma issueAuthorizationCode_Inr:
  assumes "ok s" and "issueAuthorizationCode x st config now uuid bytes cid user rq s = (Inr (code, gid), s')"
  shows "code = base64url bytes" "gid = uuid" "ok s'"
    and "view s' =
      spec_code_insert
        \<lparr>code_codeHash = sha256Base64Url x code, code_grantId = uuid, code_clientId = cid,
         code_redirectUri = vr_redirectUri rq, code_codeChallenge = vr_codeChallenge rq,
         code_codeChallengeMethod = vr_codeChallengeMethod rq, code_dpopJkt = vr_dpopJkt rq,
         code_nonce = vr_nonce rq, code_expiresAt = now + cfg_authCodeTtlSec config * 1000\<rparr>
        (spec_grant_insert
           \<lparr>grant_grantId = uuid, grant_clientId = cid, grant_subject = au_sub user,
            grant_scope = vr_scope rq, grant_authTime = au_authTime user,
            grant_createdAt = now, grant_revokedAt = None\<rparr> (view s))"
proof -
  let ?code = "base64url bytes"
  let ?g = "\<lparr>grant_grantId = uuid, grant_clientId = cid, grant_subject = au_sub user,
            grant_scope = vr_scope rq, grant_authTime = au_authTime user,
            grant_createdAt = now, grant_revokedAt = None\<rparr>"
  let ?c = "\<lparr>code_codeHash = sha256Base64Url x ?code, code_grantId = uuid, code_clientId = cid,
         code_redirectUri = vr_redirectUri rq, code_codeChallenge = vr_codeChallenge rq,
         code_codeChallengeMethod = vr_codeChallengeMethod rq, code_dpopJkt = vr_dpopJkt rq,
         code_nonce = vr_nonce rq, code_expiresAt = now + cfg_authCodeTtlSec config * 1000\<rparr>"
  from assms(2) obtain u s1 w where g: "grant_insert (st_grants st) ?g s = (Inr u, s1)"
    and c: "code_insert (st_codes st) ?c s1 = (Inr w, s')" and r: "code = ?code" "gid = uuid"
    unfolding issueAuthorizationCode_def Let_def act_iff by blast
  from obeysD [OF grant_insert assms(1) g] have s1: "ok s1" "view s1 = spec_grant_insert ?g (view s)" by simp_all
  from obeysD [OF code_insert s1(1) c] have "ok s'" "view s' = spec_code_insert ?c (view s1)" by simp_all
  with s1 r show "code = base64url bytes" "gid = uuid" "ok s'"
    "view s' = spec_code_insert
        \<lparr>code_codeHash = sha256Base64Url x code, code_grantId = uuid, code_clientId = cid,
         code_redirectUri = vr_redirectUri rq, code_codeChallenge = vr_codeChallenge rq,
         code_codeChallengeMethod = vr_codeChallengeMethod rq, code_dpopJkt = vr_dpopJkt rq,
         code_nonce = vr_nonce rq, code_expiresAt = now + cfg_authCodeTtlSec config * 1000\<rparr>
        (spec_grant_insert ?g (view s))" by simp_all
qed

end

context reliable_storage begin

lemma redeem_replay:
  assumes "ok s" and used: "a_codes (view s) (sha256Base64Url x code) = Some (r, Some t0)"
  obtains s' where "redeemAuthorizationCode x st now code cid uri ver jkt s =
      (Inl (invalidGrant (''authorization code has already been used [RFC6749 '' @ sec @ ''4.1.2]'')), s')"
    and "ok s'" and "view s' = revoke_all (code_grantId r) now (view s)"
proof -
  obtain res s1 where 1: "code_redeem (st_codes st) (sha256Base64Url x code) now s = (Inr res, s1)"
    "ok s1" "res = spec_code_redemption (sha256Base64Url x code) now (view s)"
    "view s1 = spec_code_redeem (sha256Base64Url x code) now (view s)"
    using obeys_answers [OF code_redeem codes_answer(2) assms(1)] by metis
  with used have res: "res = Redeem_consumed r" and v1: "view s1 = view s"
    by (simp_all add: spec_code_redemption_def spec_code_redeem_def)
  obtain u2 s2 where 2: "grant_revoke (st_grants st) (code_grantId r) now s1 = (Inr u2, s2)" "ok s2"
    "view s2 = spec_grant_revoke (code_grantId r) now (view s1)"
    using obeys_answers [OF grant_revoke grants_answer(3) 1(2)] by metis
  obtain u3 s3 where 3: "at_revokeByGrant (st_accessTokens st) (code_grantId r) now s2 = (Inr u3, s3)" "ok s3"
    "view s3 = spec_at_revokeByGrant (code_grantId r) now (view s2)"
    using obeys_answers [OF at_revokeByGrant tokens_answer(2) 2(2)] by metis
  obtain u4 s4 where 4: "rt_revokeByGrant (st_refreshTokens st) (code_grantId r) now s3 = (Inr u4, s4)" "ok s4"
    "view s4 = spec_rt_revokeByGrant (code_grantId r) now (view s3)"
    using obeys_answers [OF rt_revokeByGrant tokens_answer(4) 3(2)] by metis
  show thesis
  proof (rule that)
    show "redeemAuthorizationCode x st now code cid uri ver jkt s =
      (Inl (invalidGrant (''authorization code has already been used [RFC6749 '' @ sec @ ''4.1.2]'')), s4)"
      by (simp add: redeemAuthorizationCode_def bindE_def throwE_def 1(1) 2(1) 3(1) 4(1) res)
    show "ok s4" by (rule 4)
    show "view s4 = revoke_all (code_grantId r) now (view s)"
      by (simp add: revoke_all_def 2 3 4 v1)
  qed
qed

text \<open>With a storage that always answers, these conditions are also enough.\<close>

lemma valid_grant_answers:
  assumes "ok s" and "a_grants (view s) i = Some g" and "grant_revokedAt g = None"
  shows "\<exists>s'. valid_grant st i s = (Inr g, s')"
proof -
  obtain v s1 where "grant_find (st_grants st) i s = (Inr v, s1)" "v = a_grants (view s) i"
    using obeys_answers [OF grant_find grants_answer(2) assms(1)] by metis
  with assms(2,3) show ?thesis by (simp add: valid_grant_def bindE_def returnE_def)
qed

lemma redeem_iff:
  assumes "ok s"
  shows "(\<exists>s'. redeemAuthorizationCode x st now code cid uri ver jkt s = (Inr (r, g), s')) \<longleftrightarrow>
    a_codes (view s) (sha256Base64Url x code) = Some (r, None) \<and> now < code_expiresAt r \<and>
    code_matches x cid uri ver jkt r \<and> a_grants (view s) (code_grantId r) = Some g \<and> grant_revokedAt g = None"
    (is "?redeems \<longleftrightarrow> ?may")
proof
  assume ?redeems
  then obtain s' where "redeemAuthorizationCode x st now code cid uri ver jkt s = (Inr (r, g), s')" ..
  from redeem_Inr [OF assms this] show ?may by blast
next
  assume may: ?may
  obtain res s1 where 1: "code_redeem (st_codes st) (sha256Base64Url x code) now s = (Inr res, s1)"
    "ok s1" "res = spec_code_redemption (sha256Base64Url x code) now (view s)"
    "view s1 = spec_code_redeem (sha256Base64Url x code) now (view s)"
    using obeys_answers [OF code_redeem codes_answer(2) assms] by metis
  with may have res: "res = Redeem_ok r" and g: "a_grants (view s1) (code_grantId r) = Some g"
    by (simp_all add: spec_code_redemption_def spec_code_redeem_def)
  from may have ck: "check_code x cid uri ver jkt r = Inr ()" by (simp add: check_code_Inr)
  from may have "grant_revokedAt g = None" by simp
  from valid_grant_answers [OF 1(2) g this]
  obtain s2 where "valid_grant st (code_grantId r) s1 = (Inr g, s2)" ..
  then show ?redeems
    by (simp add: redeemAuthorizationCode_def bindE_def 1(1) res ck liftE_def returnE_def)
qed

lemma loadRefreshGrant_iff:
  assumes "ok s"
  shows "(\<exists>s'. loadRefreshGrant x st now token cid s = (Inr (g, scope), s')) \<longleftrightarrow>
    (\<exists>r. a_rt (view s) (sha256Base64Url x token) = Some r \<and> rt_revokedAt r = None \<and>
       now < rt_expiresAt r \<and> rt_clientId r = cid \<and> scope = rt_scope r \<and>
       a_grants (view s) (rt_grantId r) = Some g \<and> grant_revokedAt g = None)" (is "?loads \<longleftrightarrow> ?may")
proof
  assume ?loads
  then obtain s' where "loadRefreshGrant x st now token cid s = (Inr (g, scope), s')" ..
  from loadRefreshGrant_Inr(1) [OF assms this] show ?may .
next
  assume ?may
  then obtain r where may: "a_rt (view s) (sha256Base64Url x token) = Some r" "rt_revokedAt r = None"
    "now < rt_expiresAt r" "rt_clientId r = cid" "scope = rt_scope r"
    "a_grants (view s) (rt_grantId r) = Some g" "grant_revokedAt g = None" by blast
  obtain v s1 where 1: "rt_findByHash (st_refreshTokens st) (sha256Base64Url x token) s = (Inr v, s1)"
    "ok s1" "v = Some r" "view s1 = view s"
    using obeys_answers [OF rt_findByHash tokens_answer(6) assms] may(1) by metis
  have "a_grants (view s1) (rt_grantId r) = Some g" using may(6) by (simp add: 1(4))
  from valid_grant_answers [OF 1(2) this may(7)]
  obtain s2 where "valid_grant st (rt_grantId r) s1 = (Inr g, s2)" ..
  with 1 may show ?loads
    by (auto simp: loadRefreshGrant_def bindE_def throwIf_def returnE_def)
qed

end

end
