(* ===== verification/Tokens.thy ===== *)
theory Tokens
  imports KeyPort Config
begin

text \<open>
  Token construction (\<open>src/domain/tokens.ts\<close>): the JWT access token with its claims, the ID Token,
  the opaque refresh token, and the token response. What is stored for a token says the same as
  what is signed or handed out, the access token is bound to the DPoP key, and it expires after
  the configured lifetime.
\<close>

section \<open>The operations\<close>

record token_input =
  ti_grantId :: string
  ti_clientId :: string
  ti_subject :: string
  ti_scope :: string
  ti_cnfJkt :: string
  ti_authTime :: "int option"
  ti_acr :: "string option"
  ti_amr :: "string list option"
  ti_nonce :: "string option"

record issued_tokens =
  tk_access_token :: string
  tk_token_type :: string
  tk_expires_in :: int
  tk_scope :: string
  tk_refresh_token :: "string option"
  tk_id_token :: "string option"

definition access_claims :: "app_config \<Rightarrow> int \<Rightarrow> string \<Rightarrow> token_input \<Rightarrow> jobj" where
  "access_claims config now jti input =
     [(''iss'', JStr (cfg_issuer config)), (''aud'', JStr (cfg_accessTokenAudience config)),
      (''sub'', JStr (ti_subject input)), (''client_id'', JStr (ti_clientId input)),
      (''iat'', JNum (of_int (sec_of now))),
      (''exp'', JNum (of_int (sec_of (now + cfg_accessTokenTtlSec config * 1000)))),
      (''jti'', JStr jti), (''scope'', JStr (ti_scope input)),
      (''cnf'', JObj [(''jkt'', JStr (ti_cnfJkt input))])]"

definition access_record :: "app_config \<Rightarrow> int \<Rightarrow> string \<Rightarrow> token_input \<Rightarrow> at_rec" where
  "access_record config now jti input =
     \<lparr>at_jti = jti, at_grantId = ti_grantId input, at_clientId = ti_clientId input,
      at_subject = ti_subject input, at_scope = ti_scope input, at_cnfJkt = Some (ti_cnfJkt input),
      at_expiresAt = now + cfg_accessTokenTtlSec config * 1000, at_revokedAt = None\<rparr>"

definition issueAccessToken ::
  "'s storage \<Rightarrow> 's keystore \<Rightarrow> app_config \<Rightarrow> int \<Rightarrow> string \<Rightarrow> token_input \<Rightarrow>
     ('s, exn, string \<times> string \<times> int) act" where
  "issueAccessToken st ks config now uuid input =
     bindE (ks_signJwt ks (access_claims config now uuid input) (Some ''at+jwt'')) (\<lambda>token.
     bindE (at_insert (st_accessTokens st) (access_record config now uuid input)) (\<lambda>_.
     returnE (token, uuid, now + cfg_accessTokenTtlSec config * 1000)))"

definition id_claims ::
  "app_config \<Rightarrow> int \<Rightarrow> string \<Rightarrow> string \<Rightarrow> int option \<Rightarrow> string option \<Rightarrow> string list option \<Rightarrow>
     string option \<Rightarrow> jobj" where
  "id_claims config now cid subject authTime acr amr nonce =
     [(''iss'', JStr (cfg_issuer config)), (''sub'', JStr subject), (''aud'', JStr cid),
      (''iat'', JNum (of_int (sec_of now))), (''exp'', JNum (of_int (sec_of now + cfg_idTokenTtlSec config)))] @
     (if truthy nonce then [(''nonce'', JStr (the nonce))] else []) @
     (case authTime of Some t \<Rightarrow> [(''auth_time'', JNum (of_int (sec_of t)))] | None \<Rightarrow> []) @
     (if truthy acr then [(''acr'', JStr (the acr))] else []) @
     (case amr of Some l \<Rightarrow> [(''amr'', JArr (map JStr l))] | None \<Rightarrow> [])"

definition issueIdToken ::
  "'s keystore \<Rightarrow> app_config \<Rightarrow> int \<Rightarrow> string \<Rightarrow> string \<Rightarrow> int option \<Rightarrow> string option \<Rightarrow>
     string list option \<Rightarrow> string option \<Rightarrow> ('s, exn, string) act" where
  "issueIdToken ks config now cid subject authTime acr amr nonce =
     ks_signJwt ks (id_claims config now cid subject authTime acr amr nonce) None"

definition refresh_record :: "ext \<Rightarrow> app_config \<Rightarrow> int \<Rightarrow> string \<Rightarrow> string \<Rightarrow> string \<Rightarrow> string \<Rightarrow> rt_rec" where
  "refresh_record x config now token gid cid scope =
     \<lparr>rt_tokenHash = sha256Base64Url x token, rt_grantId = gid, rt_clientId = cid, rt_scope = scope,
      rt_expiresAt = now + cfg_refreshTokenTtlSec config * 1000, rt_revokedAt = None\<rparr>"

definition issueRefreshToken ::
  "ext \<Rightarrow> 's storage \<Rightarrow> app_config \<Rightarrow> int \<Rightarrow> string \<Rightarrow> string \<Rightarrow> string \<Rightarrow> string \<Rightarrow> ('s, exn, string) act" where
  "issueRefreshToken x st config now bytes gid cid scope =
     (let token = base64url bytes in
      bindE (rt_insert (st_refreshTokens st) (refresh_record x config now token gid cid scope)) (\<lambda>_.
      returnE token))"

text \<open>The clock readings and random values of one token response.\<close>

record issue_env =
  ie_t_at :: int
  ie_t_id :: int
  ie_t_rt :: int
  ie_jti :: string
  ie_rt_bytes :: string

definition issueTokenSet ::
  "ext \<Rightarrow> 's storage \<Rightarrow> 's keystore \<Rightarrow> app_config \<Rightarrow> issue_env \<Rightarrow> token_input \<Rightarrow> bool \<Rightarrow> bool \<Rightarrow>
     ('s, exn, issued_tokens) act" where
  "issueTokenSet x st ks config env input openid withRefreshToken =
     bindE (issueAccessToken st ks config (ie_t_at env) (ie_jti env) input) (\<lambda>(token, jti, expiresAt).
     bindE (if openid
            then bindE (issueIdToken ks config (ie_t_id env) (ti_clientId input) (ti_subject input)
                          (ti_authTime input) (ti_acr input) (ti_amr input) (ti_nonce input)) (\<lambda>t. returnE (Some t))
            else returnE None) (\<lambda>idToken.
     bindE (if withRefreshToken
            then bindE (issueRefreshToken x st config (ie_t_rt env) (ie_rt_bytes env) (ti_grantId input)
                          (ti_clientId input) (ti_scope input)) (\<lambda>t. returnE (Some t))
            else returnE None) (\<lambda>refreshToken.
     returnE \<lparr>tk_access_token = token, tk_token_type = ''DPoP'',
              tk_expires_in = cfg_accessTokenTtlSec config, tk_scope = ti_scope input,
              tk_refresh_token = refreshToken, tk_id_token = idToken\<rparr>)))"

section \<open>What is stored\<close>

text \<open>The claims of an access token and its stored row agree.\<close>

definition claims_match_row :: "app_config \<Rightarrow> jobj \<Rightarrow> at_rec \<Rightarrow> bool" where
  "claims_match_row config c r \<longleftrightarrow>
     jget c ''jti'' = Some (JStr (at_jti r)) \<and> jget c ''client_id'' = Some (JStr (at_clientId r)) \<and>
     jget c ''sub'' = Some (JStr (at_subject r)) \<and> jget c ''scope'' = Some (JStr (at_scope r)) \<and>
     jget c ''iss'' = Some (JStr (cfg_issuer config)) \<and>
     jget c ''exp'' = Some (JNum (of_int (sec_of (at_expiresAt r)))) \<and>
     (\<exists>j. at_cnfJkt r = Some j \<and> jget c ''cnf'' = Some (JObj [(''jkt'', JStr j)]))"

lemma access_claims_match: "claims_match_row config (access_claims config now jti i) (access_record config now jti i)"
  by (simp add: claims_match_row_def access_claims_def access_record_def)

definition token_effect ::
  "ext \<Rightarrow> app_config \<Rightarrow> issue_env \<Rightarrow> token_input \<Rightarrow> bool \<Rightarrow> astore \<Rightarrow> astore" where
  "token_effect x config env i withRefresh a =
     (let a' = spec_at_insert (access_record config (ie_t_at env) (ie_jti env) i) a
      in if withRefresh
         then spec_rt_insert (refresh_record x config (ie_t_rt env) (base64url (ie_rt_bytes env)) (ti_grantId i)
                (ti_clientId i) (ti_scope i)) a'
         else a')"

locale token_issue = storage_contract st view ok + key_port ks view ok
  for st :: "'s storage" and ks :: "'s keystore" and view :: "'s \<Rightarrow> astore" and ok :: "'s \<Rightarrow> bool"
begin

lemma issueAccessToken_Inr:
  assumes "ok s" and "issueAccessToken st ks config now uuid i s = (Inr (token, jti, e), s')"
  shows "ok s'" "view s' = spec_at_insert (access_record config now uuid i) (view s)" "jti = uuid"
    and "\<exists>s1. ks_signJwt ks (access_claims config now uuid i) (Some ''at+jwt'') s = (Inr token, s1)"
proof -
  from assms(2) obtain s1 u where k: "ks_signJwt ks (access_claims config now uuid i) (Some ''at+jwt'') s = (Inr token, s1)"
    and a: "at_insert (st_accessTokens st) (access_record config now uuid i) s1 = (Inr u, s')" and "jti = uuid"
    unfolding issueAccessToken_def act_iff by blast
  then show "jti = uuid" by blast
  from movesD [OF ks_signJwt assms(1) k] have s1: "ok s1" "view s1 = view s" by simp_all
  with obeysD [OF at_insert s1(1) a] show "ok s'" "view s' = spec_at_insert (access_record config now uuid i) (view s)"
    by simp_all
  show "\<exists>s1. ks_signJwt ks (access_claims config now uuid i) (Some ''at+jwt'') s = (Inr token, s1)" using k by blast
qed

lemma issueRefreshToken_Inr:
  assumes "ok s" and "issueRefreshToken x st config now bytes gid cid scope s = (Inr t, s')"
  shows "ok s'" "t = base64url bytes" "view s' = spec_rt_insert (refresh_record x config now t gid cid scope) (view s)"
  using assms obeysD [OF rt_insert assms(1)] by (auto simp: issueRefreshToken_def Let_def act_iff)

lemma issueTokenSet_Inr:
  assumes "ok s" and run: "issueTokenSet x st ks config env i openid withRefresh s = (Inr tk, s')"
  shows "ok s'" and "view s' = token_effect x config env i withRefresh (view s)"
    and "tk_token_type tk = ''DPoP''" and "tk_expires_in tk = cfg_accessTokenTtlSec config"
    and "tk_scope tk = ti_scope i" and "(tk_id_token tk \<noteq> None) = openid"
    and "tk_refresh_token tk = (if withRefresh then Some (base64url (ie_rt_bytes env)) else None)"
    and "\<exists>s1. ks_signJwt ks (access_claims config (ie_t_at env) (ie_jti env) i) (Some ''at+jwt'') s
              = (Inr (tk_access_token tk), s1)"
proof -
  let ?id = "issueIdToken ks config (ie_t_id env) (ti_clientId i) (ti_subject i) (ti_authTime i) (ti_acr i)
               (ti_amr i) (ti_nonce i)"
  let ?rt = "issueRefreshToken x st config (ie_t_rt env) (ie_rt_bytes env) (ti_grantId i) (ti_clientId i) (ti_scope i)"
  from run obtain token jti e s1 idt s2 rt where
    1: "issueAccessToken st ks config (ie_t_at env) (ie_jti env) i s = (Inr (token, jti, e), s1)" and
    2: "(if openid then bindE ?id (\<lambda>t. returnE (Some t)) else returnE None) s1 = (Inr idt, s2)" and
    3: "(if withRefresh then bindE ?rt (\<lambda>t. returnE (Some t)) else returnE None) s2 = (Inr rt, s')" and
    tk: "tk = \<lparr>tk_access_token = token, tk_token_type = ''DPoP'', tk_expires_in = cfg_accessTokenTtlSec config,
             tk_scope = ti_scope i, tk_refresh_token = rt, tk_id_token = idt\<rparr>"
    unfolding issueTokenSet_def act_iff by (auto simp: act_iff case_prod_beta simp del: if_split_asm)
  note a = issueAccessToken_Inr [OF assms(1) 1]
  have "quiet ok view ?id" by (simp add: issueIdToken_def ks_signJwt)
  then have "quiet ok view (if openid then bindE ?id (\<lambda>t. returnE (Some t)) else returnE None)"
    by (auto intro!: moves_intro)
  from movesD [OF this a(1) 2] have s2: "ok s2" "view s2 = view s1" by simp_all
  from 2 have idt: "(idt \<noteq> None) = openid" by (auto simp: act_iff split: if_splits)
  have r: "ok s' \<and> rt = (if withRefresh then Some (base64url (ie_rt_bytes env)) else None) \<and>
      view s' = token_effect x config env i withRefresh (view s)"
  proof (cases withRefresh)
    case True
    with 3 obtain t where "?rt s2 = (Inr t, s')" "rt = Some t" by (auto simp: act_iff)
    with issueRefreshToken_Inr [OF s2(1) this(1)] a(2) s2(2) True show ?thesis
      by (simp add: token_effect_def)
  next
    case False
    with 3 s2 a(2) show ?thesis by (simp add: act_iff token_effect_def)
  qed
  then show "ok s'" "view s' = token_effect x config env i withRefresh (view s)" by simp_all
  show "tk_token_type tk = ''DPoP''" "tk_expires_in tk = cfg_accessTokenTtlSec config"
    "tk_scope tk = ti_scope i" "(tk_id_token tk \<noteq> None) = openid"
    "tk_refresh_token tk = (if withRefresh then Some (base64url (ie_rt_bytes env)) else None)"
    "\<exists>s1. ks_signJwt ks (access_claims config (ie_t_at env) (ie_jti env) i) (Some ''at+jwt'') s
              = (Inr (tk_access_token tk), s1)"
    using r idt a(4) by (simp_all add: tk)
qed

lemma issueTokenSet_moves:
  assumes "reflp T" "transp T"
    and at: "\<And>a. T a (spec_at_insert (access_record config (ie_t_at env) (ie_jti env) i) a)"
    and rt: "\<And>a. T a (spec_rt_insert (refresh_record x config (ie_t_rt env) (base64url (ie_rt_bytes env))
                  (ti_grantId i) (ti_clientId i) (ti_scope i)) a)"
  shows "moves ok view T (issueTokenSet x st ks config env i openid withRefresh)"
  unfolding issueTokenSet_def issueAccessToken_def issueIdToken_def issueRefreshToken_def Let_def
  by (auto intro!: moves_intro quiet_moves [OF ks_signJwt] moves_obeys [OF at_insert] moves_obeys [OF rt_insert]
      at rt assms(1,2) simp: case_prod_beta)

end

end
