(* ===== verification/TokenLookup.thy ===== *)
theory TokenLookup
  imports Tokens
begin

text \<open>
  Resolving a presented token to its stored row (\<open>src/domain/token-lookup.ts\<close>): an access token by
  the identifier in its verified claims, a refresh token by its digest. \<open>token_row\<close> says which row that is, given the keys the
  server publishes, and the lookups are shown to find it.
\<close>

datatype resolved_token = Resolved_access at_rec | Resolved_refresh rt_rec

definition resolved_clientId :: "resolved_token \<Rightarrow> string" where
  "resolved_clientId t = (case t of Resolved_access r \<Rightarrow> at_clientId r | Resolved_refresh r \<Rightarrow> rt_clientId r)"

text \<open>The identifier in the verified claims. Any error of the verification counts as \<open>not one of our
  tokens\<close>.\<close>

definition verified_jti :: "ext \<Rightarrow> app_config \<Rightarrow> jobj list \<Rightarrow> string \<Rightarrow> string option" where
  "verified_jti x config keys token =
     (case x_verify_issued x keys (cfg_issuer config) ''at+jwt'' token of
        None \<Rightarrow> None
      | Some payload \<Rightarrow> (case jget payload ''jti'' of Some (JStr jti) \<Rightarrow> Some jti | _ \<Rightarrow> None))"

definition findAccessToken ::
  "ext \<Rightarrow> 's storage \<Rightarrow> 's keystore \<Rightarrow> app_config \<Rightarrow> key_env \<Rightarrow> int \<Rightarrow> string \<Rightarrow> ('s, exn, resolved_token option) act" where
  "findAccessToken x st ks config env now token =
     bindE (ks_ensure ks env) (\<lambda>_.
     bindE (catchE (bindE (ks_publicJwks ks now) (\<lambda>keys.
              returnE (verified_jti x config keys token)))
            (\<lambda>_. returnE None)) (\<lambda>jti.
     case jti of
       None \<Rightarrow> returnE None
     | Some jti \<Rightarrow>
         bindE (at_findByJti (st_accessTokens st) jti) (\<lambda>row. returnE (map_option Resolved_access row))))"

definition findRefreshToken :: "ext \<Rightarrow> 's storage \<Rightarrow> string \<Rightarrow> ('s, exn, resolved_token option) act" where
  "findRefreshToken x st token =
     bindE (rt_findByHash (st_refreshTokens st) (sha256Base64Url x token)) (\<lambda>row.
     returnE (map_option Resolved_refresh row))"

text \<open>The loop over the two searches.\<close>

fun first_found :: "('s, exn, 'a option) act list \<Rightarrow> ('s, exn, 'a option) act" where
  "first_found [] = returnE None"
| "first_found (search # order) =
     bindE search (\<lambda>found. case found of Some t \<Rightarrow> returnE (Some t) | None \<Rightarrow> first_found order)"

definition resolveToken ::
  "ext \<Rightarrow> 's storage \<Rightarrow> 's keystore \<Rightarrow> app_config \<Rightarrow> key_env \<Rightarrow> int \<Rightarrow> string \<Rightarrow> string option \<Rightarrow>
     ('s, exn, resolved_token option) act" where
  "resolveToken x st ks config env now token hint =
     first_found
       (if hint = Some ''refresh_token''
        then [findRefreshToken x st token, findAccessToken x st ks config env now token]
        else [findAccessToken x st ks config env now token, findRefreshToken x st token])"

section \<open>The row of a presented token\<close>

text \<open>The keys a server publishes in a state: those of \<open>publicJwks\<close> once the keystore is ready.\<close>

definition published_keys :: "'s keystore \<Rightarrow> key_env \<Rightarrow> int \<Rightarrow> 's \<Rightarrow> jobj list option" where
  "published_keys ks env now s =
     (case ks_ensure ks env s of
        (Inl _, _) \<Rightarrow> None
      | (Inr _, s1) \<Rightarrow> (case ks_publicJwks ks now s1 of (Inl _, _) \<Rightarrow> None | (Inr keys, _) \<Rightarrow> Some keys))"

text \<open>The access token row under the identifier a token verifies to with those keys, the refresh token row under its
  digest, and the row found when the one or the other is looked for first.\<close>

definition access_row :: "ext \<Rightarrow> app_config \<Rightarrow> jobj list option \<Rightarrow> astore \<Rightarrow> string \<Rightarrow> at_rec option" where
  "access_row x config keys a token =
     Option.bind keys (\<lambda>ks. Option.bind (verified_jti x config ks token) (a_at a))"

definition refresh_row :: "ext \<Rightarrow> astore \<Rightarrow> string \<Rightarrow> rt_rec option" where
  "refresh_row x a token = a_rt a (sha256Base64Url x token)"

definition token_row ::
  "ext \<Rightarrow> app_config \<Rightarrow> jobj list option \<Rightarrow> astore \<Rightarrow> string \<Rightarrow> string option \<Rightarrow> resolved_token option" where
  "token_row x config keys a token hint =
     (case (access_row x config keys a token, refresh_row x a token) of
        (None, None) \<Rightarrow> None
      | (Some r, None) \<Rightarrow> Some (Resolved_access r)
      | (None, Some r) \<Rightarrow> Some (Resolved_refresh r)
      | (Some r, Some r') \<Rightarrow> Some (if hint = Some ''refresh_token'' then Resolved_refresh r' else Resolved_access r))"

text \<open>With the hint \<open>refresh_token\<close> the keys are read after the refresh token has been looked for.\<close>

definition key_state :: "ext \<Rightarrow> 's storage \<Rightarrow> string \<Rightarrow> string option \<Rightarrow> 's \<Rightarrow> 's" where
  "key_state x st token hint s = (if hint = Some ''refresh_token'' then snd (findRefreshToken x st token s) else s)"

lemma access_row_Some:
  "access_row x config keys a token = Some r \<longleftrightarrow>
     (\<exists>ks j. keys = Some ks \<and> verified_jti x config ks token = Some j \<and> a_at a j = Some r)"
  by (auto simp: access_row_def bind_eq_Some_conv)

lemma access_row_cong: "a_at a' = a_at a \<Longrightarrow> access_row x config keys a' token = access_row x config keys a token"
  by (simp add: access_row_def)

lemma token_row_cong:
  "a_at a' = a_at a \<Longrightarrow> a_rt a' = a_rt a \<Longrightarrow> token_row x config keys a' token hint = token_row x config keys a token hint"
  by (simp add: token_row_def access_row_def refresh_row_def)

context token_issue begin

lemma findAccessToken_quiet: "quiet ok view (findAccessToken x st ks config env now token)"
  by (auto simp: findAccessToken_def intro!: moves_intro ks_ensure ks_publicJwks quiet_reads [OF at_findByJti])

lemma findAccessToken_Inr:
  assumes "ok s" and run: "findAccessToken x st ks config env now token s = (Inr found, s')"
  shows "found = map_option Resolved_access (access_row x config (published_keys ks env now s) (view s) token)"
proof -
  from run obtain u s1 jj s2 where
    1: "ks_ensure ks env s = (Inr u, s1)" and
    2: "catchE (bindE (ks_publicJwks ks now) (\<lambda>keys. returnE (verified_jti x config keys token)))
          (\<lambda>_. returnE None) s1 = (Inr jj :: exn + string option, s2)" and
    b: "(case jj of None \<Rightarrow> returnE None
         | Some jti \<Rightarrow> bindE (at_findByJti (st_accessTokens st) jti)
             (\<lambda>row. returnE (map_option Resolved_access row))) s2 = (Inr found, s')"
    unfolding findAccessToken_def bindE_Inr_iff by blast
  from movesD [OF ks_ensure assms(1) 1] have s1: "ok s1" "view s1 = view s" by simp_all
  obtain p s3 where p: "ks_publicJwks ks now s1 = (p, s3)" by (cases "ks_publicJwks ks now s1")
  from movesD [OF ks_publicJwks s1(1) p] have s3: "ok s3" "view s3 = view s" by (simp_all add: s1)
  have keys: "published_keys ks env now s = (case p of Inl _ \<Rightarrow> None | Inr keys \<Rightarrow> Some keys)"
    by (simp add: published_keys_def 1 p split: sum.split)
  from 2 p have jj: "s2 = s3" "jj = Option.bind (published_keys ks env now s) (\<lambda>keys. verified_jti x config keys token)"
    by (cases p; auto simp: keys catchE_def bindE_def returnE_def)+
  show ?thesis
  proof (cases jj)
    case None
    with b jj(2) show ?thesis by (cases "published_keys ks env now s") (auto simp: act_iff access_row_def)
  next
    case (Some j)
    with b obtain row where r: "at_findByJti (st_accessTokens st) j s3 = (Inr row, s')" "found = map_option Resolved_access row"
      by (auto simp: act_iff jj(1))
    from obeysD [OF at_findByJti s3(1) r(1)] have "a_at (view s) j = row" by (simp add: s3)
    with r(2) Some jj(2) show ?thesis by (cases "published_keys ks env now s") (auto simp: access_row_def)
  qed
qed

lemma findRefreshToken_quiet: "quiet ok view (findRefreshToken x st token)"
  by (auto simp: findRefreshToken_def intro!: moves_intro quiet_reads [OF rt_findByHash])

lemma findRefreshToken_Inr:
  assumes "ok s" and "findRefreshToken x st token s = (Inr found, s')"
  shows "found = map_option Resolved_refresh (refresh_row x (view s) token)"
  using assms(2) obeysD [OF rt_findByHash assms(1)] by (auto simp: findRefreshToken_def act_iff refresh_row_def)

lemma resolveToken_quiet: "quiet ok view (resolveToken x st ks config env now token hint)"
  by (auto simp: resolveToken_def intro!: moves_intro findAccessToken_quiet findRefreshToken_quiet)

text \<open>A resolution gives the row of the token.\<close>

lemma resolveToken_Inr:
  assumes "ok s" and run: "resolveToken x st ks config env now token hint s = (Inr found, s')"
  shows "found = token_row x config (published_keys ks env now (key_state x st token hint s)) (view s) token hint"
    and "ok s'" and "view s' = view s"
proof -
  from movesD [OF resolveToken_quiet assms] show "ok s'" "view s' = view s" by simp_all
  show "found = token_row x config (published_keys ks env now (key_state x st token hint s)) (view s) token hint"
  proof (cases "hint = Some ''refresh_token''")
    case True
    with run obtain f s1 where f: "findRefreshToken x st token s = (Inr f, s1)" and
      r: "(case f of Some t \<Rightarrow> returnE (Some t) | None \<Rightarrow>
             bindE (findAccessToken x st ks config env now token) (\<lambda>found. case found of Some t \<Rightarrow> returnE (Some t)
               | None \<Rightarrow> returnE None)) s1 = (Inr found, s')"
      by (auto simp: resolveToken_def act_iff)
    from movesD [OF findRefreshToken_quiet assms(1) f] have s1: "ok s1" "view s1 = view s" by simp_all
    note f' = findRefreshToken_Inr [OF assms(1) f]
    show ?thesis
    proof (cases f)
      case (Some t)
      with r f' True show ?thesis by (auto simp: act_iff token_row_def split: option.splits)
    next
      case None
      with r obtain g where "findAccessToken x st ks config env now token s1 = (Inr g, s')" "found = g"
        by (auto simp: act_iff split: option.splits)
      from findAccessToken_Inr [OF s1(1) this(1)] this(2) None f' True f show ?thesis
        by (auto simp: token_row_def key_state_def s1(2) split: option.splits)
    qed
  next
    case False
    with run obtain f s1 where f: "findAccessToken x st ks config env now token s = (Inr f, s1)" and
      r: "(case f of Some t \<Rightarrow> returnE (Some t) | None \<Rightarrow>
             bindE (findRefreshToken x st token) (\<lambda>found. case found of Some t \<Rightarrow> returnE (Some t)
               | None \<Rightarrow> returnE None)) s1 = (Inr found, s')"
      by (auto simp: resolveToken_def act_iff)
    from movesD [OF findAccessToken_quiet assms(1) f] have s1: "ok s1" "view s1 = view s" by simp_all
    note f' = findAccessToken_Inr [OF assms(1) f]
    show ?thesis
    proof (cases f)
      case (Some t)
      with r f' False show ?thesis by (auto simp: act_iff token_row_def key_state_def split: option.splits)
    next
      case None
      with r obtain g where "findRefreshToken x st token s1 = (Inr g, s')" "found = g"
        by (auto simp: act_iff split: option.splits)
      from findRefreshToken_Inr [OF s1(1) this(1)] this(2) None f' False show ?thesis
        by (auto simp: token_row_def key_state_def s1(2) split: option.splits)
    qed
  qed
qed

end

end
