(* ===== verification/Par.thy ===== *)
theory Par
  imports AuthzRequest
begin

text \<open>
  Pushed authorization requests (\<open>src/domain/par.ts\<close>). An accepted request is stored under a fresh
  reference with a lifetime below ten minutes, bound to the client and, when the request came
  with a proof, to the proof's key; validating the stored request gives back what was validated.
\<close>

definition REQUEST_URI_PREFIX :: string where
  "REQUEST_URI_PREFIX = ''urn:ietf:params:oauth:request_uri:''"

text \<open>The key of the proof, if there is one, must agree with \<open>dpop_jkt\<close> and takes its place.\<close>

definition bind_jkt :: "string option \<Rightarrow> string option \<Rightarrow> exn + string option" where
  "bind_jkt dpopJkt dpopHeaderJkt =
     (if truthy dpopHeaderJkt
      then bindR (throwIfR (truthy dpopJkt \<and> dpopJkt \<noteq> dpopHeaderJkt)
             (invalidDpopProof (''dpop_jkt does not match the DPoP proof key [RFC9449 '' @ sec @ ''10.1]''))) (\<lambda>_.
           Inr dpopHeaderJkt)
      else Inr dpopJkt)"

text \<open>\<open>bytes\<close> are the random bytes of the reference.\<close>

definition pushAuthorizationRequest ::
  "'s storage \<Rightarrow> app_config \<Rightarrow> int \<Rightarrow> string \<Rightarrow> jobj \<Rightarrow> client \<Rightarrow> string option \<Rightarrow> ('s, exn, string \<times> int) act" where
  "pushAuthorizationRequest st config now bytes body client dpopHeaderJkt =
     bindE (throwIf (present (jget body ''request_uri''))
       (invalidRequest (''request_uri must not be provided to the PAR endpoint [RFC9126 '' @ sec @ ''2.1]''))) (\<lambda>_.
     bindE (liftE (validateAuthorizationRequest body client)) (\<lambda>validated.
     bindE (liftE (bind_jkt (vr_dpopJkt validated) dpopHeaderJkt)) (\<lambda>dpopJkt.
     let requestUri = REQUEST_URI_PREFIX @ base64url bytes; expiresIn = cfg_parTtlSec config in
     bindE (par_insert (st_par st)
       \<lparr>par_requestUri = requestUri, par_clientId = clientId client,
        par_params = set_opt ''dpop_jkt'' (if truthy dpopJkt then dpopJkt else None) (toStoredParams validated),
        par_dpopJkt = dpopJkt, par_expiresAt = now + expiresIn * 1000\<rparr>) (\<lambda>_.
     returnE (requestUri, expiresIn)))))"

definition isRequestUri :: "string \<Rightarrow> bool" where
  "isRequestUri v \<longleftrightarrow> starts_with REQUEST_URI_PREFIX v"

text \<open>What a pushed request is stored as.\<close>

definition stored_request ::
  "app_config \<Rightarrow> int \<Rightarrow> string \<Rightarrow> client \<Rightarrow> authz_request \<Rightarrow> string option \<Rightarrow> par_rec" where
  "stored_request config now uri client v jkt =
     \<lparr>par_requestUri = uri, par_clientId = clientId client,
      par_params = set_opt ''dpop_jkt'' jkt (toStoredParams v), par_dpopJkt = jkt,
      par_expiresAt = now + cfg_parTtlSec config * 1000\<rparr>"

lemma bind_jkt_Inr:
  "bind_jkt d h = Inr r \<Longrightarrow>
     r = (if truthy h then h else d) \<and> (truthy h \<longrightarrow> truthy d \<longrightarrow> d = h)"
  by (auto simp: bind_jkt_def act_iff split: if_splits)

lemma validated_jkt: "validateAuthorizationRequest body cl = Inr v \<Longrightarrow> vr_dpopJkt v = Some j \<Longrightarrow> JKT j"
  by (simp add: validate_iff request_ok_def)

text \<open>A push that returns, taken apart: everything up to the storage call.\<close>

lemma push_run:
  assumes run: "pushAuthorizationRequest st config now bytes body cl h s = (Inr (uri, n), s')"
    and h: "\<And>j. h = Some j \<Longrightarrow> JKT j"
  obtains v jkt u where "validateAuthorizationRequest body cl = Inr v" and "\<not> present (jget body ''request_uri'')"
    and "jkt = (case h of Some j \<Rightarrow> Some j | None \<Rightarrow> vr_dpopJkt v)"
    and "h \<noteq> None \<longrightarrow> vr_dpopJkt v \<noteq> None \<longrightarrow> vr_dpopJkt v = h"
    and "uri = REQUEST_URI_PREFIX @ base64url bytes" and "n = cfg_parTtlSec config"
    and "par_insert (st_par st) (stored_request config now uri cl v jkt) s = (Inr u, s')"
    and "validateAuthorizationRequest (params_body (par_params (stored_request config now uri cl v jkt))) cl
           = Inr (v\<lparr>vr_dpopJkt := jkt\<rparr>)"
proof -
  from run obtain v jkt u where v: "validateAuthorizationRequest body cl = Inr v"
    "\<not> present (jget body ''request_uri'')" "bind_jkt (vr_dpopJkt v) h = Inr jkt"
    "uri = REQUEST_URI_PREFIX @ base64url bytes" "n = cfg_parTtlSec config" and
    ins: "par_insert (st_par st) \<lparr>par_requestUri = uri, par_clientId = clientId cl,
        par_params = set_opt ''dpop_jkt'' (if truthy jkt then jkt else None) (toStoredParams v),
        par_dpopJkt = jkt, par_expiresAt = now + n * 1000\<rparr> s = (Inr u, s')"
    unfolding pushAuthorizationRequest_def Let_def act_iff by (auto simp: act_iff split: if_splits)
  note dj = validated_jkt [OF v(1)]
  have tr: "truthy h \<longleftrightarrow> h \<noteq> None" "truthy (vr_dpopJkt v) \<longleftrightarrow> vr_dpopJkt v \<noteq> None"
    using h dj JKT_not_Nil by (auto simp: truthy_def)
  with bind_jkt_Inr [OF v(3)] have j: "jkt = (case h of Some j \<Rightarrow> Some j | None \<Rightarrow> vr_dpopJkt v)"
    "h \<noteq> None \<longrightarrow> vr_dpopJkt v \<noteq> None \<longrightarrow> vr_dpopJkt v = h" by (auto split: option.splits)
  then have jk: "JKT k" if "jkt = Some k" for k using that h dj by (auto split: option.splits)
  then have eq: "(if truthy jkt then jkt else None) = jkt" by (auto simp: truthy_def dest: JKT_not_Nil)
  have "par_insert (st_par st) (stored_request config now uri cl v jkt) s = (Inr u, s')"
    using ins v(5) by (simp add: eq stored_request_def)
  moreover have "validateAuthorizationRequest (params_body (par_params (stored_request config now uri cl v jkt))) cl
           = Inr (v\<lparr>vr_dpopJkt := jkt\<rparr>)"
  proof -
    have "(case jkt of None \<Rightarrow> vr_dpopJkt v | Some y \<Rightarrow> Some y) = jkt" using j(1) by (auto split: option.splits)
    with validate_stored [OF v(1) jk] show ?thesis by (simp add: stored_request_def)
  qed
  ultimately show thesis using v j by (intro that)
qed

context par_port begin

text \<open>Whatever order a store keeps the parameters in, the stored request validates to the pushed one.\<close>

lemma push_keeps:
  assumes "ok s" and "pushAuthorizationRequest st config now bytes body cl h s = (Inr (uri, n), s')"
    and "\<And>j. h = Some j \<Longrightarrow> JKT j"
  obtains v jkt p where "validateAuthorizationRequest body cl = Inr v" and "\<not> present (jget body ''request_uri'')"
    and "jkt = (case h of Some j \<Rightarrow> Some j | None \<Rightarrow> vr_dpopJkt v)" and "ok s'"
    and "uri = REQUEST_URI_PREFIX @ base64url bytes" and "n = cfg_parTtlSec config"
    and "keeps_request (stored_request config now uri cl v jkt) p" and "view s' = spec_par_insert p (view s)"
    and "validateAuthorizationRequest (params_body (par_params p)) cl = Inr (v\<lparr>vr_dpopJkt := jkt\<rparr>)"
proof -
  obtain v jkt u where r: "validateAuthorizationRequest body cl = Inr v" "\<not> present (jget body ''request_uri'')"
    "jkt = (case h of Some j \<Rightarrow> Some j | None \<Rightarrow> vr_dpopJkt v)"
    "h \<noteq> None \<longrightarrow> vr_dpopJkt v \<noteq> None \<longrightarrow> vr_dpopJkt v = h"
    "uri = REQUEST_URI_PREFIX @ base64url bytes" "n = cfg_parTtlSec config"
    "par_insert (st_par st) (stored_request config now uri cl v jkt) s = (Inr u, s')"
    "validateAuthorizationRequest (params_body (par_params (stored_request config now uri cl v jkt))) cl
           = Inr (v\<lparr>vr_dpopJkt := jkt\<rparr>)"
    by (rule push_run [OF assms(2,3)])
  from obeysD [OF par_insert assms(1) r(7)] obtain p where p: "ok s'"
    "keeps_request (stored_request config now uri cl v jkt) p" "view s' = spec_par_insert p (view s)" by blast
  have "map_of (par_params p) = map_of (par_params (stored_request config now uri cl v jkt))"
    using keeps_requestD [OF p(2)] by blast
  from validate_same_params [OF this, of cl] r(8)
  have "validateAuthorizationRequest (params_body (par_params p)) cl = Inr (v\<lparr>vr_dpopJkt := jkt\<rparr>)" by (rule trans)
  from that [OF r(1-3) p(1) r(5,6) p(2,3) this] show thesis .
qed

lemma push_moves:
  assumes "reflp T" "transp T" and "\<And>a r. T a (spec_par_insert r a)"
  shows "moves ok view T (pushAuthorizationRequest st config now bytes body cl h)"
  unfolding pushAuthorizationRequest_def Let_def
  by (auto intro!: moves_intro moves_obeys [OF par_insert] assms)

end

context exact_par_port begin

lemma push_Inr:
  assumes "ok s" and "pushAuthorizationRequest st config now bytes body cl h s = (Inr (uri, n), s')"
    and "\<And>j. h = Some j \<Longrightarrow> JKT j"
  obtains v jkt where "validateAuthorizationRequest body cl = Inr v" and "\<not> present (jget body ''request_uri'')"
    and "jkt = (case h of Some j \<Rightarrow> Some j | None \<Rightarrow> vr_dpopJkt v)"
    and "h \<noteq> None \<longrightarrow> vr_dpopJkt v \<noteq> None \<longrightarrow> vr_dpopJkt v = h"
    and "uri = REQUEST_URI_PREFIX @ base64url bytes" and "n = cfg_parTtlSec config" and "ok s'"
    and "view s' = spec_par_insert (stored_request config now uri cl v jkt) (view s)"
    and "validateAuthorizationRequest (params_body (par_params (stored_request config now uri cl v jkt))) cl
           = Inr (v\<lparr>vr_dpopJkt := jkt\<rparr>)"
proof -
  obtain v jkt u where r: "validateAuthorizationRequest body cl = Inr v" "\<not> present (jget body ''request_uri'')"
    "jkt = (case h of Some j \<Rightarrow> Some j | None \<Rightarrow> vr_dpopJkt v)"
    "h \<noteq> None \<longrightarrow> vr_dpopJkt v \<noteq> None \<longrightarrow> vr_dpopJkt v = h"
    "uri = REQUEST_URI_PREFIX @ base64url bytes" "n = cfg_parTtlSec config"
    "par_insert (st_par st) (stored_request config now uri cl v jkt) s = (Inr u, s')"
    "validateAuthorizationRequest (params_body (par_params (stored_request config now uri cl v jkt))) cl
           = Inr (v\<lparr>vr_dpopJkt := jkt\<rparr>)"
    by (rule push_run [OF assms(2,3)])
  from obeysD [OF par_insert_exact assms(1) r(7)]
  have "ok s'" "view s' = spec_par_insert (stored_request config now uri cl v jkt) (view s)" by blast+
  from that [OF r(1-6) this r(8)] show thesis .
qed

end

end
