(* ===== verification/EndpointDeps.thy ===== *)
theory EndpointDeps
  imports Http ClientAuth Grant TokenLookup Par
begin

text \<open>
  What the endpoints are given (\<open>EndpointDeps\<close> of \<open>src/endpoints/index.ts\<close>) and the steps the
  four credential-bearing endpoints start with: the rate limit, the content type and client
  authentication. The locale \<open>endpoint_deps\<close> is what their lemmas assume of it: a storage that
  meets its contract, and a keystore and a limiter that leave the protocol's tables alone.
\<close>

record 's deps =
  dp_ext :: ext
  dp_config :: app_config
  dp_paths :: endpoint_paths
  dp_urls :: endpoint_urls
  dp_pdp :: pdp
  dp_storage :: "'s storage"
  dp_keystore :: "'s keystore"
  dp_auth :: auth_provider
  dp_allow :: "string \<Rightarrow> int \<Rightarrow> ('s, exn, bool) act"

locale endpoint_deps = token_issue "dp_storage d" "dp_keystore d" view ok
  for d :: "'s deps" and view :: "'s \<Rightarrow> astore" and ok :: "'s \<Rightarrow> bool" +
  assumes dp_allow: "quiet ok view (dp_allow d ip t)"

text \<open>The guards in front of a handler. A source over its limit gets its answer before anything
  else is looked at.\<close>

definition guarded ::
  "'s deps \<Rightarrow> int \<Rightarrow> string \<Rightarrow> http_req \<Rightarrow> ('s, exn, reply) act \<Rightarrow> ('s, exn, reply) act" where
  "guarded d now reference rq handler =
     bindE (dp_allow d (rq_ip rq) now) (\<lambda>allowed.
     if \<not> allowed then returnE too_many_requests
     else bindE (throwIf (\<not> is_form rq)
            (invalidRequest (''content-type must be application/x-www-form-urlencoded '' @ reference))) (\<lambda>_.
          handler))"

definition authenticate :: "'s deps \<Rightarrow> int \<Rightarrow> http_req \<Rightarrow> ('s, exn, client) act" where
  "authenticate d now rq =
     authenticateClient (dp_ext d) (dp_storage d) (dp_config d) now (rq_body rq) (rq_authorization rq)"

definition check_dpop :: "'s deps \<Rightarrow> int \<Rightarrow> dpop_context \<Rightarrow> http_req \<Rightarrow> ('s, exn, string) act" where
  "check_dpop d now ctx rq = verifyDpopProof (dp_ext d) (dp_storage d) (dp_config d) now ctx (rq_dpop rq)"

text \<open>Registering a replay identifier changes nothing but the memory of replays.\<close>

definition same_tables :: "astore \<Rightarrow> astore \<Rightarrow> bool" where
  "same_tables a a' \<longleftrightarrow> a' = a\<lparr>a_live := a_live a'\<rparr>"

lemma same_tables_D:
  assumes "same_tables a a'"
  shows "a_clients a' = a_clients a" "a_par a' = a_par a" "a_grants a' = a_grants a" "a_codes a' = a_codes a"
    "a_at a' = a_at a" "a_rt a' = a_rt a" "a_int a' = a_int a"
proof -
  from assms have e: "a' = a\<lparr>a_live := a_live a'\<rparr>" by (simp add: same_tables_def)
  show "a_clients a' = a_clients a" by (subst e) simp
  show "a_par a' = a_par a" by (subst e) simp
  show "a_grants a' = a_grants a" by (subst e) simp
  show "a_codes a' = a_codes a" by (subst e) simp
  show "a_at a' = a_at a" by (subst e) simp
  show "a_rt a' = a_rt a" by (subst e) simp
  show "a_int a' = a_int a" by (subst e) simp
qed

lemma reflp_same_tables [simp, intro]: "reflp same_tables"
  by (auto simp: same_tables_def intro!: reflpI)

lemma same_tables_upd [simp]: "same_tables a (a\<lparr>a_live := l\<rparr>)"
  by (simp add: same_tables_def)

lemma transp_same_tables [simp, intro]: "transp same_tables"
  by (rule transpI, rename_tac a b c, case_tac a, case_tac b, case_tac c) (simp add: same_tables_def)

lemma spec_jti_same_tables: "spec_jti_register c j e n a r a' \<Longrightarrow> same_tables a a'"
  by (auto simp: spec_jti_register_def)

lemma same_tables_eq: "a' = a \<Longrightarrow> same_tables a a'"
  by (simp add: same_tables_def)

context endpoint_deps begin

lemma authenticate_same: "moves ok view same_tables (authenticate d now rq)"
  unfolding authenticate_def by (rule authenticateClient_moves) (auto dest: spec_jti_same_tables)

lemma check_dpop_same: "moves ok view same_tables (check_dpop d now ctx rq)"
  unfolding check_dpop_def by (rule verifyDpopProof_moves) (auto dest: spec_jti_same_tables)

lemma guarded_moves:
  assumes "reflp T" "transp T" and "moves ok view T handler"
  shows "moves ok view T (guarded d now reference rq handler)"
  unfolding guarded_def using assms by (auto intro!: moves_intro quiet_moves [OF dp_allow])

text \<open>A reply other than the refusal comes from the handler, in a state with the same view.\<close>

lemma guarded_Inr:
  assumes "ok s" and "guarded d now reference rq handler s = (Inr rp, s')" and "rp_status rp \<noteq> 429"
  obtains s1 where "dp_allow d (rq_ip rq) now s = (Inr True, s1)" and "ok s1" and "view s1 = view s" and "is_form rq"
    and "handler s1 = (Inr rp, s')"
proof -
  from assms(2,3) obtain s1 where 1: "dp_allow d (rq_ip rq) now s = (Inr True, s1)" and h: "handler s1 = (Inr rp, s')"
    and f: "is_form rq"
    unfolding guarded_def
    by (auto simp: act_iff too_many_requests_def reply_with_def split: if_splits)
  from movesD [OF dp_allow assms(1) 1] show thesis using 1 h f by (intro that) auto
qed

end

end
