(* ===== verification/Discovery.thy ===== *)
theory Discovery
  imports EndpointDeps
begin

text \<open>
  The authorization server metadata, the paths it is served at and the published key set
  (\<open>src/endpoints/discovery.ts\<close>).
\<close>

definition str_list :: "string list \<Rightarrow> json" where
  "str_list ss = JArr (map JStr ss)"

definition buildMetadata :: "app_config \<Rightarrow> endpoint_urls \<Rightarrow> jobj" where
  "buildMetadata config urls =
     (let m = cfg_metadata config in
      [(''issuer'', JStr (cfg_issuer config)),
       (''authorization_endpoint'', JStr (e_authorization urls)),
       (''token_endpoint'', JStr (e_token urls)),
       (''jwks_uri'', JStr (e_jwks urls)),
       (''userinfo_endpoint'', JStr (e_userinfo urls)),
       (''pushed_authorization_request_endpoint'', JStr (e_par urls)),
       (''revocation_endpoint'', JStr (e_revocation urls)),
       (''introspection_endpoint'', JStr (e_introspection urls)),
       (''response_types_supported'', str_list [''code'']),
       (''grant_types_supported'', str_list [''authorization_code'', ''refresh_token'']),
       (''subject_types_supported'', str_list (md_subjectTypesSupported m)),
       (''scopes_supported'', str_list (md_scopesSupported m)),
       (''claims_supported'', str_list (md_claimsSupported m)),
       (''id_token_signing_alg_values_supported'', str_list (md_idTokenSigningAlgs m)),
       (''token_endpoint_auth_methods_supported'', str_list (md_clientAuthMethods m)),
       (''token_endpoint_auth_signing_alg_values_supported'', str_list (md_clientAuthSigningAlgs m)),
       (''revocation_endpoint_auth_methods_supported'', str_list (md_clientAuthMethods m)),
       (''revocation_endpoint_auth_signing_alg_values_supported'', str_list (md_clientAuthSigningAlgs m)),
       (''introspection_endpoint_auth_methods_supported'', str_list (md_clientAuthMethods m)),
       (''introspection_endpoint_auth_signing_alg_values_supported'', str_list (md_clientAuthSigningAlgs m)),
       (''code_challenge_methods_supported'', str_list (md_codeChallengeMethods m)),
       (''require_pushed_authorization_requests'', JBool True),
       (''authorization_response_iss_parameter_supported'', JBool True),
       (''dpop_signing_alg_values_supported'', str_list (md_dpopSigningAlgs m))])"

text \<open>The OIDC document is appended to the issuer's path, the RFC 8414 one inserted before it.\<close>

definition wellKnownPaths :: "ext \<Rightarrow> string \<Rightarrow> (string \<times> string) option" where
  "wellKnownPaths x issuer =
     map_option (\<lambda>u. let issuerPath = drop_trailing_slash (u_pathname u) in
         (issuerPath @ ''/.well-known/openid-configuration'',
          ''/.well-known/oauth-authorization-server'' @ issuerPath))
       (x_url x issuer)"

definition get_metadata :: "'s deps \<Rightarrow> ('s, exn, reply) act" where
  "get_metadata d = returnE (reply_with 200 [] (Json_body (buildMetadata (dp_config d) (dp_urls d))))"

definition get_jwks :: "'s deps \<Rightarrow> key_env \<Rightarrow> int \<Rightarrow> ('s, exn, reply) act" where
  "get_jwks d env now =
     bindE (ks_ensure (dp_keystore d) env) (\<lambda>_.
     bindE (ks_publicJwks (dp_keystore d) now) (\<lambda>jwks.
     returnE (reply_with 200 [] (Json_body [(''keys'', JArr (map JObj jwks))]))))"

context endpoint_deps begin

lemma get_jwks_quiet: "quiet ok view (get_jwks d env now)"
  unfolding get_jwks_def by (auto intro!: moves_intro ks_ensure ks_publicJwks)

end

end
