(* ===== verification/TokenEndpoint.thy ===== *)
theory TokenEndpoint
  imports EndpointDeps
begin

text \<open>
  The token endpoint (\<open>src/endpoints/token.ts\<close>). A success means: the client authenticated, the
  proof was valid, and an access token bound to the proof's key was stored, for the subject of
  an unrevoked grant, with a scope within what was granted.
\<close>

section \<open>The handlers\<close>

definition scopeSubset :: "string \<Rightarrow> string \<Rightarrow> bool" where
  "scopeSubset requested granted \<longleftrightarrow>
     (let allowed = set (words_of granted) in list_all (\<lambda>s. s \<in> allowed) (words_of requested))"

text \<open>The clock readings and random values of one request.\<close>

record token_env =
  te_t_rate :: int
  te_t_auth :: int
  te_t_dpop :: int
  te_key :: key_env
  te_t_grant :: int
  te_issue :: issue_env

definition has_openid :: "string \<Rightarrow> bool" where
  "has_openid scope \<longleftrightarrow> ''openid'' \<in> set (split_on space scope)"

definition handleAuthorizationCode ::
  "'s deps \<Rightarrow> token_env \<Rightarrow> jobj \<Rightarrow> client \<Rightarrow> string \<Rightarrow> ('s, exn, issued_tokens) act" where
  "handleAuthorizationCode d env body client jkt =
     (case str_of (jget body ''code'') of
        None \<Rightarrow> throwE (invalidRequest (''code is required [RFC6749 '' @ sec @ ''4.1.3]''))
      | Some code \<Rightarrow>
          bindE (redeemAuthorizationCode (dp_ext d) (dp_storage d) (te_t_grant env) code (clientId client)
                   (str_of (jget body ''redirect_uri'')) (str_of (jget body ''code_verifier'')) jkt)
            (\<lambda>(record', grant).
          issueTokenSet (dp_ext d) (dp_storage d) (dp_keystore d) (dp_config d) (te_issue env)
            \<lparr>ti_grantId = grant_grantId grant, ti_clientId = clientId client, ti_subject = grant_subject grant,
             ti_scope = grant_scope grant, ti_cnfJkt = jkt, ti_authTime = Some (grant_authTime grant),
             ti_acr = None, ti_amr = None, ti_nonce = code_nonce record'\<rparr>
            (has_openid (grant_scope grant))
            (''refresh_token'' \<in> set (grant_types (metadata client)))))"

definition requested_scope :: "jobj \<Rightarrow> string option" where
  "requested_scope body =
     (case str_of (jget body ''scope'') of Some r \<Rightarrow> if trim r \<noteq> [] then Some r else None | None \<Rightarrow> None)"

definition handleRefreshToken ::
  "'s deps \<Rightarrow> token_env \<Rightarrow> jobj \<Rightarrow> client \<Rightarrow> string \<Rightarrow> ('s, exn, issued_tokens) act" where
  "handleRefreshToken d env body client jkt =
     (case str_of (jget body ''refresh_token'') of
        None \<Rightarrow> throwE (invalidRequest (''refresh_token is required [RFC6749 '' @ sec @ ''6]''))
      | Some refreshToken \<Rightarrow>
          bindE (loadRefreshGrant (dp_ext d) (dp_storage d) (te_t_grant env) refreshToken (clientId client))
            (\<lambda>(grant, grantedScope).
          let requested = requested_scope body in
          bindE (throwIf (case requested of Some r \<Rightarrow> \<not> scopeSubset r grantedScope | None \<Rightarrow> False)
            (oauthExn invalid_scope (''requested scope exceeds the original grant [RFC6749 '' @ sec @ ''6]''))) (\<lambda>_.
          let scope = (case requested of Some r \<Rightarrow> r | None \<Rightarrow> grantedScope) in
          bindE (issueTokenSet (dp_ext d) (dp_storage d) (dp_keystore d) (dp_config d) (te_issue env)
            \<lparr>ti_grantId = grant_grantId grant, ti_clientId = clientId client, ti_subject = grant_subject grant,
             ti_scope = scope, ti_cnfJkt = jkt, ti_authTime = Some (grant_authTime grant),
             ti_acr = None, ti_amr = None, ti_nonce = None\<rparr>
            (has_openid scope) False) (\<lambda>tokens.
          returnE (tokens\<lparr>tk_refresh_token := Some refreshToken\<rparr>)))))"

definition tokens_json :: "issued_tokens \<Rightarrow> jobj" where
  "tokens_json t =
     [(''access_token'', JStr (tk_access_token t)), (''token_type'', JStr (tk_token_type t)),
      (''expires_in'', JNum (of_int (tk_expires_in t))), (''scope'', JStr (tk_scope t))] @
     (case tk_id_token t of Some v \<Rightarrow> [(''id_token'', JStr v)] | None \<Rightarrow> []) @
     (case tk_refresh_token t of Some v \<Rightarrow> [(''refresh_token'', JStr v)] | None \<Rightarrow> [])"

definition token_context :: "'s deps \<Rightarrow> dpop_context" where
  "token_context d = \<lparr>dc_htm = ''POST'', dc_htu = e_token (dp_urls d), dc_ath = None, dc_replayContext = None\<rparr>"

definition dispatch_grant ::
  "'s deps \<Rightarrow> token_env \<Rightarrow> jobj \<Rightarrow> client \<Rightarrow> string \<Rightarrow> ('s, exn, issued_tokens) act" where
  "dispatch_grant d env body client jkt =
     (case str_of (jget body ''grant_type'') of
        None \<Rightarrow> throwE (invalidRequest (''grant_type is required [RFC6749 '' @ sec @ ''3.2]''))
      | Some g \<Rightarrow>
          if g = ''authorization_code'' then handleAuthorizationCode d env body client jkt
          else if g = ''refresh_token'' then handleRefreshToken d env body client jkt
          else throwE (unsupportedGrantType (''unsupported grant_type: '' @ g)))"

definition token_handler :: "'s deps \<Rightarrow> token_env \<Rightarrow> http_req \<Rightarrow> ('s, exn, reply) act" where
  "token_handler d env rq =
     bindE (throwIf (str_of (jget (rq_body rq) ''grant_type'') = Some ''password'')
       (unsupportedGrantType ''the resource owner password credentials grant is not supported [FAPI2 5.3.2.1(2)]'')) (\<lambda>_.
     bindE (authenticate d (te_t_auth env) rq) (\<lambda>client.
     bindE (throwIf (\<not> dpop_bound_access_tokens (metadata client))
       (invalidRequest ''this authorization server only issues sender-constrained tokens [FAPI2 5.3.2.1(4)]'')) (\<lambda>_.
     bindE (check_dpop d (te_t_dpop env) (token_context d) rq) (\<lambda>jkt.
     bindE (ks_ensure (dp_keystore d) (te_key env)) (\<lambda>_.
     bindE (dispatch_grant d env (rq_body rq) client jkt) (\<lambda>response.
     returnE (reply_with 200 [no_store, no_cache] (Json_body (tokens_json response)))))))))"

definition post_token :: "'s deps \<Rightarrow> token_env \<Rightarrow> http_req \<Rightarrow> ('s, exn, reply) act" where
  "post_token d env rq =
     guarded d (te_t_rate env) (''[RFC6749 '' @ sec @ ''3.2]'') rq (token_handler d env rq)"

section \<open>What a success means\<close>

text \<open>The tokens of a request: their input and whether a refresh token comes with them, and the
  store they are issued from, which for a code is the one in which the code is used.\<close>

definition code_issue ::
  "'s deps \<Rightarrow> token_env \<Rightarrow> jobj \<Rightarrow> client \<Rightarrow> string \<Rightarrow> astore \<Rightarrow> token_input \<Rightarrow> bool \<Rightarrow> astore \<Rightarrow> bool" where
  "code_issue d env body client jkt a i withRefresh a' \<longleftrightarrow>
     (\<exists>code r g. str_of (jget body ''code'') = Some code \<and>
        a_codes a (sha256Base64Url (dp_ext d) code) = Some (r, None) \<and> te_t_grant env < code_expiresAt r \<and>
        code_matches (dp_ext d) (clientId client) (str_of (jget body ''redirect_uri''))
          (str_of (jget body ''code_verifier'')) jkt r \<and>
        a_grants a (code_grantId r) = Some g \<and> grant_revokedAt g = None \<and>
        i = \<lparr>ti_grantId = grant_grantId g, ti_clientId = clientId client, ti_subject = grant_subject g,
             ti_scope = grant_scope g, ti_cnfJkt = jkt, ti_authTime = Some (grant_authTime g),
             ti_acr = None, ti_amr = None, ti_nonce = code_nonce r\<rparr> \<and>
        withRefresh = (''refresh_token'' \<in> set (grant_types (metadata client))) \<and>
        a' = a\<lparr>a_codes := (a_codes a)(sha256Base64Url (dp_ext d) code \<mapsto> (r, Some (te_t_grant env)))\<rparr>)"

definition refresh_issue ::
  "'s deps \<Rightarrow> token_env \<Rightarrow> jobj \<Rightarrow> client \<Rightarrow> string \<Rightarrow> astore \<Rightarrow> token_input \<Rightarrow> bool \<Rightarrow> astore \<Rightarrow> bool" where
  "refresh_issue d env body client jkt a i withRefresh a' \<longleftrightarrow>
     (\<exists>token r g scope. str_of (jget body ''refresh_token'') = Some token \<and>
        a_rt a (sha256Base64Url (dp_ext d) token) = Some r \<and> rt_revokedAt r = None \<and>
        te_t_grant env < rt_expiresAt r \<and> rt_clientId r = clientId client \<and>
        a_grants a (rt_grantId r) = Some g \<and> grant_revokedAt g = None \<and>
        scopeSubset scope (rt_scope r) \<and>
        i = \<lparr>ti_grantId = grant_grantId g, ti_clientId = clientId client, ti_subject = grant_subject g,
             ti_scope = scope, ti_cnfJkt = jkt, ti_authTime = Some (grant_authTime g),
             ti_acr = None, ti_amr = None, ti_nonce = None\<rparr> \<and>
        \<not> withRefresh \<and> a' = a)"

text \<open>The access token is signed by the keystore in a state reached by redeeming the code or by loading the refresh
  token.\<close>

definition signed_access :: "'s deps \<Rightarrow> token_env \<Rightarrow> client \<Rightarrow> string \<Rightarrow> token_input \<Rightarrow> 's \<Rightarrow> string \<Rightarrow> bool" where
  "signed_access d env c jkt i s token \<longleftrightarrow>
     (\<exists>s1 s2. ((\<exists>code uri ver r. redeemAuthorizationCode (dp_ext d) (dp_storage d) (te_t_grant env) code (clientId c) uri ver jkt s
                 = (Inr r, s1)) \<or>
              (\<exists>rt r. loadRefreshGrant (dp_ext d) (dp_storage d) (te_t_grant env) rt (clientId c) s = (Inr r, s1))) \<and>
        ks_signJwt (dp_keystore d) (access_claims (dp_config d) (ie_t_at (te_issue env)) (ie_jti (te_issue env)) i)
          (Some ''at+jwt'') s1 = (Inr token, s2))"

text \<open>What is issued for the request of a client whose proof is by a key, from a state, and what is answered.\<close>

definition issued ::
  "'s deps \<Rightarrow> token_env \<Rightarrow> http_req \<Rightarrow> client \<Rightarrow> string \<Rightarrow> astore \<Rightarrow> token_input \<Rightarrow> bool \<Rightarrow> astore \<Rightarrow> issued_tokens \<Rightarrow> bool" where
  "issued d env rq c jkt a i w a1 tk \<longleftrightarrow>
     (str_of (jget (rq_body rq) ''grant_type'') = Some ''authorization_code'' \<and>
        code_issue d env (rq_body rq) c jkt a i w a1 \<and>
        tk_refresh_token tk = (if w then Some (base64url (ie_rt_bytes (te_issue env))) else None) \<or>
      str_of (jget (rq_body rq) ''grant_type'') = Some ''refresh_token'' \<and>
        refresh_issue d env (rq_body rq) c jkt a i w a1 \<and>
        tk_refresh_token tk = str_of (jget (rq_body rq) ''refresh_token'')) \<and>
     tk_scope tk = ti_scope i \<and> tk_token_type tk = ''DPoP'' \<and> tk_expires_in tk = cfg_accessTokenTtlSec (dp_config d) \<and>
     (tk_id_token tk \<noteq> None) = has_openid (ti_scope i)"

lemma issued_for:
  "issued d env rq c jkt a i w a1 tk \<Longrightarrow>
     str_of (jget (rq_body rq) ''grant_type'') = Some ''authorization_code'' \<and> code_issue d env (rq_body rq) c jkt a i w a1 \<or>
     str_of (jget (rq_body rq) ''grant_type'') = Some ''refresh_token'' \<and> refresh_issue d env (rq_body rq) c jkt a i w a1"
  by (auto simp: issued_def)

lemma scopeSubset_refl: "scopeSubset s s"
  by (simp add: scopeSubset_def list_all_iff)

context endpoint_deps begin

lemma handleAuthorizationCode_Inr:
  assumes "ok s" and "handleAuthorizationCode d env body c jkt s = (Inr tk, s')"
  obtains i w a1 where "code_issue d env body c jkt (view s) i w a1" and "ok s'"
    and "view s' = token_effect (dp_ext d) (dp_config d) (te_issue env) i w a1"
    and "tk_scope tk = ti_scope i" and "tk_token_type tk = ''DPoP''"
    and "tk_expires_in tk = cfg_accessTokenTtlSec (dp_config d)"
    and "(tk_id_token tk \<noteq> None) = has_openid (ti_scope i)"
    and "tk_refresh_token tk = (if w then Some (base64url (ie_rt_bytes (te_issue env))) else None)"
    and "signed_access d env c jkt i s (tk_access_token tk)"
proof -
  let ?i = "\<lambda>r g. \<lparr>ti_grantId = grant_grantId g, ti_clientId = clientId c, ti_subject = grant_subject g,
             ti_scope = grant_scope g, ti_cnfJkt = jkt, ti_authTime = Some (grant_authTime g),
             ti_acr = None, ti_amr = None, ti_nonce = code_nonce r\<rparr>"
  from assms(2) obtain code r g s1 where code: "str_of (jget body ''code'') = Some code" and
    1: "redeemAuthorizationCode (dp_ext d) (dp_storage d) (te_t_grant env) code (clientId c)
          (str_of (jget body ''redirect_uri'')) (str_of (jget body ''code_verifier'')) jkt s = (Inr (r, g), s1)" and
    2: "issueTokenSet (dp_ext d) (dp_storage d) (dp_keystore d) (dp_config d) (te_issue env) (?i r g)
          (has_openid (grant_scope g)) (''refresh_token'' \<in> set (grant_types (metadata c))) s1 = (Inr tk, s')"
    unfolding handleAuthorizationCode_def act_iff by (auto simp del: str_of_Some)
  note r = redeem_Inr [OF assms(1) 1]
  note t = issueTokenSet_Inr [OF r(6) 2]
  show thesis
  proof (rule that)
    show "code_issue d env body c jkt (view s) (?i r g) (''refresh_token'' \<in> set (grant_types (metadata c))) (view s1)"
      unfolding code_issue_def using code r by blast
    show "signed_access d env c jkt (?i r g) s (tk_access_token tk)"
      unfolding signed_access_def using 1 t(8) by blast
  qed (use t in \<open>simp_all\<close>)
qed

lemma handleRefreshToken_Inr:
  assumes "ok s" and "handleRefreshToken d env body c jkt s = (Inr tk, s')"
  obtains i w a1 where "refresh_issue d env body c jkt (view s) i w a1" and "ok s'"
    and "view s' = token_effect (dp_ext d) (dp_config d) (te_issue env) i w a1"
    and "tk_scope tk = ti_scope i" and "tk_token_type tk = ''DPoP''"
    and "tk_expires_in tk = cfg_accessTokenTtlSec (dp_config d)"
    and "(tk_id_token tk \<noteq> None) = has_openid (ti_scope i)"
    and "tk_refresh_token tk = str_of (jget body ''refresh_token'')"
    and "signed_access d env c jkt i s (tk_access_token tk)"
proof -
  let ?i = "\<lambda>scope g. \<lparr>ti_grantId = grant_grantId g, ti_clientId = clientId c, ti_subject = grant_subject g,
             ti_scope = scope, ti_cnfJkt = jkt, ti_authTime = Some (grant_authTime g),
             ti_acr = None, ti_amr = None, ti_nonce = None\<rparr>"
  let ?sc = "\<lambda>granted. case requested_scope body of Some r \<Rightarrow> r | None \<Rightarrow> granted"
  from assms(2) obtain token g granted s1 tk0 where tok: "str_of (jget body ''refresh_token'') = Some token" and
    1: "loadRefreshGrant (dp_ext d) (dp_storage d) (te_t_grant env) token (clientId c) s = (Inr (g, granted), s1)" and
    sub: "\<not> (case requested_scope body of Some r \<Rightarrow> \<not> scopeSubset r granted | None \<Rightarrow> False)" and
    2: "issueTokenSet (dp_ext d) (dp_storage d) (dp_keystore d) (dp_config d) (te_issue env) (?i (?sc granted) g)
          (has_openid (?sc granted)) False s1 = (Inr tk0, s')" and
    tk: "tk = tk0\<lparr>tk_refresh_token := Some token\<rparr>"
    unfolding handleRefreshToken_def act_iff Let_def
    by (auto simp: act_iff simp del: str_of_Some split: if_splits)
  note r = loadRefreshGrant_Inr [OF assms(1) 1]
  note t = issueTokenSet_Inr [OF r(2) 2]
  show thesis
  proof (rule that)
    have "scopeSubset (?sc granted) granted" using sub scopeSubset_refl by (auto split: option.splits)
    then show "refresh_issue d env body c jkt (view s) (?i (?sc granted) g) False (view s)"
      unfolding refresh_issue_def using tok r(1) by blast
    have "signed_access d env c jkt (?i (?sc granted) g) s (tk_access_token tk0)"
      unfolding signed_access_def using 1 t(8) by blast
    then show "signed_access d env c jkt (?i (?sc granted) g) s (tk_access_token tk)" by (simp add: tk)
    show "tk_refresh_token tk = str_of (jget body ''refresh_token'')" using tok by (simp add: tk del: str_of_Some)
  qed (use t r(3) tk in \<open>simp_all\<close>)
qed

lemma post_token_Inr:
  assumes "ok s" and "post_token d env rq s = (Inr rp, s')" and "rp_status rp \<noteq> 429"
  obtains c jkt tk s1 s2 s3 u s4 i w a1 where "rp = reply_with 200 [no_store, no_cache] (Json_body (tokens_json tk))"
    and "dp_allow d (rq_ip rq) (te_t_rate env) s = (Inr True, s1)"
    and "ok s1" and "view s1 = view s" and "authenticate d (te_t_auth env) rq s1 = (Inr c, s2)"
    and "check_dpop d (te_t_dpop env) (token_context d) rq s2 = (Inr jkt, s3)"
    and "ks_ensure (dp_keystore d) (te_key env) s3 = (Inr u, s4)"
    and "dpop_bound_access_tokens (metadata c)" and "ok s2" and "ok s4" and "ok s'"
    and "same_tables (view s) (view s4)" and "issued d env rq c jkt (view s4) i w a1 tk"
    and "view s' = token_effect (dp_ext d) (dp_config d) (te_issue env) i w a1"
    and "signed_access d env c jkt i s4 (tk_access_token tk)"
proof -
  note main = that
  obtain s1 where al: "dp_allow d (rq_ip rq) (te_t_rate env) s = (Inr True, s1)" and s1: "ok s1" "view s1 = view s"
    and h: "token_handler d env rq s1 = (Inr rp, s')"
    using guarded_Inr [OF assms(1) assms(2) [unfolded post_token_def] assms(3)] by metis
  from h obtain c s2 jkt s3 u s4 tk where
    a: "authenticate d (te_t_auth env) rq s1 = (Inr c, s2)" and b: "dpop_bound_access_tokens (metadata c)" and
    p: "check_dpop d (te_t_dpop env) (token_context d) rq s2 = (Inr jkt, s3)" and
    k: "ks_ensure (dp_keystore d) (te_key env) s3 = (Inr u, s4)" and
    g: "dispatch_grant d env (rq_body rq) c jkt s4 = (Inr tk, s')" and
    rp: "rp = reply_with 200 [no_store, no_cache] (Json_body (tokens_json tk))"
    unfolding token_handler_def act_iff by auto
  from movesD [OF authenticate_same s1(1) a] have s2: "ok s2" "same_tables (view s) (view s2)" by (simp_all add: s1)
  from movesD [OF check_dpop_same s2(1) p] have s3: "ok s3" "same_tables (view s2) (view s3)" by simp_all
  from movesD [OF ks_ensure s3(1) k] have s4: "ok s4" "view s4 = view s3" by simp_all
  have same: "same_tables (view s) (view s4)"
    using s2(2) s3(2) transpD [OF transp_same_tables] by (simp add: s4)
  from g consider
    (code) "str_of (jget (rq_body rq) ''grant_type'') = Some ''authorization_code''"
      "handleAuthorizationCode d env (rq_body rq) c jkt s4 = (Inr tk, s')"
  | (refresh) "str_of (jget (rq_body rq) ''grant_type'') = Some ''refresh_token''"
      "handleRefreshToken d env (rq_body rq) c jkt s4 = (Inr tk, s')"
    by (auto simp: dispatch_grant_def act_iff simp del: str_of_Some split: option.splits if_splits)
  then show thesis
  proof cases
    case code
    show thesis
    proof (rule handleAuthorizationCode_Inr [OF s4(1) code(2)])
      fix i w a1
      assume "code_issue d env (rq_body rq) c jkt (view s4) i w a1" and s': "ok s'"
        and v: "view s' = token_effect (dp_ext d) (dp_config d) (te_issue env) i w a1"
        and g: "signed_access d env c jkt i s4 (tk_access_token tk)"
        and "tk_scope tk = ti_scope i" and "tk_token_type tk = ''DPoP''"
        and "tk_expires_in tk = cfg_accessTokenTtlSec (dp_config d)" and "(tk_id_token tk \<noteq> None) = has_openid (ti_scope i)"
        and "tk_refresh_token tk = (if w then Some (base64url (ie_rt_bytes (te_issue env))) else None)"
      with code(1) have "issued d env rq c jkt (view s4) i w a1 tk" unfolding issued_def by blast
      then show thesis by (rule main [OF rp al s1 a p k b s2(1) s4(1) s' same _ v g])
    qed
  next
    case refresh
    show thesis
    proof (rule handleRefreshToken_Inr [OF s4(1) refresh(2)])
      fix i w a1
      assume "refresh_issue d env (rq_body rq) c jkt (view s4) i w a1" and s': "ok s'"
        and v: "view s' = token_effect (dp_ext d) (dp_config d) (te_issue env) i w a1"
        and g: "signed_access d env c jkt i s4 (tk_access_token tk)"
        and "tk_scope tk = ti_scope i" and "tk_token_type tk = ''DPoP''"
        and "tk_expires_in tk = cfg_accessTokenTtlSec (dp_config d)" and "(tk_id_token tk \<noteq> None) = has_openid (ti_scope i)"
        and "tk_refresh_token tk = str_of (jget (rq_body rq) ''refresh_token'')"
      with refresh(1) have "issued d env rq c jkt (view s4) i w a1 tk" unfolding issued_def by blast
      then show thesis by (rule main [OF rp al s1 a p k b s2(1) s4(1) s' same _ v g])
    qed
  qed
qed

end

end
