(* ===== verification/ResourceEndpoints.thy ===== *)
theory ResourceEndpoints
  imports EndpointDeps
begin

text \<open>
  The pushed authorization request endpoint (\<open>src/endpoints/par.ts\<close>), revocation
  (\<open>revoke.ts\<close>), introspection (\<open>introspect.ts\<close>) and the UserInfo resource
  (\<open>userinfo.ts\<close>). Revocation and introspection act on a token only for the client it was issued
  to, and UserInfo answers only for a live access token presented with a proof by its key.
\<close>

section \<open>The PAR endpoint\<close>

record par_env =
  pe_t_rate :: int
  pe_t_auth :: int
  pe_t_dpop :: int
  pe_t_push :: int
  pe_bytes :: string

definition par_context :: "'s deps \<Rightarrow> dpop_context" where
  "par_context d =
     \<lparr>dc_htm = ''POST'', dc_htu = e_par (dp_urls d), dc_ath = None, dc_replayContext = Some ''dpop-par''\<rparr>"

definition par_handler :: "'s deps \<Rightarrow> par_env \<Rightarrow> http_req \<Rightarrow> ('s, exn, reply) act" where
  "par_handler d env rq =
     bindE (authenticate d (pe_t_auth env) rq) (\<lambda>client.
     bindE (if rq_dpop rq \<noteq> Hdr_none
            then bindE (check_dpop d (pe_t_dpop env) (par_context d) rq) (\<lambda>jkt. returnE (Some jkt))
            else returnE None) (\<lambda>dpopHeaderJkt.
     bindE (pushAuthorizationRequest (dp_storage d) (dp_config d) (pe_t_push env) (pe_bytes env) (rq_body rq)
              client dpopHeaderJkt) (\<lambda>(requestUri, expiresIn).
     returnE (reply_with 201 [(''cache-control'', ''no-cache, no-store'')]
       (Json_body [(''request_uri'', JStr requestUri), (''expires_in'', JNum (of_int expiresIn))])))))"

definition post_par :: "'s deps \<Rightarrow> par_env \<Rightarrow> http_req \<Rightarrow> ('s, exn, reply) act" where
  "post_par d env rq = guarded d (pe_t_rate env) (''[RFC9126 '' @ sec @ ''2]'') rq (par_handler d env rq)"

definition par_method_not_allowed :: reply where
  "par_method_not_allowed =
     reply_with 405 [(''allow'', ''POST'')]
       (Json_body [(''error'', JStr ''invalid_request''),
                   (''error_description'', JStr (''method not allowed [RFC9126 '' @ sec @ ''2.3]''))])"

section \<open>The revocation endpoint\<close>

record lookup_env =
  le_t_rate :: int
  le_t_auth :: int
  le_key :: key_env
  le_t_keys :: int
  le_t_now :: int

definition known_hint :: "string option \<Rightarrow> string option" where
  "known_hint rawHint =
     (if rawHint = Some ''access_token'' \<or> rawHint = Some ''refresh_token'' then rawHint else None)"

text \<open>Only a token of the authenticated client is revoked; a refresh token takes the access tokens
  of its grant with it.\<close>

definition revoke_resolved :: "'s deps \<Rightarrow> int \<Rightarrow> client \<Rightarrow> resolved_token option \<Rightarrow> ('s, exn, unit) act" where
  "revoke_resolved d now client resolved =
     (case resolved of
        None \<Rightarrow> returnE ()
      | Some t \<Rightarrow>
          if resolved_clientId t \<noteq> clientId client then returnE ()
          else (case t of
                  Resolved_refresh r \<Rightarrow>
                    bindE (rt_revoke (st_refreshTokens (dp_storage d)) (rt_tokenHash r) now) (\<lambda>_.
                    at_revokeByGrant (st_accessTokens (dp_storage d)) (rt_grantId r) now)
                | Resolved_access r \<Rightarrow> at_revoke (st_accessTokens (dp_storage d)) (at_jti r) now))"

definition revoke_handler :: "'s deps \<Rightarrow> lookup_env \<Rightarrow> http_req \<Rightarrow> ('s, exn, reply) act" where
  "revoke_handler d env rq =
     bindE (authenticate d (le_t_auth env) rq) (\<lambda>client.
     case str_of (jget (rq_body rq) ''token'') of
       None \<Rightarrow> throwE (invalidRequest (''token is required [RFC7009 '' @ sec @ ''2.1]''))
     | Some token \<Rightarrow>
         bindE (resolveToken (dp_ext d) (dp_storage d) (dp_keystore d) (dp_config d) (le_key env) (le_t_keys env) token
                  (known_hint (str_of (jget (rq_body rq) ''token_type_hint'')))) (\<lambda>resolved.
         bindE (revoke_resolved d (le_t_now env) client resolved) (\<lambda>_.
         returnE (reply_with 200 [no_store] No_body))))"

definition post_revoke :: "'s deps \<Rightarrow> lookup_env \<Rightarrow> http_req \<Rightarrow> ('s, exn, reply) act" where
  "post_revoke d env rq = guarded d (le_t_rate env) (''[RFC7009 '' @ sec @ ''2.1]'') rq (revoke_handler d env rq)"

section \<open>The introspection endpoint\<close>

definition inactive :: jobj where
  "inactive = [(''active'', JBool False)]"

text \<open>What is said about a resolved token at a time, to the client that asks.\<close>

definition introspection :: "app_config \<Rightarrow> int \<Rightarrow> client \<Rightarrow> resolved_token option \<Rightarrow> jobj" where
  "introspection config now client resolved =
     (case resolved of
        None \<Rightarrow> inactive
      | Some t \<Rightarrow>
          if resolved_clientId t \<noteq> clientId client then inactive
          else (case t of
                  Resolved_refresh r \<Rightarrow>
                    if rt_revokedAt r \<noteq> None \<or> rt_expiresAt r \<le> now then inactive
                    else [(''active'', JBool True), (''token_type'', JStr ''refresh_token''),
                          (''client_id'', JStr (rt_clientId r)), (''scope'', JStr (rt_scope r)),
                          (''exp'', JNum (of_int (sec_of (rt_expiresAt r)))), (''iss'', JStr (cfg_issuer config))]
                | Resolved_access a \<Rightarrow>
                    if at_revokedAt a \<noteq> None \<or> at_expiresAt a \<le> now then inactive
                    else [(''active'', JBool True),
                          (''token_type'', JStr (if truthy (at_cnfJkt a) then ''DPoP'' else ''Bearer'')),
                          (''scope'', JStr (at_scope a)), (''client_id'', JStr (at_clientId a)),
                          (''sub'', JStr (at_subject a)), (''aud'', JStr (cfg_accessTokenAudience config)),
                          (''iss'', JStr (cfg_issuer config)),
                          (''exp'', JNum (of_int (sec_of (at_expiresAt a)))), (''jti'', JStr (at_jti a))] @
                         (if truthy (at_cnfJkt a)
                          then [(''cnf'', JObj [(''jkt'', JStr (the (at_cnfJkt a)))])] else [])))"

definition introspect_handler :: "'s deps \<Rightarrow> lookup_env \<Rightarrow> http_req \<Rightarrow> ('s, exn, reply) act" where
  "introspect_handler d env rq =
     bindE (authenticate d (le_t_auth env) rq) (\<lambda>client.
     case str_of (jget (rq_body rq) ''token'') of
       None \<Rightarrow> throwE (invalidRequest (''token is required [RFC7662 '' @ sec @ ''2.1]''))
     | Some token \<Rightarrow>
         bindE (resolveToken (dp_ext d) (dp_storage d) (dp_keystore d) (dp_config d) (le_key env) (le_t_keys env) token
                  (str_of (jget (rq_body rq) ''token_type_hint''))) (\<lambda>resolved.
         returnE (reply_with 200 [no_store] (Json_body (introspection (dp_config d) (le_t_now env) client resolved)))))"

definition post_introspect :: "'s deps \<Rightarrow> lookup_env \<Rightarrow> http_req \<Rightarrow> ('s, exn, reply) act" where
  "post_introspect d env rq =
     guarded d (le_t_rate env) (''[RFC7662 '' @ sec @ ''2.1]'') rq (introspect_handler d env rq)"

section \<open>The UserInfo endpoint\<close>

definition quoted :: "string \<Rightarrow> string" where
  "quoted s = [CHR 0x22] @ s @ [CHR 0x22]"

definition challenge :: "string option \<Rightarrow> string option \<Rightarrow> reply" where
  "challenge error desc =
     (let parts = [''DPoP algs='' @ quoted ''ES256 PS256 EdDSA''] @
                  (if truthy error then [''error='' @ quoted (the error)] else []) @
                  (if truthy desc then [''error_description='' @ quoted (the desc)] else [])
      in reply_with 401 [(''www-authenticate'', concat (hd parts # map (\<lambda>p. '', '' @ p) (tl parts))), no_store]
           (if truthy error then Json_body [(''error'', JStr (the error))] else No_body))"

text \<open>The group of \<open>/^DPoP +(.+)$/i\<close>: the spaces are taken greedily but leave one character.\<close>

definition dpop_credentials :: "string \<Rightarrow> string option" where
  "dpop_credentials authz =
     (let rest = drop 4 authz; body = dropWhile (\<lambda>c. c = space) rest;
          cred = (if body \<noteq> [] then body else [space])
      in if to_lower (take 4 authz) = ''dpop'' \<and> rest \<noteq> [] \<and> hd rest = space \<and>
            (body \<noteq> [] \<or> 2 \<le> length rest) \<and> list_all (\<lambda>c. c \<notin> {CHR 0x0A, CHR 0x0D}) cred
         then Some cred else None)"

record userinfo_env =
  ue_key :: key_env
  ue_t_keys :: int
  ue_t_now :: int
  ue_t_dpop :: int

definition userinfo_context :: "'s deps \<Rightarrow> http_req \<Rightarrow> string \<Rightarrow> dpop_context" where
  "userinfo_context d rq token =
     \<lparr>dc_htm = rq_method rq, dc_htu = e_userinfo (dp_urls d),
      dc_ath = Some (sha256Base64Url (dp_ext d) token), dc_replayContext = Some ''dpop-rs:userinfo''\<rparr>"

text \<open>Any failure of the proof, whatever its reason, ends in the same answer.\<close>

definition userinfo_proof_key :: "'s deps \<Rightarrow> userinfo_env \<Rightarrow> http_req \<Rightarrow> string \<Rightarrow> ('s, exn, string option) act" where
  "userinfo_proof_key d env rq token =
     catchE (bindE (check_dpop d (ue_t_dpop env) (userinfo_context d rq token) rq) (\<lambda>jkt. returnE (Some jkt)))
       (\<lambda>_. returnE None)"

definition userinfo_answer :: "at_rec \<Rightarrow> string option \<Rightarrow> reply" where
  "userinfo_answer row proof_key =
     (case proof_key of
        None \<Rightarrow> challenge (Some ''invalid_dpop_proof'') (Some ''DPoP proof is invalid'')
      | Some jkt \<Rightarrow>
          if at_cnfJkt row \<noteq> Some jkt
          then challenge (Some ''invalid_token'') (Some ''DPoP key does not match the access token binding'')
          else reply_with 200 [no_store] (Json_body [(''sub'', JStr (at_subject row))]))"

definition userinfo_for :: "'s deps \<Rightarrow> userinfo_env \<Rightarrow> http_req \<Rightarrow> string \<Rightarrow> at_rec \<Rightarrow> ('s, exn, reply) act" where
  "userinfo_for d env rq token row =
     (if at_revokedAt row \<noteq> None \<or> at_expiresAt row \<le> ue_t_now env
      then returnE (challenge (Some ''invalid_token'') (Some ''access token is expired or revoked''))
      else if \<not> truthy (at_cnfJkt row)
      then returnE (challenge (Some ''invalid_token'') (Some ''access token is not sender-constrained''))
      else bindE (userinfo_proof_key d env rq token) (\<lambda>proof_key. returnE (userinfo_answer row proof_key)))"

definition userinfo :: "'s deps \<Rightarrow> userinfo_env \<Rightarrow> http_req \<Rightarrow> ('s, exn, reply) act" where
  "userinfo d env rq =
     (case Option.bind (rq_authorization rq) dpop_credentials of
        None \<Rightarrow> returnE (challenge None None)
      | Some cred \<Rightarrow>
          let token = trim cred in
          if token = [] then returnE (challenge (Some ''invalid_token'') (Some ''missing access token''))
          else bindE (findAccessToken (dp_ext d) (dp_storage d) (dp_keystore d) (dp_config d) (ue_key env)
                        (ue_t_keys env) token) (\<lambda>resolved.
               case resolved of
                 Some (Resolved_access row) \<Rightarrow> userinfo_for d env rq token row
               | _ \<Rightarrow> returnE (challenge (Some ''invalid_token'') (Some ''access token is invalid''))))"

section \<open>What the replies mean\<close>

lemma challenge_status [simp]: "rp_status (challenge e m) = 401"
  by (simp add: challenge_def Let_def reply_with_def)

lemma reply_with_simps [simp]:
  "rp_status (reply_with n hs b) = n" "rp_body (reply_with n hs b) = b"
  by (simp_all add: reply_with_def)

text \<open>An active answer is about an unexpired, unrevoked token of the client that asks.\<close>

lemma introspection_active:
  assumes "jget (introspection config now c t) ''active'' = Some (JBool True)"
  shows "\<exists>u. t = Some u \<and> resolved_clientId u = clientId c \<and>
     (case u of Resolved_refresh r \<Rightarrow> rt_revokedAt r = None \<and> now < rt_expiresAt r
              | Resolved_access r \<Rightarrow> at_revokedAt r = None \<and> now < at_expiresAt r)"
  using assms by (cases t) (auto simp: introspection_def inactive_def not_le split: resolved_token.splits if_splits)

lemma introspection_foreign:
  "t = None \<or> (\<exists>u. t = Some u \<and> resolved_clientId u \<noteq> clientId c) \<Longrightarrow> introspection config now c t = inactive"
  by (auto simp: introspection_def)

text \<open>What a revocation does to the store: nothing, unless the token is one of the client's.\<close>

definition revoked_view :: "int \<Rightarrow> client \<Rightarrow> resolved_token option \<Rightarrow> astore \<Rightarrow> astore" where
  "revoked_view now c resolved a =
     (case resolved of
        None \<Rightarrow> a
      | Some t \<Rightarrow>
          if resolved_clientId t \<noteq> clientId c then a
          else (case t of
                  Resolved_refresh r \<Rightarrow> spec_at_revokeByGrant (rt_grantId r) now (spec_rt_revoke (rt_tokenHash r) now a)
                | Resolved_access r \<Rightarrow> spec_at_revoke (at_jti r) now a))"

text \<open>The row of a token that is looked up in a state.\<close>

definition named_row ::
  "'s deps \<Rightarrow> lookup_env \<Rightarrow> 's \<Rightarrow> astore \<Rightarrow> string \<Rightarrow> string option \<Rightarrow> resolved_token option" where
  "named_row d env s a token hint =
     token_row (dp_ext d) (dp_config d)
       (published_keys (dp_keystore d) (le_key env) (le_t_keys env) (key_state (dp_ext d) (dp_storage d) token hint s)) a
       token hint"

context endpoint_deps begin

lemma userinfo_200:
  assumes "ok s" and run: "userinfo d env rq s = (Inr rp, s')" and "rp_status rp = 200"
  obtains cred row jkt s1 s2 where "Option.bind (rq_authorization rq) dpop_credentials = Some cred"
    and "access_row (dp_ext d) (dp_config d) (published_keys (dp_keystore d) (ue_key env) (ue_t_keys env) s) (view s)
           (trim cred) = Some row"
    and "at_revokedAt row = None" and "ue_t_now env < at_expiresAt row"
    and "at_cnfJkt row = Some jkt" and "ok s1" and "view s1 = view s"
    and "check_dpop d (ue_t_dpop env) (userinfo_context d rq (trim cred)) rq s1 = (Inr jkt, s2)"
    and "rp = reply_with 200 [no_store] (Json_body [(''sub'', JStr (at_subject row))])"
proof -
  from run assms(3) obtain cred where g: "Option.bind (rq_authorization rq) dpop_credentials = Some cred"
    by (cases "Option.bind (rq_authorization rq) dpop_credentials") (auto simp: userinfo_def act_iff)
  with run assms(3) obtain resolved s1 where
    f: "findAccessToken (dp_ext d) (dp_storage d) (dp_keystore d) (dp_config d) (ue_key env) (ue_t_keys env)
          (trim cred) s = (Inr resolved, s1)" and
    r: "(case resolved of Some (Resolved_access row) \<Rightarrow> userinfo_for d env rq (trim cred) row
         | _ \<Rightarrow> returnE (challenge (Some ''invalid_token'') (Some ''access token is invalid''))) s1 = (Inr rp, s')"
    by (auto simp: userinfo_def Let_def act_iff split: if_splits)
  from r assms(3) obtain row where res: "resolved = Some (Resolved_access row)"
    and u: "userinfo_for d env rq (trim cred) row s1 = (Inr rp, s')"
    by (cases resolved; cases "the resolved") (auto simp: act_iff)
  from movesD [OF findAccessToken_quiet assms(1) f] have s1: "ok s1" "view s1 = view s" by simp_all
  from findAccessToken_Inr [OF assms(1) f] res
  have row: "access_row (dp_ext d) (dp_config d) (published_keys (dp_keystore d) (ue_key env) (ue_t_keys env) s) (view s)
      (trim cred) = Some row"
    by (cases "access_row (dp_ext d) (dp_config d) (published_keys (dp_keystore d) (ue_key env) (ue_t_keys env) s) (view s)
      (trim cred)") simp_all
  from u assms(3) obtain pk s2 where live: "at_revokedAt row = None" "ue_t_now env < at_expiresAt row" and
    c: "userinfo_proof_key d env rq (trim cred) s1 = (Inr pk, s2)" and k: "rp = userinfo_answer row pk"
    unfolding userinfo_for_def by (auto simp: act_iff not_le split: if_splits)
  from k assms(3) obtain jkt where pk: "pk = Some jkt" "at_cnfJkt row = Some jkt"
    "rp = reply_with 200 [no_store] (Json_body [(''sub'', JStr (at_subject row))])"
    by (cases pk) (auto simp: userinfo_answer_def split: if_splits)
  from c pk(1) have d: "check_dpop d (ue_t_dpop env) (userinfo_context d rq (trim cred)) rq s1 = (Inr jkt, s2)"
    by (auto simp: userinfo_proof_key_def act_iff)
  show thesis by (rule that [OF g row live pk(2) s1 d pk(3)])
qed

text \<open>What an authenticated request finds: the client, and the row of the token it names.\<close>

lemma authenticated_token:
  assumes "ok s" and "authenticate d t rq s = (Inr c, s1)"
    and "resolveToken (dp_ext d) (dp_storage d) (dp_keystore d) (dp_config d) (le_key env) (le_t_keys env) token hint s1
      = (Inr found, s2)"
  shows "ok s2" and "view s2 = view s1" and "same_tables (view s) (view s1)"
    and "found = named_row d env s1 (view s1) token hint"
proof -
  from movesD [OF authenticate_same assms(1,2)] have s1: "ok s1" "same_tables (view s) (view s1)" by simp_all
  from resolveToken_Inr [OF s1(1) assms(3)] s1(2)
  show "ok s2" "view s2 = view s1" "same_tables (view s) (view s1)" "found = named_row d env s1 (view s1) token hint"
    by (simp_all only: named_row_def)
qed

text \<open>An introspection that says \<open>active\<close> is about a live token of the client that asks.\<close>

lemma post_introspect_active:
  assumes "ok s" and run: "post_introspect d env rq s = (Inr rp, s')" and "rp_status rp \<noteq> 429"
    and body: "rp_body rp = Json_body b" "jget b ''active'' = Some (JBool True)"
  obtains c token u s1 s2 where "dp_allow d (rq_ip rq) (le_t_rate env) s = (Inr True, s1)" and "ok s1" and "view s1 = view s"
    and "authenticate d (le_t_auth env) rq s1 = (Inr c, s2)" and "same_tables (view s) (view s2)"
    and "str_of (jget (rq_body rq) ''token'') = Some token"
    and "named_row d env s2 (view s2) token (str_of (jget (rq_body rq) ''token_type_hint'')) = Some u"
    and "resolved_clientId u = clientId c"
    and "case u of Resolved_refresh r \<Rightarrow> rt_revokedAt r = None \<and> le_t_now env < rt_expiresAt r
         | Resolved_access r \<Rightarrow> at_revokedAt r = None \<and> le_t_now env < at_expiresAt r"
    and "view s' = view s2"
proof -
  obtain s1 where al: "dp_allow d (rq_ip rq) (le_t_rate env) s = (Inr True, s1)" and s1: "ok s1" "view s1 = view s"
    and h: "introspect_handler d env rq s1 = (Inr rp, s')"
    using guarded_Inr [OF assms(1) run [unfolded post_introspect_def] assms(3)] by metis
  from h obtain c s2 token resolved where
    a: "authenticate d (le_t_auth env) rq s1 = (Inr c, s2)" and
    tok: "str_of (jget (rq_body rq) ''token'') = Some token" and
    r: "resolveToken (dp_ext d) (dp_storage d) (dp_keystore d) (dp_config d) (le_key env) (le_t_keys env) token
          (str_of (jget (rq_body rq) ''token_type_hint'')) s2 = (Inr resolved, s')" and
    rp: "rp = reply_with 200 [no_store] (Json_body (introspection (dp_config d) (le_t_now env) c resolved))"
    unfolding introspect_handler_def act_iff by (auto simp: act_iff simp del: str_of_Some)
  note t = authenticated_token [OF s1(1) a r]
  from body rp have "jget (introspection (dp_config d) (le_t_now env) c resolved) ''active'' = Some (JBool True)" by simp
  from introspection_active [OF this] obtain u where u: "resolved = Some u" "resolved_clientId u = clientId c"
    "case u of Resolved_refresh r \<Rightarrow> rt_revokedAt r = None \<and> le_t_now env < rt_expiresAt r
         | Resolved_access r \<Rightarrow> at_revokedAt r = None \<and> le_t_now env < at_expiresAt r" by blast
  show thesis
    by (rule that [OF al s1 a _ tok _ u(2,3)]) (use t(2-4) u(1) s1(2) in simp_all)
qed

lemma revoke_resolved_Inr:
  assumes "ok s" and "revoke_resolved d now c resolved s = (Inr u, s')"
  shows "ok s'" and "view s' = revoked_view now c resolved (view s)"
proof -
  have "ok s' \<and> view s' = revoked_view now c resolved (view s)"
  proof (cases "\<exists>t. resolved = Some t \<and> resolved_clientId t = clientId c")
    case False
    with assms show ?thesis by (auto simp: revoke_resolved_def revoked_view_def act_iff split: option.splits if_splits)
  next
    case True
    then obtain t where t: "resolved = Some t" "resolved_clientId t = clientId c" by blast
    show ?thesis
    proof (cases t)
      case (Resolved_access r)
      with assms(2) t have "at_revoke (st_accessTokens (dp_storage d)) (at_jti r) now s = (Inr u, s')"
        by (simp add: revoke_resolved_def)
      from obeysD [OF at_revoke assms(1) this] t Resolved_access show ?thesis by (simp add: revoked_view_def)
    next
      case (Resolved_refresh r)
      with assms(2) t obtain w s1 where 1: "rt_revoke (st_refreshTokens (dp_storage d)) (rt_tokenHash r) now s = (Inr w, s1)"
        and 2: "at_revokeByGrant (st_accessTokens (dp_storage d)) (rt_grantId r) now s1 = (Inr u, s')"
        by (auto simp: revoke_resolved_def act_iff)
      from obeysD [OF rt_revoke assms(1) 1] have s1: "ok s1"
        "view s1 = spec_rt_revoke (rt_tokenHash r) now (view s)" by simp_all
      from obeysD [OF at_revokeByGrant s1(1) 2] s1(2) t Resolved_refresh show ?thesis by (simp add: revoked_view_def)
    qed
  qed
  then show "ok s'" "view s' = revoked_view now c resolved (view s)" by simp_all
qed

lemma post_revoke_Inr:
  assumes "ok s" and run: "post_revoke d env rq s = (Inr rp, s')" and "rp_status rp \<noteq> 429"
  obtains c token s1 s2 where "dp_allow d (rq_ip rq) (le_t_rate env) s = (Inr True, s1)" and "ok s1" and "view s1 = view s"
    and "authenticate d (le_t_auth env) rq s1 = (Inr c, s2)" and "same_tables (view s) (view s2)"
    and "str_of (jget (rq_body rq) ''token'') = Some token"
    and "view s' = revoked_view (le_t_now env) c
           (named_row d env s2 (view s2) token (known_hint (str_of (jget (rq_body rq) ''token_type_hint'')))) (view s2)"
    and "rp = reply_with 200 [no_store] No_body"
proof -
  note main = that
  obtain s1 where al: "dp_allow d (rq_ip rq) (le_t_rate env) s = (Inr True, s1)" and s1: "ok s1" "view s1 = view s"
    and h: "revoke_handler d env rq s1 = (Inr rp, s')"
    using guarded_Inr [OF assms(1) run [unfolded post_revoke_def] assms(3)] by metis
  from h obtain c s2 token found s3 u where
    a: "authenticate d (le_t_auth env) rq s1 = (Inr c, s2)" and
    tok: "str_of (jget (rq_body rq) ''token'') = Some token" and
    r: "resolveToken (dp_ext d) (dp_storage d) (dp_keystore d) (dp_config d) (le_key env) (le_t_keys env) token
          (known_hint (str_of (jget (rq_body rq) ''token_type_hint''))) s2 = (Inr found, s3)" and
    v: "revoke_resolved d (le_t_now env) c found s3 = (Inr u, s')" and
    rp: "rp = reply_with 200 [no_store] No_body"
    unfolding revoke_handler_def act_iff by (auto simp: act_iff simp del: str_of_Some)
  note t = authenticated_token [OF s1(1) a r]
  show thesis
    by (rule main [OF al s1 a _ tok _ rp]) (use t(2-4) s1(2) revoke_resolved_Inr(2) [OF t(1) v] in simp_all)
qed

end

end
