(* ===== verification/AuthorizeEndpoint.thy ===== *)
theory AuthorizeEndpoint
  imports EndpointDeps
begin

text \<open>
  The authorization endpoint (\<open>src/endpoints/authorize.ts\<close>) and the interactive login and consent
  flow behind it (\<open>src/endpoints/interaction.ts\<close>). A code comes into being in two places only:
  a consent that the user of a sealed session approved with that session's CSRF token, for the
  subject the consent page was shown to, and a \<open>prompt=none\<close> request of a fresh session; in
  both the decision point agreed and the pushed request was consumed.
\<close>

section \<open>Issuing the code\<close>

record code_env =
  ce_t_consume :: int
  ce_t_issue :: int
  ce_uuid :: string
  ce_bytes :: string

definition issueCodeForInteraction ::
  "'s deps \<Rightarrow> code_env \<Rightarrow> string \<Rightarrow> client \<Rightarrow> authz_request \<Rightarrow> authenticated_user \<Rightarrow> ('s, exn, reply) act" where
  "issueCodeForInteraction d env requestUri client request user =
     bindE (par_consume (st_par (dp_storage d)) requestUri (ce_t_consume env)) (\<lambda>consumed.
     case consumed of
       None \<Rightarrow> liftE (redirectError (dp_ext d) (vr_redirectUri request) az_invalid_request
                 (Some ''request_uri is no longer valid'') (vr_state request) (cfg_issuer (dp_config d)))
     | Some _ \<Rightarrow>
         bindE (issueAuthorizationCode (dp_ext d) (dp_storage d) (dp_config d) (ce_t_issue env) (ce_uuid env)
                  (ce_bytes env) (clientId client) user request) (\<lambda>(code, grantId).
         liftE (redirectCode (dp_ext d) (vr_redirectUri request) code (vr_state request)
                  (cfg_issuer (dp_config d)))))"

text \<open>\<open>new Date(session.authTime * 1000)\<close> and the other members of the session's user.\<close>

definition session_user :: "login_session \<Rightarrow> authenticated_user" where
  "session_user s =
     \<lparr>au_sub = ls_sub s, au_authTime = js_date (ls_authTime s * 1000), au_acr = ls_acr s, au_amr = ls_amr s\<rparr>"

text \<open>A decision point that fails denies.\<close>

definition decision_or_deny :: "exn + bool \<Rightarrow> bool" where
  "decision_or_deny r = (case r of Inl _ \<Rightarrow> False | Inr b \<Rightarrow> b)"

definition session_at :: "'s deps \<Rightarrow> http_req \<Rightarrow> int \<Rightarrow> login_session option" where
  "session_at d rq now =
     openSession (dp_ext d) (readCookie (rq_cookie rq) SESSION_COOKIE) (cfg_sessionSecret (dp_config d)) (sec_of now)"

section \<open>The authorization endpoint\<close>

definition toAuthorizeCode :: "token_error_code \<Rightarrow> authorize_error_code" where
  "toAuthorizeCode code =
     (case code of
        invalid_request \<Rightarrow> az_invalid_request
      | unauthorized_client \<Rightarrow> az_unauthorized_client
      | unsupported_response_type \<Rightarrow> az_unsupported_response_type
      | invalid_scope \<Rightarrow> az_invalid_scope
      | _ \<Rightarrow> az_invalid_request)"

record authorize_env =
  ae_t_peek :: int
  ae_t_now :: int
  ae_t_consume :: int
  ae_code :: code_env
  ae_id :: string

text \<open>The client of the request, or the page that says why there is none.\<close>

definition client_or_page :: "'s deps \<Rightarrow> string \<Rightarrow> ('s, exn, reply + client) act" where
  "client_or_page d cid =
     catchE (bindE (loadClient (dp_ext d) (st_clients (dp_storage d)) cid) (\<lambda>c.
             returnE (case c of None \<Rightarrow> Inl (errorPage az_invalid_request ''unknown client'') | Some c \<Rightarrow> Inr c)))
       (\<lambda>e. case e of
              InvalidClientMetadataExn _ \<Rightarrow>
                returnE (Inl (errorPage az_invalid_request ''client registration is invalid''))
            | other \<Rightarrow> throwE other)"

text \<open>An error of the second validation goes to the redirect URI only if that is registered.\<close>

definition revalidation_error ::
  "'s deps \<Rightarrow> (string \<times> string) list \<Rightarrow> client \<Rightarrow> oauth_error \<Rightarrow> exn + reply" where
  "revalidation_error d params client err =
     (let trusted = map_get params ''redirect_uri'' in
      if \<not> truthy trusted \<or> \<not> redirectUriRegistered client (the trusted)
      then Inr (errorPage (toAuthorizeCode (oe_error err))
                  (case oe_description err of Some m \<Rightarrow> m | None \<Rightarrow> error_text (oe_error err)))
      else redirectError (dp_ext d) (the trusted) (toAuthorizeCode (oe_error err)) (oe_description err)
             (map_get params ''state'') (cfg_issuer (dp_config d)))"

definition prompt_none :: "authz_request \<Rightarrow> bool" where
  "prompt_none request \<longleftrightarrow>
     (case vr_prompt request of None \<Rightarrow> False | Some p \<Rightarrow> ''none'' \<in> set (split_on space p))"

definition authorize_silently ::
  "'s deps \<Rightarrow> authorize_env \<Rightarrow> http_req \<Rightarrow> string \<Rightarrow> client \<Rightarrow> authz_request \<Rightarrow> ('s, exn, reply) act" where
  "authorize_silently d env rq requestUri client request =
     (let session = session_at d rq (ae_t_now env); iss = cfg_issuer (dp_config d) in
      if needsReauthentication session request (sec_of (ae_t_now env)) \<or> session = None
      then liftE (redirectError (dp_ext d) (vr_redirectUri request) az_login_required
                    (Some ''authentication required'') (vr_state request) iss)
      else
        let user = session_user (the session) in
        if \<not> decision_or_deny (decideAuthorization (dp_pdp d) user client request None)
        then bindE (par_consume (st_par (dp_storage d)) requestUri (ae_t_consume env)) (\<lambda>_.
             liftE (redirectError (dp_ext d) (vr_redirectUri request) az_interaction_required
                      (Some ''consent required'') (vr_state request) iss))
        else issueCodeForInteraction d (ae_code env) requestUri client request user)"

definition park_interaction ::
  "'s deps \<Rightarrow> authorize_env \<Rightarrow> string \<Rightarrow> client \<Rightarrow> ('s, exn, reply) act" where
  "park_interaction d env requestUri client =
     bindE (int_insert (st_interactions (dp_storage d))
       \<lparr>int_id = ae_id env, int_clientId = clientId client, int_requestUri = requestUri, int_subject = None,
        int_authTime = None, int_acr = None, int_amr = None, int_createdAt = ae_t_now env,
        int_expiresAt = ae_t_now env + cfg_interactionTtlSec (dp_config d) * 1000\<rparr>) (\<lambda>_.
     returnE (see_other (p_interaction (dp_paths d) @ ''?id='' @ encodeURIComponent (ae_id env))))"

definition authorize_pushed ::
  "'s deps \<Rightarrow> authorize_env \<Rightarrow> http_req \<Rightarrow> string \<Rightarrow> (string \<times> string) list \<Rightarrow> client \<Rightarrow> ('s, exn, reply) act" where
  "authorize_pushed d env rq requestUri params client =
     (case validateAuthorizationRequest (params_body params) client of
        Inl (OAuthExn err) \<Rightarrow> liftE (revalidation_error d params client err)
      | Inl e \<Rightarrow> throwE e
      | Inr request \<Rightarrow>
          if prompt_none request then authorize_silently d env rq requestUri client request
          else park_interaction d env requestUri client)"

definition authorize_peeked ::
  "'s deps \<Rightarrow> authorize_env \<Rightarrow> http_req \<Rightarrow> string \<Rightarrow> string \<Rightarrow> par_rec option \<Rightarrow> ('s, exn, reply) act" where
  "authorize_peeked d env rq requestUri cid pushed =
     (case pushed of
        None \<Rightarrow> returnE (errorPage az_invalid_request
                  (''request_uri is invalid, expired, or already used [RFC9126 '' @ sec @ ''4]''))
      | Some pushed \<Rightarrow>
          if par_clientId pushed \<noteq> cid
          then returnE (errorPage az_invalid_request
                 (''client_id does not match the pushed request [RFC9126 '' @ sec @ ''2.2]''))
          else bindE (client_or_page d cid) (\<lambda>c.
               case c of
                 Inl rp \<Rightarrow> returnE rp
               | Inr client \<Rightarrow> authorize_pushed d env rq requestUri (par_params pushed) client))"

definition handleAuthorize :: "'s deps \<Rightarrow> authorize_env \<Rightarrow> http_req \<Rightarrow> jobj \<Rightarrow> ('s, exn, reply) act" where
  "handleAuthorize d env rq params =
     (if is_array (jget params ''client_id'') \<or> is_array (jget params ''request_uri'')
      then returnE (errorPage az_invalid_request (''request parameters must not be repeated [RFC6749 '' @ sec @ ''3.1]''))
      else case (str_of (jget params ''request_uri''), str_of (jget params ''client_id'')) of
        (None, _) \<Rightarrow> returnE (errorPage az_invalid_request ''PAR is required: request_uri missing [FAPI2 5.3.2.2(3)]'')
      | (_, None) \<Rightarrow> returnE (errorPage az_invalid_request (''client_id is required [RFC6749 '' @ sec @ ''3.1]''))
      | (Some requestUri, Some cid) \<Rightarrow>
          bindE (par_peek (st_par (dp_storage d)) requestUri (ae_t_peek env))
            (authorize_peeked d env rq requestUri cid))"

text \<open>GET reads the query, POST the body.\<close>

definition authorize :: "'s deps \<Rightarrow> authorize_env \<Rightarrow> http_req \<Rightarrow> ('s, exn, reply) act" where
  "authorize d env rq =
     handleAuthorize d env rq (if rq_method rq = ''POST'' then rq_body rq else rq_query rq)"

section \<open>What can happen to the store\<close>

text \<open>No code appears, disappears or changes.\<close>

definition codes_kept :: "astore \<Rightarrow> astore \<Rightarrow> bool" where
  "codes_kept a a' \<longleftrightarrow> a_codes a' = a_codes a"

lemma reflp_codes_kept [simp, intro]: "reflp codes_kept"
  by (auto simp: codes_kept_def intro: reflpI)

lemma transp_codes_kept [simp, intro]: "transp codes_kept"
  by (auto simp: codes_kept_def intro: transpI)

lemma codes_kept_specs [simp]:
  "codes_kept a (spec_par_consume u t a)" "codes_kept a (spec_par_insert p a)"
  "spec_int_insert r a a' \<Longrightarrow> codes_kept a a'" "spec_int_sweep t a a' \<Longrightarrow> codes_kept a a'"
  "codes_kept a (spec_int_complete i t a)" "codes_kept a (spec_int_setSubject i sb tm acr amr a)"
  by (auto simp: codes_kept_def spec_par_consume_def spec_par_insert_def spec_int_insert_def spec_int_sweep_def
      spec_int_complete_def spec_int_setSubject_def split: option.split prod.split)

text \<open>The client as its registration row gives it.\<close>

definition registered :: "ext \<Rightarrow> astore \<Rightarrow> string \<Rightarrow> client \<Rightarrow> bool" where
  "registered x a cid c \<longleftrightarrow>
     (\<exists>r. a_clients a cid = Some r \<and> clientId c = cr_clientId r \<and>
          parseClientMetadata x (cr_metadata r) = Inr (metadata c))"

text \<open>What it takes for the authorization endpoint to issue a code without asking the user.\<close>

definition silent_ok ::
  "'s deps \<Rightarrow> authorize_env \<Rightarrow> http_req \<Rightarrow> client \<Rightarrow> authz_request \<Rightarrow> login_session \<Rightarrow> bool" where
  "silent_ok d env rq c request session \<longleftrightarrow>
     prompt_none request \<and> session_at d rq (ae_t_now env) = Some session \<and>
     \<not> needsReauthentication (Some session) request (sec_of (ae_t_now env)) \<and>
     decideAuthorization (dp_pdp d) (session_user session) c request None = Inr True"

text \<open>What an issued code is, in the store: the request it belongs to is consumed, the row of the code carries what the
  request was pushed with, and the grant behind it is for one subject. Codes and grants are otherwise as before.\<close>

definition issued_code :: "ext \<Rightarrow> app_config \<Rightarrow> code_env \<Rightarrow> client \<Rightarrow> authz_request \<Rightarrow> code_rec" where
  "issued_code x config ce c request =
     \<lparr>code_codeHash = sha256Base64Url x (base64url (ce_bytes ce)), code_grantId = ce_uuid ce, code_clientId = clientId c,
      code_redirectUri = vr_redirectUri request, code_codeChallenge = vr_codeChallenge request,
      code_codeChallengeMethod = vr_codeChallengeMethod request, code_dpopJkt = vr_dpopJkt request,
      code_nonce = vr_nonce request, code_expiresAt = ce_t_issue ce + cfg_authCodeTtlSec config * 1000\<rparr>"

definition issued_grant :: "code_env \<Rightarrow> client \<Rightarrow> string \<Rightarrow> int \<Rightarrow> authz_request \<Rightarrow> grant_rec" where
  "issued_grant ce c subject authTime request =
     \<lparr>grant_grantId = ce_uuid ce, grant_clientId = clientId c, grant_subject = subject, grant_scope = vr_scope request,
      grant_authTime = authTime, grant_createdAt = ce_t_issue ce, grant_revokedAt = None\<rparr>"

definition code_written ::
  "ext \<Rightarrow> app_config \<Rightarrow> code_env \<Rightarrow> string \<Rightarrow> client \<Rightarrow> authz_request \<Rightarrow> string \<Rightarrow> int \<Rightarrow> astore \<Rightarrow> astore \<Rightarrow> bool" where
  "code_written x config ce uri c request subject authTime a a' \<longleftrightarrow>
     (\<exists>p. spec_par_peek uri (ce_t_consume ce) a = Some p \<and> a_par a' = (a_par a)(uri \<mapsto> (p, Some (ce_t_consume ce)))) \<and>
     a_codes a' = (a_codes a)(code_codeHash (issued_code x config ce c request) \<mapsto> (issued_code x config ce c request, None)) \<and>
     a_grants a' = (a_grants a)(ce_uuid ce \<mapsto> issued_grant ce c subject authTime request)"

context endpoint_deps begin

lemma client_or_page_quiet: "quiet ok view (client_or_page d cid)"
  unfolding client_or_page_def
  by (auto intro!: moves_intro loadClient_quiet split: exn.split)

lemma client_or_page_Inr:
  assumes "ok s" and "client_or_page d cid s = (Inr (Inr c), s')"
  shows "registered (dp_ext d) (view s) cid c"
proof -
  have "(case e of InvalidClientMetadataExn m \<Rightarrow> returnE (Inl p) | q \<Rightarrow> throwE q) t \<noteq> (Inr (Inr c), s')" for e t and p :: reply
    by (cases e) (simp_all add: throwE_def returnE_def)
  with assms(2) have "loadClient (dp_ext d) (st_clients (dp_storage d)) cid s = (Inr (Some c), s')"
    unfolding client_or_page_def catchE_Inr_iff bindE_Inr_iff bindE_Inl_iff
    by (auto simp: returnE_iff split: option.splits)
  with loadClient_Some [OF assms(1)] show ?thesis by (auto simp: registered_def)
qed

text \<open>Issuing writes the grant and the code, or leaves the codes alone.\<close>

lemma issueAuthorizationCode_codes:
  assumes "ok s" and run: "issueAuthorizationCode (dp_ext d) (dp_storage d) (dp_config d) (ce_t_issue ce) (ce_uuid ce)
      (ce_bytes ce) (clientId c) user request s = (r, s')"
    and ch: "a_codes (view s') \<noteq> a_codes (view s)"
  shows "view s' = spec_code_insert (issued_code (dp_ext d) (dp_config d) ce c request)
           (spec_grant_insert (issued_grant ce c (au_sub user) (au_authTime user) request) (view s))"
proof -
  let ?g = "issued_grant ce c (au_sub user) (au_authTime user) request"
  let ?k = "issued_code (dp_ext d) (dp_config d) ce c request"
  have e: "issueAuthorizationCode (dp_ext d) (dp_storage d) (dp_config d) (ce_t_issue ce) (ce_uuid ce)
      (ce_bytes ce) (clientId c) user request
    = bindE (grant_insert (st_grants (dp_storage d)) ?g) (\<lambda>_. bindE (code_insert (st_codes (dp_storage d)) ?k) (\<lambda>_.
        returnE (base64url (ce_bytes ce), ce_uuid ce)))"
    by (simp add: issueAuthorizationCode_def issued_grant_def issued_code_def Let_def)
  obtain rg s1 where g: "grant_insert (st_grants (dp_storage d)) ?g s = (rg, s1)" by fastforce
  have kept: "a_codes (spec_grant_insert ?g a) = a_codes a" for a by (simp add: spec_grant_insert_def)
  show ?thesis
  proof (cases rg)
    case (Inl e)
    from obeys_throwD [OF grant_insert assms(1) g [unfolded Inl]] kept have "a_codes (view s1) = a_codes (view s)" by auto
    moreover have "s' = s1" using run g Inl by (simp add: e bindE_def)
    ultimately show ?thesis using ch by simp
  next
    case (Inr u)
    from obeysD [OF grant_insert assms(1) g [unfolded Inr]] have s1: "ok s1" "view s1 = spec_grant_insert ?g (view s)" by simp_all
    obtain rc s2 where c: "code_insert (st_codes (dp_storage d)) ?k s1 = (rc, s2)" by fastforce
    have s': "s' = s2" using run g c Inr by (cases rc) (simp_all add: e bindE_def returnE_def)
    show ?thesis
    proof (cases rc)
      case (Inl e)
      from obeys_throwD [OF code_insert s1(1) c [unfolded Inl]] ch s1(2) kept s' show ?thesis by auto
    next
      case (Inr w)
      from obeysD [OF code_insert s1(1) c [unfolded Inr]] s1(2) s' show ?thesis by simp
    qed
  qed
qed

text \<open>A code is issued only together with the consumption of a usable pushed request.\<close>

lemma issueCode_codes:
  assumes "ok s" and run: "issueCodeForInteraction d ce uri c request user s = (r, s')"
    and ch: "a_codes (view s') \<noteq> a_codes (view s)"
  shows "code_written (dp_ext d) (dp_config d) ce uri c request (au_sub user) (au_authTime user) (view s) (view s')"
proof -
  obtain q s1 where 1: "par_consume (st_par (dp_storage d)) uri (ce_t_consume ce) s = (q, s1)" by fastforce
  have "moves ok view codes_kept (par_consume (st_par (dp_storage d)) uri (ce_t_consume ce))"
    by (rule moves_obeys [OF par_consume]) auto
  from movesD [OF this assms(1) 1] have s1: "ok s1" "a_codes (view s1) = a_codes (view s)" by (simp_all add: codes_kept_def)
  obtain p where q: "q = Inr (Some p)"
    using run ch s1(2) 1
    by (cases q; cases "projr q") (auto simp: issueCodeForInteraction_def bindE_def liftE_def)
  from obeysD [OF par_consume assms(1) 1 [unfolded q]]
  have peek: "spec_par_peek uri (ce_t_consume ce) (view s) = Some p"
    and v1: "view s1 = spec_par_consume uri (ce_t_consume ce) (view s)" by simp_all
  obtain ri s2 where i: "issueAuthorizationCode (dp_ext d) (dp_storage d) (dp_config d) (ce_t_issue ce) (ce_uuid ce)
      (ce_bytes ce) (clientId c) user request s1 = (ri, s2)" by fastforce
  have "s' = s2"
    using run 1 q i by (cases ri) (auto simp: issueCodeForInteraction_def bindE_def liftE_def)
  with ch s1 have "a_codes (view s2) \<noteq> a_codes (view s1)" by simp
  from issueAuthorizationCode_codes [OF s1(1) i this] peek show ?thesis
    by (simp add: \<open>s' = s2\<close> v1 spec_par_consume_def spec_code_insert_def spec_grant_insert_def code_written_def issued_grant_def)
qed

lemma authorize_silently_codes:
  assumes "ok s" and run: "authorize_silently d env rq uri c request s = (r, s')"
    and ch: "a_codes (view s') \<noteq> a_codes (view s)" and "prompt_none request"
  obtains session where "silent_ok d env rq c request session"
    and "code_written (dp_ext d) (dp_config d) (ae_code env) uri c request (ls_sub session)
           (js_date (ls_authTime session * 1000)) (view s) (view s')"
proof -
  note main = that
  have declined: "moves ok view codes_kept (bindE (par_consume (st_par (dp_storage d)) uri t) (\<lambda>_. liftE e))" for t e
    by (auto intro!: moves_intro moves_obeys [OF par_consume])
  have login: "moves ok view codes_kept (liftE e)" for e
    by (auto intro!: moves_intro)
  from run ch have session: "\<not> needsReauthentication (session_at d rq (ae_t_now env)) request (sec_of (ae_t_now env))"
    "session_at d rq (ae_t_now env) \<noteq> None"
    using movesD [OF login assms(1)] by (auto simp: authorize_silently_def Let_def codes_kept_def split: if_splits)
  then obtain q where q: "session_at d rq (ae_t_now env) = Some q" by auto
  have dec: "decision_or_deny (decideAuthorization (dp_pdp d) (session_user q) c request None)"
  proof (rule ccontr)
    assume "\<not> decision_or_deny (decideAuthorization (dp_pdp d) (session_user q) c request None)"
    with run session q movesD [OF declined assms(1)] ch show False
      by (fastforce simp: authorize_silently_def Let_def codes_kept_def)
  qed
  then have allowed: "decideAuthorization (dp_pdp d) (session_user q) c request None = Inr True"
    by (auto simp: decision_or_deny_def split: sum.splits)
  from run session q dec have "issueCodeForInteraction d (ae_code env) uri c request (session_user q) s = (r, s')"
    by (simp add: authorize_silently_def Let_def)
  from issueCode_codes [OF assms(1) this ch] show thesis
    by (intro main [of q]) (use session q assms(4) allowed in \<open>simp_all add: silent_ok_def session_user_def\<close>)
qed

lemma park_interaction_codes: "moves ok view codes_kept (park_interaction d env uri c)"
  unfolding park_interaction_def by (auto intro!: moves_intro moves_obeys_or [OF int_insert])

lemma authorize_pushed_codes:
  assumes "ok s" and run: "authorize_pushed d env rq uri params c s = (r, s')"
    and ch: "a_codes (view s') \<noteq> a_codes (view s)"
  obtains request session where "validateAuthorizationRequest (params_body params) c = Inr request"
    and "silent_ok d env rq c request session"
    and "code_written (dp_ext d) (dp_config d) (ae_code env) uri c request (ls_sub session)
           (js_date (ls_authTime session * 1000)) (view s) (view s')"
proof -
  have keep: "moves ok view codes_kept (liftE e)" "moves ok view codes_kept (throwE x)" for e x
    by (auto intro!: moves_intro)
  have "\<exists>request. validateAuthorizationRequest (params_body params) c = Inr request"
  proof (rule ccontr)
    assume "\<nexists>request. validateAuthorizationRequest (params_body params) c = Inr request"
    then obtain e where "validateAuthorizationRequest (params_body params) c = Inl e"
      by (cases "validateAuthorizationRequest (params_body params) c") auto
    with run movesD [OF keep(1) assms(1)] movesD [OF keep(2) assms(1)] ch show False
      by (cases e) (fastforce simp: authorize_pushed_def codes_kept_def)+
  qed
  then obtain request where v: "validateAuthorizationRequest (params_body params) c = Inr request" by blast
  have pn: "prompt_none request"
    using run v ch movesD [OF park_interaction_codes assms(1)]
    by (auto simp: authorize_pushed_def codes_kept_def split: if_splits)
  with run v have "authorize_silently d env rq uri c request s = (r, s')" by (simp add: authorize_pushed_def)
  from authorize_silently_codes [OF assms(1) this ch pn] v show thesis by (auto intro: that)
qed

lemma authorize_codes:
  assumes "ok s" and run: "authorize d env rq s = (r, s')" and ch: "a_codes (view s') \<noteq> a_codes (view s)"
  obtains c request session uri q where
    "spec_par_peek uri (ae_t_peek env) (view s) = Some q" and "registered (dp_ext d) (view s) (par_clientId q) c"
    and "validateAuthorizationRequest (params_body (par_params q)) c = Inr request"
    and "silent_ok d env rq c request session"
    and "code_written (dp_ext d) (dp_config d) (ae_code env) uri c request (ls_sub session)
           (js_date (ls_authTime session * 1000)) (view s) (view s')"
proof -
  obtain uri cid where run':
    "bindE (par_peek (st_par (dp_storage d)) uri (ae_t_peek env)) (authorize_peeked d env rq uri cid) s = (r, s')"
    using run ch unfolding authorize_def handleAuthorize_def
    by (auto simp: returnE_iff simp del: str_of_Some split: option.splits if_splits)
  obtain pk s1 where 1: "par_peek (st_par (dp_storage d)) uri (ae_t_peek env) s = (pk, s1)" by fastforce
  from movesD [OF quiet_reads [OF par_peek] assms(1) 1] have s1: "ok s1" "view s1 = view s" by simp_all
  with run' 1 ch have "\<exists>pushed. pk = Inr pushed" by (cases pk) (auto simp: bindE_def)
  then obtain pushed where pk: "pk = Inr pushed" ..
  with run' 1 have b: "authorize_peeked d env rq uri cid pushed s1 = (r, s')" by (simp add: bindE_def)
  then obtain q where q: "pushed = Some q" "par_clientId q = cid"
    using ch s1 by (cases pushed) (auto simp: authorize_peeked_def returnE_iff split: if_splits)
  from obeysD [OF par_peek assms(1) 1 [unfolded pk]] q
  have peek: "spec_par_peek uri (ae_t_peek env) (view s) = Some q" by simp
  obtain cl s2 where 2: "client_or_page d cid s1 = (cl, s2)" by fastforce
  from movesD [OF client_or_page_quiet s1(1) 2] s1 have s2: "ok s2" "view s2 = view s" by simp_all
  have c3: "bindE (client_or_page d cid) (\<lambda>c. case c of Inl rp \<Rightarrow> returnE rp
              | Inr client \<Rightarrow> authorize_pushed d env rq uri (par_params q) client) s1 = (r, s')"
    using b q by (simp add: authorize_peeked_def)
  obtain c where c: "cl = Inr (Inr c)" and a: "authorize_pushed d env rq uri (par_params q) c s2 = (r, s')"
    using c3 2 ch s2 by (cases cl; cases "projr cl") (auto simp: bindE_def returnE_iff)
  from client_or_page_Inr [OF s1(1) 2 [unfolded c]] s1 q
  have reg: "registered (dp_ext d) (view s) (par_clientId q) c" by simp
  have "a_codes (view s') \<noteq> a_codes (view s2)" using ch s2 by simp
  from authorize_pushed_codes [OF s2(1) a this, unfolded s2(2)] show thesis using that [OF peek reg] by blast
qed

end

end
