(* ===== verification/Views.thy ===== *)
theory Views
  imports Json
begin

text \<open>
  The server-rendered pages (\<open>src/endpoints/views.ts\<close>). Every value that goes into a page is
  escaped, so the markup of a page does not depend on the values: the number of tags and of
  quotation marks is fixed by the template.
\<close>

section \<open>The templates\<close>

definition nl :: string where
  "nl = [CHR 0x0A]"

text \<open>The five global replacements, one after the other.\<close>

definition replace_all :: "char \<Rightarrow> string \<Rightarrow> string \<Rightarrow> string" where
  "replace_all c r s = concat (map (\<lambda>x. if x = c then r else [x]) s)"

definition escapeHtml :: "string \<Rightarrow> string" where
  "escapeHtml v =
     replace_all (CHR 0x27) ''&#39;''
       (replace_all (CHR 0x22) ''&quot;''
         (replace_all (CHR ''>'') ''&gt;''
           (replace_all (CHR ''<'') ''&lt;''
             (replace_all (CHR ''&'') ''&amp;'' v))))"

text \<open>The double quote of the attributes.\<close>

definition q :: string where
  "q = [CHR 0x22]"

definition attr :: "string \<Rightarrow> string \<Rightarrow> string" where
  "attr name v = '' '' @ name @ ''='' @ q @ v @ q"

definition page :: "string \<Rightarrow> string \<Rightarrow> string" where
  "page title body =
     ''<!DOCTYPE html>'' @ nl @
     ''<html'' @ attr ''lang'' ''en'' @ ''><head><meta'' @ attr ''charset'' ''utf-8'' @ ''>'' @ nl @
     ''<meta'' @ attr ''name'' ''viewport'' @ attr ''content'' ''width=device-width, initial-scale=1'' @ ''>'' @ nl @
     ''<title>'' @ escapeHtml title @ ''</title></head>'' @ nl @
     ''<body>'' @ body @ ''</body></html>''"

record login_view =
  lv_action :: string
  lv_interactionId :: string
  lv_csrfToken :: string
  lv_users :: "string list"
  lv_error :: "string option"

definition login_option :: "string \<Rightarrow> string" where
  "login_option u = ''<option'' @ attr ''value'' (escapeHtml u) @ ''>'' @ escapeHtml u @ ''</option>''"

definition hidden_input :: "string \<Rightarrow> string \<Rightarrow> string" where
  "hidden_input name v =
     ''<input'' @ attr ''type'' ''hidden'' @ attr ''name'' name @ attr ''value'' (escapeHtml v) @ ''>'' @ nl"

definition form_start :: "string \<Rightarrow> string" where
  "form_start action = ''<form'' @ attr ''method'' ''post'' @ attr ''action'' (escapeHtml action) @ ''>'' @ nl"

definition alert_box :: "string \<Rightarrow> string" where
  "alert_box e = ''<p'' @ attr ''role'' ''alert'' @ ''>'' @ escapeHtml e @ ''</p>''"

definition renderLogin :: "login_view \<Rightarrow> string" where
  "renderLogin v =
     (let options = concat (map login_option (lv_users v));
          err = (case lv_error v of
                   Some e \<Rightarrow> if e = [] then [] else alert_box e
                 | None \<Rightarrow> [])
      in page ''Sign in''
           (''<main><h1>Sign in (dev)</h1>'' @ err @ nl @
            form_start (lv_action v) @
            hidden_input ''interaction_id'' (lv_interactionId v) @
            hidden_input ''csrf'' (lv_csrfToken v) @
            ''<label>User'' @ nl @
            (if length (lv_users v) \<noteq> 0
             then ''<select'' @ attr ''name'' ''username'' @ attr ''id'' ''username'' @ ''>'' @ options @ ''</select>''
             else ''<input'' @ attr ''name'' ''username'' @ attr ''id'' ''username'' @ ''>'') @ nl @
            ''</label>'' @ nl @
            ''<button'' @ attr ''type'' ''submit'' @ attr ''id'' ''login'' @ ''>Continue</button>'' @ nl @
            ''</form></main>''))"

record consent_view =
  cv_action :: string
  cv_interactionId :: string
  cv_csrfToken :: string
  cv_clientName :: string
  cv_scopes :: "string list"
  cv_subject :: string

definition scope_item :: "string \<Rightarrow> string" where
  "scope_item s = ''<li>'' @ escapeHtml s @ ''</li>''"

definition decision_button :: "string \<Rightarrow> string \<Rightarrow> string" where
  "decision_button v label =
     ''<button'' @ attr ''type'' ''submit'' @ attr ''name'' ''decision'' @ attr ''value'' v @ attr ''id'' v @
     ''>'' @ label @ ''</button>'' @ nl"

definition renderConsent :: "consent_view \<Rightarrow> string" where
  "renderConsent v =
     page ''Authorize''
       (''<main><h1>Authorize '' @ escapeHtml (cv_clientName v) @ ''</h1>'' @ nl @
        ''<p>Signed in as <strong>'' @ escapeHtml (cv_subject v) @ ''</strong>.</p>'' @ nl @
        ''<p><strong>'' @ escapeHtml (cv_clientName v) @ ''</strong> is requesting access to:</p>'' @ nl @
        ''<ul>'' @ concat (map scope_item (cv_scopes v)) @ ''</ul>'' @ nl @
        form_start (cv_action v) @
        hidden_input ''interaction_id'' (cv_interactionId v) @
        hidden_input ''csrf'' (cv_csrfToken v) @
        decision_button ''approve'' ''Approve'' @
        decision_button ''deny'' ''Deny'' @
        ''</form></main>'')"

definition renderError :: "string \<Rightarrow> string" where
  "renderError message = page ''Error'' (''<main><h1>Request problem</h1><p>'' @ escapeHtml message @ ''</p></main>'')"

section \<open>The markup does not depend on the values\<close>

text \<open>Escaping is one substitution per character.\<close>

definition escape_char :: "char \<Rightarrow> string" where
  "escape_char c =
     (if c = CHR ''&'' then ''&amp;'' else if c = CHR ''<'' then ''&lt;'' else if c = CHR ''>'' then ''&gt;''
      else if c = CHR 0x22 then ''&quot;'' else if c = CHR 0x27 then ''&#39;'' else [c])"

lemma replace_all_append [simp]: "replace_all c r (s @ t) = replace_all c r s @ replace_all c r t"
  by (simp add: replace_all_def)

lemma replace_all_simps [simp]:
  "replace_all c r [] = []"
  "replace_all c r (x # s) = (if x = c then r @ replace_all c r s else x # replace_all c r s)"
  by (simp_all add: replace_all_def)

lemma escapeHtml_chars: "escapeHtml s = concat (map escape_char s)"
  by (induction s) (simp_all add: escapeHtml_def escape_char_def)

definition markup_char :: "char \<Rightarrow> bool" where
  "markup_char c \<longleftrightarrow> c \<in> {CHR ''<'', CHR ''>'', CHR 0x22, CHR 0x27}"

text \<open>The tags and attribute boundaries of a page, in order.\<close>

abbreviation skeleton :: "string \<Rightarrow> string" where
  "skeleton s \<equiv> filter markup_char s"

lemma skeleton_escape_char: "skeleton (escape_char c) = []"
proof -
  have lit: "skeleton ''&amp;'' = []" "skeleton ''&lt;'' = []" "skeleton ''&gt;'' = []"
    "skeleton ''&quot;'' = []" "skeleton ''&#39;'' = []"
    by (simp_all add: markup_char_def)
  have one: "skeleton [c] = []" if "c \<noteq> CHR ''<''" "c \<noteq> CHR ''>''" "c \<noteq> CHR 0x22" "c \<noteq> CHR 0x27"
    using that by (simp only: filter.simps markup_char_def insert_iff empty_iff if_False de_Morgan_disj simp_thms)
  show ?thesis
    unfolding escape_char_def by (simp only: lit one simp_thms split: if_split) (use one in blast)
qed

lemma skeleton_concat: "skeleton (concat (map f xs)) = concat (map (\<lambda>v. skeleton (f v)) xs)"
  by (induction xs) simp_all

lemma skeleton_escape [simp]: "skeleton (escapeHtml s) = []"
  unfolding escapeHtml_chars skeleton_concat skeleton_escape_char by simp

lemma skeleton_parts:
  "skeleton (scope_item s) = skeleton (scope_item [])"
  "skeleton (login_option s) = skeleton (login_option [])"
  "skeleton (hidden_input n s) = skeleton (hidden_input n [])"
  "skeleton (form_start s) = skeleton (form_start [])"
  "skeleton (alert_box s) = skeleton (alert_box [])"
  unfolding scope_item_def login_option_def hidden_input_def form_start_def alert_box_def attr_def filter_append skeleton_escape
  by (rule refl)+

lemma skeleton_items:
  "length ss = length ss' \<Longrightarrow> skeleton (concat (map scope_item ss)) = skeleton (concat (map scope_item ss'))"
  unfolding skeleton_concat
  by (induction ss ss' rule: list_induct2)
    (simp_all only: list.map concat.simps, metis skeleton_parts(1))

lemma skeleton_options:
  "length us = length us' \<Longrightarrow> skeleton (concat (map login_option us)) = skeleton (concat (map login_option us'))"
  unfolding skeleton_concat
  by (induction us us' rule: list_induct2) (simp_all only: list.map concat.simps, metis skeleton_parts(2))

lemma skeleton_page: "skeleton b = skeleton b' \<Longrightarrow> skeleton (page t b) = skeleton (page t b')"
  by (simp only: page_def filter_append)

lemma consent_skeleton:
  assumes "length (cv_scopes v) = length (cv_scopes w)"
  shows "skeleton (renderConsent v) = skeleton (renderConsent w)"
  unfolding renderConsent_def
  by (rule skeleton_page)
    (simp only: filter_append skeleton_escape skeleton_items [OF assms]
       skeleton_parts(3) [of _ "cv_interactionId v"] skeleton_parts(3) [of _ "cv_interactionId w"]
       skeleton_parts(3) [of _ "cv_csrfToken v"] skeleton_parts(3) [of _ "cv_csrfToken w"]
       skeleton_parts(4) [of "cv_action v"] skeleton_parts(4) [of "cv_action w"])

lemma login_skeleton:
  assumes "length (lv_users v) = length (lv_users w)" and "truthy (lv_error v) = truthy (lv_error w)"
  shows "skeleton (renderLogin v) = skeleton (renderLogin w)"
proof -
  have err: "skeleton (case lv_error u of Some e \<Rightarrow> if e = [] then [] else alert_box e | None \<Rightarrow> []) =
      (if truthy (lv_error u) then skeleton (alert_box []) else [])" for u
    using skeleton_parts(5) by (auto simp: truthy_def split: option.split)
  show ?thesis
    unfolding renderLogin_def Let_def
    by (rule skeleton_page)
      (simp only: filter_append err assms skeleton_options [OF assms(1)] if_distrib [of skeleton]
         skeleton_parts(3) [of _ "lv_interactionId v"] skeleton_parts(3) [of _ "lv_interactionId w"]
         skeleton_parts(3) [of _ "lv_csrfToken v"] skeleton_parts(3) [of _ "lv_csrfToken w"]
         skeleton_parts(4) [of "lv_action v"] skeleton_parts(4) [of "lv_action w"])
qed

lemma error_skeleton: "skeleton (renderError m) = skeleton (renderError m')"
  unfolding renderError_def by (rule skeleton_page) (simp only: filter_append skeleton_escape)

end
