(* ===== verification/InteractionEndpoint.thy ===== *)
theory InteractionEndpoint
  imports AuthorizeEndpoint Views
begin

text \<open>
  The login and consent pages (\<open>src/endpoints/interaction.ts\<close>): the dispatcher, which binds the
  interaction to the subject of a session that need not be renewed and shows it the consent page,
  the login, and the consent, which completes the interaction and issues the code. A request with
  \<open>prompt=login\<close> never gets past the dispatcher.
\<close>

section \<open>The parked request\<close>

record int_context =
  ic_client :: client
  ic_request :: authz_request
  ic_requestUri :: string
  ic_subject :: "string option"

definition html :: "nat \<Rightarrow> (string \<times> string) list \<Rightarrow> string \<Rightarrow> reply" where
  "html status headers body =
     reply_with status (headers @ [(''content-type'', ''text/html; charset=utf-8''), no_store]) (Html_body body)"

text \<open>The parked request, validated against the client's present metadata; \<open>None\<close> stands for
  \<open>ok: false\<close>.\<close>

definition interaction_context_of ::
  "'s deps \<Rightarrow> int_rec \<Rightarrow> par_rec \<Rightarrow> ('s, exn, int_context option) act" where
  "interaction_context_of d i p =
     (if par_clientId p \<noteq> int_clientId i then returnE None
      else bindE (catchE (loadClient (dp_ext d) (st_clients (dp_storage d)) (int_clientId i)) (\<lambda>_. returnE None)) (\<lambda>client.
           returnE (case client of
                      None \<Rightarrow> None
                    | Some c \<Rightarrow>
                        (case validateAuthorizationRequest (params_body (par_params p)) c of
                           Inl _ \<Rightarrow> None
                         | Inr request \<Rightarrow> Some \<lparr>ic_client = c, ic_request = request,
                             ic_requestUri = int_requestUri i, ic_subject = int_subject i\<rparr>))))"

definition loadInteractionContext :: "'s deps \<Rightarrow> string \<Rightarrow> int \<Rightarrow> ('s, exn, int_context option) act" where
  "loadInteractionContext d id' now =
     bindE (int_find (st_interactions (dp_storage d)) id' now) (\<lambda>interaction.
     case interaction of
       None \<Rightarrow> returnE None
     | Some i \<Rightarrow>
         bindE (par_peek (st_par (dp_storage d)) (int_requestUri i) now) (\<lambda>pushed.
         case pushed of None \<Rightarrow> returnE None | Some p \<Rightarrow> interaction_context_of d i p))"

section \<open>GET /interaction\<close>

record dispatch_env =
  de_t_context :: int
  de_t_session :: int
  de_t_now :: int

definition login_page :: "'s deps \<Rightarrow> string \<Rightarrow> string option \<Rightarrow> reply" where
  "login_page d id' error =
     html 200 [] (renderLogin
       \<lparr>lv_action = p_interactionLogin (dp_paths d), lv_interactionId = id',
        lv_csrfToken = issueCsrfToken (dp_ext d) id' (cfg_sessionSecret (dp_config d)),
        lv_users = cfg_devLoginUsers (dp_config d), lv_error = error\<rparr>)"

definition consent_page :: "'s deps \<Rightarrow> string \<Rightarrow> int_context \<Rightarrow> login_session \<Rightarrow> exn + reply" where
  "consent_page d id' ctx s =
     bindR (consentCsp (dp_ext d) (vr_redirectUri (ic_request ctx))) (\<lambda>csp.
     Inr (html 200 [(''content-security-policy'', csp)] (renderConsent
       \<lparr>cv_action = p_interactionConsent (dp_paths d), cv_interactionId = id',
        cv_csrfToken = issueCsrfToken (dp_ext d) (ls_sid s) (cfg_sessionSecret (dp_config d)),
        cv_clientName = (case clientName (ic_client ctx) of Some n \<Rightarrow> n | None \<Rightarrow> clientId (ic_client ctx)),
        cv_scopes = words_of (vr_scope (ic_request ctx)), cv_subject = ls_sub s\<rparr>)))"

text \<open>\<open>v ?? null\<close>\<close>

definition or_null :: "json option \<Rightarrow> json option" where
  "or_null v = (if v = Some JNull then None else v)"

definition dispatch_interaction ::
  "'s deps \<Rightarrow> dispatch_env \<Rightarrow> http_req \<Rightarrow> string \<Rightarrow> int_context \<Rightarrow> ('s, exn, reply) act" where
  "dispatch_interaction d env rq id' ctx =
     (case session_at d rq (de_t_session env) of
        None \<Rightarrow> returnE (login_page d id' None)
      | Some s \<Rightarrow>
          if needsReauthentication (Some s) (ic_request ctx) (sec_of (de_t_now env))
          then returnE (login_page d id' None)
          else bindE (int_setSubject (st_interactions (dp_storage d)) id' (ls_sub s) (js_date (ls_authTime s * 1000))
                        (or_null (ls_acr s)) (or_null (ls_amr s))) (\<lambda>_.
               liftE (consent_page d id' ctx s)))"

definition expired_page :: reply where
  "expired_page = html 400 [] (renderError ''this authorization request is invalid or has expired'')"

definition get_interaction :: "'s deps \<Rightarrow> dispatch_env \<Rightarrow> http_req \<Rightarrow> ('s, exn, reply) act" where
  "get_interaction d env rq =
     (case str_of (jget (rq_query rq) ''id'') of
        None \<Rightarrow> returnE (html 400 [] (renderError ''missing interaction id''))
      | Some id' \<Rightarrow>
          bindE (loadInteractionContext d id' (de_t_context env)) (\<lambda>ctx.
          case ctx of
            None \<Rightarrow> returnE expired_page
          | Some ctx \<Rightarrow> dispatch_interaction d env rq id' ctx))"

section \<open>POST /interaction/login\<close>

record login_env =
  lo_t_context :: int
  lo_t_auth :: int
  lo_t_session :: int
  lo_sid_bytes :: string

definition login_session_of :: "app_config \<Rightarrow> login_env \<Rightarrow> authenticated_user \<Rightarrow> login_session" where
  "login_session_of config env user =
     \<lparr>ls_sid = newSessionId (lo_sid_bytes env), ls_sub = au_sub user, ls_authTime = of_int (sec_of (au_authTime user)),
      ls_exp = of_int (sec_of (lo_t_session env) + cfg_sessionTtlSec config), ls_acr = au_acr user, ls_amr = au_amr user\<rparr>"

definition logged_in :: "'s deps \<Rightarrow> login_env \<Rightarrow> string \<Rightarrow> authenticated_user \<Rightarrow> reply" where
  "logged_in d env id' user =
     reply_with 303
       [(''set-cookie'', sessionCookie (sealSession (dp_ext d) (login_session_of (dp_config d) env user)
                           (cfg_sessionSecret (dp_config d))) (cfg_sessionTtlSec (dp_config d))),
        no_store, (''location'', p_interaction (dp_paths d) @ ''?id='' @ encodeURIComponent id')] No_body"

definition post_login :: "'s deps \<Rightarrow> login_env \<Rightarrow> http_req \<Rightarrow> ('s, exn, reply) act" where
  "post_login d env rq =
     (case str_of (jget (rq_body rq) ''interaction_id'') of
        None \<Rightarrow> returnE (html 400 [] (renderError ''missing interaction id''))
      | Some id' \<Rightarrow>
          if \<not> verifyCsrfToken (dp_ext d) (str_of (jget (rq_body rq) ''csrf'')) id' (cfg_sessionSecret (dp_config d))
          then returnE (html 403 [] (renderError ''invalid or missing CSRF token''))
          else bindE (loadInteractionContext d id' (lo_t_context env)) (\<lambda>ctx.
               case ctx of
                 None \<Rightarrow> returnE expired_page
               | Some _ \<Rightarrow>
                   (case dp_auth d (str_of (jget (rq_body rq) ''username'')) (lo_t_auth env) of
                      None \<Rightarrow> returnE (login_page d id' (Some ''unknown user''))
                    | Some user \<Rightarrow> returnE (logged_in d env id' user))))"

section \<open>POST /interaction/consent\<close>

record consent_env =
  co_t_session :: int
  co_t_context :: int
  co_t_complete :: int
  co_t_consume :: int
  co_code :: code_env

definition conclude_consent ::
  "'s deps \<Rightarrow> consent_env \<Rightarrow> string \<Rightarrow> login_session \<Rightarrow> int_context \<Rightarrow> bool \<Rightarrow> ('s, exn, reply) act" where
  "conclude_consent d env id' session ctx approved =
     bindE (int_complete (st_interactions (dp_storage d)) id' (co_t_complete env)) (\<lambda>done'.
     if done' = None
     then returnE (html 400 [] (renderError ''this authorization request has already been completed''))
     else if \<not> decision_or_deny (decideAuthorization (dp_pdp d) (session_user session) (ic_client ctx)
                                   (ic_request ctx) (Some approved))
     then bindE (par_consume (st_par (dp_storage d)) (ic_requestUri ctx) (co_t_consume env)) (\<lambda>_.
          liftE (redirectError (dp_ext d) (vr_redirectUri (ic_request ctx)) az_access_denied
                   (Some ''authorization was not granted'') (vr_state (ic_request ctx)) (cfg_issuer (dp_config d))))
     else issueCodeForInteraction d (co_code env) (ic_requestUri ctx) (ic_client ctx) (ic_request ctx)
            (session_user session))"

definition consent_for ::
  "'s deps \<Rightarrow> consent_env \<Rightarrow> http_req \<Rightarrow> string \<Rightarrow> login_session \<Rightarrow> int_context option \<Rightarrow> ('s, exn, reply) act" where
  "consent_for d env rq id' session ctx =
     (case ctx of
        None \<Rightarrow> returnE expired_page
      | Some ctx \<Rightarrow>
          if ic_subject ctx \<noteq> Some (ls_sub session)
          then returnE (html 400 [] (renderError ''your session changed; please restart the authorization''))
          else conclude_consent d env id' session ctx (str_of (jget (rq_body rq) ''decision'') = Some ''approve''))"

definition post_consent :: "'s deps \<Rightarrow> consent_env \<Rightarrow> http_req \<Rightarrow> ('s, exn, reply) act" where
  "post_consent d env rq =
     (case str_of (jget (rq_body rq) ''interaction_id'') of
        None \<Rightarrow> returnE (html 400 [] (renderError ''missing interaction id''))
      | Some id' \<Rightarrow>
          (case session_at d rq (co_t_session env) of
             None \<Rightarrow> returnE (html 400 [] (renderError ''your session has expired; please restart the flow''))
           | Some session \<Rightarrow>
               if \<not> verifyCsrfToken (dp_ext d) (str_of (jget (rq_body rq) ''csrf'')) (ls_sid session)
                       (cfg_sessionSecret (dp_config d))
               then returnE (html 403 [] (renderError ''invalid or missing CSRF token''))
               else bindE (loadInteractionContext d id' (co_t_context env)) (consent_for d env rq id' session)))"

section \<open>What the flow guarantees\<close>

text \<open>What the parked request is, in the store.\<close>

definition parked :: "ext \<Rightarrow> astore \<Rightarrow> string \<Rightarrow> int \<Rightarrow> int_context \<Rightarrow> bool" where
  "parked x a id' now ctx \<longleftrightarrow>
     (\<exists>i p. spec_int_find id' now a = Some i \<and> spec_par_peek (int_requestUri i) now a = Some p \<and>
        par_clientId p = int_clientId i \<and> registered x a (int_clientId i) (ic_client ctx) \<and>
        validateAuthorizationRequest (params_body (par_params p)) (ic_client ctx) = Inr (ic_request ctx) \<and>
        ic_requestUri ctx = int_requestUri i \<and> ic_subject ctx = int_subject i)"

text \<open>What it takes for a consent to issue a code.\<close>

definition consent_ok :: "'s deps \<Rightarrow> consent_env \<Rightarrow> http_req \<Rightarrow> login_session \<Rightarrow> int_context \<Rightarrow> bool" where
  "consent_ok d env rq session ctx \<longleftrightarrow>
     session_at d rq (co_t_session env) = Some session \<and>
     verifyCsrfToken (dp_ext d) (str_of (jget (rq_body rq) ''csrf'')) (ls_sid session) (cfg_sessionSecret (dp_config d)) \<and>
     str_of (jget (rq_body rq) ''decision'') = Some ''approve'' \<and>
     ic_subject ctx = Some (ls_sub session) \<and>
     decideAuthorization (dp_pdp d) (session_user session) (ic_client ctx) (ic_request ctx) (Some True) = Inr True"

context endpoint_deps begin

lemma interaction_context_quiet: "quiet ok view (interaction_context_of d i p)"
  unfolding interaction_context_of_def by (auto intro!: moves_intro loadClient_quiet)

lemma loadInteractionContext_quiet: "quiet ok view (loadInteractionContext d id' now)"
  unfolding loadInteractionContext_def
  by (auto intro!: moves_intro quiet_reads [OF int_find] quiet_reads [OF par_peek] interaction_context_quiet)

lemma interaction_context_Inr:
  assumes "ok s" and "interaction_context_of d i p s = (Inr (Some ctx), s')"
  shows "par_clientId p = int_clientId i" "registered (dp_ext d) (view s) (int_clientId i) (ic_client ctx)"
    and "validateAuthorizationRequest (params_body (par_params p)) (ic_client ctx) = Inr (ic_request ctx)"
    and "ic_requestUri ctx = int_requestUri i" "ic_subject ctx = int_subject i"
proof -
  from assms(2) obtain cl s1 where pc: "par_clientId p = int_clientId i" and
    l: "catchE (loadClient (dp_ext d) (st_clients (dp_storage d)) (int_clientId i)) (\<lambda>_. returnE None) s
          = (Inr cl :: exn + client option, s1)" and
    c: "(case cl of None \<Rightarrow> None | Some c \<Rightarrow>
          (case validateAuthorizationRequest (params_body (par_params p)) c of
             Inl _ \<Rightarrow> None
           | Inr request \<Rightarrow> Some \<lparr>ic_client = c, ic_request = request,
               ic_requestUri = int_requestUri i, ic_subject = int_subject i\<rparr>)) = Some ctx"
    unfolding interaction_context_of_def
    by (auto simp: bindE_Inr_iff returnE_iff simp del: not_None_eq split: if_splits)
  from c obtain k where k: "cl = Some k" by (cases cl) auto
  with c show "validateAuthorizationRequest (params_body (par_params p)) (ic_client ctx) = Inr (ic_request ctx)"
    "ic_requestUri ctx = int_requestUri i" "ic_subject ctx = int_subject i"
    by (auto split: sum.splits)
  from k c have "ic_client ctx = k" by (auto split: sum.splits)
  moreover from l k have "loadClient (dp_ext d) (st_clients (dp_storage d)) (int_clientId i) s = (Inr (Some k), s1)"
    by (auto simp: act_iff)
  ultimately show "registered (dp_ext d) (view s) (int_clientId i) (ic_client ctx)"
    using loadClient_Some [OF assms(1)] by (auto simp: registered_def)
  show "par_clientId p = int_clientId i" by (rule pc)
qed

lemma loadInteractionContext_Inr:
  assumes "ok s" and "loadInteractionContext d id' now s = (Inr (Some ctx), s')"
  shows "parked (dp_ext d) (view s) id' now ctx"
proof -
  from assms(2) obtain i s1 p s2 where
    1: "int_find (st_interactions (dp_storage d)) id' now s = (Inr (Some i), s1)" and
    2: "par_peek (st_par (dp_storage d)) (int_requestUri i) now s1 = (Inr (Some p), s2)" and
    3: "interaction_context_of d i p s2 = (Inr (Some ctx), s')"
    unfolding loadInteractionContext_def
    by (auto simp: bindE_Inr_iff returnE_iff split: option.splits)
  from obeysD [OF int_find assms(1) 1] have s1: "ok s1" "view s1 = view s" "spec_int_find id' now (view s) = Some i"
    by simp_all
  from obeysD [OF par_peek s1(1) 2] have s2: "ok s2" "view s2 = view s"
    "spec_par_peek (int_requestUri i) now (view s) = Some p" by (simp_all add: s1)
  from interaction_context_Inr [OF s2(1) 3] s1 s2 show ?thesis by (auto simp: parked_def)
qed

text \<open>The dispatcher and the login never touch a code, and neither does a consent that fails.\<close>

lemma get_interaction_codes: "moves ok view codes_kept (get_interaction d env rq)"
  unfolding get_interaction_def dispatch_interaction_def
  by (auto intro!: moves_intro quiet_moves [OF loadInteractionContext_quiet] moves_obeys [OF int_setSubject])

lemma post_login_quiet: "quiet ok view (post_login d env rq)"
  unfolding post_login_def by (auto intro!: moves_intro loadInteractionContext_quiet)

lemma prompt_login_quiet:
  assumes "vr_prompt (ic_request ctx) = Some p" and "''login'' \<in> set (words_of p)"
  shows "quiet ok view (dispatch_interaction d env rq id' ctx)"
  unfolding dispatch_interaction_def using prompt_login_always [OF assms]
  by (auto intro!: moves_intro)

lemma conclude_consent_codes:
  assumes "ok s" and run: "conclude_consent d env id' session ctx approved s = (r, s')"
    and ch: "a_codes (view s') \<noteq> a_codes (view s)"
  shows "decideAuthorization (dp_pdp d) (session_user session) (ic_client ctx) (ic_request ctx) (Some approved) = Inr True"
    and "\<exists>i. spec_int_find id' (co_t_complete env) (view s) = Some i"
    and "code_written (dp_ext d) (dp_config d) (co_code env) (ic_requestUri ctx) (ic_client ctx) (ic_request ctx)
           (ls_sub session) (js_date (ls_authTime session * 1000)) (view s) (view s')"
proof -
  obtain dn s1 where 1: "int_complete (st_interactions (dp_storage d)) id' (co_t_complete env) s = (dn, s1)" by fastforce
  have m: "moves ok view codes_kept (int_complete (st_interactions (dp_storage d)) id' (co_t_complete env))"
    by (rule moves_obeys [OF int_complete]) auto
  from movesD [OF m assms(1) 1] have s1: "ok s1" "a_codes (view s1) = a_codes (view s)" by (simp_all add: codes_kept_def)
  obtain i where dn: "dn = Inr (Some i)"
    using run ch 1 s1(2) by (cases dn; cases "projr dn") (auto simp: conclude_consent_def bindE_def returnE_def)
  from obeysD [OF int_complete assms(1) 1 [unfolded dn]] have
    f: "spec_int_find id' (co_t_complete env) (view s) = Some i" and
    v1: "view s1 = spec_int_complete id' (co_t_complete env) (view s)" by simp_all
  from f show "\<exists>i. spec_int_find id' (co_t_complete env) (view s) = Some i" ..
  have par: "a_par (view s1) = a_par (view s)" "spec_par_peek u t (view s1) = spec_par_peek u t (view s)"
    "a_grants (view s1) = a_grants (view s)" for u t
    by (auto simp: v1 spec_int_complete_def spec_par_peek_def split: option.split)
  have declined: "moves ok view codes_kept (bindE (par_consume (st_par (dp_storage d)) u t) (\<lambda>_. liftE e))" for u t e
    by (auto intro!: moves_intro moves_obeys [OF par_consume])
  let ?dec = "decideAuthorization (dp_pdp d) (session_user session) (ic_client ctx) (ic_request ctx) (Some approved)"
  have dec: "decision_or_deny ?dec"
  proof (rule ccontr)
    assume "\<not> decision_or_deny ?dec"
    with run 1 dn have "bindE (par_consume (st_par (dp_storage d)) (ic_requestUri ctx) (co_t_consume env)) (\<lambda>_.
          liftE (redirectError (dp_ext d) (vr_redirectUri (ic_request ctx)) az_access_denied
                   (Some ''authorization was not granted'') (vr_state (ic_request ctx)) (cfg_issuer (dp_config d)))) s1
          = (r, s')" by (simp add: conclude_consent_def bindE_def)
    from movesD [OF declined s1(1) this] ch s1 show False by (simp add: codes_kept_def)
  qed
  then show "?dec = Inr True" by (auto simp: decision_or_deny_def split: sum.splits)
  from run 1 dn dec have i: "issueCodeForInteraction d (co_code env) (ic_requestUri ctx) (ic_client ctx) (ic_request ctx)
            (session_user session) s1 = (r, s')" by (simp add: conclude_consent_def bindE_def)
  have "a_codes (view s') \<noteq> a_codes (view s1)" using ch s1 by simp
  from issueCode_codes [OF s1(1) i this]
  show "code_written (dp_ext d) (dp_config d) (co_code env) (ic_requestUri ctx) (ic_client ctx) (ic_request ctx)
           (ls_sub session) (js_date (ls_authTime session * 1000)) (view s) (view s')"
    by (simp add: code_written_def par s1(2) session_user_def)
qed

lemma post_consent_codes:
  assumes "ok s" and run: "post_consent d env rq s = (r, s')" and ch: "a_codes (view s') \<noteq> a_codes (view s)"
  obtains id' session ctx where "str_of (jget (rq_body rq) ''interaction_id'') = Some id'"
    and "parked (dp_ext d) (view s) id' (co_t_context env) ctx" and "consent_ok d env rq session ctx"
    and "\<exists>i. spec_int_find id' (co_t_complete env) (view s) = Some i"
    and "code_written (dp_ext d) (dp_config d) (co_code env) (ic_requestUri ctx) (ic_client ctx) (ic_request ctx)
           (ls_sub session) (js_date (ls_authTime session * 1000)) (view s) (view s')"
proof -
  from run ch obtain id' session where id': "str_of (jget (rq_body rq) ''interaction_id'') = Some id'" and
    se: "session_at d rq (co_t_session env) = Some session" and
    csrf: "verifyCsrfToken (dp_ext d) (str_of (jget (rq_body rq) ''csrf'')) (ls_sid session)
             (cfg_sessionSecret (dp_config d))" and
    b: "bindE (loadInteractionContext d id' (co_t_context env)) (consent_for d env rq id' session) s = (r, s')"
    unfolding post_consent_def by (auto simp: returnE_iff simp del: str_of_Some split: option.splits if_splits)
  obtain l s1 where 1: "loadInteractionContext d id' (co_t_context env) s = (l, s1)" by fastforce
  from movesD [OF loadInteractionContext_quiet assms(1) 1] have s1: "ok s1" "view s1 = view s" by simp_all
  obtain c where l: "l = Inr c" and c: "consent_for d env rq id' session c s1 = (r, s')"
    using b 1 ch s1 by (cases l) (auto simp: bindE_def)
  let ?ap = "str_of (jget (rq_body rq) ''decision'') = Some ''approve''"
  obtain ctx where ctx: "c = Some ctx" "ic_subject ctx = Some (ls_sub session)"
    "conclude_consent d env id' session ctx ?ap s1 = (r, s')"
    using c ch s1 unfolding consent_for_def
    by (cases c) (auto simp: returnE_iff simp del: str_of_Some split: if_splits)
  have "a_codes (view s') \<noteq> a_codes (view s1)" using ch s1 by simp
  note cc = conclude_consent_codes [OF s1(1) ctx(3) this]
  from cc(1) have "?ap" by (auto simp: decideAuthorization_def simp del: str_of_Some split: if_splits)
  with cc(1) se csrf ctx(2) have "consent_ok d env rq session ctx" by (simp add: consent_ok_def)
  moreover have "parked (dp_ext d) (view s) id' (co_t_context env) ctx"
    using loadInteractionContext_Inr [OF assms(1) 1 [unfolded l ctx(1)]] .
  ultimately show thesis using id' cc(2,3) that by (simp only: s1(2))
qed

end

end
