(* ===== verification/Server.thy ===== *)
theory Server
  imports MemoryStorage KeyStore RateLimit Discovery TokenEndpoint ResourceEndpoints InteractionEndpoint
begin

text \<open>
  The assembled server (\<open>buildApp\<close> of \<open>src/index.ts\<close>, \<open>registerEndpoints\<close> of
  \<open>src/endpoints/index.ts\<close>): the storage, the keystore over its keys, one limiter shared by the
  credential-bearing endpoints, and the table of routes. The state of the server is the limiter,
  the keystore and the tables of the storage; an operation of one part acts on its part only.
\<close>

section \<open>The parts in one state\<close>

type_synonym 's server = "limiter \<times> 's kstate"

definition on_kstate :: "('s kstate, exn, 'a) act \<Rightarrow> ('s server, exn, 'a) act" where
  "on_kstate m = (\<lambda>(l, s). case m s of (r, s') \<Rightarrow> (r, (l, s')))"

definition on_storage :: "('s, exn, 'a) act \<Rightarrow> ('s server, exn, 'a) act" where
  "on_storage m = on_kstate (on_repo m)"

abbreviation srv_view :: "('s \<Rightarrow> astore) \<Rightarrow> 's server \<Rightarrow> astore" where
  "srv_view view \<equiv> \<lambda>(l, k, s). view s"

definition server_keys :: "'s signing_key_repo \<Rightarrow> 's server signing_key_repo" where
  "server_keys r =
     \<lparr>sk_list = on_storage (sk_list r), sk_insert = (\<lambda>k. on_storage (sk_insert r k)),
      sk_setStatus = (\<lambda>kid status t. on_storage (sk_setStatus r kid status t))\<rparr>"

definition server_storage :: "'s storage \<Rightarrow> 's server storage" where
  "server_storage st =
     \<lparr>st_keys = server_keys (st_keys st),
      st_clients = \<lparr>cl_findById = (\<lambda>i. on_storage (cl_findById (st_clients st) i)),
                    cl_upsert = (\<lambda>c. on_storage (cl_upsert (st_clients st) c))\<rparr>,
      st_par = \<lparr>par_insert = (\<lambda>p. on_storage (par_insert (st_par st) p)),
                par_peek = (\<lambda>u t. on_storage (par_peek (st_par st) u t)),
                par_consume = (\<lambda>u t. on_storage (par_consume (st_par st) u t))\<rparr>,
      st_grants = \<lparr>grant_insert = (\<lambda>g. on_storage (grant_insert (st_grants st) g)),
                   grant_find = (\<lambda>i. on_storage (grant_find (st_grants st) i)),
                   grant_revoke = (\<lambda>i t. on_storage (grant_revoke (st_grants st) i t))\<rparr>,
      st_codes = \<lparr>code_insert = (\<lambda>c. on_storage (code_insert (st_codes st) c)),
                  code_redeem = (\<lambda>h t. on_storage (code_redeem (st_codes st) h t))\<rparr>,
      st_accessTokens = \<lparr>at_insert = (\<lambda>a. on_storage (at_insert (st_accessTokens st) a)),
                         at_findByJti = (\<lambda>j. on_storage (at_findByJti (st_accessTokens st) j)),
                         at_revoke = (\<lambda>j t. on_storage (at_revoke (st_accessTokens st) j t)),
                         at_revokeByGrant = (\<lambda>g t. on_storage (at_revokeByGrant (st_accessTokens st) g t))\<rparr>,
      st_refreshTokens = \<lparr>rt_insert = (\<lambda>r. on_storage (rt_insert (st_refreshTokens st) r)),
                          rt_findByHash = (\<lambda>h. on_storage (rt_findByHash (st_refreshTokens st) h)),
                          rt_revoke = (\<lambda>h t. on_storage (rt_revoke (st_refreshTokens st) h t)),
                          rt_revokeByGrant = (\<lambda>g t. on_storage (rt_revokeByGrant (st_refreshTokens st) g t))\<rparr>,
      st_jti = \<lparr>jti_register = (\<lambda>c j e t. on_storage (jti_register (st_jti st) c j e t))\<rparr>,
      st_interactions = \<lparr>int_insert = (\<lambda>n. on_storage (int_insert (st_interactions st) n)),
                         int_find = (\<lambda>i t. on_storage (int_find (st_interactions st) i t)),
                         int_setSubject = (\<lambda>i sub t acr amr. on_storage (int_setSubject (st_interactions st) i sub t acr amr)),
                         int_complete = (\<lambda>i t. on_storage (int_complete (st_interactions st) i t))\<rparr>,
      st_ping = on_storage (st_ping st)\<rparr>"

definition server_keystore :: "'s kstate keystore \<Rightarrow> 's server keystore" where
  "server_keystore ks =
     \<lparr>ks_ensure = (\<lambda>env. on_kstate (ks_ensure ks env)), ks_publicJwks = (\<lambda>now. on_kstate (ks_publicJwks ks now)),
      ks_signJwt = (\<lambda>claims typ. on_kstate (ks_signJwt ks claims typ))\<rparr>"

definition limiter_for :: "app_config \<Rightarrow> limiter_config" where
  "limiter_for config = \<lparr>rl_limit = cfg_rateLimitPerMin config, rl_windowMs = 60000, rl_maxKeys = 50000\<rparr>"

definition server_allow :: "app_config \<Rightarrow> string \<Rightarrow> int \<Rightarrow> ('s server, exn, bool) act" where
  "server_allow config ip now =
     (\<lambda>(l, s). case allow (limiter_for config) ip now l of (b, l') \<Rightarrow> (Inr b, (l', s)))"

text \<open>The invariant of the server: the storage is well formed, the limiter within its bound, and a
  keystore that is ready has an active key to sign with.\<close>

definition srv_ok :: "app_config \<Rightarrow> ('s \<Rightarrow> bool) \<Rightarrow> 's server \<Rightarrow> bool" where
  "srv_ok config ok = (\<lambda>(l, k, s). ok s \<and> keystore_ok k \<and> limiter_ok (limiter_for config) l)"

section \<open>The wiring\<close>

text \<open>The decision point is chosen by the configuration; \<open>fetch\<close> is the HTTP exchange of the
  AuthZEN client.\<close>

definition choose_pdp :: "(http_request \<Rightarrow> fetch_outcome) \<Rightarrow> app_config \<Rightarrow> pdp" where
  "choose_pdp fetch config =
     (if cfg_pdp_kind config = ''authzen-http''
      then authzen_evaluate fetch (cfg_pdp_authzenUrl config) (cfg_pdp_authzenToken config)
      else mock_evaluate)"

definition build_deps ::
  "ext \<Rightarrow> pdp \<Rightarrow> auth_provider \<Rightarrow> app_config \<Rightarrow> endpoint_paths \<Rightarrow> endpoint_urls \<Rightarrow> 's storage \<Rightarrow> 's server deps" where
  "build_deps x pdp auth config paths urls st =
     \<lparr>dp_ext = x, dp_config = config, dp_paths = paths, dp_urls = urls, dp_pdp = pdp,
      dp_storage = server_storage st,
      dp_keystore = server_keystore (key_store x (cfg_keystoreKek config) (st_keys st)),
      dp_auth = auth, dp_allow = server_allow config\<rparr>"

text \<open>An injected decision point, storage or login replaces the default; a configuration whose
  issuer is not a URL makes the registration throw.\<close>

definition buildApp ::
  "ext \<Rightarrow> (http_request \<Rightarrow> fetch_outcome) \<Rightarrow> pdp option \<Rightarrow> auth_provider option \<Rightarrow> app_config \<Rightarrow> 's storage \<Rightarrow>
    's server deps option" where
  "buildApp x fetch pdp auth config st =
     (case (endpointPaths x config, endpointUrls x config) of
        (Some paths, Some urls) \<Rightarrow>
          Some (build_deps x (case pdp of Some p \<Rightarrow> p | None \<Rightarrow> choose_pdp fetch config)
                  (case auth of Some a \<Rightarrow> a | None \<Rightarrow> dev_authenticate config) config paths urls st)
      | _ \<Rightarrow> None)"

definition fresh_server :: "'s \<Rightarrow> 's server" where
  "fresh_server s = (fresh_limiter, fresh_keystore, s)"

section \<open>The routes\<close>

datatype route = R_metadata | R_jwks | R_par | R_par_method | R_authorize | R_interaction | R_login | R_consent |
  R_token | R_revoke | R_introspect | R_userinfo

text \<open>The framework answers \<open>HEAD\<close> with the handler of \<open>GET\<close>, without the body.\<close>

definition with_heads :: "((string \<times> string) \<times> route) list \<Rightarrow> ((string \<times> string) \<times> route) list" where
  "with_heads rs = rs @ [((''HEAD'', path), r). ((m, path), r) \<leftarrow> rs, m = ''GET'']"

definition head_reply :: "http_req \<Rightarrow> reply \<Rightarrow> reply" where
  "head_reply rq rp = (if rq_method rq = ''HEAD'' then rp\<lparr>rp_body := No_body\<rparr> else rp)"

text \<open>Method and path of every handler, as the \<open>register\<close> functions add them.\<close>

definition routes :: "'s deps \<Rightarrow> ((string \<times> string) \<times> route) list" where
  "routes d =
     (let p = dp_paths d;
          wellKnown = (case wellKnownPaths (dp_ext d) (cfg_issuer (dp_config d)) of
                         None \<Rightarrow> [] | Some (oidc, oauth) \<Rightarrow> [((''GET'', oidc), R_metadata), ((''GET'', oauth), R_metadata)])
      in with_heads (wellKnown @
         [((''GET'', p_jwks p), R_jwks), ((''POST'', p_par p), R_par)] @
         map (\<lambda>m. ((m, p_par p), R_par_method)) [''GET'', ''PUT'', ''DELETE'', ''PATCH'', ''OPTIONS''] @
         [((''GET'', p_authorization p), R_authorize), ((''POST'', p_authorization p), R_authorize),
          ((''GET'', p_interaction p), R_interaction), ((''POST'', p_interactionLogin p), R_login),
          ((''POST'', p_interactionConsent p), R_consent), ((''POST'', p_token p), R_token),
          ((''POST'', p_revocation p), R_revoke), ((''POST'', p_introspection p), R_introspect),
          ((''GET'', p_userinfo p), R_userinfo), ((''POST'', p_userinfo p), R_userinfo)]))"

text \<open>The clock readings and random values of a request, whichever handler it goes to.\<close>

record call_env =
  xe_key :: key_env
  xe_t_keys :: int
  xe_par :: par_env
  xe_authorize :: authorize_env
  xe_dispatch :: dispatch_env
  xe_login :: login_env
  xe_consent :: consent_env
  xe_token :: token_env
  xe_lookup :: lookup_env
  xe_userinfo :: userinfo_env

fun run_route :: "'s deps \<Rightarrow> call_env \<Rightarrow> http_req \<Rightarrow> route \<Rightarrow> ('s, exn, reply) act" where
  "run_route d env rq R_metadata = get_metadata d"
| "run_route d env rq R_jwks = get_jwks d (xe_key env) (xe_t_keys env)"
| "run_route d env rq R_par = post_par d (xe_par env) rq"
| "run_route d env rq R_par_method = returnE par_method_not_allowed"
| "run_route d env rq R_authorize = authorize d (xe_authorize env) rq"
| "run_route d env rq R_interaction = get_interaction d (xe_dispatch env) rq"
| "run_route d env rq R_login = post_login d (xe_login env) rq"
| "run_route d env rq R_consent = post_consent d (xe_consent env) rq"
| "run_route d env rq R_token = post_token d (xe_token env) rq"
| "run_route d env rq R_revoke = post_revoke d (xe_lookup env) rq"
| "run_route d env rq R_introspect = post_introspect d (xe_lookup env) rq"
| "run_route d env rq R_userinfo = userinfo d (xe_userinfo env) rq"

text \<open>The answer to a request, errors rendered and the common headers added; \<open>None\<close> is left to the
  framework, which answers that there is no such route.\<close>

definition handle_request :: "'s deps \<Rightarrow> call_env \<Rightarrow> string \<Rightarrow> http_req \<Rightarrow> 's \<Rightarrow> (reply \<times> 's) option" where
  "handle_request d env path rq s =
     map_option (\<lambda>r. case serve (run_route d env rq r) s of (rp, s') \<Rightarrow> (head_reply rq (on_send rp), s'))
       (map_of (routes d) (rq_method rq, path))"

section \<open>The parts meet their contracts in the server\<close>

lemma obeys_on_storage:
  "obeys ok view m R \<Longrightarrow> obeys (srv_ok config ok) (srv_view view) (on_storage m) R"
  by (fastforce simp: obeys_def on_storage_def on_kstate_def on_repo_def srv_ok_def split: prod.splits)

lemma obeys_or_on_storage:
  "obeys_or ok view F m R \<Longrightarrow> obeys_or (srv_ok config ok) (srv_view view) F (on_storage m) R"
  by (fastforce simp: obeys_or_def on_storage_def on_kstate_def on_repo_def srv_ok_def split: prod.splits)

lemma quiet_on_kstate:
  assumes "quiet (k_settled ok) (k_view view) m"
  shows "quiet (srv_ok config ok) (srv_view view) (on_kstate m)"
proof -
  have "srv_ok config ok (l', k', s') \<and> view s' = view s"
    if "srv_ok config ok (l, k, s)" "on_kstate m (l, k, s) = (r, (l', k', s'))" for l k s r l' k' s'
  proof -
    have m: "m (k, s) = (r, (k', s'))" "l' = l" using that(2) by (auto simp: on_kstate_def split: prod.splits)
    have "k_settled ok (k, s)" using that(1) by (simp add: srv_ok_def)
    from movesD [OF assms this m(1)] that(1) m(2) show ?thesis by (simp add: srv_ok_def)
  qed
  then show ?thesis unfolding moves_def split_paired_All prod.case by blast
qed

lemma answers_on_storage: "answers m \<Longrightarrow> answers (on_storage m)"
proof -
  assume m: "answers m"
  show "answers (on_storage m)"
    unfolding answers_def
  proof
    fix q :: "'a server"
    obtain l k s where q: "q = (l, k, s)" by (cases q) auto
    from m obtain x s' where "m s = (Inr x, s')" unfolding answers_def by blast
    then have "on_storage m q = (Inr x, (l, k, s'))" by (simp add: q on_storage_def on_kstate_def on_repo_def)
    then show "\<exists>x s'. on_storage m q = (Inr x, s')" by blast
  qed
qed

lemma server_allow_quiet: "quiet (srv_ok config ok) (srv_view view) (server_allow config ip now)"
  by (auto simp: moves_def server_allow_def srv_ok_def split: prod.splits dest: allow_ok)

lemma srv_ok_fresh: "ok s \<Longrightarrow> srv_ok config ok (fresh_server s)"
  by (simp add: srv_ok_def fresh_server_def fresh_keystore_def keystore_ok_def limiter_ok_fresh)

text \<open>The fields of the storage in the server.\<close>

lemma server_storage_sel [simp]:
  "cl_findById (st_clients (server_storage st)) i = on_storage (cl_findById (st_clients st) i)"
  "cl_upsert (st_clients (server_storage st)) c = on_storage (cl_upsert (st_clients st) c)"
  "par_insert (st_par (server_storage st)) p = on_storage (par_insert (st_par st) p)"
  "par_peek (st_par (server_storage st)) i t = on_storage (par_peek (st_par st) i t)"
  "par_consume (st_par (server_storage st)) i t = on_storage (par_consume (st_par st) i t)"
  "grant_insert (st_grants (server_storage st)) g = on_storage (grant_insert (st_grants st) g)"
  "grant_find (st_grants (server_storage st)) i = on_storage (grant_find (st_grants st) i)"
  "grant_revoke (st_grants (server_storage st)) i t = on_storage (grant_revoke (st_grants st) i t)"
  "code_insert (st_codes (server_storage st)) k = on_storage (code_insert (st_codes st) k)"
  "code_redeem (st_codes (server_storage st)) i t = on_storage (code_redeem (st_codes st) i t)"
  "at_insert (st_accessTokens (server_storage st)) a = on_storage (at_insert (st_accessTokens st) a)"
  "at_findByJti (st_accessTokens (server_storage st)) i = on_storage (at_findByJti (st_accessTokens st) i)"
  "at_revoke (st_accessTokens (server_storage st)) i t = on_storage (at_revoke (st_accessTokens st) i t)"
  "at_revokeByGrant (st_accessTokens (server_storage st)) i t = on_storage (at_revokeByGrant (st_accessTokens st) i t)"
  "rt_insert (st_refreshTokens (server_storage st)) r = on_storage (rt_insert (st_refreshTokens st) r)"
  "rt_findByHash (st_refreshTokens (server_storage st)) i = on_storage (rt_findByHash (st_refreshTokens st) i)"
  "rt_revoke (st_refreshTokens (server_storage st)) i t = on_storage (rt_revoke (st_refreshTokens st) i t)"
  "rt_revokeByGrant (st_refreshTokens (server_storage st)) i t = on_storage (rt_revokeByGrant (st_refreshTokens st) i t)"
  "int_insert (st_interactions (server_storage st)) n = on_storage (int_insert (st_interactions st) n)"
  "int_find (st_interactions (server_storage st)) i t = on_storage (int_find (st_interactions st) i t)"
  "int_setSubject (st_interactions (server_storage st)) i sub t acr amr =
     on_storage (int_setSubject (st_interactions st) i sub t acr amr)"
  "int_complete (st_interactions (server_storage st)) i t = on_storage (int_complete (st_interactions st) i t)"
  "jti_register (st_jti (server_storage st)) i j e t = on_storage (jti_register (st_jti st) i j e t)"
  "st_ping (server_storage st) = on_storage (st_ping st)"
  by (simp_all add: server_storage_def)

context storage_contract begin

lemma in_server: "storage_contract (server_storage st) (srv_view view) (srv_ok config ok)"
proof (unfold_locales, unfold server_storage_sel)
qed (rule obeys_on_storage obeys_or_on_storage; fact cl_findById cl_upsert par_insert par_peek par_consume grant_insert grant_find
      grant_revoke code_insert code_redeem at_insert at_findByJti at_revoke at_revokeByGrant rt_insert
      rt_findByHash rt_revoke rt_revokeByGrant int_insert int_find int_setSubject int_complete jti_register)+

end

context reliable_storage begin

lemma reliable_in_server: "reliable_storage (server_storage st) (srv_view view) (srv_ok config ok)"
proof (rule reliable_storage.intro [OF in_server], unfold_locales, unfold server_storage_sel)
qed (rule answers_on_storage; fact grants_answer codes_answer tokens_answer)+

end

text \<open>The memory adapter keeps its keys apart from the tables of the protocol.\<close>

interpretation mem: key_rows "st_keys createMemoryStorage" mem_view mem_ok
  by unfold_locales
    (auto simp: createMemoryStorage_def memory_keys_def mem_keys_insert_def on_table_def reading_def writing_def
       moves_def mem_ok_def mem_view_def split: if_splits prod.splits)

lemma memory_keystore: "key_port (key_store x kek (st_keys createMemoryStorage)) (k_view mem_view) (k_settled mem_ok)"
  by (rule mem.ks.key_port_axioms)

lemma server_key_port:
  "key_port ks (k_view view) (k_settled ok) \<Longrightarrow> key_port (server_keystore ks) (srv_view view) (srv_ok config ok)"
  by (simp add: key_port_def server_keystore_def quiet_on_kstate)

lemma server_endpoint_deps:
  assumes "storage_contract st view ok"
    and "key_port (key_store x (cfg_keystoreKek config) (st_keys st)) (k_view view) (k_settled ok)"
  shows "endpoint_deps (build_deps x pdp auth config paths urls st) (srv_view view) (srv_ok config ok)"
proof (rule endpoint_deps.intro)
  show "token_issue (dp_storage (build_deps x pdp auth config paths urls st))
     (dp_keystore (build_deps x pdp auth config paths urls st)) (srv_view view) (srv_ok config ok)"
    using storage_contract.in_server [OF assms(1)] server_key_port [OF assms(2)] by (simp add: build_deps_def token_issue_def)
  show "endpoint_deps_axioms (build_deps x pdp auth config paths urls st) (srv_view view) (srv_ok config ok)"
    by unfold_locales (simp add: build_deps_def server_allow_quiet)
qed

interpretation srv: endpoint_deps "build_deps x pdp auth config paths urls createMemoryStorage"
  "srv_view mem_view" "srv_ok config mem_ok" for x pdp auth config paths urls
  by (rule server_endpoint_deps [OF mem.storage_contract_axioms memory_keystore])

interpretation tables: reliable_storage "server_storage createMemoryStorage" "srv_view mem_view" "srv_ok config mem_ok" for config
  by (rule mem.reliable_in_server)

end
