(* ===== verification/Samples.thy ===== *)
theory Samples
  imports Server
begin

text \<open>
  A concrete instance of everything the model is parametric in, on which the definitions are
  evaluated: stand-ins for the libraries with the shape of the real ones (a digest, a URL parser
  for \<open>https\<close>, token verification by table), a configuration, a registered client, and a store in
  the middle of a flow. The witnesses of the properties run the handlers on it.
\<close>

section \<open>The libraries\<close>

definition sample_url :: "string \<Rightarrow> url option" where
  "sample_url s =
     (if starts_with ''https://'' s
      then let rest = drop 8 s; host = takeWhile (\<lambda>c. c \<noteq> CHR ''/'') rest;
               path = dropWhile (\<lambda>c. c \<noteq> CHR ''/'') rest
           in Some \<lparr>u_protocol = ''https:'', u_hostname = host, u_host = host, u_port = [],
                    u_pathname = (if path = [] then ''/'' else path), u_hash = [],
                    u_origin = ''https://'' @ host, u_password = []\<rparr>
      else None)"

definition sample_session :: login_session where
  "sample_session =
     \<lparr>ls_sid = ''sid'', ls_sub = ''alice'', ls_authTime = 990, ls_exp = 9000,
      ls_acr = Some (JStr ''urn:dev:pwd''), ls_amr = Some (JArr [JStr ''pwd''])\<rparr>"

text \<open>The JSON texts of the samples are one letter long: \<open>S\<close> is the session, anything else the claims
  of a client assertion.\<close>

definition sample_json :: "string \<Rightarrow> json option" where
  "sample_json s =
     (if s = ''S'' then Some (session_json sample_session) else Some (JObj [(''sub'', JStr ''c'')]))"

definition sample_jkt :: string where
  "sample_jkt = ''kkkkkkkkkkkkkkkkkkkkkkkkkkkkkkkkkkkkkkkkkkk''"

definition sample_assertion_claims :: jobj where
  "sample_assertion_claims =
     [(''iss'', JStr ''c''), (''sub'', JStr ''c''), (''aud'', JStr ''https://as''), (''exp'', JNum 1100),
      (''iat'', JNum 1000), (''jti'', JStr ''j'')]"

definition sample_proof_claims :: "string \<Rightarrow> jobj" where
  "sample_proof_claims pf =
     (if pf = ''proof-userinfo''
      then [(''jti'', JStr ''q''), (''htm'', JStr ''GET''), (''htu'', JStr ''https://as/userinfo''),
            (''iat'', JNum 1000), (''ath'', JStr (base64url ''at''))]
      else [(''jti'', JStr ''p''), (''htm'', JStr ''POST''),
            (''htu'', JStr (if pf = ''proof-par'' then ''https://as/par'' else ''https://as/token'')),
            (''iat'', JNum 1000)])"

definition sample_ext :: ext where
  "sample_ext =
     \<lparr>x_sha256 = (\<lambda>s. s), x_hmac = (\<lambda>k s. k @ s), x_url = sample_url,
      x_url_set = (\<lambda>u k v. u @ ''&'' @ k @ ''='' @ v),
      x_form_pairs = (\<lambda>raw. map (\<lambda>p. (takeWhile (\<lambda>c. c \<noteq> CHR ''='') p, drop 1 (dropWhile (\<lambda>c. c \<noteq> CHR ''='') p)))
                        (split_on (CHR ''&'') raw)),
      x_json_parse = sample_json, x_json_stringify = (\<lambda>_. ''S''), x_show = (\<lambda>_. []),
      x_decode_header = (\<lambda>t. Some [(''alg'', JStr ''ES256''), (''typ'', JStr ''dpop+jwt''),
                                    (''jwk'', JObj [(''kty'', JStr ''EC'')])]),
      x_jwt_verify = (\<lambda>_ _ _. Jose_ok sample_assertion_claims),
      x_verify_embedded = (\<lambda>_ pf. Some (sample_proof_claims pf)), x_thumbprint = (\<lambda>_. Some sample_jkt),
      x_verify_issued = (\<lambda>_ _ _ t. if t = ''at'' then Some [(''jti'', JStr ''J'')] else None),
      x_sign_jwt = (\<lambda>_ _ _. ''at''), x_import_jwk = (\<lambda>_. Some ''key''),
      x_gcm_seal = (\<lambda>k iv aad p. (p, k @ aad)),
      x_gcm_open = (\<lambda>k iv aad d tag. if tag = k @ aad then Some d else None)\<rparr>"

section \<open>The configuration\<close>

definition sample_metadata :: metadata_config where
  "sample_metadata =
     \<lparr>md_scopesSupported = [''openid'', ''profile''], md_claimsSupported = [''sub''],
      md_subjectTypesSupported = [''public''], md_idTokenSigningAlgs = [''ES256''],
      md_clientAuthMethods = [''private_key_jwt''], md_clientAuthSigningAlgs = [''ES256''],
      md_dpopSigningAlgs = [''ES256''], md_codeChallengeMethods = [''S256'']\<rparr>"

definition sample_config :: app_config where
  "sample_config =
     \<lparr>cfg_port = 3000, cfg_issuer = ''https://as'', cfg_logLevel = ''info'', cfg_databaseUrl = [],
      cfg_databaseSsl = False, cfg_storage = ''memory'', cfg_pdp_kind = ''mock'', cfg_pdp_authzenUrl = [],
      cfg_pdp_authzenToken = [], cfg_redisUrl = [], cfg_devInteractionSub = ''alice'',
      cfg_devLoginUsers = [''alice''], cfg_sessionSecret = ''secret'', cfg_interactionTtlSec = 600,
      cfg_sessionTtlSec = 3600, cfg_authCodeTtlSec = 60, cfg_parTtlSec = 90, cfg_accessTokenTtlSec = 300,
      cfg_refreshTokenTtlSec = 1000, cfg_idTokenTtlSec = 300, cfg_clientAssertionMaxLifetimeSec = 300,
      cfg_clockSkewFutureAcceptSec = 10, cfg_dpopProofMaxAgeSec = 300, cfg_dpopNonceRequired = False,
      cfg_dpopNonceSecret = ''nonce'', cfg_accessTokenAudience = ''https://as'', cfg_rateLimitPerMin = 100,
      cfg_trustProxy = Trust_bool False, cfg_tls = None, cfg_keystoreKek = None,
      cfg_metadata = sample_metadata, cfg_devModeWarnings = []\<rparr>"

definition sample_paths :: endpoint_paths where
  "sample_paths = the (endpointPaths sample_ext sample_config)"

definition sample_urls :: endpoint_urls where
  "sample_urls = the (endpointUrls sample_ext sample_config)"

definition sample_deps :: "mem_store server deps" where
  "sample_deps =
     build_deps sample_ext mock_evaluate (dev_authenticate sample_config) sample_config sample_paths sample_urls
       createMemoryStorage"

text \<open>The fields, for evaluation.\<close>

lemma sample_ext_sel [simp]:
  "x_sha256 sample_ext = (\<lambda>s. s)"
  "x_hmac sample_ext = (\<lambda>k s. k @ s)"
  "x_url sample_ext = sample_url"
  "x_url_set sample_ext = (\<lambda>u k v. u @ ''&'' @ k @ ''='' @ v)"
  "x_form_pairs sample_ext = (\<lambda>raw. map (\<lambda>p. (takeWhile (\<lambda>c. c \<noteq> CHR ''='') p, drop 1 (dropWhile (\<lambda>c. c \<noteq> CHR ''='') p))) (split_on (CHR ''&'') raw))"
  "x_json_parse sample_ext = sample_json"
  "x_json_stringify sample_ext = (\<lambda>_. ''S'')"
  "x_show sample_ext = (\<lambda>_. [])"
  "x_decode_header sample_ext = (\<lambda>t. Some [(''alg'', JStr ''ES256''), (''typ'', JStr ''dpop+jwt''), (''jwk'', JObj [(''kty'', JStr ''EC'')])])"
  "x_jwt_verify sample_ext = (\<lambda>_ _ _. Jose_ok sample_assertion_claims)"
  "x_verify_embedded sample_ext = (\<lambda>_ pf. Some (sample_proof_claims pf))"
  "x_thumbprint sample_ext = (\<lambda>_. Some sample_jkt)"
  "x_verify_issued sample_ext = (\<lambda>_ _ _ t. if t = ''at'' then Some [(''jti'', JStr ''J'')] else None)"
  "x_sign_jwt sample_ext = (\<lambda>_ _ _. ''at'')"
  "x_import_jwk sample_ext = (\<lambda>_. Some ''key'')"
  "x_gcm_seal sample_ext = (\<lambda>k iv aad p. (p, k @ aad))"
  "x_gcm_open sample_ext = (\<lambda>k iv aad d tag. if tag = k @ aad then Some d else None)"
  by (simp_all add: sample_ext_def)

lemma sample_config_sel [simp]:
  "cfg_port sample_config = 3000"
  "cfg_issuer sample_config = ''https://as''"
  "cfg_logLevel sample_config = ''info''"
  "cfg_databaseUrl sample_config = []"
  "cfg_databaseSsl sample_config = False"
  "cfg_storage sample_config = ''memory''"
  "cfg_pdp_kind sample_config = ''mock''"
  "cfg_pdp_authzenUrl sample_config = []"
  "cfg_pdp_authzenToken sample_config = []"
  "cfg_redisUrl sample_config = []"
  "cfg_devInteractionSub sample_config = ''alice''"
  "cfg_devLoginUsers sample_config = [''alice'']"
  "cfg_sessionSecret sample_config = ''secret''"
  "cfg_interactionTtlSec sample_config = 600"
  "cfg_sessionTtlSec sample_config = 3600"
  "cfg_authCodeTtlSec sample_config = 60"
  "cfg_parTtlSec sample_config = 90"
  "cfg_accessTokenTtlSec sample_config = 300"
  "cfg_refreshTokenTtlSec sample_config = 1000"
  "cfg_idTokenTtlSec sample_config = 300"
  "cfg_clientAssertionMaxLifetimeSec sample_config = 300"
  "cfg_clockSkewFutureAcceptSec sample_config = 10"
  "cfg_dpopProofMaxAgeSec sample_config = 300"
  "cfg_dpopNonceRequired sample_config = False"
  "cfg_dpopNonceSecret sample_config = ''nonce''"
  "cfg_accessTokenAudience sample_config = ''https://as''"
  "cfg_rateLimitPerMin sample_config = 100"
  "cfg_trustProxy sample_config = Trust_bool False"
  "cfg_tls sample_config = None"
  "cfg_keystoreKek sample_config = None"
  "cfg_metadata sample_config = sample_metadata"
  "cfg_devModeWarnings sample_config = []"
  by (simp_all add: sample_config_def)

section \<open>A client and the rows of a flow\<close>

definition sample_registration :: json where
  "sample_registration =
     JObj [(''redirect_uris'', JArr [JStr ''https://app/cb'']),
           (''jwks'', JObj [(''keys'', JArr [JObj [(''kty'', JStr ''EC'')]])]),
           (''scope'', JStr ''openid profile'')]"

definition sample_client :: client where
  "sample_client =
     \<lparr>clientId = ''c'', clientName = None,
      metadata = \<lparr>redirect_uris = [''https://app/cb''], token_endpoint_auth_method = ''private_key_jwt'',
        jwks = Some [[(''kty'', JStr ''EC'')]], jwks_uri = None,
        grant_types = [''authorization_code'', ''refresh_token''], response_types = [''code''],
        md_scope = ''openid profile'', id_token_signed_response_alg = ''ES256'',
        dpop_bound_access_tokens = True, require_pushed_authorization_requests = True\<rparr>\<rparr>"

text \<open>The code verifier of the samples.\<close>

definition sample_verifier :: string where
  "sample_verifier = ''vvvvvvvvvvvvvvvvvvvvvvvvvvvvvvvvvvvvvvvvvvv''"

definition sample_grant :: grant_rec where
  "sample_grant =
     \<lparr>grant_grantId = ''g'', grant_clientId = ''c'', grant_subject = ''alice'', grant_scope = ''openid profile'',
      grant_authTime = 990000, grant_createdAt = 995000, grant_revokedAt = None\<rparr>"

definition sample_code :: code_rec where
  "sample_code =
     \<lparr>code_codeHash = base64url ''code'', code_grantId = ''g'', code_clientId = ''c'',
      code_redirectUri = ''https://app/cb'', code_codeChallenge = base64url sample_verifier,
      code_codeChallengeMethod = ''S256'', code_dpopJkt = None, code_nonce = None, code_expiresAt = 1050000\<rparr>"

definition sample_at :: at_rec where
  "sample_at =
     \<lparr>at_jti = ''J'', at_grantId = ''g'', at_clientId = ''c'', at_subject = ''alice'', at_scope = ''openid'',
      at_cnfJkt = Some sample_jkt, at_expiresAt = 1300000, at_revokedAt = None\<rparr>"

definition sample_rt :: rt_rec where
  "sample_rt =
     \<lparr>rt_tokenHash = base64url ''rt'', rt_grantId = ''g'', rt_clientId = ''c'', rt_scope = ''openid profile'',
      rt_expiresAt = 2000000, rt_revokedAt = None\<rparr>"

definition sample_store :: mem_store where
  "sample_store = empty_store
     \<lparr>m_clients := [(''c'', \<lparr>cr_clientId = ''c'', cr_clientName = None, cr_metadata = sample_registration\<rparr>)],
      m_grants := [(''g'', sample_grant)], m_codes := [(base64url ''code'', (sample_code, None))],
      m_accessTokens := [(''J'', sample_at)], m_refreshTokens := [(base64url ''rt'', sample_rt)]\<rparr>"

definition sample_state :: "mem_store server" where
  "sample_state = fresh_server sample_store"

section \<open>Requests\<close>

definition sample_body :: jobj where
  "sample_body =
     [(''client_assertion'', JStr ''h.b.s''), (''client_assertion_type'', JStr CLIENT_ASSERTION_TYPE_JWT_BEARER)]"

definition sample_request :: "string \<Rightarrow> jobj \<Rightarrow> http_req" where
  "sample_request pf body =
     \<lparr>rq_method = ''POST'', rq_ip = ''192.0.2.1'', rq_contentType = Some ''application/x-www-form-urlencoded'',
      rq_authorization = None, rq_dpop = Hdr_one pf, rq_cookie = None, rq_body = sample_body @ body, rq_query = []\<rparr>"

definition sample_key_env :: key_env where
  "sample_key_env =
     \<lparr>ke_privateKey = ''key'', ke_privateJwk = [(''kty'', JStr ''EC''), (''d'', JStr ''secret'')], ke_iv = ''iv'',
      ke_t_stale = (\<lambda>_. 1000000), ke_t_previous = 1000000, ke_t_created = 1000000\<rparr>"

definition sample_token_env :: token_env where
  "sample_token_env =
     \<lparr>te_t_rate = 1000000, te_t_auth = 1000000, te_t_dpop = 1000000, te_key = sample_key_env,
      te_t_grant = 1000000,
      te_issue = \<lparr>ie_t_at = 1000000, ie_t_id = 1000000, ie_t_rt = 1000000, ie_jti = ''K'', ie_rt_bytes = ''rt2''\<rparr>\<rparr>"

definition sample_code_request :: http_req where
  "sample_code_request = sample_request ''proof-token''
     [(''grant_type'', JStr ''authorization_code''), (''code'', JStr ''code''),
      (''redirect_uri'', JStr ''https://app/cb''), (''code_verifier'', JStr sample_verifier)]"

section \<open>An authorization in progress\<close>

text \<open>A pushed request that waits for the consent of the signed-in user, and one with \<open>prompt=none\<close>.\<close>

definition sample_params :: "string option \<Rightarrow> (string \<times> string) list" where
  "sample_params prompt =
     [(''client_id'', ''c''), (''response_type'', ''code''), (''redirect_uri'', ''https://app/cb''),
      (''scope'', ''openid''), (''code_challenge'', sample_verifier), (''code_challenge_method'', ''S256''),
      (''state'', ''st'')] @ (case prompt of Some p \<Rightarrow> [(''prompt'', p)] | None \<Rightarrow> [])"

definition sample_authz_request :: "string option \<Rightarrow> authz_request" where
  "sample_authz_request prompt =
     \<lparr>vr_clientId = ''c'', vr_responseType = ''code'', vr_redirectUri = ''https://app/cb'', vr_scope = ''openid'',
      vr_codeChallenge = sample_verifier, vr_codeChallengeMethod = ''S256'', vr_state = Some ''st'', vr_nonce = None,
      vr_dpopJkt = None, vr_prompt = prompt, vr_maxAge = None, vr_passthrough = []\<rparr>"

definition sample_par :: "string \<Rightarrow> string option \<Rightarrow> par_rec" where
  "sample_par uri prompt =
     \<lparr>par_requestUri = uri, par_clientId = ''c'', par_params = sample_params prompt, par_dpopJkt = None,
      par_expiresAt = 1090000\<rparr>"

definition sample_interaction :: int_rec where
  "sample_interaction =
     \<lparr>int_id = ''i'', int_clientId = ''c'', int_requestUri = ''u'', int_subject = Some ''alice'',
      int_authTime = Some 990000, int_acr = None, int_amr = None, int_createdAt = 999000, int_expiresAt = 1600000\<rparr>"

definition sample_flow :: "mem_store server" where
  "sample_flow = fresh_server (sample_store
     \<lparr>m_par := [(''u'', (sample_par ''u'' None, None)), (''n'', (sample_par ''n'' (Some ''none''), None))],
      m_interactions := [(''i'', (sample_interaction, None))]\<rparr>)"

definition sample_browser_request :: "string \<Rightarrow> jobj \<Rightarrow> http_req" where
  "sample_browser_request method params =
     \<lparr>rq_method = method, rq_ip = ''192.0.2.2'', rq_contentType = Some ''application/x-www-form-urlencoded'',
      rq_authorization = None, rq_dpop = Hdr_none,
      rq_cookie = Some (cookie_header [(SESSION_COOKIE, sealSession sample_ext sample_session ''secret'')]),
      rq_body = params, rq_query = params\<rparr>"

definition sample_code_env :: code_env where
  "sample_code_env = \<lparr>ce_t_consume = 1000000, ce_t_issue = 1000000, ce_uuid = ''G'', ce_bytes = ''new''\<rparr>"

definition sample_authorize_env :: authorize_env where
  "sample_authorize_env =
     \<lparr>ae_t_peek = 1000000, ae_t_now = 1000000, ae_t_consume = 1000000, ae_code = sample_code_env, ae_id = ''I''\<rparr>"

definition sample_consent_env :: consent_env where
  "sample_consent_env =
     \<lparr>co_t_session = 1000000, co_t_context = 1000000, co_t_complete = 1000000, co_t_consume = 1000000,
      co_code = sample_code_env\<rparr>"

definition sample_lookup_env :: lookup_env where
  "sample_lookup_env =
     \<lparr>le_t_rate = 1000000, le_t_auth = 1000000, le_key = sample_key_env, le_t_keys = 1000000, le_t_now = 1000000\<rparr>"

definition sample_userinfo_env :: userinfo_env where
  "sample_userinfo_env =
     \<lparr>ue_key = sample_key_env, ue_t_keys = 1000000, ue_t_now = 1000000, ue_t_dpop = 1000000\<rparr>"

definition sample_userinfo_request :: http_req where
  "sample_userinfo_request =
     \<lparr>rq_method = ''GET'', rq_ip = ''192.0.2.3'', rq_contentType = None, rq_authorization = Some ''DPoP at'',
      rq_dpop = Hdr_one ''proof-userinfo'', rq_cookie = None, rq_body = [], rq_query = []\<rparr>"

definition sample_lookup_request :: http_req where
  "sample_lookup_request = sample_request [] [(''token'', JStr ''at'')]"

section \<open>Evaluation\<close>

lemma sample_hint [simp]: "base64url_decode ''b'' = []"
  by code_simp

lemma sample_paths_eq:
  "sample_paths = \<lparr>p_authorization = ''/authorize'', p_token = ''/token'', p_par = ''/par'', p_jwks = ''/jwks'',
     p_revocation = ''/revoke'', p_introspection = ''/introspect'', p_userinfo = ''/userinfo'',
     p_interaction = ''/interaction'', p_interactionLogin = ''/interaction/login'',
     p_interactionConsent = ''/interaction/consent''\<rparr>"
  by code_simp

lemma sample_urls_eq:
  "sample_urls = \<lparr>e_authorization = ''https://as/authorize'', e_token = ''https://as/token'',
     e_par = ''https://as/par'', e_jwks = ''https://as/jwks'', e_revocation = ''https://as/revoke'',
     e_introspection = ''https://as/introspect'', e_userinfo = ''https://as/userinfo''\<rparr>"
  by code_simp

lemma sample_deps_sel [simp]:
  "dp_ext sample_deps = sample_ext" "dp_config sample_deps = sample_config" "dp_paths sample_deps = sample_paths"
  "dp_urls sample_deps = sample_urls" "dp_pdp sample_deps = mock_evaluate"
  "dp_storage sample_deps = server_storage createMemoryStorage"
  "dp_keystore sample_deps = server_keystore (key_store sample_ext None (st_keys createMemoryStorage))"
  "dp_auth sample_deps = dev_authenticate sample_config" "dp_allow sample_deps = server_allow sample_config"
  by (simp_all add: sample_deps_def build_deps_def)

lemma sample_params_valid [simp]:
  "validateAuthorizationRequest (params_body (sample_params None)) sample_client = Inr (sample_authz_request None)"
  "validateAuthorizationRequest (params_body (sample_params (Some ''none''))) sample_client =
     Inr (sample_authz_request (Some ''none''))"
  by code_simp+

lemma sample_cookie_session [simp]:
  "session_at sample_deps (sample_browser_request m ps) 1000000 = Some sample_session"
proof -
  have c: "cookie_ok (SESSION_COOKIE, sealSession sample_ext sample_session ''secret'')" by code_simp
  have "readCookie (rq_cookie (sample_browser_request m ps)) SESSION_COOKIE = Some (sealSession sample_ext sample_session ''secret'')"
    using readCookie_header [of "[(SESSION_COOKIE, sealSession sample_ext sample_session ''secret'')]"] c
    by (simp add: sample_browser_request_def del: cookie_header.simps)
  moreover have "openSession sample_ext (Some (sealSession sample_ext sample_session ''secret'')) ''secret'' 1000 = Some sample_session"
    by (subst openSession_seal) (simp_all add: sample_json_def sample_session_def)
  ultimately show ?thesis by (simp add: session_at_def sec_of_def)
qed

text \<open>The definitions a run on the samples unfolds.\<close>

lemmas sample_eval =
  bindE_def returnE_def throwE_def throwIf_def liftE_def catchE_def bindR_def throwIfR_def memory_defs
  mem_clients_findById_def mem_par_insert_def mem_par_peek_def mem_par_consume_def mem_grants_insert_def
  mem_grants_find_def mem_grants_revoke_def mem_codes_insert_def mem_codes_redeem_def mem_at_insert_def
  mem_at_findByJti_def mem_at_revoke_def mem_rt_insert_def mem_rt_findByHash_def mem_rt_revoke_def
  mem_at_revokeByGrant_def mem_rt_revokeByGrant_def map_rows_def
  mem_int_insert_def mem_int_find_def mem_int_setSubject_def mem_int_complete_def
  mem_jti_act_def mem_jti_register_def mem_jti_sweep_def jti_key_def mem_keys_list_def mem_keys_insert_def
  mem_keys_setStatus_def
  redeemAuthorizationCode_def loadRefreshGrant_def check_code_def valid_grant_def verifyS256_def
  CODE_CHALLENGE_def unreserved_def is_alnum_def is_digit_def VSCHAR_def JKT_def DIGITS_def
  sha256Base64Url_def utf8_def utf8_char_def
  Let_def sample_metadata_def sample_verifier_def sample_code_def sample_grant_def
  sample_at_def sample_rt_def sample_store_def empty_store_def sample_registration_def sample_client_def
  sample_body_def sample_request_def sample_key_env_def sample_token_env_def sample_code_request_def
  sample_jkt_def sample_assertion_claims_def sample_proof_claims_def sample_url_def sample_json_def
  sample_session_def
  authenticateClient_def assertion_param_def find_client_def decodeSubjectHint_def loadClient_def
  verify_assertion_def check_assertion_def clientJwksSource_def clientKeyResolver_def verifyJws_def
  acceptedJwsAlgs_def FAPI2_JWS_ALGS_def replayId_def CLIENT_ASSERTION_TYPE_JWT_BEARER_def
  parseClientMetadata_def metadataSchema_def z_default_def z_optional_def z_required_def z_string_def
  z_enum_def z_boolean_def z_array_def z_url_def z_nonempty_def jwkSchema_def jwksSchema_def
  jwks_uri_throws_def
  verifyDpopProof_def check_proof_def check_alg_def check_jwk_def check_claims_def check_nonce_def
  dpop_replay_context_def dpop_replay_id_def dpop_expiry_def normalizeHtu_def
  sec_of_def js_date_def starts_with_def has_space_or_comma_def js_space_def trim_def words_of_def
  scopeAllowed_def redirectUriRegistered_def
  on_storage_def on_kstate_def on_repo_def server_keystore_def key_store_def server_allow_def limiter_for_def
  sample_state_def fresh_server_def fresh_limiter_def fresh_keystore_def allow_def sweep_windows_def
  guarded_def authenticate_def check_dpop_def is_form_def to_lower_def lower_char_def sample_urls_eq sample_paths_eq
  post_token_def token_handler_def token_context_def dispatch_grant_def handleAuthorizationCode_def
  handleRefreshToken_def requested_scope_def scopeSubset_def has_openid_def
  issueTokenSet_def issueAccessToken_def issueIdToken_def issueRefreshToken_def access_record_def
  refresh_record_def reply_with_def
  ensure_def init_def rotate_def actives_of_def get_keys_def put_keys_def new_record_def publicJwks_def
  signJwt_def mustActive_def kid_of_def

text \<open>Those a run of the interactive endpoints unfolds besides.\<close>

lemma sample_browser_sel [simp]:
  "rq_method (sample_browser_request m ps) = m" "rq_body (sample_browser_request m ps) = ps"
  "rq_query (sample_browser_request m ps) = ps"
  by (simp_all add: sample_browser_request_def)

lemma sample_csrf [simp]:
  "issueCsrfToken sample_ext ''sid'' ''secret'' \<noteq> []"
  "verifyCsrfToken sample_ext (Some (issueCsrfToken sample_ext ''sid'' ''secret'')) ''sid'' ''secret''"
proof -
  show "issueCsrfToken sample_ext ''sid'' ''secret'' \<noteq> []" by code_simp
  then show "verifyCsrfToken sample_ext (Some (issueCsrfToken sample_ext ''sid'' ''secret'')) ''sid'' ''secret''"
    by (simp add: verifyCsrfToken_iff)
qed

lemmas flow_eval = sample_eval
  authorize_def handleAuthorize_def authorize_peeked_def authorize_pushed_def authorize_silently_def
  client_or_page_def prompt_none_def needsReauthentication_def decision_or_deny_def decideAuthorization_def
  mock_evaluate_def session_user_def issueCodeForInteraction_def issueAuthorizationCode_def redirectCode_def
  buildRedirect_def sample_flow_def sample_par_def sample_interaction_def sample_authorize_env_def
  sample_consent_env_def sample_code_env_def sample_authz_request_def
  sample_params_valid [unfolded sample_client_def] post_consent_def loadInteractionContext_def
  interaction_context_of_def consent_for_def conclude_consent_def usable_def

text \<open>And those of the endpoints a token is presented to.\<close>

lemma sample_credentials [simp]: "dpop_credentials ''DPoP at'' = Some ''at''"
  by code_simp

lemmas resource_eval = sample_eval
  sample_userinfo_request_def sample_lookup_request_def sample_userinfo_env_def sample_lookup_env_def
  userinfo_def findAccessToken_def findRefreshToken_def verified_jti_def userinfo_for_def userinfo_proof_key_def
  userinfo_answer_def userinfo_context_def resolveToken_def resolved_clientId_def known_hint_def
  post_introspect_def introspect_handler_def introspection_def post_revoke_def revoke_handler_def
  revoke_resolved_def mem_at_revoke_def

end
