(* ===== verification/DomainGuarantees.thy ===== *)
theory DomainGuarantees
  imports Samples
begin

text \<open>
  What the domain layer guarantees on the in-memory storage: the facts the components prove for
  any storage that meets its contract, for the adapter that does. Each comes with a run on the
  samples in which its hypotheses hold.
\<close>

text \<open>The lemmas of the domain components, on the in-memory adapter.\<close>

lemmas memory_contract = mem.storage_contract_axioms
lemmas memory_reliable = mem.reliable_storage_axioms
lemmas memory_par = mem.exact_par_port_axioms
lemmas memory_replay = mem.jti_port_axioms

lemma sample_store_ok [simp]: "mem_ok sample_store"
  by (simp add: mem_ok_def sample_store_def empty_store_def)

section \<open>Client authentication\<close>

text \<open>Property C2. A client is authenticated only on one assertion, of the JWT-bearer type, with no other
  credential in the request, whose unverified subject is a registered client with valid metadata, which
  verifies against that client's registered keys under an accepted algorithm, and whose verified claims
  name the client as issuer and subject and this server as audience, within their validity window;
  and the assertion's identifier was fresh and is remembered until the assertion expires.\<close>

theorem client_authenticated:
  assumes "mem_ok s"
    and "authenticateClient x createMemoryStorage config now body authorization s = (Inr c, s')"
  shows "\<exists>a claims e j i r.
    jget body ''client_assertion'' = Some (JStr a) \<and>
    jget body ''client_assertion_type'' = Some (JStr CLIENT_ASSERTION_TYPE_JWT_BEARER) \<and>
    \<not> present (jget body ''client_secret'') \<and> (authorization = None \<or> authorization = Some []) \<and>
    decodeSubjectHint x a = Some i \<and> map_of (m_clients s) i = Some r \<and> clientId c = cr_clientId r \<and>
    parseClientMetadata x (cr_metadata r) = Inr (metadata c) \<and>
    signed_by x config c a claims \<and> claims_ok config now c claims e j \<and>
    (str_of (jget body ''client_id'') = None \<or> str_of (jget body ''client_id'') = Some (clientId c)) \<and>
    \<not> a_live (mem_view s) ''client-assertion'' (replayId (clientId c) j) now \<and>
    (\<forall>t < js_date (e * 1000). a_live (mem_view s') ''client-assertion'' (replayId (clientId c) j) t)"
proof -
  from storage_contract.authenticateClient_Inr [OF memory_contract assms] obtain a claims e j i r where 1: "assertion_param body authorization = Inr a"
    "decodeSubjectHint x a = Some i" "a_clients (mem_view s) i = Some r"
    "clientId c = cr_clientId r" "parseClientMetadata x (cr_metadata r) = Inr (metadata c)"
    "signed_by x config c a claims" "claims_ok config now c claims e j"
    "str_of (jget body ''client_id'') = None \<or> str_of (jget body ''client_id'') = Some (clientId c)"
    "spec_jti_register ''client-assertion'' (replayId (clientId c) j) (js_date (e * 1000)) now
       (mem_view s) True (mem_view s')" by metis
  from 1(9) have "\<not> a_live (mem_view s) ''client-assertion'' (replayId (clientId c) j) now"
    "\<forall>t < js_date (e * 1000). a_live (mem_view s') ''client-assertion'' (replayId (clientId c) j) t"
    by (auto simp: spec_jti_register_def)
  moreover have "map_of (m_clients s) i = Some r" using 1(3) by (simp add: mem_view_def)
  ultimately show ?thesis using assertion_param_Inr [OF 1(1)] 1(2,4-8) by blast
qed

lemma sample_authenticated:
  "\<exists>s. authenticateClient sample_ext createMemoryStorage sample_config 1000000 sample_body None sample_store
      = (Inr sample_client, s)"
  by (simp add: sample_eval)

lemma client_authenticated_witness:
  "\<exists>claims e j. signed_by sample_ext sample_config sample_client ''h.b.s'' claims \<and>
     claims_ok sample_config 1000000 sample_client claims e j"
proof -
  obtain s where "authenticateClient sample_ext createMemoryStorage sample_config 1000000 sample_body None sample_store
      = (Inr sample_client, s)" using sample_authenticated ..
  from client_authenticated [OF sample_store_ok this] show ?thesis
    by (auto simp: sample_body_def)
qed

section \<open>DPoP\<close>

text \<open>Property C3. A DPoP proof is accepted only if it is the one header of the request, of the right type,
  signed under an accepted algorithm with the key it embeds, which has no private part, and made for this
  method, this URI, this access token where one is presented, and this time, with a server nonce where they
  are required; the result is the thumbprint of that key; and the proof's identifier was fresh and is
  remembered until the proof is too old.\<close>

theorem proof_accepted:
  assumes "mem_ok s" and "verifyDpopProof x createMemoryStorage config now ctx h s = (Inr jkt, s')"
  shows "\<exists>pf j iat. h = Hdr_one pf \<and> proof_ok x config now ctx pf jkt j iat \<and>
    \<not> a_live (mem_view s) (dpop_replay_context x ctx) (dpop_replay_id jkt j) now \<and>
    (\<forall>t < dpop_expiry config iat. a_live (mem_view s') (dpop_replay_context x ctx) (dpop_replay_id jkt j) t)"
  using jti_port.verifyDpopProof_Inr [OF memory_replay assms] by metis

definition sample_context :: dpop_context where
  "sample_context = \<lparr>dc_htm = ''POST'', dc_htu = ''https://as/token'', dc_ath = None, dc_replayContext = None\<rparr>"

lemma sample_proof_accepted:
  "\<exists>s. verifyDpopProof sample_ext createMemoryStorage sample_config 1000000 sample_context (Hdr_one ''p'') sample_store
      = (Inr sample_jkt, s)"
  by (simp add: sample_eval sample_context_def)

lemma proof_accepted_witness:
  "\<exists>j iat. proof_ok sample_ext sample_config 1000000 sample_context ''p'' sample_jkt j iat"
proof -
  obtain s where "verifyDpopProof sample_ext createMemoryStorage sample_config 1000000 sample_context
      (Hdr_one ''p'') sample_store = (Inr sample_jkt, s)" using sample_proof_accepted ..
  from proof_accepted [OF sample_store_ok this] show ?thesis by auto
qed

section \<open>Codes and refresh tokens\<close>

text \<open>Property C8. A code is redeemed, to its row and its grant, exactly if the row is there, unused and
  unexpired, was issued to this client for this redirect URI, the verifier hashes to its challenge, the
  DPoP key is the bound one where one was bound, and the grant is not revoked.\<close>

theorem code_redeemed_iff:
  assumes "mem_ok s"
  shows "(\<exists>s'. redeemAuthorizationCode x createMemoryStorage now code cid uri ver jkt s = (Inr (r, g), s')) \<longleftrightarrow>
    map_of (m_codes s) (sha256Base64Url x code) = Some (r, None) \<and> now < code_expiresAt r \<and>
    code_matches x cid uri ver jkt r \<and> map_of (m_grants s) (code_grantId r) = Some g \<and> grant_revokedAt g = None"
  using reliable_storage.redeem_iff [OF memory_reliable assms] by (simp add: mem_view_def)

lemma sample_code_matches:
  "code_matches sample_ext ''c'' (Some ''https://app/cb'') (Some sample_verifier) jkt sample_code"
  by (simp add: code_matches_def sample_eval)

lemma code_redeemed_iff_witness:
  "\<exists>s'. redeemAuthorizationCode sample_ext createMemoryStorage 1000000 ''code'' ''c'' (Some ''https://app/cb'')
      (Some sample_verifier) sample_jkt sample_store = (Inr (sample_code, sample_grant), s')"
  unfolding code_redeemed_iff [OF sample_store_ok]
  using sample_code_matches
  by (simp add: sample_store_def empty_store_def sample_code_def sample_grant_def sha256Base64Url_def utf8_def utf8_char_def)

text \<open>Property C10. An attempt to redeem a code that was already used fails, whatever else it presents, and revokes
  the code's grant and every access and refresh token issued under it; other grants and their tokens are
  left as they were.\<close>

theorem code_replay_revokes:
  assumes "mem_ok s" and "map_of (m_codes s) (sha256Base64Url x code) = Some (r, Some t0)"
  shows "\<exists>s' e. redeemAuthorizationCode x createMemoryStorage now code cid uri ver jkt s = (Inl e, s') \<and>
    grant_dead (code_grantId r) (mem_view s') \<and>
    (\<forall>g. g \<noteq> code_grantId r \<longrightarrow> map_of (m_grants s') g = map_of (m_grants s) g) \<and>
    (\<forall>j row. map_of (m_accessTokens s) j = Some row \<longrightarrow> at_grantId row \<noteq> code_grantId r \<longrightarrow>
       map_of (m_accessTokens s') j = Some row)"
proof -
  from assms(2) have u: "a_codes (mem_view s) (sha256Base64Url x code) = Some (r, Some t0)"
    by (simp add: mem_view_def)
  show ?thesis
  proof (rule reliable_storage.redeem_replay [OF memory_reliable assms(1) u])
    fix s' assume run: "redeemAuthorizationCode x createMemoryStorage now code cid uri ver jkt s =
      (Inl (invalidGrant (''authorization code has already been used [RFC6749 '' @ sec @ ''4.1.2]'')), s')"
      and v: "mem_view s' = revoke_all (code_grantId r) now (mem_view s)"
    have "a_grants (mem_view s') g = a_grants (mem_view s) g" if "g \<noteq> code_grantId r" for g
      unfolding v using that by (rule revoke_all_frame)
    moreover have "a_at (mem_view s') j = Some row"
      if "a_at (mem_view s) j = Some row" "at_grantId row \<noteq> code_grantId r" for j row
      unfolding v using that by (rule revoke_all_frame)
    moreover have "grant_dead (code_grantId r) (mem_view s')" unfolding v by (rule revoke_all_dead)
    ultimately show ?thesis using run by (auto simp: mem_view_def)
  qed
qed

lemma code_replay_revokes_witness:
  "\<exists>s e. redeemAuthorizationCode sample_ext createMemoryStorage 1000000 ''code'' ''c'' None None []
      (sample_store\<lparr>m_codes := [(base64url ''code'', (sample_code, Some 999000))]\<rparr>) = (Inl e, s) \<and>
     grant_dead ''g'' (mem_view s)"
proof -
  let ?s = "sample_store\<lparr>m_codes := [(base64url ''code'', (sample_code, Some 999000))]\<rparr>"
  have ok: "mem_ok ?s" using sample_store_ok by (simp add: mem_ok_def)
  have "map_of (m_codes ?s) (sha256Base64Url sample_ext ''code'') = Some (sample_code, Some 999000)"
    by (simp add: sha256Base64Url_def utf8_def utf8_char_def)
  from code_replay_revokes [where now = 1000000 and cid = "''c''" and uri = None and ver = None and jkt = "[]", OF ok this]
  have "\<exists>s' e. redeemAuthorizationCode sample_ext createMemoryStorage 1000000 ''code'' ''c'' None None [] ?s
      = (Inl e, s') \<and> grant_dead (code_grantId sample_code) (mem_view s')" by blast
  moreover have "code_grantId sample_code = ''g''" by (simp add: sample_code_def)
  ultimately show ?thesis by simp
qed

text \<open>Property C25. A refresh token gives access to a grant exactly if its row is there, unrevoked and unexpired,
  was issued to this client, and the grant is not revoked.\<close>

theorem refresh_grant_iff:
  assumes "mem_ok s"
  shows "(\<exists>s'. loadRefreshGrant x createMemoryStorage now token cid s = (Inr (g, scope), s')) \<longleftrightarrow>
    (\<exists>r. map_of (m_refreshTokens s) (sha256Base64Url x token) = Some r \<and> rt_revokedAt r = None \<and>
       now < rt_expiresAt r \<and> rt_clientId r = cid \<and> scope = rt_scope r \<and>
       map_of (m_grants s) (rt_grantId r) = Some g \<and> grant_revokedAt g = None)"
  using reliable_storage.loadRefreshGrant_iff [OF memory_reliable assms] by (simp add: mem_view_def)

lemma refresh_grant_iff_witness:
  "\<exists>s'. loadRefreshGrant sample_ext createMemoryStorage 1000000 ''rt'' ''c'' sample_store
      = (Inr (sample_grant, ''openid profile''), s')"
  unfolding refresh_grant_iff [OF sample_store_ok]
  by (simp add: sample_store_def empty_store_def sample_rt_def sample_grant_def sha256Base64Url_def utf8_def utf8_char_def)

section \<open>Pushed requests\<close>

text \<open>Property C24. A push succeeds only for a request that is valid for the client and has no \<open>request_uri\<close>;
  it binds the request to the key of the DPoP proof if there is one, which must agree with a requested
  \<open>dpop_jkt\<close>; and it stores exactly that request, unused, for the configured time, under the random
  reference it returns, in a form that validates again to the bound request.\<close>

theorem push_stores:
  assumes "mem_ok s" and "\<And>j. h = Some j \<Longrightarrow> JKT j"
    and "pushAuthorizationRequest createMemoryStorage config now bytes body c h s = (Inr (uri, n), s')"
  shows "\<exists>v jkt. validateAuthorizationRequest body c = Inr v \<and> \<not> present (jget body ''request_uri'') \<and>
    jkt = (case h of Some j \<Rightarrow> Some j | None \<Rightarrow> vr_dpopJkt v) \<and>
    (h \<noteq> None \<longrightarrow> vr_dpopJkt v \<noteq> None \<longrightarrow> vr_dpopJkt v = h) \<and>
    uri = REQUEST_URI_PREFIX @ base64url bytes \<and> n = cfg_parTtlSec config \<and>
    map_of (m_par s') uri = Some (stored_request config now uri c v jkt, None) \<and>
    validateAuthorizationRequest (params_body (par_params (stored_request config now uri c v jkt))) c
      = Inr (v\<lparr>vr_dpopJkt := jkt\<rparr>)"
proof -
  obtain v jkt where p: "validateAuthorizationRequest body c = Inr v" "\<not> present (jget body ''request_uri'')"
    "jkt = (case h of Some j \<Rightarrow> Some j | None \<Rightarrow> vr_dpopJkt v)"
    "h \<noteq> None \<longrightarrow> vr_dpopJkt v \<noteq> None \<longrightarrow> vr_dpopJkt v = h"
    "uri = REQUEST_URI_PREFIX @ base64url bytes" "n = cfg_parTtlSec config"
    "mem_view s' = spec_par_insert (stored_request config now uri c v jkt) (mem_view s)"
    "validateAuthorizationRequest (params_body (par_params (stored_request config now uri c v jkt))) c
      = Inr (v\<lparr>vr_dpopJkt := jkt\<rparr>)"
    using exact_par_port.push_Inr [OF memory_par assms(1,3,2)] by metis
  from p(7) have "a_par (mem_view s') uri = Some (stored_request config now uri c v jkt, None)"
    by (simp add: spec_par_insert_def stored_request_def)
  then have "map_of (m_par s') uri = Some (stored_request config now uri c v jkt, None)"
    by (simp add: mem_view_def)
  with p show ?thesis by blast
qed

definition sample_push_body :: jobj where
  "sample_push_body =
     [(''response_type'', JStr ''code''), (''redirect_uri'', JStr ''https://app/cb''), (''scope'', JStr ''openid''),
      (''code_challenge'', JStr (base64url sample_verifier)), (''code_challenge_method'', JStr ''S256'')]"

lemma push_stores_witness:
  "\<exists>s uri r. pushAuthorizationRequest createMemoryStorage sample_config 1000000 ''r'' sample_push_body sample_client
      (Some sample_jkt) sample_store = (Inr (uri, 90), s) \<and> map_of (m_par s) uri = Some (r, None) \<and>
      par_dpopJkt r = Some sample_jkt"
proof -
  have jkt: "JKT sample_jkt" by code_simp
  have "case validateAuthorizationRequest sample_push_body sample_client of Inr v \<Rightarrow> vr_dpopJkt v = None | Inl _ \<Rightarrow> False"
    by code_simp
  then obtain v where v: "validateAuthorizationRequest sample_push_body sample_client = Inr v" "vr_dpopJkt v = None"
    by (auto split: sum.splits)
  have body: "jget sample_push_body ''request_uri'' = None" by (simp add: sample_push_body_def)
  have "\<exists>uri s. pushAuthorizationRequest createMemoryStorage sample_config 1000000 ''r'' sample_push_body sample_client
      (Some sample_jkt) sample_store = (Inr (uri, 90), s)"
    using JKT_not_Nil [OF jkt]
    by (simp add: pushAuthorizationRequest_def Let_def body present_def bind_jkt_def v bindE_def throwIf_def liftE_def
        throwIfR_def bindR_def returnE_def memory_defs)
  then obtain uri s where run: "pushAuthorizationRequest createMemoryStorage sample_config 1000000 ''r''
      sample_push_body sample_client (Some sample_jkt) sample_store = (Inr (uri, 90), s)" by blast
  have "JKT j" if "Some sample_jkt = Some j" for j using that jkt by simp
  from push_stores [OF sample_store_ok this run] obtain w
    where "map_of (m_par s) uri = Some (stored_request sample_config 1000000 uri sample_client w (Some sample_jkt), None)"
    by auto
  moreover have "par_dpopJkt (stored_request sample_config 1000000 uri sample_client w (Some sample_jkt)) = Some sample_jkt"
    by (simp add: stored_request_def)
  ultimately show ?thesis using run by blast
qed

section \<open>Two gaps in the replay guards\<close>

definition fractional_ext :: ext where
  "fractional_ext = sample_ext\<lparr>x_jwt_verify := (\<lambda>_ _ _. Jose_ok (map_set ''exp'' (JNum (2001 / 2)) sample_assertion_claims))\<rparr>"

text \<open>A client assertion whose expiry is not a whole number of seconds can be accepted twice: the expiry
  is compared with the clock rounded down to seconds, the replay entry is dropped by the clock in
  milliseconds, so in the second the assertion expires in, it is still accepted and no longer remembered.\<close>

theorem fractional_assertion_replayed:
  "\<exists>s1 s2. authenticateClient fractional_ext createMemoryStorage sample_config 1000100 sample_body None sample_store
       = (Inr sample_client, s1) \<and>
     authenticateClient fractional_ext createMemoryStorage sample_config 1000600 sample_body None s1
       = (Inr sample_client, s2)"
  by (simp add: sample_eval fractional_ext_def)

definition skewless_config :: app_config where
  "skewless_config = sample_config\<lparr>cfg_clockSkewFutureAcceptSec := 0\<rparr>"

text \<open>With the smallest clock skew the configuration allows, a DPoP proof can be accepted twice in
  the last second of its lifetime: it is still young enough when its replay entry has already expired.\<close>

theorem proof_replayed_without_skew:
  "\<exists>s1 s2. verifyDpopProof sample_ext createMemoryStorage skewless_config 1000000 sample_context (Hdr_one ''p'') sample_store
       = (Inr sample_jkt, s1) \<and>
     verifyDpopProof sample_ext createMemoryStorage skewless_config 1300000 sample_context (Hdr_one ''p'') s1
       = (Inr sample_jkt, s2)"
  by (simp add: sample_eval sample_context_def skewless_config_def)

end
