(* ===== verification/RequestForm.thy ===== *)
theory RequestForm
  imports AuthzRequest
begin

text \<open>
  The form of an acceptable authorization request, stated on the request itself and apart from the code that checks
  it: which members may be there, what they may look like, and what the validated request holds. The validation of
  AuthzRequest accepts exactly the requests of this form.
\<close>

section \<open>Words\<close>

text \<open>A word of a text: a maximal non-empty piece without spaces.\<close>

definition word_in :: "string \<Rightarrow> string \<Rightarrow> bool" where
  "word_in w s \<longleftrightarrow> w \<noteq> [] \<and> space \<notin> set w \<and> (\<exists>a b. space # s @ [space] = a @ space # w @ space # b)"

lemma same_prefix: "c \<notin> set u \<Longrightarrow> c \<notin> set w \<Longrightarrow> u @ c # r = w @ c # b \<longleftrightarrow> u = w \<and> r = b"
  by (auto simp: append_eq_append_conv2 append_eq_Cons_conv Cons_eq_append_conv)

lemma split_on_iff: "w \<in> set (split_on c s) \<longleftrightarrow> c \<notin> set w \<and> (\<exists>a b. c # s @ [c] = a @ c # w @ c # b)"
proof (induction s rule: length_induct)
  case (1 s)
  show ?case
  proof (cases "c \<in> set s")
    case False
    have "(\<exists>a b. c # s @ [c] = a @ c # w @ c # b) \<longleftrightarrow> w = s" if w: "c \<notin> set w"
    proof
      assume "\<exists>a b. c # s @ [c] = a @ c # w @ c # b"
      then obtain a b where ab: "c # s @ [c] = a @ c # w @ c # b" by blast
      have "a = []"
      proof (rule ccontr)
        assume "a \<noteq> []"
        with ab obtain a' where "a = c # a'" by (cases a) auto
        with ab have "s @ [c] = a' @ c # w @ c # b" by simp
        then have "count_list (s @ [c]) c = count_list (a' @ c # w @ c # b) c" by (simp only:)
        with False show False by simp
      qed
      with ab same_prefix [OF False w] show "w = s" by simp
    next
      assume "w = s"
      then have "c # s @ [c] = [] @ c # w @ c # []" by simp
      then show "\<exists>a b. c # s @ [c] = a @ c # w @ c # b" by blast
    qed
    with False show ?thesis by (auto simp: split_on_plain)
  next
    case True
    then obtain u t where s: "s = u @ c # t" and u: "c \<notin> set u" by (meson split_list_first)
    have "(\<exists>a b. c # s @ [c] = a @ c # w @ c # b) \<longleftrightarrow> w = u \<or> (\<exists>a b. c # t @ [c] = a @ c # w @ c # b)" if w: "c \<notin> set w"
    proof
      assume "\<exists>a b. c # s @ [c] = a @ c # w @ c # b"
      then obtain a b where ab: "c # u @ c # t @ [c] = a @ c # w @ c # b" by (auto simp: s)
      show "w = u \<or> (\<exists>a b. c # t @ [c] = a @ c # w @ c # b)"
      proof (cases a)
        case Nil
        with ab same_prefix [OF u w] show ?thesis by auto
      next
        case (Cons d a')
        with ab have e: "u @ (c # t @ [c]) = a' @ (c # w @ c # b)" by auto
        then obtain m where "u = a' @ m \<and> m @ c # t @ [c] = c # w @ c # b \<or> u @ m = a' \<and> c # t @ [c] = m @ c # w @ c # b"
          unfolding append_eq_append_conv2 by blast
        then have "c # t @ [c] = m @ c # w @ c # b"
          using u by (cases m) auto
        then show ?thesis by blast
      qed
    next
      assume "w = u \<or> (\<exists>a b. c # t @ [c] = a @ c # w @ c # b)"
      then show "\<exists>a b. c # s @ [c] = a @ c # w @ c # b"
      proof
        assume "w = u"
        then have "c # s @ [c] = [] @ c # w @ c # t @ [c]" by (simp add: s)
        then show ?thesis by blast
      next
        assume "\<exists>a b. c # t @ [c] = a @ c # w @ c # b"
        then obtain a b where "c # t @ [c] = a @ c # w @ c # b" by blast
        then have "c # s @ [c] = (c # u @ a) @ c # w @ c # b" by (simp add: s)
        then show ?thesis by blast
      qed
    qed
    moreover have "w \<in> set (split_on c t) \<longleftrightarrow> c \<notin> set w \<and> (\<exists>a b. c # t @ [c] = a @ c # w @ c # b)"
      using 1 by (simp add: s)
    ultimately show ?thesis using u by (auto simp: s split_on_append)
  qed
qed

lemma words_of_iff: "w \<in> set (words_of s) \<longleftrightarrow> word_in w s"
  by (auto simp: words_of_def word_in_def split_on_iff)

lemma concat_words: "concat (words_of s) = filter (\<lambda>c. c \<noteq> space) s"
proof -
  have "concat (split_on c s) = filter (\<lambda>x. x \<noteq> c) s" for c
  proof (induction s)
    case (Cons x s)
    obtain w ws where "split_on c s = w # ws" by (meson list.exhaust split_on_not_Nil)
    with Cons show ?case by auto
  qed simp
  moreover have "concat (filter (\<lambda>w. w \<noteq> []) ws) = concat ws" for ws :: "string list" by (induction ws) auto
  ultimately show ?thesis by (simp add: words_of_def)
qed

lemma alone_iff: "w \<in> set (words_of p) \<Longrightarrow> 1 < length (words_of p) \<longleftrightarrow> filter (\<lambda>c. c \<noteq> space) p \<noteq> w"
proof -
  assume w: "w \<in> set (words_of p)"
  then obtain us vs where ws: "words_of p = us @ w # vs" by (meson split_list)
  have e: "concat us = [] \<longleftrightarrow> us = []" "concat vs = [] \<longleftrightarrow> vs = []"
    using words_of_not_empty [of _ p] by (auto simp: ws)
  have "concat (words_of p) = w \<longleftrightarrow> us = [] \<and> vs = []"
    using e by (auto simp: ws dest: arg_cong [where f = length])
  then show ?thesis by (auto simp: concat_words [symmetric] ws)
qed

section \<open>The form\<close>

text \<open>A parameter is given by a member that is a non-empty string.\<close>

definition given :: "jobj \<Rightarrow> string \<Rightarrow> string option" where
  "given body n = (case jget body n of Some (JStr s) \<Rightarrow> if s = [] then None else Some s | _ \<Rightarrow> None)"

definition printable :: "nat \<Rightarrow> string option \<Rightarrow> bool" where
  "printable n v \<longleftrightarrow> (\<forall>s. v = Some s \<longrightarrow> length s \<le> n \<and> (\<forall>c\<in>set s. CHR '' '' \<le> c \<and> c \<le> CHR ''~''))"

definition base64url_chars :: "char set" where
  "base64url_chars =
     {CHR ''A''..CHR ''Z''} \<union> {CHR ''a''..CHR ''z''} \<union> {CHR ''0''..CHR ''9''} \<union> {CHR ''-'', CHR ''_''}"

definition kept_names :: "string list" where
  "kept_names = [''acr_values'', ''max_age'', ''login_hint'', ''id_token_hint'', ''ui_locales'', ''claims'', ''claims_locales'',
     ''display'']"

definition form_names :: "string list" where
  "form_names = kept_names @ [''request'', ''client_id'', ''response_type'', ''redirect_uri'', ''scope'', ''code_challenge'',
     ''code_challenge_method'', ''state'', ''nonce'', ''dpop_jkt'', ''prompt'']"

definition request_form :: "jobj \<Rightarrow> client \<Rightarrow> authz_request \<Rightarrow> bool" where
  "request_form body cl v \<longleftrightarrow>
     (\<forall>n\<in>set form_names. \<forall>l. jget body n \<noteq> Some (JArr l)) \<and> given body ''request'' = None \<and>
     given body ''client_id'' \<in> {None, Some (clientId cl)} \<and> vr_clientId v = clientId cl \<and>
     given body ''response_type'' = Some ''code'' \<and> vr_responseType v = ''code'' \<and>
     given body ''redirect_uri'' = Some (vr_redirectUri v) \<and> vr_redirectUri v \<in> set (redirect_uris (metadata cl)) \<and>
     vr_scope v = (case given body ''scope'' of Some s \<Rightarrow> if \<exists>c\<in>set s. \<not> js_space c then s else md_scope (metadata cl)
                   | None \<Rightarrow> md_scope (metadata cl)) \<and>
     printable 512 (Some (vr_scope v)) \<and> (\<forall>w. word_in w (vr_scope v) \<longrightarrow> word_in w (md_scope (metadata cl))) \<and>
     given body ''code_challenge'' = Some (vr_codeChallenge v) \<and> length (vr_codeChallenge v) \<in> {43..128} \<and>
     set (vr_codeChallenge v) \<subseteq> base64url_chars \<union> {CHR ''.'', CHR ''~''} \<and>
     given body ''code_challenge_method'' = Some ''S256'' \<and> vr_codeChallengeMethod v = ''S256'' \<and>
     vr_state v = given body ''state'' \<and> printable 512 (vr_state v) \<and>
     vr_nonce v = given body ''nonce'' \<and> printable 512 (vr_nonce v) \<and>
     vr_dpopJkt v = given body ''dpop_jkt'' \<and> (\<forall>k. vr_dpopJkt v = Some k \<longrightarrow> length k = 43 \<and> set k \<subseteq> base64url_chars) \<and>
     vr_prompt v = given body ''prompt'' \<and>
     (\<forall>p. vr_prompt v = Some p \<longrightarrow> word_in ''none'' p \<longrightarrow> filter (\<lambda>c. c \<noteq> space) p = ''none'') \<and>
     (\<forall>n\<in>set kept_names. printable 2048 (given body n)) \<and>
     vr_passthrough v = [(n, s). n \<leftarrow> kept_names, Some s \<leftarrow> [given body n]] \<and>
     (\<forall>d. given body ''max_age'' = Some d \<longrightarrow> set d \<subseteq> {CHR ''0''..CHR ''9''}) \<and>
     vr_maxAge v = map_option js_Number (given body ''max_age'')"

section \<open>The validation accepts exactly that form\<close>

lemma param_form: "param body n = Inr w \<longleftrightarrow> (\<forall>l. jget body n \<noteq> Some (JArr l)) \<and> w = given body n"
  by (auto simp: param_def given_def split: option.splits json.splits)

lemma printable_iff: "printable n v \<longleftrightarrow> short_vschar n v"
  by (auto simp: printable_def short_vschar_def VSCHAR_def list_all_iff less_eq_char_def split: option.splits)

lemma collect_form:
  "collect_passthrough body ns = Inr pt \<longleftrightarrow>
     (\<forall>n\<in>set ns. (\<forall>l. jget body n \<noteq> Some (JArr l)) \<and> printable 2048 (given body n)) \<and>
     pt = [(n, s). n \<leftarrow> ns, Some s \<leftarrow> [given body n]]"
proof (induction ns arbitrary: pt)
  case (Cons n ns)
  show ?case
    by (cases "given body n") (auto simp: act_iff param_form Cons.IH printable_def VSCHAR_def list_all_iff less_eq_char_def
        not_le not_less)
qed auto

lemma trim_Nil_iff: "trim s = [] \<longleftrightarrow> (\<forall>c\<in>set s. js_space c)"
proof -
  have "(\<forall>c\<in>set (dropWhile js_space s). js_space c) \<longleftrightarrow> (\<forall>c\<in>set s. js_space c)" by (induction s) auto
  then show ?thesis by (simp add: trim_def dropWhile_eq_Nil_conv)
qed

lemma effective_scope_form:
  "effective_scope cl raw = (case raw of Some s \<Rightarrow> if \<exists>c\<in>set s. \<not> js_space c then s else md_scope (metadata cl)
                             | None \<Rightarrow> md_scope (metadata cl))"
  by (auto simp: effective_scope_def trim_Nil_iff split: option.splits)

lemma challenge_form:
  "CODE_CHALLENGE s \<longleftrightarrow> length s \<in> {43..128} \<and> set s \<subseteq> base64url_chars \<union> {CHR ''.'', CHR ''~''}"
  by (auto simp: CODE_CHALLENGE_def unreserved_def is_alnum_def is_digit_def list_all_iff base64url_chars_def less_eq_char_def)

lemma jkt_form: "JKT s \<longleftrightarrow> length s = 43 \<and> set s \<subseteq> base64url_chars"
  by (auto simp: JKT_def is_alnum_def is_digit_def list_all_iff base64url_chars_def less_eq_char_def)

lemma digits_form: "s \<noteq> [] \<Longrightarrow> DIGITS s \<longleftrightarrow> set s \<subseteq> {CHR ''0''..CHR ''9''}"
  by (auto simp: DIGITS_def is_digit_def list_all_iff less_eq_char_def)

lemma scope_form: "scopeAllowed cl s \<longleftrightarrow> (\<forall>w. word_in w s \<longrightarrow> word_in w (md_scope (metadata cl)))"
  by (auto simp: scopeAllowed_def Let_def list_all_iff words_of_iff)

lemma prompt_form:
  "(case v of Some p \<Rightarrow> \<not> (''none'' \<in> set (words_of p) \<and> 1 < length (words_of p)) | None \<Rightarrow> True) \<longleftrightarrow>
     (\<forall>p. v = Some p \<longrightarrow> word_in ''none'' p \<longrightarrow> filter (\<lambda>c. c \<noteq> space) p = ''none'')"
  using alone_iff [of "''none''"] by (auto simp: words_of_iff split: option.split)

lemma jkt_case_form:
  "(case v of Some k \<Rightarrow> JKT k | None \<Rightarrow> True) \<longleftrightarrow> (\<forall>k. v = Some k \<longrightarrow> length k = 43 \<and> set k \<subseteq> base64url_chars)"
  by (auto simp: jkt_form split: option.split)

lemma printable_Some: "printable n (Some s) \<longleftrightarrow> VSCHAR s \<and> length s \<le> n"
  by (simp add: printable_iff short_vschar_def)

lemma given_not_Nil: "given body n = Some s \<Longrightarrow> s \<noteq> []"
  by (auto simp: given_def split: option.splits json.splits if_splits)

lemma max_age_form:
  "(case given body n of Some d \<Rightarrow> DIGITS d | None \<Rightarrow> True) \<longleftrightarrow>
     (\<forall>d. given body n = Some d \<longrightarrow> set d \<subseteq> {CHR ''0''..CHR ''9''})"
  using digits_form given_not_Nil by (auto split: option.split)

lemma kept_PASSTHROUGH: "PASSTHROUGH_PARAMS = kept_names"
  by (simp add: PASSTHROUGH_PARAMS_def kept_names_def)

lemma request_form_iff: "request_ok body cl v \<longleftrightarrow> request_form body cl v"
proof -
  have names: "(\<forall>n\<in>set form_names. Q n) \<longleftrightarrow> (\<forall>n\<in>set kept_names. Q n) \<and> Q ''max_age'' \<and> Q ''request'' \<and> Q ''client_id'' \<and>
      Q ''response_type'' \<and> Q ''redirect_uri'' \<and> Q ''scope'' \<and> Q ''code_challenge'' \<and> Q ''code_challenge_method'' \<and>
      Q ''state'' \<and> Q ''nonce'' \<and> Q ''dpop_jkt'' \<and> Q ''prompt''" for Q
    by (auto simp: form_names_def kept_names_def)
  show ?thesis
    unfolding request_ok_def request_form_def param_form collect_form kept_PASSTHROUGH names scope_form printable_iff [symmetric]
      challenge_form prompt_form redirectUriRegistered_def
    by (simp add: max_age_form jkt_case_form effective_scope_form printable_Some ball_conj_distrib
        conj_disj_distribL [symmetric] eq_commute [of _ "given body _"])
      (rule iffI; elim conjE; simp)
qed

end
