(* ===== verification/ComponentProperties.thy ===== *)
theory ComponentProperties
  imports Samples RequestForm
begin

text \<open>
  What the components guarantee by themselves, put together from their lemmas: the forms of data
  that survive a round trip, the validations and what passes them, the limits of the two bounded
  tables, the pages, and the keystore.
\<close>

section \<open>Sessions\<close>

text \<open>Property C26. A session cookie opens exactly if it is a payload, a dot and the MAC of that payload under
  the session secret, the payload decodes to a session, and the session has not expired; what it
  opens to is that session.\<close>

theorem session_opens_iff:
  "openSession x value secret nowSec = Some s \<longleftrightarrow>
     (\<exists>payload j. value = Some (payload @ ''.'' @ session_mac x secret payload) \<and> payload \<noteq> [] \<and>
        CHR ''.'' \<notin> set payload \<and> x_json_parse x (base64url_decode payload) = Some j \<and>
        session_of_json j = Some s \<and> of_int nowSec < ls_exp s)"
  by (rule openSession_iff)

text \<open>A session sealed under a secret opens under it, to itself, until it expires, for a JSON
  library that parses back what it prints.\<close>

theorem session_roundtrip:
  assumes "x_json_parse x (x_json_stringify x (session_json s)) = Some (session_json s)"
    and "x_json_stringify x (session_json s) \<noteq> []"
  shows "openSession x (Some (sealSession x s secret)) secret nowSec =
           (if ls_exp s \<le> of_int nowSec then None else Some s)"
  using assms by (rule openSession_seal)

lemma session_roundtrip_witness:
  "openSession sample_ext (Some (sealSession sample_ext sample_session ''k'')) ''k'' 1000 = Some sample_session"
proof -
  have "x_json_parse sample_ext (x_json_stringify sample_ext (session_json sample_session)) =
      Some (session_json sample_session)" by (simp add: sample_json_def)
  from session_roundtrip [OF this] show ?thesis by (simp add: sample_session_def)
qed

text \<open>The CSRF check accepts, for a session identifier, exactly the token issued for it under the
  secret; and the text whose MAC a token is can never be the payload of a session cookie, so no token is
  the MAC of a session although both are made with the same secret.\<close>

theorem csrf_tokens:
  "(verifyCsrfToken x token sid secret \<longleftrightarrow>
      token = Some (issueCsrfToken x sid secret) \<and> issueCsrfToken x sid secret \<noteq> []) \<and>
   issueCsrfToken x sid secret = base64url (x_hmac x secret (utf8 (''csrf:'' @ sid))) \<and>
   ''csrf:'' @ sid \<noteq> base64url p"
  using verifyCsrfToken_iff csrf_data_not_payload by (simp add: issueCsrfToken_def)

section \<open>What passes the validations\<close>

text \<open>Property C27. An authorization request is accepted exactly if it has the form spelled out in
  \<open>request_form\<close>: no known parameter repeated, no request object, \<open>response_type=code\<close>, a redirect URI that is one
  of the client's, printable scope words all of the client's registration, an S256 challenge of 43 to 128 unreserved
  characters, bounded printable \<open>state\<close>, \<open>nonce\<close> and further parameters, a \<open>dpop_jkt\<close> of 43 base64url characters, a
  \<open>prompt\<close> that does not combine \<open>none\<close> with another word and a \<open>max_age\<close> of digits; and the result holds exactly the
  parameters of the request, with the registered scope where none was requested.\<close>

theorem authorization_request_accepted_iff:
  "validateAuthorizationRequest body c = Inr v \<longleftrightarrow> request_form body c v"
  by (simp only: validate_iff request_form_iff)

text \<open>The stored form of an accepted request, with the DPoP key it was bound to when it was pushed,
  is accepted again for the same client, as the same request with that key: the authorization
  endpoint, which validates a pushed request a second time, works on what was pushed.\<close>

theorem stored_request_revalidates:
  assumes "validateAuthorizationRequest body c = Inr v" and "\<And>k. j = Some k \<Longrightarrow> JKT k"
  shows "validateAuthorizationRequest (params_body (set_opt ''dpop_jkt'' j (toStoredParams v))) c
           = Inr (v\<lparr>vr_dpopJkt := (case j of None \<Rightarrow> vr_dpopJkt v | Some k \<Rightarrow> Some k)\<rparr>)"
  using assms by (rule validate_stored)

definition sample_authz_body :: jobj where
  "sample_authz_body =
     [(''response_type'', JStr ''code''), (''redirect_uri'', JStr ''https://app/cb''), (''scope'', JStr ''openid''),
      (''code_challenge'', JStr (base64url sample_verifier)), (''code_challenge_method'', JStr ''S256''),
      (''state'', JStr ''st''), (''nonce'', JStr ''n'')]"

lemma sample_authz_valid: "\<exists>v. validateAuthorizationRequest sample_authz_body sample_client = Inr v"
proof -
  have "case validateAuthorizationRequest sample_authz_body sample_client of Inr _ \<Rightarrow> True | Inl _ \<Rightarrow> False"
    by code_simp
  then show ?thesis by (auto split: sum.splits)
qed

lemma stored_request_revalidates_witness:
  "\<exists>v w. validateAuthorizationRequest sample_authz_body sample_client = Inr v \<and>
     validateAuthorizationRequest (params_body (set_opt ''dpop_jkt'' (Some sample_jkt) (toStoredParams v))) sample_client
       = Inr w \<and> vr_dpopJkt w = Some sample_jkt"
proof -
  obtain v where v: "validateAuthorizationRequest sample_authz_body sample_client = Inr v"
    using sample_authz_valid ..
  have "JKT sample_jkt" by code_simp
  then have "JKT k" if "Some sample_jkt = Some k" for k using that by simp
  from stored_request_revalidates [where j = "Some sample_jkt", OF v this] v show ?thesis by auto
qed

text \<open>Property C35. The AuthZEN adapter never throws, and it grants access only if the decision point answered
  with a success status and an object whose \<open>decision\<close> is the boolean \<open>true\<close>: a timeout, a network
  failure, any other status and any other body deny.\<close>

theorem authzen_fails_closed:
  "(\<exists>r. authzen_evaluate fetch url token req = Inr r) \<and>
   ((\<exists>r. authzen_evaluate fetch url token req = Inr r \<and> es_decision r) \<longleftrightarrow>
      (\<exists>status m. fetch (authzen_request url token req) = Fetch_response True status (Inr (JObj m)) \<and>
         jget m ''decision'' = Some (JBool True)))"
  using authzen_total authzen_grants_iff by blast

text \<open>An authorization is granted only if the user did not deny it and the decision point, asked
  about this user, client and request, says so.\<close>

theorem decision_is_the_pdps:
  assumes "decideAuthorization pdp user c request approved = Inr True"
  shows "approved \<noteq> Some False \<and>
    (\<exists>d. pdp (decision_request user c request approved) = Inr d \<and> es_decision d)"
  using assms by (rule decide_allows)

lemma decision_is_the_pdps_witness:
  "\<forall>user c request. \<exists>d. mock_evaluate (decision_request user c request (Some True)) = Inr d \<and> es_decision d"
proof (intro allI)
  fix user c request
  have "decideAuthorization mock_evaluate user c request (Some True) = Inr True"
    by (simp add: decideAuthorization_def bindR_def mock_evaluate_def)
  from decision_is_the_pdps [OF this]
  show "\<exists>d. mock_evaluate (decision_request user c request (Some True)) = Inr d \<and> es_decision d" by blast
qed

section \<open>Bounded tables\<close>

text \<open>Property C28. In any stretch of time no longer than the window, the limiter lets at most twice its limit of
  requests of one source through, whatever the other sources do and whatever was counted before; and
  its table never outgrows its bound.\<close>

theorem rate_limit_bound:
  assumes "limiter_ok c l" and "0 < rl_limit c"
    and "\<And>key now. (key, now) \<in> set rs \<Longrightarrow> a \<le> now \<and> now < a + rl_windowMs c"
    and "allow_all c rs l = (bs, l')"
  shows "allowed_count k rs bs \<le> 2 * nat (rl_limit c) \<and> limiter_ok c l'"
proof -
  have "allowed_count k rs bs + budget c a k l' \<le> budget c a k l"
    by (rule allow_all_budget [OF assms(1,2)]) (use assms in auto)
  then show ?thesis using budget_le [of c a k l] allow_all_ok [OF assms(1,4)] by simp
qed

lemma rate_limit_bound_witness:
  "\<exists>bs l'. allow_all \<lparr>rl_limit = 2, rl_windowMs = 1000, rl_maxKeys = 5\<rparr>
      [(''a'', 10), (''a'', 20), (''b'', 25), (''a'', 30)] fresh_limiter = (bs, l') \<and> allowed_count ''a''
      [(''a'', 10), (''a'', 20), (''b'', 25), (''a'', 30)] bs \<le> 2 * nat 2"
proof -
  let ?c = "\<lparr>rl_limit = 2, rl_windowMs = 1000, rl_maxKeys = 5\<rparr>"
  let ?rs = "[(''a'', 10), (''a'', 20), (''b'', 25), (''a'', 30)]"
  obtain bs l' where r: "allow_all ?c ?rs fresh_limiter = (bs, l')" by fastforce
  have ok: "limiter_ok ?c fresh_limiter" by (rule limiter_ok_fresh)
  have "0 < rl_limit ?c" by simp
  moreover have "0 \<le> now \<and> now < 0 + rl_windowMs ?c" if "(key, now) \<in> set ?rs" for key now using that by auto
  ultimately have "allowed_count ''a'' ?rs bs \<le> 2 * nat (rl_limit ?c)"
    using rate_limit_bound [OF ok _ _ r, of 0 "''a''"] by blast
  with r show ?thesis by auto
qed

text \<open>The replay table of the memory adapter never holds more than 8192 identifiers, and it makes
  room only by dropping expired ones: when it is full, a new identifier is refused, and what it
  remembered it still remembers.\<close>

theorem replay_table_bounded:
  assumes "map_ok rows" and "length rows \<le> 8192"
    and "mem_jti_register c j expiry now (rows, l) = (fresh, rows', l')"
  shows "length rows' \<le> 8192 \<and> map_ok rows' \<and>
    (\<forall>k e. map_of rows k = Some e \<longrightarrow> now < e \<longrightarrow> map_of rows' k = Some e)"
  using assms by (rule mem_jti_register_bounded)

lemma replay_table_bounded_witness:
  "length (fst (snd (mem_jti_register ''c'' ''j'' 9 5 ([(''k'', 7)], 0)))) \<le> 8192"
proof -
  obtain f r l' where m: "mem_jti_register ''c'' ''j'' 9 5 ([(''k'', 7)], 0) = (f, r, l')" using prod_cases3 by blast
  have "map_ok [(''k'', 7 :: int)]" by (simp add: map_ok_def)
  from replay_table_bounded [OF this _ m] show ?thesis by (simp add: m)
qed

section \<open>Pages and replies\<close>

text \<open>Property C36. No value that goes into a page changes its markup: pages of the same form, whatever the client
  name, subject, scopes, users, tokens and messages in them, have the same sequence of angle brackets and
  quotation marks.\<close>

theorem pages_inert:
  "(length (cv_scopes v) = length (cv_scopes w) \<longrightarrow> skeleton (renderConsent v) = skeleton (renderConsent w)) \<and>
   (length (lv_users l) = length (lv_users k) \<longrightarrow> truthy (lv_error l) = truthy (lv_error k) \<longrightarrow>
      skeleton (renderLogin l) = skeleton (renderLogin k)) \<and>
   skeleton (renderError m) = skeleton (renderError m')"
  using consent_skeleton login_skeleton error_skeleton by blast

lemma pages_inert_witness:
  "skeleton (renderError ''<script>'') = skeleton (renderError []) \<and>
   skeleton (renderConsent \<lparr>cv_action = ''/c'', cv_interactionId = ''i'', cv_csrfToken = ''t'',
      cv_clientName = ''<b>'', cv_scopes = [''<i>''], cv_subject = [CHR 0x22]\<rparr>) =
   skeleton (renderConsent \<lparr>cv_action = ''/c'', cv_interactionId = ''i'', cv_csrfToken = ''t'',
      cv_clientName = [], cv_scopes = [[]], cv_subject = []\<rparr>)"
  by (rule conjI; rule pages_inert [THEN conjunct2, THEN conjunct2] pages_inert [THEN conjunct1, rule_format])
    (simp only: consent_view.simps list.size)

section \<open>The keystore\<close>

text \<open>Property C29. After a successful initialisation there is an active signing key, and its public half is in
  the published key set at every time, so that what is signed can be verified; and no published key
  has a member beyond the public ones: no private exponent leaves the server.\<close>

theorem keystore_usable:
  assumes "keystore_ok k" and "ensure x kek repo env (k, s) = (Inr (), (k', s'))"
  shows "(\<exists>l. mustActive k' = Inr l \<and>
            toPublicJwk (sk_publicJwk (lk_record l)) \<in> set (publicJwks_of now (kx_keys k'))) \<and>
    (\<forall>jwk \<in> set (publicJwks_of now (kx_keys k')). \<forall>n. n \<notin> set public_members \<longrightarrow> jget jwk n = None)"
  using signing_key_published [OF ensure_ok [OF assms]] publicJwks_of_public by blast

lemma keystore_usable_witness:
  "\<exists>k' s'. ensure sample_ext None (st_keys createMemoryStorage) sample_key_env (fresh_keystore, empty_store)
      = (Inr (), (k', s')) \<and> (\<exists>l. mustActive k' = Inr l)"
proof -
  have ok: "keystore_ok fresh_keystore" by (simp add: keystore_ok_def fresh_keystore_def)
  obtain k' s' where e: "ensure sample_ext None (st_keys createMemoryStorage) sample_key_env (fresh_keystore, empty_store)
      = (Inr (), (k', s'))" by (simp add: sample_eval)
  from keystore_usable [OF ok e] e show ?thesis by blast
qed

end
