(* ===== verification/ConfigProperties.thy ===== *)
theory ConfigProperties
  imports Samples LoadConfig
begin

text \<open>
  What a loaded configuration guarantees: the bounds and secrets every component relies on, the refusal
  of development settings in production, what they do not cover, and for how long after its retirement the tokens a
  signing key signs can be verified.
\<close>

section \<open>Sample environments\<close>

definition sample_production :: environment where
  "sample_production = map_of
     [(''NODE_ENV'', ''production''), (''ISSUER'', ''https://as.example''), (''PDP_KIND'', ''authzen-http''),
      (''DATABASE_URL'', ''https://db.example/as''), (''DATABASE_SSL'', ''true''),
      (''KEYSTORE_KEK'', replicate 43 (CHR ''A'')), (''SESSION_SECRET'', replicate 32 (CHR ''s''))]"

lemma sample_lists [simp]:
  "splitList ''openid,profile'' = [''openid'', ''profile'']"
  "splitList ''sub,iss,aud,exp,iat,auth_time,nonce'' =
     [''sub'', ''iss'', ''aud'', ''exp'', ''iat'', ''auth_time'', ''nonce'']"
  "splitList ''ES256,PS256,EdDSA'' = [''ES256'', ''PS256'', ''EdDSA'']"
  by (simp_all add: splitList_def comma_list_def split_on_eval trim_id js_space_def)

lemma sample_kek [simp]: "length (base64url_decode (replicate 43 (CHR ''A''))) = 32"
  by code_simp

lemma sample_issuer_url [simp]:
  "sample_url ''https://as.example'' =
     Some \<lparr>u_protocol = ''https:'', u_hostname = ''as.example'', u_host = ''as.example'', u_port = [],
           u_pathname = ''/'', u_hash = [], u_origin = ''https://as.example'', u_password = []\<rparr>"
  "sample_url ''https://db.example/as'' =
     Some \<lparr>u_protocol = ''https:'', u_hostname = ''db.example'', u_host = ''db.example'', u_port = [],
           u_pathname = ''/as'', u_hash = [], u_origin = ''https://db.example'', u_password = []\<rparr>"
  by code_simp+

definition sample_settings :: settings where
  "sample_settings =
     \<lparr>PORT = 3000, ISSUER = ''https://as.example'', LOG_LEVEL = ''info'', DATABASE_URL = ''https://db.example/as'',
      STORAGE = ''postgres'', PDP_KIND = ''authzen-http'', PDP_AUTHZEN_URL = ''http://localhost:8080/access/v1/evaluation'',
      PDP_AUTHZEN_TOKEN = [], DATABASE_SSL = ''true'', REDIS_URL = [], DEV_INTERACTION_SUB = ''dev-user'',
      DEV_LOGIN_USERS = [], SESSION_SECRET = replicate 32 (CHR ''s''), INTERACTION_TTL_SEC = 600,
      SESSION_TTL_SEC = 3600, AUTH_CODE_TTL_SEC = 60, PAR_TTL_SEC = 90, ACCESS_TOKEN_TTL_SEC = 300,
      REFRESH_TOKEN_TTL_SEC = 1209600, ID_TOKEN_TTL_SEC = 300, CLIENT_ASSERTION_MAX_LIFETIME_SEC = 300,
      CLOCK_SKEW_FUTURE_ACCEPT_SEC = 10, DPOP_PROOF_MAX_AGE_SEC = 60, DPOP_NONCE_REQUIRED = ''false'',
      DPOP_NONCE_SECRET = [], ACCESS_TOKEN_AUDIENCE = [], KEYSTORE_KEK = replicate 43 (CHR ''A''),
      RATE_LIMIT_PER_MIN = 300, TRUST_PROXY = ''false'', TLS_CERT_FILE = [], TLS_KEY_FILE = [],
      METADATA_SCOPES_SUPPORTED = ''openid,profile'',
      METADATA_CLAIMS_SUPPORTED = ''sub,iss,aud,exp,iat,auth_time,nonce'',
      METADATA_CLIENT_AUTH_SIGNING_ALGS = ''ES256,PS256,EdDSA'', METADATA_DPOP_SIGNING_ALGS = ''ES256,PS256,EdDSA''\<rparr>"

lemma sample_settings_parsed: "parse_settings sample_ext sample_production = Some sample_settings"
  by (simp add: parse_settings_def sample_settings_def sample_production_def z_one_of_def z_text_def)

lemma sample_settings_ok:
  "settings_ok sample_settings (the (sample_url ''https://as.example''))"
  "dev_grade sample_ext sample_settings (the (sample_url ''https://as.example'')) = []"
  by (simp_all add: sample_settings_def settings_ok_def FAPI2_JWS_ALGS_def dev_grade_def is_loopback_def
      isDevDatabaseUrl_def starts_with_def)

lemma sample_production_loads:
  "loadConfig sample_ext sample_production sb nb = Inr (config_of sample_settings sb nb [])"
proof -
  have "sample_url (ISSUER sample_settings) = Some (the (sample_url ''https://as.example''))"
    by (simp add: sample_settings_def)
  then show ?thesis unfolding loadConfig_Inr
    using sample_settings_parsed sample_settings_ok by (intro exI [of _ sample_settings] exI [of _ "the (sample_url ''https://as.example'')"]) simp
qed

section \<open>What every loaded configuration has\<close>

text \<open>Property C38. Every configuration that is loaded keeps the bounds of the protocol lifetimes, has secrets of
  at least 32 characters and a key-encryption key of exactly 32 bytes if any, an issuer that is a URL without query
  or fragment and without trailing slash, over https unless its host is the loopback, advertises \<open>openid\<close>,
  and accepts at least one signature algorithm for client assertions and for proofs, all of them permitted.\<close>

theorem loaded_config_valid:
  assumes "loadConfig x env sessionBytes nonceBytes = Inr c" and "length sessionBytes = 32" and "length nonceBytes = 32"
  shows "config_bounds c \<and> 32 \<le> length (cfg_sessionSecret c) \<and> 32 \<le> length (cfg_dpopNonceSecret c) \<and>
    (case cfg_keystoreKek c of None \<Rightarrow> True | Some kek \<Rightarrow> length kek = 32) \<and>
    (\<exists>u. x_url x (cfg_issuer c) = Some u \<and> (u_protocol u = ''https:'' \<or> is_loopback u)) \<and>
    set (cfg_issuer c) \<inter> {CHR 0x3F, CHR 0x23} = {} \<and> (cfg_issuer c = [] \<or> last (cfg_issuer c) \<noteq> CHR ''/'') \<and>
    ''openid'' \<in> set (md_scopesSupported (cfg_metadata c)) \<and>
    (\<forall>algs \<in> {md_clientAuthSigningAlgs (cfg_metadata c), md_dpopSigningAlgs (cfg_metadata c)}.
       algs \<noteq> [] \<and> distinct algs \<and> set algs \<subseteq> set FAPI2_JWS_ALGS)"
proof -
  from assms(1) obtain p u where p: "parse_settings x env = Some p" "x_url x (ISSUER p) = Some u" "settings_ok p u"
    and c: "c = config_of p sessionBytes nonceBytes (dev_grade x p u)"
    unfolding loadConfig_Inr by blast
  have "32 \<le> length (base64url sessionBytes)" "32 \<le> length (base64url nonceBytes)"
    using assms(2,3) by (simp_all add: length_base64url)
  with p(2,3) parse_settings_bounds(1) [OF p(1)] show ?thesis
    by (auto simp: c settings_ok_def distinct_splitList)
qed

lemma loaded_config_valid_witness:
  "config_bounds (config_of sample_settings (replicate 32 (CHR ''a'')) (replicate 32 (CHR ''b'')) [])"
  using loaded_config_valid [OF sample_production_loads, of "replicate 32 (CHR ''a'')" "replicate 32 (CHR ''b'')"] by simp

lemma issuer_endpoints:
  assumes "x_url x (cfg_issuer c) = Some u"
  obtains paths urls where "endpointPaths x c = Some paths" and "endpointUrls x c = Some urls"
  using assms by (auto simp: endpointPaths_def endpointUrls_def Let_def)

text \<open>Property C37. The settings a production configuration refuses are never there once it has loaded. The server then always
  boots, and decides by the AuthZEN
  decision point, never by the mock; its state is in PostgreSQL, reached over TLS and not at a loopback host or with
  the development password; its issuer is an https URL that is not the loopback; private keys are encrypted with a
  key of 32 bytes; the session secret, and the nonce secret if nonces are required, are the configured ones, of at
  least 32 characters; and nothing is left to warn of. The login is not among these settings: the
  server is wired with the built-in one, \<open>dev_authenticate\<close>, also in production, which asks for no password
  (\<open>production_keeps_dev_login\<close>).\<close>

theorem production_refuses_settings:
  assumes "loadConfig x env sessionBytes nonceBytes = Inr c" and "env ''NODE_ENV'' = Some ''production''"
  shows "(\<exists>paths urls. buildApp x fetch None None c st = Some (build_deps x
       (authzen_evaluate fetch (cfg_pdp_authzenUrl c) (cfg_pdp_authzenToken c)) (dev_authenticate c) c paths urls st)) \<and>
    cfg_storage c = ''postgres'' \<and> cfg_databaseSsl c \<and> \<not> isDevDatabaseUrl x (cfg_databaseUrl c) \<and>
    (\<exists>u. x_url x (cfg_issuer c) = Some u \<and> u_protocol u = ''https:'' \<and> \<not> is_loopback u) \<and>
    (\<exists>kek. cfg_keystoreKek c = Some kek \<and> length kek = 32) \<and> 32 \<le> length (cfg_sessionSecret c) \<and>
    env ''SESSION_SECRET'' = Some (cfg_sessionSecret c) \<and>
    (cfg_dpopNonceRequired c \<longrightarrow> env ''DPOP_NONCE_SECRET'' = Some (cfg_dpopNonceSecret c)) \<and>
    cfg_devModeWarnings c = []"
proof -
  from assms obtain p u where p: "parse_settings x env = Some p" "x_url x (ISSUER p) = Some u" "settings_ok p u"
    "dev_grade x p u = []" and c: "c = config_of p sessionBytes nonceBytes []"
    unfolding loadConfig_Inr by auto
  note n = no_dev_grade [OF p(4) parse_settings_enums [OF p(1)]]
  have "x_url x (cfg_issuer c) = Some u" using p(2) c by simp
  then have "\<exists>paths urls. buildApp x fetch None None c st = Some (build_deps x (choose_pdp fetch c) (dev_authenticate c) c paths urls st)"
    by (rule issuer_endpoints) (auto simp: buildApp_def)
  moreover have "choose_pdp fetch c = authzen_evaluate fetch (cfg_pdp_authzenUrl c) (cfg_pdp_authzenToken c)"
    using n(1) by (simp add: c choose_pdp_def)
  ultimately have boots: "\<exists>paths urls. buildApp x fetch None None c st = Some (build_deps x
       (authzen_evaluate fetch (cfg_pdp_authzenUrl c) (cfg_pdp_authzenToken c)) (dev_authenticate c) c paths urls st)"
    by simp
  have env: "SESSION_SECRET p = z_text [] (env ''SESSION_SECRET'')" "DPOP_NONCE_SECRET p = z_text [] (env ''DPOP_NONCE_SECRET'')"
    using parse_settings_texts [OF p(1)] by simp_all
  have secret: "env ''SESSION_SECRET'' = Some (SESSION_SECRET p)"
    using n(8) env(1) by (cases "env ''SESSION_SECRET''") (simp_all add: z_text_def)
  have nonce: "env ''DPOP_NONCE_SECRET'' = Some (DPOP_NONCE_SECRET p)" if "DPOP_NONCE_SECRET p \<noteq> []"
    using that env(2) by (cases "env ''DPOP_NONCE_SECRET''") (simp_all add: z_text_def)
  have "cfg_dpopNonceRequired c \<longleftrightarrow> DPOP_NONCE_REQUIRED p = ''true''" by (simp add: c config_of_def)
  with boots n p(2,3) secret nonce show ?thesis by (auto simp: c settings_ok_def)
qed

lemma production_refuses_settings_witness:
  "\<exists>c. loadConfig sample_ext sample_production [] [] = Inr c \<and> cfg_storage c = ''postgres'' \<and>
     (\<exists>kek. cfg_keystoreKek c = Some kek \<and> length kek = 32)"
proof -
  have "sample_production ''NODE_ENV'' = Some ''production''" by (simp add: sample_production_def)
  from production_refuses_settings [OF sample_production_loads this] sample_production_loads show ?thesis by blast
qed

text \<open>The refusal of development settings in production does not cover the development login: a
  production configuration without login settings signs in everyone who enters the built-in user name, with no
  password, through the login that \<open>buildApp\<close> wires by default.\<close>

theorem production_keeps_dev_login:
  assumes "loadConfig x env sessionBytes nonceBytes = Inr c"
    and "env ''DEV_LOGIN_USERS'' = None" and "env ''DEV_INTERACTION_SUB'' = None"
  shows "\<exists>d. buildApp x fetch None None c st = Some d \<and>
    (\<exists>user. dp_auth d (Some ''dev-user'') now = Some user \<and> au_sub user = ''dev-user'')"
proof -
  from assms(1) obtain p u w where p: "parse_settings x env = Some p" "x_url x (ISSUER p) = Some u"
    and c: "c = config_of p sessionBytes nonceBytes w"
    unfolding loadConfig_Inr by blast
  have "cfg_devLoginUsers c = [''dev-user'']"
    using parse_settings_texts [OF p(1)] assms(2,3) by (simp add: c config_of_def z_text_def)
  then have "\<exists>user. dev_authenticate c (Some ''dev-user'') now = Some user \<and> au_sub user = ''dev-user''"
    by (simp add: dev_authenticate_def trim_id js_space_def)
  moreover have "x_url x (cfg_issuer c) = Some u" using p(2) c by simp
  ultimately show ?thesis by (simp add: buildApp_def endpointPaths_def endpointUrls_def Let_def build_deps_def)
qed

lemma production_keeps_dev_login_witness:
  "sample_production ''NODE_ENV'' = Some ''production'' \<and>
   (\<exists>c d. loadConfig sample_ext sample_production [] [] = Inr c \<and>
      buildApp sample_ext (\<lambda>_. Fetch_error []) None None c createMemoryStorage = Some d \<and>
      (\<exists>user. dp_auth d (Some ''dev-user'') 0 = Some user \<and> au_sub user = ''dev-user''))"
proof -
  have "sample_production ''DEV_LOGIN_USERS'' = None" "sample_production ''DEV_INTERACTION_SUB'' = None"
    "sample_production ''NODE_ENV'' = Some ''production''" by (simp_all add: sample_production_def)
  with production_keeps_dev_login [OF sample_production_loads this(1,2)] sample_production_loads show ?thesis by blast
qed

section \<open>Signing keys outlive the tokens they signed\<close>

text \<open>Property C39. Whatever was loaded, a retired signing key is still published at every time at which an access
  token or an ID token that was signed with it has not expired, provided it was signed no later than the retention period less
  the longer of the two token lifetimes after the retirement; and that is never before the retirement itself. So
  a token signed before its key was retired can be verified as long as it is valid, and so can one
  signed after that by a server still using the key, within that time. What a server signs later still, because it has not
  noticed the rotation, is not covered.\<close>

theorem signing_keys_outlive_tokens:
  assumes "loadConfig x env sessionBytes nonceBytes = Inr c"
    and "(kid, l) \<in> set keys" and "sk_retiredAt (lk_record l) = Some t"
    and "latest = t + RETIRED_KEY_RETENTION_MS - 1000 * max (cfg_accessTokenTtlSec c) (cfg_idTokenTtlSec c)"
  shows "t \<le> latest \<and>
    (\<forall>signed expiry now. signed \<le> latest \<longrightarrow>
       jget (access_claims c signed jti input) ''exp'' = Some (JNum (of_int expiry)) \<or>
       jget (id_claims c signed cid subject authTime acr amr nonce) ''exp'' = Some (JNum (of_int expiry)) \<longrightarrow>
       now < expiry * 1000 \<longrightarrow>
       toPublicJwk (sk_publicJwk (lk_record l)) \<in> set (publicJwks_of now keys))"
proof (intro conjI allI impI)
  from assms(1) obtain p u w where p: "parse_settings x env = Some p" and c: "c = config_of p sessionBytes nonceBytes w"
    unfolding loadConfig_Inr by blast
  have "cfg_accessTokenTtlSec c \<le> 86400" "cfg_idTokenTtlSec c \<le> 86400"
    using parse_settings_bounds(1) [OF p] by (simp_all add: c config_bounds_def)
  then show "t \<le> latest" by (simp add: assms(4) RETIRED_KEY_RETENTION_MS_def)
next
  fix signed expiry now :: int
  assume signed: "signed \<le> latest" and now: "now < expiry * 1000"
    and "jget (access_claims c signed jti input) ''exp'' = Some (JNum (of_int expiry)) \<or>
         jget (id_claims c signed cid subject authTime acr amr nonce) ''exp'' = Some (JNum (of_int expiry))"
  then have "expiry = sec_of (signed + cfg_accessTokenTtlSec c * 1000) \<or> expiry = sec_of signed + cfg_idTokenTtlSec c"
    by (auto simp: access_claims_def id_claims_def)
  then have "expiry * 1000 \<le> signed + 1000 * max (cfg_accessTokenTtlSec c) (cfg_idTokenTtlSec c)"
    by (auto simp: sec_of_def)
  with signed now have "now - t < RETIRED_KEY_RETENTION_MS" by (simp add: assms(4))
  then have "published now (lk_record l)" using assms(3) by (simp add: published_def)
  with assms(2) show "toPublicJwk (sk_publicJwk (lk_record l)) \<in> set (publicJwks_of now keys)"
    by (force simp: publicJwks_of_def Let_def)
qed

definition sample_retired_key :: signing_key where
  "sample_retired_key =
     \<lparr>sk_kid = ''k'', sk_alg = ''ES256'', sk_status = retired, sk_privateJwk = [], sk_publicJwk = [(''kid'', JStr ''k'')],
      sk_createdAt = 0, sk_retiredAt = Some 1000500\<rparr>"

lemma signing_keys_outlive_tokens_witness:
  "toPublicJwk [(''kid'', JStr ''k'')] \<in> set (publicJwks_of 1399999 [(''k'', \<lparr>lk_record = sample_retired_key, lk_privateKey = ''key''\<rparr>)])"
proof -
  let ?c = "config_of sample_settings [] [] []"
  let ?i = "\<lparr>ti_grantId = ''g'', ti_clientId = ''c'', ti_subject = ''alice'', ti_scope = ''openid'', ti_cnfJkt = sample_jkt,
       ti_authTime = None, ti_acr = None, ti_amr = None, ti_nonce = None\<rparr>"
  let ?l = "\<lparr>lk_record = sample_retired_key, lk_privateKey = ''key''\<rparr>"
  have e: "jget (access_claims ?c 1100000 ''J'' ?i) ''exp'' = Some (JNum (of_int 1400))"
    by (simp add: access_claims_def sec_of_def config_of_def sample_settings_def)
  have l: "(''k'', ?l) \<in> set [(''k'', ?l)]" "sk_retiredAt (lk_record ?l) = Some 1000500"
    by (simp_all add: sample_retired_key_def)
  have "1100000 \<le> (1000500 :: int) + RETIRED_KEY_RETENTION_MS - 1000 * max (cfg_accessTokenTtlSec ?c) (cfg_idTokenTtlSec ?c)"
    by (simp add: RETIRED_KEY_RETENTION_MS_def config_of_def sample_settings_def)
  with signing_keys_outlive_tokens [OF sample_production_loads l refl, THEN conjunct2, rule_format, OF _ disjI1 [OF e], where now = 1399999]
  have "toPublicJwk (sk_publicJwk (lk_record ?l)) \<in> set (publicJwks_of 1399999 [(''k'', ?l)])" by simp
  then show ?thesis by (simp add: sample_retired_key_def)
qed

end
