(* ===== verification/EndpointProperties.thy ===== *)
theory EndpointProperties
  imports Samples
begin

text \<open>
  What the endpoints of the assembled server guarantee, on the in-memory storage: what a success of the
  token endpoint, a new authorization code, an answer of UserInfo, an active introspection and a
  revocation mean. The lemmas are those of the locale \<open>endpoint_deps\<close>, of which the server is the
  instance \<open>srv\<close>.
\<close>

abbreviation memory_server ::
  "ext \<Rightarrow> pdp \<Rightarrow> auth_provider \<Rightarrow> app_config \<Rightarrow> endpoint_paths \<Rightarrow> endpoint_urls \<Rightarrow> mem_store server deps" where
  "memory_server x pdp auth config paths urls \<equiv> build_deps x pdp auth config paths urls createMemoryStorage"

abbreviation tables_of :: "mem_store server \<Rightarrow> astore" where
  "tables_of s \<equiv> srv_view mem_view s"

abbreviation server_ok :: "app_config \<Rightarrow> mem_store server \<Rightarrow> bool" where
  "server_ok config \<equiv> srv_ok config mem_ok"

lemma memory_server_sel [simp]:
  "dp_ext (memory_server x pdp auth config paths urls) = x"
  "dp_config (memory_server x pdp auth config paths urls) = config"
  "dp_pdp (memory_server x pdp auth config paths urls) = pdp"
  "dp_urls (memory_server x pdp auth config paths urls) = urls"
  by (simp_all add: build_deps_def)

lemma sample_server: "sample_deps =
    memory_server sample_ext mock_evaluate (dev_authenticate sample_config) sample_config sample_paths sample_urls"
  by (simp add: sample_deps_def)

lemma sample_state_ok: "server_ok sample_config sample_state"
  unfolding sample_state_def by (rule srv_ok_fresh) (simp add: mem_ok_def sample_store_def empty_store_def)

lemma sample_flow_ok: "server_ok sample_config sample_flow"
  unfolding sample_flow_def by (rule srv_ok_fresh) (simp add: mem_ok_def map_ok_def sample_store_def empty_store_def)

text \<open>The in-memory storage looks a refresh token up without changing anything.\<close>

lemma key_state_memory [simp]: "key_state x (dp_storage (memory_server x' pdp auth config paths urls)) token hint s = s"
  by (cases s) (simp add: key_state_def findRefreshToken_def build_deps_def server_storage_def on_storage_def on_kstate_def
      on_repo_def createMemoryStorage_def memory_refreshTokens_def on_table_def reading_def mem_rt_findByHash_def bindE_def
      returnE_def)

text \<open>The row of a token that is looked up: its keys are read in the state the client was authenticated in, and its row is the
  one of the tables the request met.\<close>

lemma named_row_memory:
  assumes "d = memory_server x pdp auth config paths urls" and "same_tables (tables_of s) (tables_of s2)"
  shows "named_row d env s2 (tables_of s2) token hint
    = token_row x config (published_keys (dp_keystore d) (le_key env) (le_t_keys env) s2) (tables_of s) token hint"
  unfolding named_row_def assms(1) memory_server_sel key_state_memory
  by (rule token_row_cong) (simp_all add: same_tables_D [OF assms(2)])

section \<open>Tokens\<close>

text \<open>What the keystore of the server signs is signed with its active key.\<close>

lemma signed_with_active:
  assumes "ks_signJwt (dp_keystore (memory_server x pdp auth config paths urls)) claims (Some typ) s = (Inr token, s1)"
    and "typ \<noteq> []"
  obtains a where "mustActive (fst (snd s)) = Inr a" and "token = x_sign_jwt x (lk_privateKey a)
    [(''alg'', JStr ''ES256''), (''kid'', JStr (kid_of a)), (''typ'', JStr typ)] claims"
proof -
  obtain l k m where s: "s = (l, k, m)" by (cases s)
  from assms obtain a where "mustActive k = Inr a"
    "token = x_sign_jwt x (lk_privateKey a) [(''alg'', JStr ''ES256''), (''kid'', JStr (kid_of a)), (''typ'', JStr typ)] claims"
    by (auto simp: s build_deps_def server_keystore_def key_store_def on_kstate_def signJwt_def get_keys_def act_iff
        split: prod.splits)
  then show thesis by (intro that) (simp_all add: s)
qed

text \<open>Issuing tokens leaves the keystore as it is.\<close>

definition keeps_keystore :: "('s server, exn, 'a) act \<Rightarrow> bool" where
  "keeps_keystore m \<longleftrightarrow> (\<forall>s. fst (snd (snd (m s))) = fst (snd s))"

lemma keeps_return: "keeps_keystore (returnE v)"
  by (simp add: keeps_keystore_def returnE_def)

lemma keeps_bind: "keeps_keystore m \<Longrightarrow> (\<And>v. keeps_keystore (f v)) \<Longrightarrow> keeps_keystore (bindE m f)"
  unfolding keeps_keystore_def by (auto simp: bindE_def split: prod.split sum.split) (metis prod.collapse snd_conv)+

lemma keeps_storage: "keeps_keystore (on_storage m)"
  by (auto simp: keeps_keystore_def on_storage_def on_kstate_def on_repo_def split: prod.split)

lemma keeps_sign: "keeps_keystore (on_kstate (signJwt x claims typ))"
  by (auto simp: keeps_keystore_def on_kstate_def signJwt_def get_keys_def bindE_def liftE_def returnE_def throwE_def
      split: prod.split sum.split)

lemma keeps_case: "(\<And>a b c. keeps_keystore (f a b c)) \<Longrightarrow> keeps_keystore (case v of (a, b, c) \<Rightarrow> f a b c)"
  by (cases v) simp

lemma keeps_throw: "keeps_keystore (throwE e)"
  by (simp add: keeps_keystore_def throwE_def)

lemma keeps_throwIf: "keeps_keystore (throwIf b e)"
  by (simp add: keeps_keystore_def throwIf_def throwE_def returnE_def)

lemma keeps_lift: "keeps_keystore (liftE r)"
  by (simp add: keeps_keystore_def liftE_def)

lemma keeps_option: "keeps_keystore f \<Longrightarrow> (\<And>v. keeps_keystore (g v)) \<Longrightarrow>
    keeps_keystore (case v of None \<Rightarrow> f | Some v \<Rightarrow> g v)"
  by (cases v) simp_all

lemma keeps_if: "keeps_keystore f \<Longrightarrow> keeps_keystore g \<Longrightarrow> keeps_keystore (if b then f else g)"
  by simp

lemma keeps_redemption: "(\<And>r. keeps_keystore (f r)) \<Longrightarrow> keeps_keystore g \<Longrightarrow> (\<And>r. keeps_keystore (h r)) \<Longrightarrow>
    keeps_keystore (case v of Redeem_ok r \<Rightarrow> f r | Redeem_invalid \<Rightarrow> g | Redeem_consumed r \<Rightarrow> h r)"
  by (cases v) simp_all

lemmas keeps_rules = keeps_return keeps_storage keeps_sign keeps_case keeps_bind keeps_throw keeps_throwIf keeps_lift
  keeps_option keeps_if keeps_redemption

lemma issue_keeps_keystore:
  "keeps_keystore (issueTokenSet x (dp_storage (memory_server x pdp auth config paths urls))
      (dp_keystore (memory_server x pdp auth config paths urls)) config env i openid withRefresh)"
  unfolding issueTokenSet_def issueAccessToken_def issueIdToken_def issueRefreshToken_def Let_def
  by (simp add: build_deps_def server_storage_def server_keystore_def key_store_def) (intro keeps_rules impI conjI allI)

lemma redeem_keeps_keystore:
  "keeps_keystore (redeemAuthorizationCode x (dp_storage (memory_server x' pdp auth config paths urls)) now code cid uri ver jkt)"
  unfolding redeemAuthorizationCode_def valid_grant_def
  by (simp add: build_deps_def server_storage_def) (intro keeps_rules)

lemma load_keeps_keystore:
  "keeps_keystore (loadRefreshGrant x (dp_storage (memory_server x' pdp auth config paths urls)) now token cid)"
  unfolding loadRefreshGrant_def valid_grant_def
  by (simp add: build_deps_def server_storage_def) (intro keeps_rules)

lemma signed_access_by_active:
  assumes "signed_access (memory_server x pdp auth config paths urls) env c jkt i s token"
  obtains a where "mustActive (fst (snd s)) = Inr a" and "token = x_sign_jwt x (lk_privateKey a)
    [(''alg'', JStr ''ES256''), (''kid'', JStr (kid_of a)), (''typ'', JStr ''at+jwt'')]
    (access_claims config (ie_t_at (te_issue env)) (ie_jti (te_issue env)) i)"
proof -
  from assms [unfolded signed_access_def memory_server_sel] obtain s1 s2 where
    r: "(\<exists>code uri ver r. redeemAuthorizationCode x (dp_storage (memory_server x pdp auth config paths urls)) (te_t_grant env)
           code (clientId c) uri ver jkt s = (Inr r, s1)) \<or>
        (\<exists>rt r. loadRefreshGrant x (dp_storage (memory_server x pdp auth config paths urls)) (te_t_grant env) rt (clientId c) s
           = (Inr r, s1))"
    and k: "ks_signJwt (dp_keystore (memory_server x pdp auth config paths urls))
        (access_claims config (ie_t_at (te_issue env)) (ie_jti (te_issue env)) i) (Some ''at+jwt'') s1 = (Inr token, s2)"
    by blast
  from r have "fst (snd s1) = fst (snd s)"
    using redeem_keeps_keystore load_keeps_keystore unfolding keeps_keystore_def by (metis snd_conv)
  with signed_with_active [OF k] that show thesis by auto
qed

text \<open>Property C1. When the token endpoint answers without an error and does not refuse for the rate, it
  answers 200 with tokens of type \<open>DPoP\<close>. It did so step by step from the state the request met: the rate limiter let it
  pass, the client was authenticated against the server's own tables and is bound to DPoP, the proof was valid, the keystore
  was ready. The tokens were issued for an unused and matching code, which is now used, or for a live refresh token of the
  client with a scope within its own, in both cases under a grant that is not revoked. What was stored is exactly an access
  token row for the grant's subject bound to the key of the proof, and the refresh token row where one was issued; what is
  returned is the JWT of that row's claims, signed with the active key, and the refresh token whose digest was stored, or the
  one that was presented.\<close>

theorem tokens_issued:
  assumes "d = memory_server x pdp auth config paths urls" and "server_ok config s"
    and "post_token d env rq s = (Inr rp, s')" and "rp_status rp \<noteq> 429"
  shows "\<exists>c jkt tk i w a1 k u s1 s2 s3 s4.
    rp = reply_with 200 [no_store, no_cache] (Json_body (tokens_json tk)) \<and>
    dp_allow d (rq_ip rq) (te_t_rate env) s = (Inr True, s1) \<and> tables_of s1 = tables_of s \<and>
    authenticate d (te_t_auth env) rq s1 = (Inr c, s2) \<and> dpop_bound_access_tokens (metadata c) \<and>
    check_dpop d (te_t_dpop env) (token_context d) rq s2 = (Inr jkt, s3) \<and>
    ks_ensure (dp_keystore d) (te_key env) s3 = (Inr u, s4) \<and> same_tables (tables_of s) (tables_of s4) \<and>
    (str_of (jget (rq_body rq) ''grant_type'') = Some ''authorization_code'' \<and>
       code_issue d env (rq_body rq) c jkt (tables_of s4) i w a1 \<and>
       tk_refresh_token tk = (if w then Some (base64url (ie_rt_bytes (te_issue env))) else None) \<or>
     str_of (jget (rq_body rq) ''grant_type'') = Some ''refresh_token'' \<and>
       refresh_issue d env (rq_body rq) c jkt (tables_of s4) i w a1 \<and>
       tk_refresh_token tk = str_of (jget (rq_body rq) ''refresh_token'')) \<and>
    ti_cnfJkt i = jkt \<and> tables_of s' = token_effect x config (te_issue env) i w a1 \<and>
    tk_token_type tk = ''DPoP'' \<and> tk_scope tk = ti_scope i \<and> tk_expires_in tk = cfg_accessTokenTtlSec config \<and>
    (tk_id_token tk \<noteq> None) = has_openid (ti_scope i) \<and>
    mustActive (fst (snd s4)) = Inr k \<and>
    tk_access_token tk = x_sign_jwt x (lk_privateKey k)
      [(''alg'', JStr ''ES256''), (''kid'', JStr (kid_of k)), (''typ'', JStr ''at+jwt'')]
      (access_claims config (ie_t_at (te_issue env)) (ie_jti (te_issue env)) i)"
proof -
  show ?thesis
  proof (rule srv.post_token_Inr [OF assms(2) assms(3) [unfolded assms(1)] assms(4), folded assms(1)])
    fix c jkt tk s1 s2 s3 u s4 i w a1
    assume rp: "rp = reply_with 200 [no_store, no_cache] (Json_body (tokens_json tk))"
      and al: "dp_allow d (rq_ip rq) (te_t_rate env) s = (Inr True, s1)" and v1: "tables_of s1 = tables_of s"
      and au: "authenticate d (te_t_auth env) rq s1 = (Inr c, s2)"
      and p: "check_dpop d (te_t_dpop env) (token_context d) rq s2 = (Inr jkt, s3)"
      and k: "ks_ensure (dp_keystore d) (te_key env) s3 = (Inr u, s4)"
      and b: "dpop_bound_access_tokens (metadata c)" and same: "same_tables (tables_of s) (tables_of s4)"
      and iss: "issued d env rq c jkt (tables_of s4) i w a1 tk"
      and v: "tables_of s' = token_effect (dp_ext d) (dp_config d) (te_issue env) i w a1"
      and sg: "signed_access d env c jkt i s4 (tk_access_token tk)"
    from iss have "ti_cnfJkt i = jkt" by (auto simp: issued_def code_issue_def refresh_issue_def)
    moreover have x: "dp_ext d = x" "dp_config d = config" by (simp_all add: assms(1))
    moreover obtain a where "mustActive (fst (snd s4)) = Inr a" and "tk_access_token tk = x_sign_jwt x (lk_privateKey a)
        [(''alg'', JStr ''ES256''), (''kid'', JStr (kid_of a)), (''typ'', JStr ''at+jwt'')]
        (access_claims config (ie_t_at (te_issue env)) (ie_jti (te_issue env)) i)"
      using signed_access_by_active [OF sg [unfolded assms(1)]] .
    ultimately show ?thesis
      using iss [unfolded issued_def x] rp al v1 au p k b same v [unfolded x]
      by (intro exI [of _ c] exI [of _ jkt] exI [of _ tk] exI [of _ i] exI [of _ w] exI [of _ a1] exI [of _ a]
          exI [of _ u] exI [of _ s1] exI [of _ s2] exI [of _ s3] exI [of _ s4] conjI) (simp_all only:)
  qed
qed

lemma sample_tokens: "\<exists>rp s. post_token sample_deps sample_token_env sample_code_request sample_state = (Inr rp, s) \<and>
    rp_status rp = 200"
  by (simp add: sample_eval)

lemma tokens_issued_witness:
  "\<exists>rp s tk. post_token sample_deps sample_token_env sample_code_request sample_state = (Inr rp, s) \<and>
     rp = reply_with 200 [no_store, no_cache] (Json_body (tokens_json tk)) \<and> tk_token_type tk = ''DPoP''"
proof -
  obtain rp s where r: "post_token sample_deps sample_token_env sample_code_request sample_state = (Inr rp, s)"
    "rp_status rp = 200" using sample_tokens by blast
  then have run: "post_token sample_deps sample_token_env sample_code_request sample_state = (Inr rp, s)" "rp_status rp \<noteq> 429"
    by simp_all
  from tokens_issued [OF sample_server sample_state_ok run] obtain tk
    where "rp = reply_with 200 [no_store, no_cache] (Json_body (tokens_json tk))" "tk_token_type tk = ''DPoP''" by blast
  with r show ?thesis by blast
qed

section \<open>Codes\<close>

text \<open>Property C5. The authorization endpoint changes the table of codes only for a pushed request that is unused
  and unexpired, valid for its registered client, with \<open>prompt=none\<close>, from a browser whose session is
  authentic and recent enough, when the decision point allows it without the user. It then adds one code, for that client and
  request, with a grant for the subject of the session, and uses the pushed request up. Every other outcome, errors and
  redirects to the login included, leaves all codes as they were.\<close>

theorem silent_codes:
  assumes "d = memory_server x pdp auth config paths urls" and "server_ok config s"
    and "authorize d env rq s = (r, s')" and "a_codes (tables_of s') \<noteq> a_codes (tables_of s)"
  shows "\<exists>c request session uri p q code.
    spec_par_peek uri (ae_t_peek env) (tables_of s) = Some q \<and> registered x (tables_of s) (par_clientId q) c \<and>
    validateAuthorizationRequest (params_body (par_params q)) c = Inr request \<and>
    silent_ok d env rq c request session \<and>
    a_par (tables_of s') = (a_par (tables_of s))(uri \<mapsto> (p, Some (ce_t_consume (ae_code env)))) \<and>
    code = issued_code x config (ae_code env) c request \<and>
    a_codes (tables_of s') = (a_codes (tables_of s))(code_codeHash code \<mapsto> (code, None)) \<and>
    a_grants (tables_of s') = (a_grants (tables_of s))(code_grantId code \<mapsto>
      issued_grant (ae_code env) c (ls_sub session) (js_date (ls_authTime session * 1000)) request)"
proof (rule srv.authorize_codes [OF assms(2) assms(3) [unfolded assms(1)] assms(4), unfolded memory_server_sel, folded assms(1)])
  fix c request session uri q
  assume "spec_par_peek uri (ae_t_peek env) (tables_of s) = Some q" "registered x (tables_of s) (par_clientId q) c"
    "validateAuthorizationRequest (params_body (par_params q)) c = Inr request" "silent_ok d env rq c request session"
    "code_written x config (ae_code env) uri c request (ls_sub session) (js_date (ls_authTime session * 1000))
      (tables_of s) (tables_of s')"
  moreover have "code_grantId (issued_code x config (ae_code env) c request) = ce_uuid (ae_code env)"
    by (simp add: issued_code_def)
  ultimately show ?thesis unfolding code_written_def by metis
qed

definition sample_authorize_request :: http_req where
  "sample_authorize_request =
     sample_browser_request ''GET'' [(''client_id'', JStr ''c''), (''request_uri'', JStr ''n'')]"

lemma sample_authorized:
  "\<exists>rp s. authorize sample_deps sample_authorize_env sample_authorize_request sample_flow = (Inr rp, s) \<and>
     a_codes (tables_of s) \<noteq> a_codes (tables_of sample_flow)"
  by (simp add: flow_eval sample_authorize_request_def mem_view_def fun_eq_iff)

lemma silent_codes_witness:
  "\<exists>c request session. silent_ok sample_deps sample_authorize_env sample_authorize_request c request session"
proof -
  obtain rp s where "authorize sample_deps sample_authorize_env sample_authorize_request sample_flow = (Inr rp, s)"
    and "a_codes (tables_of s) \<noteq> a_codes (tables_of sample_flow)" using sample_authorized by blast
  from silent_codes [OF sample_server sample_flow_ok this] show ?thesis by blast
qed

text \<open>Property C4. The consent endpoint changes the table of codes only for a parked interaction, not yet completed, whose
  pushed request is still valid, when the browser's session is authentic, presents the CSRF token of that
  session, is the session of the subject the consent page was shown to, approves, and the decision point
  agrees. It then adds one code, for the client and the pushed request of the interaction, with a grant for the subject of
  that session and no other, and uses the pushed request up.\<close>

theorem consent_codes:
  assumes "d = memory_server x pdp auth config paths urls" and "server_ok config s"
    and "post_consent d env rq s = (r, s')" and "a_codes (tables_of s') \<noteq> a_codes (tables_of s)"
  shows "\<exists>id' session ctx p i code. str_of (jget (rq_body rq) ''interaction_id'') = Some id' \<and>
    parked x (tables_of s) id' (co_t_context env) ctx \<and>
    spec_int_find id' (co_t_complete env) (tables_of s) = Some i \<and>
    consent_ok d env rq session ctx \<and>
    a_par (tables_of s') = (a_par (tables_of s))(ic_requestUri ctx \<mapsto> (p, Some (ce_t_consume (co_code env)))) \<and>
    code = issued_code x config (co_code env) (ic_client ctx) (ic_request ctx) \<and>
    a_codes (tables_of s') = (a_codes (tables_of s))(code_codeHash code \<mapsto> (code, None)) \<and>
    a_grants (tables_of s') = (a_grants (tables_of s))(code_grantId code \<mapsto>
      issued_grant (co_code env) (ic_client ctx) (ls_sub session) (js_date (ls_authTime session * 1000)) (ic_request ctx))"
proof (rule srv.post_consent_codes [OF assms(2) assms(3) [unfolded assms(1)] assms(4), unfolded memory_server_sel, folded assms(1)])
  fix id' session ctx
  assume "str_of (jget (rq_body rq) ''interaction_id'') = Some id'" "parked x (tables_of s) id' (co_t_context env) ctx"
    "consent_ok d env rq session ctx" "\<exists>i. spec_int_find id' (co_t_complete env) (tables_of s) = Some i"
    "code_written x config (co_code env) (ic_requestUri ctx) (ic_client ctx) (ic_request ctx) (ls_sub session)
      (js_date (ls_authTime session * 1000)) (tables_of s) (tables_of s')"
  moreover have "code_grantId (issued_code x config (co_code env) (ic_client ctx) (ic_request ctx)) = ce_uuid (co_code env)"
    by (simp add: issued_code_def)
  ultimately show ?thesis unfolding code_written_def by metis
qed

definition sample_consent_request :: http_req where
  "sample_consent_request = sample_browser_request ''POST''
     [(''interaction_id'', JStr ''i''), (''csrf'', JStr (issueCsrfToken sample_ext ''sid'' ''secret'')),
      (''decision'', JStr ''approve'')]"

lemma sample_consented:
  "\<exists>rp s. post_consent sample_deps sample_consent_env sample_consent_request sample_flow = (Inr rp, s) \<and>
     a_codes (tables_of s) \<noteq> a_codes (tables_of sample_flow)"
  by (simp add: flow_eval sample_consent_request_def mem_view_def fun_eq_iff)

lemma consent_codes_witness:
  "\<exists>session ctx. consent_ok sample_deps sample_consent_env sample_consent_request session ctx"
proof -
  obtain rp s where "post_consent sample_deps sample_consent_env sample_consent_request sample_flow = (Inr rp, s)"
    and "a_codes (tables_of s) \<noteq> a_codes (tables_of sample_flow)" using sample_consented by blast
  from consent_codes [OF sample_server sample_flow_ok this] show ?thesis by blast
qed

section \<open>Presented tokens\<close>

text \<open>Property C18. UserInfo answers 200 only to a request whose DPoP credentials verify, with the keys the server publishes
  in that state, to the identifier of a
  stored access token that is not revoked and not expired, with a DPoP proof, bound to that token by its
  hash, by the key the token is bound to; and the answer is the subject of that token.\<close>

theorem userinfo_answers:
  assumes "d = memory_server x pdp auth config paths urls" and "server_ok config s"
    and "userinfo d env rq s = (Inr rp, s')" and "rp_status rp = 200"
  shows "\<exists>cred keys j row jkt s1 s2.
    Option.bind (rq_authorization rq) dpop_credentials = Some cred \<and>
    published_keys (dp_keystore d) (ue_key env) (ue_t_keys env) s = Some keys \<and>
    verified_jti x config keys (trim cred) = Some j \<and> a_at (tables_of s) j = Some row \<and>
    at_revokedAt row = None \<and> ue_t_now env < at_expiresAt row \<and> at_cnfJkt row = Some jkt \<and>
    check_dpop d (ue_t_dpop env) (userinfo_context d rq (trim cred)) rq s1 = (Inr jkt, s2) \<and>
    tables_of s1 = tables_of s \<and>
    rp = reply_with 200 [no_store] (Json_body [(''sub'', JStr (at_subject row))])"
proof (rule srv.userinfo_200 [OF assms(2) assms(3) [unfolded assms(1)] assms(4), unfolded memory_server_sel, folded assms(1)])
  fix cred row jkt s1 s2
  assume "Option.bind (rq_authorization rq) dpop_credentials = Some cred"
    "access_row x config (published_keys (dp_keystore d) (ue_key env) (ue_t_keys env) s) (tables_of s) (trim cred) = Some row"
    "at_revokedAt row = None" "ue_t_now env < at_expiresAt row" "at_cnfJkt row = Some jkt" "tables_of s1 = tables_of s"
    "check_dpop d (ue_t_dpop env) (userinfo_context d rq (trim cred)) rq s1 = (Inr jkt, s2)"
    "rp = reply_with 200 [no_store] (Json_body [(''sub'', JStr (at_subject row))])"
  then show ?thesis unfolding access_row_Some by blast
qed

lemma sample_userinfo:
  "\<exists>rp s. userinfo sample_deps sample_userinfo_env sample_userinfo_request sample_state = (Inr rp, s) \<and> rp_status rp = 200"
  by (simp add: resource_eval)

lemma userinfo_answers_witness:
  "\<exists>keys j row. verified_jti sample_ext sample_config keys ''at'' = Some j \<and> a_at (tables_of sample_state) j = Some row \<and>
     at_revokedAt row = None \<and> 1000000 < at_expiresAt row"
proof -
  obtain rp s where run: "userinfo sample_deps sample_userinfo_env sample_userinfo_request sample_state = (Inr rp, s)"
    and ok: "rp_status rp = 200" using sample_userinfo by blast
  from userinfo_answers [OF sample_server sample_state_ok run ok] obtain cred keys j row where
    "Option.bind (rq_authorization sample_userinfo_request) dpop_credentials = Some cred"
    "verified_jti sample_ext sample_config keys (trim cred) = Some j" "a_at (tables_of sample_state) j = Some row"
    "at_revokedAt row = None" "ue_t_now sample_userinfo_env < at_expiresAt row" by blast
  moreover have "trim ''at'' = ''at''" by code_simp
  ultimately show ?thesis by (auto simp: sample_userinfo_request_def sample_userinfo_env_def)
qed

text \<open>Property C21. Introspection says \<open>active\<close> only to an authenticated client about a token of its own that is
  neither revoked nor expired, the token being the stored row that the presented one verifies to with the published keys
  or has the digest of; and it changes nothing but the memory of replays.\<close>

theorem introspection_says_active:
  assumes "d = memory_server x pdp auth config paths urls" and "server_ok config s"
    and "post_introspect d env rq s = (Inr rp, s')" and "rp_status rp \<noteq> 429"
    and "rp_body rp = Json_body b" and "jget b ''active'' = Some (JBool True)"
  shows "\<exists>c token u s1 s2. dp_allow d (rq_ip rq) (le_t_rate env) s = (Inr True, s1) \<and> tables_of s1 = tables_of s \<and>
    authenticate d (le_t_auth env) rq s1 = (Inr c, s2) \<and> same_tables (tables_of s) (tables_of s2) \<and>
    str_of (jget (rq_body rq) ''token'') = Some token \<and>
    token_row x config (published_keys (dp_keystore d) (le_key env) (le_t_keys env) s2) (tables_of s) token
      (str_of (jget (rq_body rq) ''token_type_hint'')) = Some u \<and>
    resolved_clientId u = clientId c \<and>
    (case u of Resolved_refresh r \<Rightarrow> rt_revokedAt r = None \<and> le_t_now env < rt_expiresAt r
     | Resolved_access r \<Rightarrow> at_revokedAt r = None \<and> le_t_now env < at_expiresAt r) \<and>
    tables_of s' = tables_of s2"
proof (rule srv.post_introspect_active [OF assms(2) assms(3) [unfolded assms(1)] assms(4-6), folded assms(1)])
  fix c token u s1 s2
  assume "dp_allow d (rq_ip rq) (le_t_rate env) s = (Inr True, s1)" "tables_of s1 = tables_of s"
    "authenticate d (le_t_auth env) rq s1 = (Inr c, s2)" and same: "same_tables (tables_of s) (tables_of s2)"
    and "str_of (jget (rq_body rq) ''token'') = Some token"
    "named_row d env s2 (tables_of s2) token (str_of (jget (rq_body rq) ''token_type_hint'')) = Some u"
    "resolved_clientId u = clientId c"
    "case u of Resolved_refresh r \<Rightarrow> rt_revokedAt r = None \<and> le_t_now env < rt_expiresAt r
     | Resolved_access r \<Rightarrow> at_revokedAt r = None \<and> le_t_now env < at_expiresAt r" "tables_of s' = tables_of s2"
  then show ?thesis unfolding named_row_memory [OF assms(1) same] by blast
qed

lemma sample_introspection:
  "\<exists>rp s b. post_introspect sample_deps sample_lookup_env sample_lookup_request sample_state = (Inr rp, s) \<and>
     rp_status rp = 200 \<and> rp_body rp = Json_body b \<and> jget b ''active'' = Some (JBool True)"
  by (simp add: resource_eval)

lemma introspection_says_active_witness:
  "\<exists>keys hint u. token_row sample_ext sample_config keys (tables_of sample_state) ''at'' hint = Some u"
proof -
  obtain rp s b where run: "post_introspect sample_deps sample_lookup_env sample_lookup_request sample_state = (Inr rp, s)"
    and "rp_status rp = 200" and b: "rp_body rp = Json_body b" "jget b ''active'' = Some (JBool True)"
    using sample_introspection by blast
  then have "rp_status rp \<noteq> 429" by simp
  from introspection_says_active [OF sample_server sample_state_ok run this b]
  show ?thesis by (auto simp: sample_lookup_request_def sample_request_def sample_body_def)
qed

text \<open>Property C20. A revocation that is answered revokes exactly the presented token: the stored row that it verifies to with
  the keys the server publishes then, or that has its digest, is marked revoked, and with a refresh token the access tokens of
  its grant, if the client that authenticated is the one the token was issued to. A token of another client and a string that
  is no token change nothing but the memory of replays. The answer is the same in all cases.\<close>

theorem revocation_effect:
  assumes "d = memory_server x pdp auth config paths urls" and "server_ok config s"
    and "post_revoke d env rq s = (Inr rp, s')" and "rp_status rp \<noteq> 429"
  shows "\<exists>c token found s1 s2. dp_allow d (rq_ip rq) (le_t_rate env) s = (Inr True, s1) \<and> tables_of s1 = tables_of s \<and>
    authenticate d (le_t_auth env) rq s1 = (Inr c, s2) \<and> same_tables (tables_of s) (tables_of s2) \<and>
    str_of (jget (rq_body rq) ''token'') = Some token \<and>
    found = token_row x config (published_keys (dp_keystore d) (le_key env) (le_t_keys env) s2) (tables_of s) token
      (known_hint (str_of (jget (rq_body rq) ''token_type_hint''))) \<and>
    tables_of s' =
      (case found of
         Some (Resolved_access r) \<Rightarrow>
           if at_clientId r = clientId c then spec_at_revoke (at_jti r) (le_t_now env) (tables_of s2) else tables_of s2
       | Some (Resolved_refresh r) \<Rightarrow>
           if rt_clientId r = clientId c
           then spec_at_revokeByGrant (rt_grantId r) (le_t_now env)
                  (spec_rt_revoke (rt_tokenHash r) (le_t_now env) (tables_of s2))
           else tables_of s2
       | None \<Rightarrow> tables_of s2) \<and>
    rp = reply_with 200 [no_store] No_body"
proof (rule srv.post_revoke_Inr [OF assms(2) assms(3) [unfolded assms(1)] assms(4), folded assms(1)])
  fix c token s1 s2
  let ?found = "token_row x config (published_keys (dp_keystore d) (le_key env) (le_t_keys env) s2) (tables_of s) token
      (known_hint (str_of (jget (rq_body rq) ''token_type_hint'')))"
  assume 1: "dp_allow d (rq_ip rq) (le_t_rate env) s = (Inr True, s1)" "tables_of s1 = tables_of s"
    "authenticate d (le_t_auth env) rq s1 = (Inr c, s2)" and same: "same_tables (tables_of s) (tables_of s2)"
    and tok: "str_of (jget (rq_body rq) ''token'') = Some token"
    and v: "tables_of s' = revoked_view (le_t_now env) c
           (named_row d env s2 (tables_of s2) token (known_hint (str_of (jget (rq_body rq) ''token_type_hint'')))) (tables_of s2)"
    and rp: "rp = reply_with 200 [no_store] No_body"
  from v have "tables_of s' = revoked_view (le_t_now env) c ?found (tables_of s2)"
    by (simp only: named_row_memory [OF assms(1) same])
  then show ?thesis
    by (intro exI [of _ c] exI [of _ token] exI [of _ ?found] exI [of _ s1] exI [of _ s2])
      (use 1 same tok rp in \<open>simp add: revoked_view_def resolved_clientId_def split: option.split resolved_token.split\<close>)
qed

lemma sample_revocation:
  "\<exists>rp s. post_revoke sample_deps sample_lookup_env sample_lookup_request sample_state = (Inr rp, s) \<and> rp_status rp = 200"
  by (simp add: resource_eval)

lemma revocation_effect_witness:
  "\<exists>c s1 s2. authenticate sample_deps 1000000 sample_lookup_request s1 = (Inr c, s2) \<and>
     tables_of s1 = tables_of sample_state \<and> same_tables (tables_of sample_state) (tables_of s2)"
proof -
  obtain rp s where run: "post_revoke sample_deps sample_lookup_env sample_lookup_request sample_state = (Inr rp, s)"
    and ok: "rp_status rp = 200" using sample_revocation by blast
  then have "rp_status rp \<noteq> 429" by simp
  from revocation_effect [OF sample_server sample_state_ok run this] obtain c s1 s2 where
    "authenticate sample_deps (le_t_auth sample_lookup_env) sample_lookup_request s1 = (Inr c, s2)"
    "tables_of s1 = tables_of sample_state" "same_tables (tables_of sample_state) (tables_of s2)" by blast
  moreover have "le_t_auth sample_lookup_env = 1000000" by (simp add: sample_lookup_env_def)
  ultimately show ?thesis by metis
qed

text \<open>A request with \<open>prompt=login\<close> is never brought before its user: the interaction page asks to
  log in again however fresh the session is, and never records a subject, without which no consent is
  accepted. The login it asks for does not change that.\<close>

theorem prompt_login_never_consents:
  assumes "vr_prompt (ic_request ctx) = Some p" and "''login'' \<in> set (words_of p)"
  shows "fst (dispatch_interaction (memory_server x pdp auth config paths urls) env rq id' ctx s) =
      Inr (login_page (memory_server x pdp auth config paths urls) id' None) \<and>
    snd (dispatch_interaction (memory_server x pdp auth config paths urls) env rq id' ctx s) = s"
  using prompt_login_always [OF assms] by (simp add: dispatch_interaction_def returnE_def split: option.split)

lemma prompt_login_never_consents_witness:
  "snd (dispatch_interaction sample_deps \<lparr>de_t_context = 0, de_t_session = 1000000, de_t_now = 1000000\<rparr>
      (sample_browser_request ''GET'' []) ''i''
      \<lparr>ic_client = sample_client, ic_request = sample_authz_request (Some ''login''), ic_requestUri = ''u'',
       ic_subject = None\<rparr> sample_flow) = sample_flow"
proof -
  let ?ctx = "\<lparr>ic_client = sample_client, ic_request = sample_authz_request (Some ''login''), ic_requestUri = ''u'',
       ic_subject = None\<rparr>"
  have "vr_prompt (ic_request ?ctx) = Some ''login''" by (simp add: sample_authz_request_def)
  moreover have "''login'' \<in> set (words_of ''login'')" by code_simp
  ultimately show ?thesis unfolding sample_server by (rule prompt_login_never_consents [THEN conjunct2])
qed

end
