(* ===== verification/IssuedTokens.thy ===== *)
theory IssuedTokens
  imports EndpointProperties
begin

text \<open>
  The way back from a token response to the resource endpoint: a token the server has just issued resolves to its own
  row and is served. What the JWT library does is a hypothesis, \<open>signs_for\<close>.
\<close>

text \<open>The documented behaviour of the library for one pair of keys: a JWT signed with the private key, of the type and
  the issuer asked for and not expired, verifies to its claims with every key set that holds the public key and no
  other key of the same \<open>kid\<close>.\<close>

definition signs_for :: "ext \<Rightarrow> loaded_key \<Rightarrow> string \<Rightarrow> jobj \<Rightarrow> bool" where
  "signs_for x l issuer claims \<longleftrightarrow>
     (\<forall>jwks header typ. toPublicJwk (sk_publicJwk (lk_record l)) \<in> set jwks \<longrightarrow>
        (\<forall>j\<in>set jwks. jget j ''kid'' = Some (JStr (kid_of l)) \<longrightarrow> j = toPublicJwk (sk_publicJwk (lk_record l))) \<longrightarrow>
        jget header ''alg'' = Some (JStr ''ES256'') \<longrightarrow> jget header ''kid'' = Some (JStr (kid_of l)) \<longrightarrow>
        jget header ''typ'' = Some (JStr typ) \<longrightarrow> jget claims ''iss'' = Some (JStr issuer) \<longrightarrow>
        x_verify_issued x jwks issuer typ (x_sign_jwt x (lk_privateKey l) header claims) = Some claims)"

text \<open>The keys of a ready keystore are read without the database, and an access token is read from its row.\<close>

lemma found_by_jti:
  assumes "kx_ready k" and "verified_jti x config (publicJwks_of now (kx_keys k)) token = Some j"
    and "map_get (m_accessTokens m) j = Some row"
  shows "findAccessToken x (dp_storage (memory_server x pdp auth config paths urls))
      (dp_keystore (memory_server x pdp auth config paths urls)) config env now token (l, k, m)
    = (Inr (Some (Resolved_access row)), (l, k, m))"
  using assms
  by (simp add: findAccessToken_def build_deps_def server_storage_def server_keystore_def key_store_def on_kstate_def
      on_storage_def on_repo_def ensure_def publicJwks_def get_keys_def bindE_def catchE_def returnE_def
      createMemoryStorage_def memory_accessTokens_def on_table_def reading_def mem_at_findByJti_def)


text \<open>Property C19. Round trip: a token that was just issued is served. The response to a code or a refresh token
  carries an access token; presented at UserInfo before it expires, with a proof of the key it was issued to, it gets the subject
  it was issued for. The keystore publishes one key under the identifier of the signing key.\<close>

theorem issued_token_served:
  assumes d_def: "d = memory_server x pdp auth config paths urls" and ok: "server_ok config (l, k, m)" and ready: "kx_ready k" "mustActive k = Inr a"
    and issue: "issueTokenSet x (dp_storage d) (dp_keystore d) config ienv i openid refresh (l, k, m) = (Inr tk, s1)"
    and jose: "signs_for x a (cfg_issuer config) (access_claims config (ie_t_at ienv) (ie_jti ienv) i)"
    and kids: "\<forall>j\<in>set (publicJwks_of (ue_t_keys env) (kx_keys k)). jget j ''kid'' = Some (JStr (kid_of a)) \<longrightarrow>
      j = toPublicJwk (sk_publicJwk (lk_record a))"
    and time: "ue_t_now env < ie_t_at ienv + cfg_accessTokenTtlSec config * 1000"
    and token: "map_option trim (Option.bind (rq_authorization rq) dpop_credentials) = Some (tk_access_token tk)"
      "tk_access_token tk \<noteq> []"
    and proof_key: "check_dpop d (ue_t_dpop env) (userinfo_context d rq (tk_access_token tk)) rq s1 = (Inr (ti_cnfJkt i), s2)"
      "ti_cnfJkt i \<noteq> []"
  shows "userinfo d env rq s1 = (Inr (reply_with 200 [no_store] (Json_body [(''sub'', JStr (ti_subject i))])), s2)"
proof -
  have "fst (snd s1) = k"
    using issue_keeps_keystore [of x pdp auth config paths urls ienv i openid refresh, unfolded keeps_keystore_def, rule_format,
      of "(l, k, m)"] issue by (simp add: d_def)
  then obtain l1 m1 where s1: "s1 = (l1, k, m1)" by (cases s1) auto
  note t = srv.issueTokenSet_Inr [OF ok issue [unfolded d_def]]
  obtain s0 where sg: "ks_signJwt (dp_keystore (memory_server x pdp auth config paths urls))
      (access_claims config (ie_t_at ienv) (ie_jti ienv) i) (Some ''at+jwt'') (l, k, m) = (Inr (tk_access_token tk), s0)"
    using t(8) by auto
  obtain header where header: "tk_access_token tk = x_sign_jwt x (lk_privateKey a) header
        (access_claims config (ie_t_at ienv) (ie_jti ienv) i)"
      "jget header ''alg'' = Some (JStr ''ES256'')" "jget header ''kid'' = Some (JStr (kid_of a))"
      "jget header ''typ'' = Some (JStr ''at+jwt'')"
    by (rule signed_with_active [OF sg]) (use ready in auto)
  have "keystore_ok k" using ok by (simp add: srv_ok_def)
  from signing_key_published [OF this ready(1), of "ue_t_keys env"] ready
  have pub: "toPublicJwk (sk_publicJwk (lk_record a)) \<in> set (publicJwks_of (ue_t_keys env) (kx_keys k))" by auto
  have "verified_jti x config (publicJwks_of (ue_t_keys env) (kx_keys k)) (tk_access_token tk) = Some (ie_jti ienv)"
    using jose [unfolded signs_for_def, rule_format, OF pub _ header(2-4)] kids header(1)
    by (simp add: verified_jti_def access_claims_def)
  moreover have "map_get (m_accessTokens m1) (ie_jti ienv) = Some (access_record config (ie_t_at ienv) (ie_jti ienv) i)"
    using t(2) by (simp add: s1 mem_view_def token_effect_def Let_def spec_at_insert_def spec_rt_insert_def access_record_def split: if_splits)
  ultimately have "findAccessToken x (dp_storage d) (dp_keystore d) config (ue_key env) (ue_t_keys env) (tk_access_token tk) s1
      = (Inr (Some (Resolved_access (access_record config (ie_t_at ienv) (ie_jti ienv) i))), s1)"
    unfolding s1 d_def by (intro found_by_jti ready)
  moreover have "userinfo_for d env rq (tk_access_token tk) (access_record config (ie_t_at ienv) (ie_jti ienv) i) s1
      = (Inr (reply_with 200 [no_store] (Json_body [(''sub'', JStr (ti_subject i))])), s2)"
    using time proof_key
    by (simp add: userinfo_for_def access_record_def userinfo_proof_key_def catchE_def bindE_def returnE_def userinfo_answer_def)
  ultimately show ?thesis
    using token by (auto simp: userinfo_def Let_def bindE_def d_def)
qed

text \<open>A ready server with one key, for the witness; the library returns the claims the token was signed with.\<close>

definition served_key :: loaded_key where
  "served_key =
     \<lparr>lk_record = \<lparr>sk_kid = ''k'', sk_alg = ''ES256'', sk_status = active, sk_privateJwk = [(''d'', JStr ''d'')],
        sk_publicJwk = [(''kid'', JStr ''k'')], sk_createdAt = 0, sk_retiredAt = None\<rparr>, lk_privateKey = ''key''\<rparr>"

definition served_state :: "mem_store server" where
  "served_state = (fst sample_state, \<lparr>kx_keys = [(''k'', served_key)], kx_active = Some ''k'', kx_ready = True\<rparr>, snd (snd sample_state))"

definition served_input :: token_input where
  "served_input =
     \<lparr>ti_grantId = ''g'', ti_clientId = ''c'', ti_subject = ''alice'', ti_scope = ''openid'', ti_cnfJkt = sample_jkt,
      ti_authTime = None, ti_acr = None, ti_amr = None, ti_nonce = None\<rparr>"

definition served_ext :: ext where
  "served_ext = sample_ext\<lparr>x_verify_issued := \<lambda>_ _ _ t.
     if t = ''at'' then Some (access_claims sample_config 1000000 ''K'' served_input) else None\<rparr>"

definition served_deps :: "mem_store server deps" where
  "served_deps = memory_server served_ext mock_evaluate (dev_authenticate sample_config) sample_config sample_paths sample_urls"

lemma issued_token_served_witness:
  "\<exists>tk s1 s2. issueTokenSet served_ext (dp_storage served_deps) (dp_keystore served_deps) sample_config
       (te_issue sample_token_env) served_input False False served_state = (Inr tk, s1) \<and>
     userinfo served_deps sample_userinfo_env sample_userinfo_request s1
       = (Inr (reply_with 200 [no_store] (Json_body [(''sub'', JStr ''alice'')])), s2)"
proof -
  have ok: "server_ok sample_config served_state"
    using sample_state_ok
    by (simp add: served_state_def sample_state_def fresh_server_def srv_ok_def keystore_ok_def mustActive_def kid_of_def
        served_key_def)
  obtain l k m where s: "served_state = (l, k, m)" and k: "k = \<lparr>kx_keys = [(''k'', served_key)], kx_active = Some ''k'', kx_ready = True\<rparr>"
    by (simp add: served_state_def)
  obtain tk s1 where issue: "issueTokenSet served_ext (dp_storage served_deps) (dp_keystore served_deps) sample_config
       (te_issue sample_token_env) served_input False False served_state = (Inr tk, s1)" and tk: "tk_access_token tk = ''at''"
    by (simp add: sample_eval issueTokenSet_def served_deps_def build_deps_def served_state_def served_ext_def
        served_key_def served_input_def issueAccessToken_def access_record_def)
  obtain s2 where pf: "check_dpop served_deps (ue_t_dpop sample_userinfo_env)
      (userinfo_context served_deps sample_userinfo_request ''at'') sample_userinfo_request s1 = (Inr sample_jkt, s2)"
    using issue by (auto simp add: resource_eval issueTokenSet_def served_deps_def build_deps_def served_state_def served_ext_def
        served_key_def served_input_def issueAccessToken_def access_record_def)
  have trim: "trim ''at'' = ''at''" by code_simp
  have "userinfo served_deps sample_userinfo_env sample_userinfo_request s1
       = (Inr (reply_with 200 [no_store] (Json_body [(''sub'', JStr (ti_subject served_input))])), s2)"
  proof (rule issued_token_served [where a = served_key, OF served_deps_def ok [unfolded s] _ _ issue [unfolded s]])
  qed (use tk pf trim in \<open>simp_all add: k mustActive_def signs_for_def served_ext_def access_claims_def sample_token_env_def
      served_input_def publicJwks_of_def published_def served_key_def kid_of_def sample_jkt_def sample_userinfo_env_def
      sample_userinfo_request_def\<close>)
  moreover have "ti_subject served_input = ''alice''" by (simp add: served_input_def)
  ultimately show ?thesis using issue by metis
qed

end
