(* ===== verification/History.thy ===== *)
theory History
  imports Server
begin

text \<open>
  What any sequence of requests does to the tables of the protocol. Rows are never removed and change
  only in one direction: a code or a pushed request is used once and stays used, a grant or a token is
  revoked once and stays revoked; and under a revoked grant nothing comes to life. This holds except for
  the identifiers a request draws at random, under which it may insert new rows.
\<close>

section \<open>How a row changes\<close>

text \<open>A single-use row is used at most once, a revocable row is marked or left alone.\<close>

definition uses :: "('r \<times> int option) option \<Rightarrow> ('r \<times> int option) option \<Rightarrow> bool" where
  "uses row row' \<longleftrightarrow> row' = row \<or> (\<exists>r t. row = Some (r, None) \<and> row' = Some (r, Some t))"

definition ages :: "(int \<Rightarrow> 'r \<Rightarrow> 'r) \<Rightarrow> 'r option \<Rightarrow> 'r option \<Rightarrow> bool" where
  "ages mark row row' \<longleftrightarrow> row' = row \<or> (\<exists>t. row' = map_option (mark t) row)"

lemma uses_refl [simp]: "uses row row"
  by (simp add: uses_def)

lemma ages_refl [simp]: "ages mark row row"
  by (simp add: ages_def)

lemma uses_trans: "uses a b \<Longrightarrow> uses b c \<Longrightarrow> uses a c"
  by (auto simp: uses_def)

lemma ages_trans:
  assumes "\<And>t u r. mark u (mark t r) = mark t r" and "ages mark a b" and "ages mark b c"
  shows "ages mark a c"
  using assms by (cases a) (auto simp: ages_def)

lemma mark_mark:
  "grant_mark u (grant_mark t r) = grant_mark t r" "at_mark u (at_mark t a) = at_mark t a"
  "rt_mark u (rt_mark t w) = rt_mark t w"
  by (simp_all add: grant_mark_def at_mark_def rt_mark_def)

lemma grant_ages_trans: "ages grant_mark a b \<Longrightarrow> ages grant_mark b c \<Longrightarrow> ages grant_mark a c"
  by (rule ages_trans) (rule mark_mark)

lemma at_ages_trans: "ages at_mark a b \<Longrightarrow> ages at_mark b c \<Longrightarrow> ages at_mark a c"
  by (rule ages_trans) (rule mark_mark)

lemma rt_ages_trans: "ages rt_mark a b \<Longrightarrow> ages rt_mark b c \<Longrightarrow> ages rt_mark a c"
  by (rule ages_trans) (rule mark_mark)

lemma mark_fields [simp]:
  "grant_grantId (grant_mark t r) = grant_grantId r"
  "at_jti (at_mark t a) = at_jti a" "rt_tokenHash (rt_mark t w) = rt_tokenHash w"
  by (simp_all add: grant_mark_def at_mark_def rt_mark_def)

lemma marked [simp]:
  "\<exists>u. grant_revokedAt (grant_mark t r) = Some u" "\<exists>u. at_revokedAt (at_mark t a) = Some u"
  "\<exists>u. rt_revokedAt (rt_mark t w) = Some u"
  using marks(1,2,4) by blast+

lemma ages_if: "ages mark row (map_option (\<lambda>r. if P r then mark t r else r) row)"
  by (cases row) (auto simp: ages_def)

section \<open>The relation\<close>

text \<open>The identifiers a request draws, as the keys of the tables they go to.\<close>

record drawn =
  dr_par :: "string set"
  dr_grants :: "string set"
  dr_codes :: "string set"
  dr_at :: "string set"
  dr_rt :: "string set"

text \<open>Rows are filed under their own identifiers.\<close>

definition keyed :: "astore \<Rightarrow> bool" where
  "keyed a \<longleftrightarrow>
     (\<forall>i r. a_grants a i = Some r \<longrightarrow> grant_grantId r = i) \<and>
     (\<forall>i r. a_at a i = Some r \<longrightarrow> at_jti r = i) \<and>
     (\<forall>i r. a_rt a i = Some r \<longrightarrow> rt_tokenHash r = i)"

definition grant_gone :: "string \<Rightarrow> astore \<Rightarrow> bool" where
  "grant_gone g a \<longleftrightarrow> a_grants a g \<noteq> None \<and> grant_dead g a"

definition history :: "drawn \<Rightarrow> astore \<Rightarrow> astore \<Rightarrow> bool" where
  "history D a a' \<longleftrightarrow>
     a_clients a' = a_clients a \<and>
     (\<forall>u. u \<notin> dr_par D \<longrightarrow> uses (a_par a u) (a_par a' u)) \<and>
     (\<forall>h. h \<notin> dr_codes D \<longrightarrow> uses (a_codes a h) (a_codes a' h)) \<and>
     (\<forall>g. g \<notin> dr_grants D \<longrightarrow> ages grant_mark (a_grants a g) (a_grants a' g)) \<and>
     (\<forall>j. j \<notin> dr_at D \<longrightarrow> ages at_mark (a_at a j) (a_at a' j)) \<and>
     (\<forall>h. h \<notin> dr_rt D \<longrightarrow> ages rt_mark (a_rt a h) (a_rt a' h))"

definition evolves :: "drawn \<Rightarrow> astore \<Rightarrow> astore \<Rightarrow> bool" where
  "evolves D a a' \<longleftrightarrow>
     (keyed a \<longrightarrow> keyed a' \<and> history D a a' \<and>
        (\<forall>g. g \<notin> dr_grants D \<longrightarrow> grant_gone g a \<longrightarrow> grant_gone g a'))"

lemma history_refl: "history D a a"
  by (simp add: history_def)

lemma history_trans: "history D a b \<Longrightarrow> history D b c \<Longrightarrow> history D a c"
  unfolding history_def
proof (elim conjE, intro conjI allI impI, goal_cases)
  case 1
  then show ?case by simp
next
  case (2 u)
  then show ?case using uses_trans by blast
next
  case (3 h)
  then show ?case using uses_trans by blast
next
  case (4 g)
  then show ?case using grant_ages_trans by blast
next
  case (5 j)
  then show ?case using at_ages_trans by blast
next
  case (6 h)
  then show ?case using rt_ages_trans by blast
qed

lemma evolves_refl [simp]: "evolves D a a"
  by (simp add: evolves_def history_refl)

lemma reflp_evolves [simp, intro]: "reflp (evolves D)"
  by (auto simp: evolves_def history_refl intro: reflpI)

lemma transp_evolves [simp, intro]: "transp (evolves D)"
  by (rule transpI) (auto simp: evolves_def intro: history_trans)

section \<open>The single operations\<close>

lemma evolves_same: "same_tables a a' \<Longrightarrow> evolves D a a'"
  by (auto simp: evolves_def history_def keyed_def grant_gone_def grant_dead_def dest: same_tables_D)

lemma evolves_jti: "spec_jti_register c j e n a r a' \<Longrightarrow> evolves D a a'"
  by (rule evolves_same) (rule spec_jti_same_tables)

lemma evolves_int:
  "spec_int_insert r a a' \<Longrightarrow> evolves D a a'" "evolves D a (spec_int_setSubject i sb tm acr amr a)"
  "evolves D a (spec_int_complete i t a)"
  by (auto simp: evolves_def history_def keyed_def grant_gone_def grant_dead_def spec_int_insert_def
      spec_int_setSubject_def spec_int_complete_def split: option.splits prod.splits)

lemma evolves_sweep: "spec_int_sweep t a a' \<Longrightarrow> evolves D a a'"
  by (auto simp: evolves_def history_def keyed_def grant_gone_def grant_dead_def spec_int_sweep_def)

lemma evolves_par:
  "par_requestUri r \<in> dr_par D \<Longrightarrow> evolves D a (spec_par_insert r a)" "evolves D a (spec_par_consume u t a)"
  by (auto simp: evolves_def history_def keyed_def grant_gone_def grant_dead_def spec_par_insert_def
      spec_par_consume_def spec_par_peek_def usable_def uses_def split: option.splits prod.splits if_splits)

lemma evolves_codes:
  "code_codeHash r \<in> dr_codes D \<Longrightarrow> evolves D a (spec_code_insert r a)" "evolves D a (spec_code_redeem h t a)"
  by (auto simp: evolves_def history_def keyed_def grant_gone_def grant_dead_def spec_code_insert_def
      spec_code_redeem_def spec_code_redemption_def uses_def split: option.splits prod.splits if_splits)

lemma evolves_grants:
  "grant_grantId r \<in> dr_grants D \<Longrightarrow> evolves D a (spec_grant_insert r a)" "evolves D a (spec_grant_revoke g t a)"
  by (auto simp: evolves_def history_def keyed_def grant_gone_def grant_dead_def spec_grant_insert_def
      spec_grant_revoke_def ages_def split: if_splits)

lemma evolves_revokes:
  "evolves D a (spec_at_revoke j t a)" "evolves D a (spec_rt_revoke h t a)"
  "evolves D a (spec_at_revokeByGrant g t a)" "evolves D a (spec_rt_revokeByGrant g t a)"
  by (auto simp: evolves_def history_def keyed_def grant_gone_def grant_dead_def spec_at_revoke_def
      spec_rt_revoke_def spec_at_revokeByGrant_def spec_rt_revokeByGrant_def ages_if [where mark = at_mark] ages_if [where mark = rt_mark]
      split: if_splits)
    (auto simp: ages_def)

text \<open>Tokens may be inserted only under a grant that is not revoked.\<close>

definition grant_alive :: "string \<Rightarrow> astore \<Rightarrow> bool" where
  "grant_alive g a \<longleftrightarrow> (\<exists>r. a_grants a g = Some r \<and> grant_revokedAt r = None)"

lemma evolves_tokens:
  "at_jti r \<in> dr_at D \<Longrightarrow> grant_alive (at_grantId r) a \<Longrightarrow> evolves D a (spec_at_insert r a)"
  "rt_tokenHash w \<in> dr_rt D \<Longrightarrow> grant_alive (rt_grantId w) a \<Longrightarrow> evolves D a (spec_rt_insert w a)"
  by (auto simp: evolves_def history_def keyed_def grant_gone_def grant_dead_def grant_alive_def spec_at_insert_def
      spec_rt_insert_def split: if_splits)

text \<open>The issue of tokens under one grant.\<close>

definition issues_under :: "string \<Rightarrow> drawn \<Rightarrow> astore \<Rightarrow> astore \<Rightarrow> bool" where
  "issues_under g D a a' \<longleftrightarrow> (grant_alive g a \<longrightarrow> evolves D a a' \<and> grant_alive g a')"

lemma reflp_issues [simp, intro]: "reflp (issues_under g D)"
  using reflp_evolves [of D] by (auto simp: issues_under_def reflp_def)

lemma transp_issues [simp, intro]: "transp (issues_under g D)"
  using transp_evolves [of D] by (auto simp: issues_under_def transp_def)

lemma issues_tokens:
  "at_jti r \<in> dr_at D \<Longrightarrow> at_grantId r = g \<Longrightarrow> issues_under g D a (spec_at_insert r a)"
  "rt_tokenHash w \<in> dr_rt D \<Longrightarrow> rt_grantId w = g \<Longrightarrow> issues_under g D a (spec_rt_insert w a)"
  unfolding issues_under_def using evolves_tokens
  by (auto simp: grant_alive_def spec_at_insert_def spec_rt_insert_def)

section \<open>The handlers\<close>

definition drawn_by :: "ext \<Rightarrow> call_env \<Rightarrow> drawn" where
  "drawn_by x env =
     (let code = \<lambda>e. sha256Base64Url x (base64url (ce_bytes e));
          envs = {ae_code (xe_authorize env), co_code (xe_consent env)};
          issue = te_issue (xe_token env)
      in \<lparr>dr_par = {REQUEST_URI_PREFIX @ base64url (pe_bytes (xe_par env))}, dr_grants = ce_uuid ` envs,
          dr_codes = code ` envs, dr_at = {ie_jti issue},
          dr_rt = {sha256Base64Url x (base64url (ie_rt_bytes issue))}\<rparr>)"

text \<open>A continuation that depends on what the first part established.\<close>

lemma moves_bind_dep:
  assumes "transp T" and m: "moves ok view T m"
    and f: "\<And>s x s1 r s'. ok s \<Longrightarrow> m s = (Inr x, s1) \<Longrightarrow> ok s1 \<Longrightarrow> f x s1 = (r, s') \<Longrightarrow> ok s' \<and> T (view s1) (view s')"
  shows "moves ok view T (bindE m f)"
proof -
  have "ok s' \<and> T (view s) (view s')" if "ok s" "bindE m f s = (r, s')" for s r s'
  proof (cases "m s")
    case (Pair r1 s1)
    with m that(1) have 1: "ok s1" "T (view s) (view s1)" by (auto dest: movesD)
    show ?thesis
    proof (cases r1)
      case (Inl e)
      with Pair that(2) 1 show ?thesis by (simp add: bindE_def)
    next
      case (Inr x)
      with Pair that(2) have "f x s1 = (r, s')" by (simp add: bindE_def)
      with f [OF that(1) _ 1(1)] Pair Inr 1 \<open>transp T\<close> show ?thesis by (blast dest: transpD)
    qed
  qed
  then show ?thesis by (simp add: moves_def)
qed

context endpoint_deps begin

lemma authenticate_evolves: "moves ok view (evolves D) (authenticate d now rq)"
  unfolding authenticate_def by (intro authenticateClient_moves) (auto intro: evolves_jti)

lemma check_dpop_evolves: "moves ok view (evolves D) (check_dpop d now ctx rq)"
  unfolding check_dpop_def by (intro verifyDpopProof_moves) (auto intro: evolves_jti)

lemma redeem_evolves:
  "moves ok view (evolves D) (redeemAuthorizationCode x (dp_storage d) now code cid uri ver jkt)"
  unfolding redeemAuthorizationCode_def
  by (auto intro!: moves_intro moves_obeys [OF code_redeem] moves_obeys [OF grant_revoke]
      moves_obeys [OF at_revokeByGrant] moves_obeys [OF rt_revokeByGrant] quiet_moves [OF valid_grant_quiet]
      evolves_codes evolves_grants evolves_revokes split: code_redemption.split)

lemma issueTokenSet_evolves:
  assumes "ok s" and "a_grants (view s) k = Some g" and "grant_revokedAt g = None" and "ti_grantId i = grant_grantId g"
    and "ie_jti env \<in> dr_at D" and "sha256Base64Url (dp_ext d) (base64url (ie_rt_bytes env)) \<in> dr_rt D"
    and run: "issueTokenSet (dp_ext d) (dp_storage d) (dp_keystore d) config env i openid withRefresh s = (r, s')"
  shows "ok s' \<and> evolves D (view s) (view s')"
proof -
  have "moves ok view (issues_under (ti_grantId i) D)
      (issueTokenSet (dp_ext d) (dp_storage d) (dp_keystore d) config env i openid withRefresh)"
    by (intro issueTokenSet_moves issues_tokens) (auto simp: access_record_def refresh_record_def assms(5,6))
  from movesD [OF this assms(1) run] have m: "ok s'" "issues_under (ti_grantId i) D (view s) (view s')" by simp_all
  show ?thesis
  proof (cases "keyed (view s)")
    case False
    with m(1) show ?thesis by (simp add: evolves_def)
  next
    case True
    with assms(2-4) have "grant_alive (ti_grantId i) (view s)" by (auto simp: keyed_def grant_alive_def)
    with m show ?thesis by (simp add: issues_under_def)
  qed
qed

lemma handleAuthorizationCode_evolves:
  assumes "ie_jti (te_issue env) \<in> dr_at D" "sha256Base64Url (dp_ext d) (base64url (ie_rt_bytes (te_issue env))) \<in> dr_rt D"
  shows "moves ok view (evolves D) (handleAuthorizationCode d env body c jkt)"
  unfolding handleAuthorizationCode_def
proof (intro moves_case_option moves_throw reflp_evolves moves_bind_dep [OF transp_evolves redeem_evolves], goal_cases)
  case (1 code s p s1 r s')
  obtain row g where p: "p = (row, g)" by fastforce
  note rd = redeem_Inr [OF 1(2) 1(3) [unfolded p]]
  from rd(4,7) have "a_grants (view s1) (code_grantId row) = Some g" by simp
  from issueTokenSet_evolves [OF 1(4) this rd(5) _ assms 1(5) [unfolded p prod.case]] show ?case by simp
qed

lemma handleRefreshToken_evolves:
  assumes "ie_jti (te_issue env) \<in> dr_at D" "sha256Base64Url (dp_ext d) (base64url (ie_rt_bytes (te_issue env))) \<in> dr_rt D"
  shows "moves ok view (evolves D) (handleRefreshToken d env body c jkt)"
proof -
  have load: "quiet ok view (loadRefreshGrant x (dp_storage d) now token cid)" for x now token cid
    unfolding loadRefreshGrant_def
    by (auto intro!: moves_intro quiet_reads [OF rt_findByHash] valid_grant_quiet)
  show ?thesis
    unfolding handleRefreshToken_def
  proof (intro moves_case_option moves_throw reflp_evolves moves_bind_dep [OF transp_evolves quiet_moves [OF load reflp_evolves]],
      goal_cases)
    case (1 token s p s1 r s')
    obtain g scope where p: "p = (g, scope)" by fastforce
    note ld = loadRefreshGrant_Inr [OF 1(2) 1(3) [unfolded p]]
    then obtain k where g: "a_grants (view s1) k = Some g" "grant_revokedAt g = None" by auto
    let ?sc = "case requested_scope body of Some r \<Rightarrow> r | None \<Rightarrow> scope"
    let ?i = "\<lparr>ti_grantId = grant_grantId g, ti_clientId = clientId c, ti_subject = grant_subject g,
             ti_scope = ?sc, ti_cnfJkt = jkt, ti_authTime = Some (grant_authTime g),
             ti_acr = None, ti_amr = None, ti_nonce = None\<rparr>"
    have "ok s2 \<and> evolves D (view s1) (view s2)"
      if "issueTokenSet (dp_ext d) (dp_storage d) (dp_keystore d) (dp_config d) (te_issue env) ?i
            (has_openid ?sc) False s1 = (r2, s2)" for r2 s2
      by (rule issueTokenSet_evolves [OF 1(4) g _ assms that]) simp
    then show ?case
      using 1(4,5) unfolding p prod.case Let_def bindE_def throwIf_def returnE_def throwE_def
      by (auto split: prod.splits sum.splits if_splits)
  qed
qed

lemma post_token_evolves:
  assumes "ie_jti (te_issue env) \<in> dr_at D" "sha256Base64Url (dp_ext d) (base64url (ie_rt_bytes (te_issue env))) \<in> dr_rt D"
  shows "moves ok view (evolves D) (post_token d env rq)"
  unfolding post_token_def token_handler_def dispatch_grant_def
  by (intro guarded_moves moves_intro authenticate_evolves check_dpop_evolves quiet_moves [OF ks_ensure]
      handleAuthorizationCode_evolves handleRefreshToken_evolves assms reflp_evolves transp_evolves)

lemma post_par_evolves:
  assumes "REQUEST_URI_PREFIX @ base64url (pe_bytes env) \<in> dr_par D"
  shows "moves ok view (evolves D) (post_par d env rq)"
proof -
  have "moves ok view (evolves D) (pushAuthorizationRequest (dp_storage d) (dp_config d) now (pe_bytes env) body c h)"
    for now body c h
    unfolding pushAuthorizationRequest_def Let_def
    by (auto intro!: moves_intro moves_obeys [OF par_insert] evolves_par dest!: keeps_requestD simp: assms)
  then show ?thesis
    unfolding post_par_def par_handler_def
    by (auto intro!: guarded_moves moves_intro authenticate_evolves check_dpop_evolves simp: case_prod_beta)
qed

lemma issueCode_evolves:
  assumes "ce_uuid env \<in> dr_grants D" "sha256Base64Url (dp_ext d) (base64url (ce_bytes env)) \<in> dr_codes D"
  shows "moves ok view (evolves D) (issueCodeForInteraction d env uri c request user)"
  unfolding issueCodeForInteraction_def issueAuthorizationCode_def Let_def
  by (auto intro!: moves_intro moves_obeys [OF par_consume] moves_obeys [OF grant_insert] moves_obeys [OF code_insert]
      evolves_par evolves_grants evolves_codes simp: assms case_prod_beta)

lemma authorize_evolves:
  assumes "ce_uuid (ae_code env) \<in> dr_grants D"
    and "sha256Base64Url (dp_ext d) (base64url (ce_bytes (ae_code env))) \<in> dr_codes D"
  shows "moves ok view (evolves D) (authorize d env rq)"
proof -
  have silent: "moves ok view (evolves D) (authorize_silently d env rq uri c request)" for uri c request
    unfolding authorize_silently_def Let_def
    by (auto intro!: moves_intro issueCode_evolves assms moves_obeys [OF par_consume] evolves_par)
  have park: "moves ok view (evolves D) (park_interaction d env uri c)" for uri c
    unfolding park_interaction_def by (auto intro!: moves_intro moves_obeys_or [OF int_insert] dest: evolves_int(1) evolves_sweep)
  have pushed: "moves ok view (evolves D) (authorize_pushed d env rq uri params c)" for uri params c
    unfolding authorize_pushed_def
    by (auto intro!: moves_intro silent park split: sum.split exn.split)
  have "moves ok view (evolves D) (authorize_peeked d env rq uri cid p)" for uri cid p
    unfolding authorize_peeked_def
    by (auto intro!: moves_intro quiet_moves [OF client_or_page_quiet] pushed split: sum.split)
  then show ?thesis
    unfolding authorize_def handleAuthorize_def
    by (auto intro!: moves_intro quiet_moves [OF quiet_reads [OF par_peek]] split: option.split)
qed

lemma get_interaction_evolves: "moves ok view (evolves D) (get_interaction d env rq)"
  unfolding get_interaction_def dispatch_interaction_def
  by (auto intro!: moves_intro quiet_moves [OF loadInteractionContext_quiet] moves_obeys [OF int_setSubject] evolves_int)

lemma post_consent_evolves:
  assumes "ce_uuid (co_code env) \<in> dr_grants D"
    and "sha256Base64Url (dp_ext d) (base64url (ce_bytes (co_code env))) \<in> dr_codes D"
  shows "moves ok view (evolves D) (post_consent d env rq)"
  unfolding post_consent_def consent_for_def conclude_consent_def
  by (auto intro!: moves_intro quiet_moves [OF loadInteractionContext_quiet] moves_obeys [OF int_complete]
      moves_obeys [OF par_consume] issueCode_evolves assms evolves_int(2,3) evolves_par(2) split: option.split)

lemma post_revoke_evolves: "moves ok view (evolves D) (post_revoke d env rq)"
proof -
  have "moves ok view (evolves D) (revoke_resolved d now c resolved)" for now c resolved
    unfolding revoke_resolved_def
    by (auto intro!: moves_intro moves_obeys [OF rt_revoke] moves_obeys [OF at_revoke] moves_obeys [OF at_revokeByGrant]
        evolves_revokes split: option.split resolved_token.split)
  then show ?thesis
    unfolding post_revoke_def revoke_handler_def
    by (auto intro!: guarded_moves moves_intro authenticate_evolves quiet_moves [OF resolveToken_quiet])
qed

lemma post_introspect_evolves: "moves ok view (evolves D) (post_introspect d env rq)"
  unfolding post_introspect_def introspect_handler_def
  by (auto intro!: guarded_moves moves_intro authenticate_evolves quiet_moves [OF resolveToken_quiet])

lemma userinfo_evolves: "moves ok view (evolves D) (userinfo d env rq)"
  unfolding userinfo_def userinfo_for_def userinfo_proof_key_def Let_def
  by (auto intro!: moves_intro quiet_moves [OF findAccessToken_quiet] check_dpop_evolves
      split: option.split resolved_token.split)

theorem run_route_evolves: "moves ok view (evolves (drawn_by (dp_ext d) env)) (run_route d env rq r)"
proof (cases r)
  case R_token
  then show ?thesis by (auto intro!: post_token_evolves simp: drawn_by_def Let_def)
next
  case R_par
  then show ?thesis by (auto intro!: post_par_evolves simp: drawn_by_def Let_def)
next
  case R_authorize
  then show ?thesis by (auto intro!: authorize_evolves simp: drawn_by_def Let_def)
next
  case R_consent
  then show ?thesis by (auto intro!: post_consent_evolves simp: drawn_by_def Let_def)
qed (auto simp: get_metadata_def intro!: moves_intro quiet_moves [OF get_jwks_quiet] get_interaction_evolves
      quiet_moves [OF post_login_quiet] post_revoke_evolves post_introspect_evolves userinfo_evolves)

end

section \<open>Runs\<close>

text \<open>A request with everything it draws, and the state after a sequence of them; a request without a
  route changes nothing.\<close>

type_synonym event = "call_env \<times> string \<times> http_req"

fun run_server :: "'s deps \<Rightarrow> event list \<Rightarrow> 's \<Rightarrow> 's" where
  "run_server d [] s = s"
| "run_server d ((env, path, rq) # es) s =
     run_server d es (case handle_request d env path rq s of None \<Rightarrow> s | Some (rp, s') \<Rightarrow> s')"

text \<open>Everything drawn in a run.\<close>

fun drawn_in :: "ext \<Rightarrow> event list \<Rightarrow> drawn" where
  "drawn_in x [] = \<lparr>dr_par = {}, dr_grants = {}, dr_codes = {}, dr_at = {}, dr_rt = {}\<rparr>"
| "drawn_in x ((env, path, rq) # es) =
     (let D = drawn_by x env; E = drawn_in x es
      in \<lparr>dr_par = dr_par D \<union> dr_par E, dr_grants = dr_grants D \<union> dr_grants E, dr_codes = dr_codes D \<union> dr_codes E,
          dr_at = dr_at D \<union> dr_at E, dr_rt = dr_rt D \<union> dr_rt E\<rparr>)"

definition drawn_le :: "drawn \<Rightarrow> drawn \<Rightarrow> bool" where
  "drawn_le D E \<longleftrightarrow> dr_par D \<subseteq> dr_par E \<and> dr_grants D \<subseteq> dr_grants E \<and> dr_codes D \<subseteq> dr_codes E \<and>
     dr_at D \<subseteq> dr_at E \<and> dr_rt D \<subseteq> dr_rt E"

lemma evolves_mono: "evolves D a a' \<Longrightarrow> drawn_le D E \<Longrightarrow> evolves E a a'"
  unfolding evolves_def history_def drawn_le_def by blast

context endpoint_deps begin

lemma run_evolves: "ok s \<Longrightarrow> ok (run_server d es s) \<and> evolves (drawn_in (dp_ext d) es) (view s) (view (run_server d es s))"
proof (induction es arbitrary: s)
  case Nil
  then show ?case by simp
next
  case (Cons e es)
  obtain env path rq where e: "e = (env, path, rq)" by (cases e) auto
  let ?s = "case handle_request d env path rq s of None \<Rightarrow> s | Some (rp, s') \<Rightarrow> s'"
  let ?D = "drawn_by (dp_ext d) env"
  have step: "ok ?s \<and> evolves ?D (view s) (view ?s)"
  proof (cases "map_of (routes d) (rq_method rq, path)")
    case None
    then show ?thesis using Cons.prems by (simp add: handle_request_def)
  next
    case (Some r)
    obtain x s' where run: "run_route d env rq r s = (x, s')" by fastforce
    then have "snd (serve (run_route d env rq r) s) = s'" by (simp add: serve_def split: sum.split)
    with Some movesD [OF run_route_evolves Cons.prems run] show ?thesis
      by (simp add: handle_request_def case_prod_beta)
  qed
  then have rest: "ok (run_server d es ?s) \<and> evolves (drawn_in (dp_ext d) es) (view ?s) (view (run_server d es ?s))"
    using Cons.IH by blast
  have "drawn_le ?D (drawn_in (dp_ext d) (e # es))" "drawn_le (drawn_in (dp_ext d) es) (drawn_in (dp_ext d) (e # es))"
    by (auto simp: drawn_le_def e Let_def)
  with step rest have "evolves (drawn_in (dp_ext d) (e # es)) (view s) (view (run_server d es ?s))"
    by (blast intro: evolves_mono transpD [OF transp_evolves])
  with rest show ?case by (simp add: e)
qed

end

end
