(* ===== verification/RunGuarantees.thy ===== *)
theory RunGuarantees
  imports History
begin

text \<open>
  What holds along every run of a server over any storage that meets its contract: what a request used up or revoked
  stays so, and nothing is issued from it. The properties of the server over a concrete storage are
  instances.
\<close>

text \<open>A handler succeeds when it answers 200 itself; an error it throws is answered by the error handler.\<close>

definition succeeds :: "('s, exn, reply) act \<Rightarrow> 's \<Rightarrow> bool" where
  "succeeds m s \<longleftrightarrow> (case m s of (Inr rp, s') \<Rightarrow> rp_status rp = 200 | (Inl e, s') \<Rightarrow> False)"

lemma succeedsE:
  assumes "succeeds m s"
  obtains rp s' where "m s = (Inr rp, s')" and "rp_status rp = 200" and "s' = snd (m s)"
  using assms by (cases "m s") (auto simp: succeeds_def split: sum.splits)

text \<open>A request to the token endpoint that presents the given code.\<close>

definition presents_code :: "string \<Rightarrow> http_req \<Rightarrow> bool" where
  "presents_code code rq \<longleftrightarrow>
     str_of (jget (rq_body rq) ''grant_type'') = Some ''authorization_code'' \<and> str_of (jget (rq_body rq) ''code'') = Some code"

context endpoint_deps begin

abbreviation intact :: "'s \<Rightarrow> bool" where
  "intact s \<equiv> ok s \<and> keyed (view s)"

lemma run_kept:
  assumes "intact s"
  shows "intact (run_server d es s)"
    and "history (drawn_in (dp_ext d) es) (view s) (view (run_server d es s))"
    and "g \<notin> dr_grants (drawn_in (dp_ext d) es) \<Longrightarrow> grant_gone g (view s) \<Longrightarrow> grant_gone g (view (run_server d es s))"
  using run_evolves [of s es] assms by (auto simp: evolves_def)

lemma token_kept:
  assumes "intact s"
  shows "intact (snd (post_token d env rq s))"
proof -
  let ?D = "\<lparr>dr_par = UNIV, dr_grants = UNIV, dr_codes = UNIV, dr_at = UNIV, dr_rt = UNIV\<rparr>"
  have "moves ok view (evolves ?D) (post_token d env rq)" by (rule post_token_evolves) simp_all
  from movesD [OF this _ prod.collapse [symmetric]] assms show ?thesis by (simp add: evolves_def)
qed

text \<open>A token response that exchanged a code: the code was unused before, and is marked now.\<close>

lemma success_marks_code:
  assumes "ok s" and "succeeds (post_token d env rq) s" and "presents_code code rq"
  shows "(\<exists>r t. a_codes (view (snd (post_token d env rq s))) (sha256Base64Url (dp_ext d) code) = Some (r, Some t)) \<and>
    \<not> (\<exists>r t. a_codes (view s) (sha256Base64Url (dp_ext d) code) = Some (r, Some t))"
proof -
  from assms(2) obtain rp s' where t: "post_token d env rq s = (Inr rp, s')" "rp_status rp = 200"
    and s': "s' = snd (post_token d env rq s)" by (rule succeedsE)
  show ?thesis
  proof (rule post_token_Inr [OF assms(1) t(1)])
    show "rp_status rp \<noteq> 429" using t(2) by simp
    fix c jkt s4 i w a1 tk
    assume same: "same_tables (view s) (view s4)" and "issued d env rq c jkt (view s4) i w a1 tk"
      and v: "view s' = token_effect (dp_ext d) (dp_config d) (te_issue env) i w a1"
    from issued_for [OF this(2)] assms(3) have "code_issue d env (rq_body rq) c jkt (view s4) i w a1"
      by (auto simp: presents_code_def)
    with same assms(3) obtain r where "a_codes a1 (sha256Base64Url (dp_ext d) code) = Some (r, Some (te_t_grant env))"
      "\<not> (\<exists>r t. a_codes (view s) (sha256Base64Url (dp_ext d) code) = Some (r, Some t))"
      by (auto simp: code_issue_def presents_code_def dest: same_tables_D)
    with v show ?thesis
      by (simp add: s' [symmetric] token_effect_def Let_def spec_at_insert_def spec_rt_insert_def split: if_splits)
  qed
qed

lemma run_used_code:
  assumes "intact s" and "a_codes (view s) (sha256Base64Url (dp_ext d) code) = Some (r, Some t)" and "presents_code code rq"
    and "sha256Base64Url (dp_ext d) code \<notin> dr_codes (drawn_in (dp_ext d) es)"
  shows "\<not> succeeds (post_token d env rq) (run_server d es s)"
proof -
  let ?h = "sha256Base64Url (dp_ext d) code"
  have "uses (a_codes (view s) ?h) (a_codes (view (run_server d es s)) ?h)"
    using run_kept(2) [OF assms(1)] assms(4) by (simp add: history_def)
  with assms(2) have "a_codes (view (run_server d es s)) ?h = Some (r, Some t)" by (auto simp: uses_def)
  with success_marks_code [OF _ _ assms(3)] run_kept(1) [OF assms(1)] show ?thesis by blast
qed

lemma run_code_once:
  assumes "intact s" and "succeeds (post_token d env rq) s" and "presents_code code rq" and "presents_code code rq'"
    and "sha256Base64Url (dp_ext d) code \<notin> dr_codes (drawn_in (dp_ext d) es)"
  shows "\<not> succeeds (post_token d env' rq') (run_server d es (snd (post_token d env rq s)))"
proof -
  from success_marks_code [OF _ assms(2,3)] assms(1) obtain r t where
    "a_codes (view (snd (post_token d env rq s))) (sha256Base64Url (dp_ext d) code) = Some (r, Some t)" by blast
  from run_used_code [OF token_kept [OF assms(1)] this assms(4,5)] show ?thesis .
qed

lemma run_token_dead:
  assumes "intact s" and "a_at (view s) j = Some row" and "at_revokedAt row \<noteq> None"
    and "j \<notin> dr_at (drawn_in (dp_ext d) es)"
    and "\<forall>keys i. verified_jti (dp_ext d) (dp_config d) keys token = Some i \<longrightarrow> i = j"
    and "map_option trim (Option.bind (rq_authorization rq) dpop_credentials) = Some token"
  shows "\<not> succeeds (userinfo d env rq) (run_server d es s)"
proof
  let ?s = "run_server d es s"
  assume "succeeds (userinfo d env rq) ?s"
  then obtain rp s2 where u: "userinfo d env rq ?s = (Inr rp, s2)" "rp_status rp = 200" by (rule succeedsE)
  have "ages at_mark (a_at (view s) j) (a_at (view ?s) j)"
    using run_kept(2) [OF assms(1)] assms(4) by (simp add: history_def)
  with assms(2,3) have dead: "a_at (view ?s) j = Some row" by (auto simp: ages_def at_mark_def)
  show False
  proof (rule userinfo_200 [OF _ u])
    show "ok ?s" using run_kept(1) [OF assms(1)] by simp
    fix cred row'
    assume c: "Option.bind (rq_authorization rq) dpop_credentials = Some cred" and n: "at_revokedAt row' = None"
      and r: "access_row (dp_ext d) (dp_config d) (published_keys (dp_keystore d) (ue_key env) (ue_t_keys env) ?s) (view ?s)
        (trim cred) = Some row'"
    from c assms(6) have "trim cred = token" by simp
    with r assms(5) have "a_at (view ?s) j = Some row'" by (auto simp: access_row_Some)
    with dead n assms(3) show False by simp
  qed
qed

lemma gone_not_answered:
  assumes "ok s" and "grant_gone g (view s)" and "succeeds (userinfo d env rq) s"
  shows "\<exists>cred row. Option.bind (rq_authorization rq) dpop_credentials = Some cred \<and>
    access_row (dp_ext d) (dp_config d) (published_keys (dp_keystore d) (ue_key env) (ue_t_keys env) s) (view s) (trim cred)
      = Some row \<and> at_grantId row \<noteq> g"
proof -
  from assms(3) obtain rp s2 where u: "userinfo d env rq s = (Inr rp, s2)" "rp_status rp = 200" by (rule succeedsE)
  show ?thesis
  proof (rule userinfo_200 [OF assms(1) u])
    fix cred row
    assume c: "Option.bind (rq_authorization rq) dpop_credentials = Some cred"
      and r: "access_row (dp_ext d) (dp_config d) (published_keys (dp_keystore d) (ue_key env) (ue_t_keys env) s) (view s)
        (trim cred) = Some row" and n: "at_revokedAt row = None"
    have "at_grantId row \<noteq> g"
    proof
      assume g: "at_grantId row = g"
      from r obtain j where "a_at (view s) j = Some row" by (auto simp: access_row_Some)
      with assms(2) g have "at_revokedAt row \<noteq> None" by (auto simp: grant_gone_def grant_dead_def)
      with n show False by simp
    qed
    with c r show ?thesis by blast
  qed
qed

lemma gone_not_issued:
  assumes "intact s" and "grant_gone g (view s)" and "succeeds (post_token d env rq) s"
  shows "\<exists>row. a_at (view (snd (post_token d env rq s))) (ie_jti (te_issue env)) = Some row \<and>
    at_revokedAt row = None \<and> at_grantId row \<noteq> g"
proof -
  from assms(3) obtain rp s2 where t: "post_token d env rq s = (Inr rp, s2)" "rp_status rp = 200"
    and s2: "s2 = snd (post_token d env rq s)" by (rule succeedsE)
  show ?thesis
  proof (rule post_token_Inr [OF _ t(1)])
    show "ok s" "rp_status rp \<noteq> 429" using assms(1) t(2) by simp_all
    fix c jkt s4 i w a1 tk
    assume same: "same_tables (view s) (view s4)" and "issued d env rq c jkt (view s4) i w a1 tk"
      and v: "view s2 = token_effect (dp_ext d) (dp_config d) (te_issue env) i w a1"
    from issued_for [OF this(2)] same obtain j gr where "a_grants (view s) j = Some gr" "grant_revokedAt gr = None" "ti_grantId i = grant_grantId gr"
      by (auto simp: code_issue_def refresh_issue_def dest: same_tables_D)
    then have "ti_grantId i \<noteq> g" using assms(1,2) by (auto simp: grant_gone_def grant_dead_def keyed_def)
    then show ?thesis
      unfolding s2 [symmetric]
      by (auto simp: v token_effect_def Let_def spec_at_insert_def spec_rt_insert_def access_record_def)
  qed
qed

lemma run_request_used:
  assumes "intact s" and "a_par (view s) uri = Some (p, Some t)" and "uri \<notin> dr_par (drawn_in (dp_ext d) es)"
    and "s' = run_server d es s"
  shows "a_codes (view (snd (issueCodeForInteraction d env uri c request user s'))) = a_codes (view s')"
proof (rule ccontr)
  assume ch: "a_codes (view (snd (issueCodeForInteraction d env uri c request user s'))) \<noteq> a_codes (view s')"
  have s: "ok s'" using run_kept(1) [OF assms(1)] by (simp add: assms(4))
  have "uses (a_par (view s) uri) (a_par (view s') uri)"
    using run_kept(2) [OF assms(1)] assms(3) by (simp add: history_def assms(4))
  with assms(2) have "a_par (view s') uri = Some (p, Some t)" by (auto simp: uses_def)
  moreover obtain pr where "spec_par_peek uri (ce_t_consume env) (view s') = Some pr"
    using issueCode_codes [OF s prod.collapse [symmetric] ch] by (auto simp: code_written_def)
  ultimately show False by (simp add: spec_par_peek_def usable_def)
qed

end

end
