(* ===== verification/MemoryInterleaving.thy ===== *)
theory MemoryInterleaving
  imports History DomainGuarantees
begin

text \<open>
  Concurrent requests on the in-memory storage. Its operations run to their end without yielding, so that what a
  handler can find between two of its own operations is the effect of whole operations of others. \<open>storage_step\<close> is one
  such operation, with arbitrary arguments, on any storage; rows are inserted only under the identifiers of \<open>D\<close>. What
  is used up or revoked stays so, whatever the interleaving, and a client assertion or a DPoP proof is accepted a second time
  only in the gaps the replay table leaves. On PostgreSQL an operation may be several queries, which is
  the finer grain of PgInterleaving.
\<close>

inductive plain_step :: "'s storage \<Rightarrow> drawn \<Rightarrow> 's \<Rightarrow> 's \<Rightarrow> bool" for st D where
  find_client: "plain_step st D s (snd (cl_findById (st_clients st) i s))"
| insert_request: "par_requestUri p \<in> dr_par D \<Longrightarrow> plain_step st D s (snd (par_insert (st_par st) p s))"
| peek_request: "plain_step st D s (snd (par_peek (st_par st) u t s))"
| consume_request: "plain_step st D s (snd (par_consume (st_par st) u t s))"
| insert_grant: "grant_grantId g \<in> dr_grants D \<Longrightarrow> plain_step st D s (snd (grant_insert (st_grants st) g s))"
| find_grant: "plain_step st D s (snd (grant_find (st_grants st) i s))"
| revoke_grant: "plain_step st D s (snd (grant_revoke (st_grants st) i t s))"
| insert_code: "code_codeHash c \<in> dr_codes D \<Longrightarrow> plain_step st D s (snd (code_insert (st_codes st) c s))"
| redeem_code: "plain_step st D s (snd (code_redeem (st_codes st) h t s))"
| insert_at: "at_jti a \<in> dr_at D \<Longrightarrow> plain_step st D s (snd (at_insert (st_accessTokens st) a s))"
| find_at: "plain_step st D s (snd (at_findByJti (st_accessTokens st) j s))"
| revoke_at: "plain_step st D s (snd (at_revoke (st_accessTokens st) j t s))"
| revoke_ats: "plain_step st D s (snd (at_revokeByGrant (st_accessTokens st) i t s))"
| insert_rt: "rt_tokenHash w \<in> dr_rt D \<Longrightarrow> plain_step st D s (snd (rt_insert (st_refreshTokens st) w s))"
| find_rt: "plain_step st D s (snd (rt_findByHash (st_refreshTokens st) h s))"
| revoke_rt: "plain_step st D s (snd (rt_revoke (st_refreshTokens st) h t s))"
| revoke_rts: "plain_step st D s (snd (rt_revokeByGrant (st_refreshTokens st) i t s))"
| insert_interaction: "plain_step st D s (snd (int_insert (st_interactions st) n s))"
| find_interaction: "plain_step st D s (snd (int_find (st_interactions st) i t s))"
| set_subject: "plain_step st D s (snd (int_setSubject (st_interactions st) i sub t acr amr s))"
| complete_interaction: "plain_step st D s (snd (int_complete (st_interactions st) i t s))"
| list_keys: "plain_step st D s (snd (sk_list (st_keys st) s))"
| insert_key: "plain_step st D s (snd (sk_insert (st_keys st) k s))"
| set_status: "plain_step st D s (snd (sk_setStatus (st_keys st) kid status ret s))"

text \<open>An operation is one of these, or a registration in the replay table. The clock of a registration decides which entries
  it drops; in a \<open>timed_step\<close> it does not read later than a given time.\<close>

inductive storage_step :: "'s storage \<Rightarrow> drawn \<Rightarrow> 's \<Rightarrow> 's \<Rightarrow> bool" for st D where
  plain: "plain_step st D s s' \<Longrightarrow> storage_step st D s s'"
| register_jti: "storage_step st D s (snd (jti_register (st_jti st) cx j e t s))"

inductive timed_step :: "'s storage \<Rightarrow> drawn \<Rightarrow> int \<Rightarrow> 's \<Rightarrow> 's \<Rightarrow> bool" for st D t where
  plain: "plain_step st D s s' \<Longrightarrow> timed_step st D t s s'"
| register_jti: "n \<le> t \<Longrightarrow> timed_step st D t s (snd (jti_register (st_jti st) cx j e n s))"

section \<open>Rows age along every interleaving\<close>

lemma reflp_history [simp, intro]: "reflp (history D)"
  by (rule reflpI) (rule history_refl)

lemma transp_history: "transp (history D)"
  by (rule transpI) (rule history_trans)

lemma history_same: "same_tables a a' \<Longrightarrow> history D a a'"
  by (auto simp: history_def dest: same_tables_D)

lemma history_int [simp]: "history D a (a\<lparr>a_int := m\<rparr>)"
  by (simp add: history_def)

lemma history_ints:
  "spec_int_insert r a a' \<Longrightarrow> history D a a'" "spec_int_sweep t a a' \<Longrightarrow> history D a a'"
  "history D a (spec_int_setSubject i sb tm acr amr a)" "history D a (spec_int_complete i t a)"
  by (auto simp: spec_int_insert_def spec_int_sweep_def spec_int_setSubject_def spec_int_complete_def history_refl
      split: option.splits prod.splits)

lemma history_inserts:
  "par_requestUri r \<in> dr_par D \<Longrightarrow> history D a (spec_par_insert r a)"
  "code_codeHash c \<in> dr_codes D \<Longrightarrow> history D a (spec_code_insert c a)"
  "grant_grantId g \<in> dr_grants D \<Longrightarrow> history D a (spec_grant_insert g a)"
  "at_jti t \<in> dr_at D \<Longrightarrow> history D a (spec_at_insert t a)"
  "rt_tokenHash w \<in> dr_rt D \<Longrightarrow> history D a (spec_rt_insert w a)"
  by (auto simp: history_def spec_par_insert_def spec_code_insert_def spec_grant_insert_def spec_at_insert_def
      spec_rt_insert_def)

lemma history_uses: "history D a (spec_par_consume u t a)" "history D a (spec_code_redeem h t a)"
  by (auto simp: history_def spec_par_consume_def spec_par_peek_def usable_def uses_def spec_code_redeem_def
      spec_code_redemption_def split: option.splits prod.splits if_splits)

lemma history_revokes:
  "history D a (spec_grant_revoke g t a)" "history D a (spec_at_revoke j t a)" "history D a (spec_rt_revoke h t a)"
  "history D a (spec_at_revokeByGrant g t a)" "history D a (spec_rt_revokeByGrant g t a)"
  by (auto simp: history_def spec_grant_revoke_def spec_at_revoke_def spec_rt_revoke_def spec_at_revokeByGrant_def
      spec_rt_revokeByGrant_def ages_if [where mark = at_mark] ages_if [where mark = rt_mark])
    (auto simp: ages_def)

text \<open>Registrations and replays that are remembered at a time stay so.\<close>

definition stays :: "int \<Rightarrow> astore \<Rightarrow> astore \<Rightarrow> bool" where
  "stays t a a' \<longleftrightarrow> a_clients a' = a_clients a \<and> keeps_live t a a'"

lemma reflp_stays [simp, intro]: "reflp (stays t)"
  by (auto simp: stays_def keeps_live_def intro: reflpI)

lemma stays_trans: "stays t a b \<Longrightarrow> stays t b c \<Longrightarrow> stays t a c"
  by (auto simp: stays_def keeps_live_def)

lemma stays_writes [simp, intro]:
  "stays t a (spec_par_insert r a)" "stays t a (spec_code_insert c a)" "stays t a (spec_grant_insert g a)"
  "stays t a (spec_at_insert v a)" "stays t a (spec_rt_insert w a)" "stays t a (spec_par_consume u n a)"
  "stays t a (spec_code_redeem h n a)" "stays t a (spec_grant_revoke i n a)" "stays t a (spec_at_revoke j n a)"
  "stays t a (spec_rt_revoke h n a)" "stays t a (spec_at_revokeByGrant i n a)" "stays t a (spec_rt_revokeByGrant i n a)"
  "stays t a (spec_int_setSubject i sb tm acr amr a)" "stays t a (spec_int_complete i n a)"
  by (simp_all add: stays_def keeps_live_def spec_par_insert_def spec_code_insert_def spec_grant_insert_def
      spec_at_insert_def spec_rt_insert_def spec_par_consume_def spec_code_redeem_def spec_grant_revoke_def
      spec_at_revoke_def spec_rt_revoke_def spec_at_revokeByGrant_def spec_rt_revokeByGrant_def
      spec_int_setSubject_def spec_int_complete_def split: option.split code_redemption.split prod.split)

lemma stays_int: "spec_int_insert r a a' \<Longrightarrow> stays t a a'" "spec_int_sweep n a a' \<Longrightarrow> stays t a a'"
  by (auto simp: stays_def keeps_live_def spec_int_insert_def spec_int_sweep_def)

lemma stays_jti: "n \<le> t \<Longrightarrow> spec_jti_register c j e n a r a' \<Longrightarrow> stays t a a'"
  by (auto simp: stays_def keeps_live_def spec_jti_register_def)

text \<open>A storage that several requests share: the contract, and keys apart from the tables.\<close>

locale shared_storage = storage_contract st view ok + keys: key_rows "st_keys st" view ok
  for st :: "'s storage" and view :: "'s \<Rightarrow> astore" and ok :: "'s \<Rightarrow> bool"
begin

lemma reads_history: "obeys ok view m (reads f) \<Longrightarrow> moves ok view (history D) m"
  by (erule moves_obeys) (auto simp: history_refl)

lemma writes_history: "obeys ok view m (writes f) \<Longrightarrow> (\<And>a. history D a (f a)) \<Longrightarrow> moves ok view (history D) m"
  by (erule moves_obeys) auto

lemma changes_history: "obeys ok view m (steps f g) \<Longrightarrow> (\<And>a. history D a (g a)) \<Longrightarrow> moves ok view (history D) m"
  by (erule moves_obeys) auto

lemma request_history: "par_requestUri p \<in> dr_par D \<Longrightarrow> moves ok view (history D) (par_insert (st_par st) p)"
  by (rule moves_obeys [OF par_insert]) (auto intro!: history_inserts dest!: keeps_requestD)

lemma int_history: "moves ok view (history D) (int_insert (st_interactions st) n)"
  by (rule moves_obeys_or [OF int_insert]) (auto intro: history_ints)

lemma jti_history: "moves ok view (history D) (jti_register (st_jti st) cx j e t)"
  by (rule moves_obeys_or [OF jti_register]) (auto dest: spec_jti_same_tables intro: history_same)

lemmas operation_history =
  reads_history [OF cl_findById] request_history reads_history [OF par_peek]
  changes_history [OF par_consume, OF history_uses(1)] changes_history [OF code_redeem, OF history_uses(2)]
  writes_history [OF grant_insert, OF history_inserts(3)] reads_history [OF grant_find]
  writes_history [OF grant_revoke, OF history_revokes(1)]
  writes_history [OF code_insert, OF history_inserts(2)]
  writes_history [OF at_insert, OF history_inserts(4)] reads_history [OF at_findByJti]
  writes_history [OF at_revoke, OF history_revokes(2)] writes_history [OF at_revokeByGrant, OF history_revokes(4)]
  writes_history [OF rt_insert, OF history_inserts(5)] reads_history [OF rt_findByHash]
  writes_history [OF rt_revoke, OF history_revokes(3)] writes_history [OF rt_revokeByGrant, OF history_revokes(5)]
  int_history reads_history [OF int_find] writes_history [OF int_setSubject, OF history_ints(3)]
  changes_history [OF int_complete, OF history_ints(4)] jti_history
  quiet_moves [OF keys.sk_list reflp_history] quiet_moves [OF keys.sk_insert reflp_history]
  quiet_moves [OF keys.sk_setStatus reflp_history]

lemma moved: "moves ok view T m \<Longrightarrow> ok s \<Longrightarrow> ok (snd (m s)) \<and> T (view s) (view (snd (m s)))"
  by (cases "m s") (auto dest: movesD)

lemma plain_history: "plain_step st D s s' \<Longrightarrow> ok s \<Longrightarrow> ok s' \<and> history D (view s) (view s')"
  by (induction rule: plain_step.induct) (rule moved; (rule operation_history; assumption?)?; assumption)+

lemma step_history: "storage_step st D s s' \<Longrightarrow> ok s \<Longrightarrow> ok s' \<and> history D (view s) (view s')"
proof (induction rule: storage_step.induct)
  case (register_jti s cx j e t)
  then show ?case by (rule moved [OF jti_history])
qed (rule plain_history)

lemma reads_stays: "obeys ok view m (reads f) \<Longrightarrow> moves ok view (stays t) m"
  by (erule moves_obeys) (auto simp: stays_def keeps_live_def)

lemma writes_stays: "obeys ok view m (writes f) \<Longrightarrow> (\<And>a. stays t a (f a)) \<Longrightarrow> moves ok view (stays t) m"
  by (erule moves_obeys) auto

lemma changes_stays: "obeys ok view m (steps f g) \<Longrightarrow> (\<And>a. stays t a (g a)) \<Longrightarrow> moves ok view (stays t) m"
  by (erule moves_obeys) auto

lemma request_stays: "moves ok view (stays t) (par_insert (st_par st) p)"
  by (rule moves_obeys [OF par_insert]) auto

lemma client_stays: "moves ok view (stays t) (cl_findById (st_clients st) i)"
  by (rule moves_obeys [OF cl_findById]) (auto simp: stays_def keeps_live_def)

lemma int_stays: "moves ok view (stays t) (int_insert (st_interactions st) n)"
  by (rule moves_obeys_or [OF int_insert]) (auto intro: stays_int)

lemmas operation_stays =
  client_stays request_stays reads_stays [OF par_peek] changes_stays [OF par_consume] changes_stays [OF code_redeem]
  writes_stays [OF grant_insert] reads_stays [OF grant_find] writes_stays [OF grant_revoke] writes_stays [OF code_insert]
  writes_stays [OF at_insert] reads_stays [OF at_findByJti] writes_stays [OF at_revoke] writes_stays [OF at_revokeByGrant]
  writes_stays [OF rt_insert] reads_stays [OF rt_findByHash] writes_stays [OF rt_revoke] writes_stays [OF rt_revokeByGrant]
  int_stays reads_stays [OF int_find] writes_stays [OF int_setSubject] changes_stays [OF int_complete]
  quiet_moves [OF keys.sk_list reflp_stays] quiet_moves [OF keys.sk_insert reflp_stays]
  quiet_moves [OF keys.sk_setStatus reflp_stays]

lemma plain_stays: "plain_step st D s s' \<Longrightarrow> ok s \<Longrightarrow> ok s' \<and> stays t (view s) (view s')"
  by (induction rule: plain_step.induct) (rule moved; (rule operation_stays; (rule stays_writes)?)?; assumption)+

lemma timed_stays: "timed_step st D t s s' \<Longrightarrow> ok s \<Longrightarrow> ok s' \<and> stays t (view s) (view s')"
proof (induction rule: timed_step.induct)
  case (register_jti n s cx j e)
  have "moves ok view (stays t) (jti_register (st_jti st) cx j e n)"
    by (rule moves_obeys_or [OF jti_register]) (auto intro: stays_jti register_jti(1))
  from moved [OF this register_jti(2)] show ?case .
qed (rule plain_stays)

lemma timed_steps_stay: "(timed_step st D t)\<^sup>*\<^sup>* s s' \<Longrightarrow> ok s \<Longrightarrow> ok s' \<and> stays t (view s) (view s')"
proof (induction rule: rtranclp_induct)
  case (step s1 s2)
  with timed_stays [OF step.hyps(2)] show ?case by (blast intro: stays_trans)
qed (simp add: stays_def keeps_live_def)

lemma steps_history: "(storage_step st D)\<^sup>*\<^sup>* s s' \<Longrightarrow> ok s \<Longrightarrow> ok s' \<and> history D (view s) (view s')"
proof (induction rule: rtranclp_induct)
  case (step s1 s2)
  with step_history [OF step.hyps(2)] show ?case by (blast intro: history_trans)
qed (simp add: history_refl)

text \<open>The first redemption wins, every later one sees the replay.\<close>

lemma redeemed_once:
  assumes "ok s" and "code_redeem (st_codes st) h t s = (Inr (Redeem_ok r), s1)" and "(storage_step st D)\<^sup>*\<^sup>* s1 s2"
    and "h \<notin> dr_codes D" and "code_redeem (st_codes st) h t' s2 = (Inr res, s3)"
  shows "res = Redeem_consumed r"
proof -
  from obeysD [OF code_redeem assms(1,2)] have s1: "ok s1" "a_codes (view s1) h = Some (r, Some t)"
    by (auto simp: spec_code_redeem_def split: code_redemption.splits)
  with steps_history [OF assms(3)] assms(4) have "ok s2" "uses (a_codes (view s1) h) (a_codes (view s2) h)"
    by (auto simp: history_def)
  with obeysD [OF code_redeem _ assms(5)] s1(2) show ?thesis by (auto simp: spec_code_redemption_def uses_def)
qed

lemma consumed_once:
  assumes "ok s" and "par_consume (st_par st) u t s = (Inr (Some p), s1)" and "(storage_step st D)\<^sup>*\<^sup>* s1 s2"
    and "u \<notin> dr_par D" and "par_consume (st_par st) u t' s2 = (Inr res, s3)"
  shows "res = None"
proof -
  from obeysD [OF par_consume assms(1,2)] have s1: "ok s1" "\<exists>p t. a_par (view s1) u = Some (p, Some t)"
    by (auto simp: spec_par_consume_def split: option.splits)
  with steps_history [OF assms(3)] assms(4) have "ok s2" "uses (a_par (view s1) u) (a_par (view s2) u)"
    by (auto simp: history_def)
  with obeysD [OF par_consume _ assms(5)] s1(2) show ?thesis by (auto simp: spec_par_peek_def usable_def uses_def)
qed

end

interpretation mem: shared_storage createMemoryStorage mem_view mem_ok
  by unfold_locales

text \<open>Property C12. However concurrent requests interleave on the in-memory storage, a code is used once: after one request has
  redeemed it, every other redemption, whatever operations came in between and whenever it comes, is told of the replay, as
  long as no new code with the same digest is stored.\<close>

theorem memory_code_used_once:
  assumes "mem_ok s" and "st = createMemoryStorage" and "code_redeem (st_codes st) h t s = (Inr (Redeem_ok r), s1)"
    and "(storage_step st D)\<^sup>*\<^sup>* s1 s2" and "h \<notin> dr_codes D" and "code_redeem (st_codes st) h t' s2 = (Inr res, s3)"
  shows "res = Redeem_consumed r"
  using mem.redeemed_once [OF assms(1)] assms(2-6) by blast

text \<open>Likewise for a pushed request.\<close>

lemma memory_request_used_once:
  assumes "mem_ok s" and "st = createMemoryStorage" and "par_consume (st_par st) u t s = (Inr (Some p), s1)"
    and "(storage_step st D)\<^sup>*\<^sup>* s1 s2" and "u \<notin> dr_par D" and "par_consume (st_par st) u t' s2 = (Inr res, s3)"
  shows "res = None"
  using mem.consumed_once [OF assms(1)] assms(2-6) by blast

definition raced_code :: string where
  "raced_code = base64url ''code''"

lemma memory_code_used_once_witness:
  "\<exists>s1 s2 s3. code_redeem (st_codes createMemoryStorage) raced_code 1000 sample_store = (Inr (Redeem_ok sample_code), s1) \<and>
     storage_step createMemoryStorage \<lparr>dr_par = {}, dr_grants = {}, dr_codes = {}, dr_at = {}, dr_rt = {}\<rparr> s1 s2 \<and>
     code_redeem (st_codes createMemoryStorage) raced_code 2000 s2 = (Inr (Redeem_consumed sample_code), s3)"
proof -
  let ?D = "\<lparr>dr_par = {}, dr_grants = {}, dr_codes = {}, dr_at = {}, dr_rt = {}\<rparr>"
  have ok: "mem_ok sample_store" by (simp add: mem_ok_def sample_store_def empty_store_def)
  obtain s1 where 1: "code_redeem (st_codes createMemoryStorage) raced_code 1000 sample_store = (Inr (Redeem_ok sample_code), s1)"
    by (simp add: sample_eval raced_code_def sample_store_def)
  have step: "storage_step createMemoryStorage ?D s1 (snd (grant_revoke (st_grants createMemoryStorage) ''g'' 1500 s1))"
    by (intro storage_step.plain plain_step.revoke_grant)
  obtain res s3 where 2: "code_redeem (st_codes createMemoryStorage) raced_code 2000
      (snd (grant_revoke (st_grants createMemoryStorage) ''g'' 1500 s1)) = (Inr res, s3)"
    using mem.codes_answer(2) unfolding answers_def by blast
  have "res = Redeem_consumed sample_code"
    by (rule memory_code_used_once [where D = ?D, OF ok refl 1 _ _ 2]) (simp_all add: step r_into_rtranclp)
  with 1 step 2 show ?thesis by blast
qed

section \<open>Assertions and proofs that come again\<close>

text \<open>Property C22. A client assertion that let a client in lets it in a second time, at whichever endpoint and after whatever
  operations of other requests on the in-memory storage, only in one case: its expiry is a number of seconds that is not
  whole, the second time falls into the very second the assertion expires in, and the replay table has already dropped its
  entry; and then it lets in the same client. The clocks of the registrations in between are assumed not to run ahead of the
  second time.\<close>

theorem assertion_accepted_again:
  assumes "mem_ok s" and "authenticateClient x createMemoryStorage config t1 body h s = (Inr c, s1)"
    and "(timed_step createMemoryStorage D t2)\<^sup>*\<^sup>* s1 s2"
    and "jget body' ''client_assertion'' = jget body ''client_assertion''"
    and "authenticateClient x createMemoryStorage config t2 body' h' s2 = (Inr c', s3)"
  shows "clientId c' = clientId c \<and> metadata c' = metadata c \<and>
    (\<exists>a claims e. jget body ''client_assertion'' = Some (JStr a) \<and> signed_by x config c a claims \<and>
       jget claims ''exp'' = Some (JNum e) \<and> e \<notin> \<int> \<and> of_int (sec_of t2) < e \<and> js_date (e * 1000) \<le> t2)"
proof -
  have s1: "mem_ok s1" "a_clients (mem_view s1) = a_clients (mem_view s)"
    using movesD [OF storage_contract.authenticateClient_moves [OF memory_contract, where T = "\<lambda>a a'. a_clients a' = a_clients a"] assms(1,2)]
    by (auto simp: reflp_def transp_def dest!: spec_jti_same_tables same_tables_D(1))
  from mem.timed_steps_stay [OF assms(3) s1(1)] s1(2)
  have s2: "mem_ok s2" "keeps_live t2 (mem_view s1) (mem_view s2)" "a_clients (mem_view s2) = a_clients (mem_view s)"
    by (simp_all add: stays_def)
  show ?thesis by (rule storage_contract.assertion_replay [OF memory_contract assms(1,2) s2 assms(5,4)]) blast
qed

lemma no_steps_at: "(timed_step st D t)\<^sup>*\<^sup>* s s"
  by simp

lemma assertion_accepted_again_witness:
  "\<exists>claims e. signed_by fractional_ext sample_config sample_client ''h.b.s'' claims \<and> jget claims ''exp'' = Some (JNum e) \<and>
     e \<notin> \<int> \<and> 1000 < e \<and> js_date (e * 1000) \<le> 1000600"
proof -
  obtain s1 s2 where 1: "authenticateClient fractional_ext createMemoryStorage sample_config 1000100 sample_body None sample_store
       = (Inr sample_client, s1)" and
    2: "authenticateClient fractional_ext createMemoryStorage sample_config 1000600 sample_body None s1
       = (Inr sample_client, s2)" using fractional_assertion_replayed by blast
  from assertion_accepted_again [OF sample_store_ok 1 no_steps_at refl 2] show ?thesis
    by (auto simp: sample_body_def sec_of_def)
qed

text \<open>Property C23. A DPoP proof that was accepted is accepted a second time in the same replay context, after whatever operations
  of other requests on the in-memory storage, only if no clock skew is configured and the second time falls into the last
  second of the proof's life, when the replay table has already dropped its entry; and then it proves the same key. The
  clocks of the registrations in between are assumed not to run ahead of the second time. A replay context is that of the
  endpoint's context, or else of the request URI, so that a proof can serve once at each endpoint it is made for.\<close>

theorem proof_accepted_again:
  assumes "mem_ok s" and "verifyDpopProof x createMemoryStorage config t1 ctx h s = (Inr k, s1)"
    and "(timed_step createMemoryStorage D t2)\<^sup>*\<^sup>* s1 s2"
    and "dpop_replay_context x ctx' = dpop_replay_context x ctx"
    and "verifyDpopProof x createMemoryStorage config t2 ctx' h s2 = (Inr k', s3)"
  shows "k' = k \<and> cfg_clockSkewFutureAcceptSec config \<le> 0 \<and>
    (\<exists>pf j iat. h = Hdr_one pf \<and> proof_ok x config t1 ctx pf k j iat \<and> proof_ok x config t2 ctx' pf k j iat \<and>
       of_int (sec_of t2) \<le> iat + of_int (cfg_dpopProofMaxAgeSec config) \<and> dpop_expiry config iat \<le> t2)"
proof -
  have s1: "mem_ok s1"
    using movesD [OF jti_port.verifyDpopProof_moves [OF memory_replay, where T = "\<lambda>_ _. True"] assms(1,2)] by (simp add: reflp_def transp_def)
  from mem.timed_steps_stay [OF assms(3) s1]
  have s2: "mem_ok s2" "keeps_live t2 (mem_view s1) (mem_view s2)" by (simp_all add: stays_def)
  show ?thesis
  proof (rule jti_port.proof_replay [OF memory_replay assms(1,2) s2 assms(5,4)])
    fix pf j iat
    assume p: "h = Hdr_one pf" "proof_ok x config t1 ctx pf k j iat" "proof_ok x config t2 ctx' pf k j iat" "k' = k"
      "cfg_clockSkewFutureAcceptSec config \<le> 0" "dpop_expiry config iat \<le> t2"
    from p(3) have "of_int (sec_of t2) \<le> iat + of_int (cfg_dpopProofMaxAgeSec config)" by (auto simp: proof_ok_def)
    with p show ?thesis by blast
  qed
qed

lemma proof_accepted_again_witness:
  "\<exists>j iat. proof_ok sample_ext skewless_config 1300000 sample_context ''p'' sample_jkt j iat \<and>
     dpop_expiry skewless_config iat \<le> 1300000"
proof -
  obtain s1 s2 where 1: "verifyDpopProof sample_ext createMemoryStorage skewless_config 1000000 sample_context (Hdr_one ''p'')
      sample_store = (Inr sample_jkt, s1)" and
    2: "verifyDpopProof sample_ext createMemoryStorage skewless_config 1300000 sample_context (Hdr_one ''p'') s1
      = (Inr sample_jkt, s2)" using proof_replayed_without_skew by blast
  from proof_accepted_again [OF sample_store_ok 1 no_steps_at refl 2] show ?thesis by auto
qed

end
