(* ===== verification/Sql.thy ===== *)
theory Sql
  imports StoragePort
begin

text \<open>
  The statements the PostgreSQL adapter sends, as data, and what the database does with them, following
  the documentation of PostgreSQL: typed parameters, \<open>where\<close> clauses that hold only if they are true (not
  unknown), primary keys, foreign keys, required columns and the partial unique index of the schema
  (\<open>src/db/migrations\<close>), \<open>on conflict do update\<close>, \<open>returning\<close>, and error codes. A statement that fails has no effect.
  The theory knows nothing of the tables of this server; its lemmas say what a statement does to the rows found
  under a primary key.
\<close>

section \<open>Values, rows and tables\<close>

datatype sql_value = SNull | SText string | STime int | SJson json | STexts "string list"

type_synonym row = "string \<Rightarrow> sql_value option"

text \<open>A JavaScript value as a parameter: \<open>null\<close>, a string, a \<open>Date\<close>, an object, or an array of strings.\<close>

datatype js_param = PNull | PStr string | PDate int | PObj json | PStrs "string list"

datatype col_type = T_text | T_uuid | T_time | T_json | T_texts

text \<open>A column that an insert leaves out is \<open>null\<close>, or the default \<open>now()\<close>.\<close>

record column =
  co_name :: string
  co_type :: col_type
  co_required :: bool
  co_now :: bool

text \<open>\<open>ts_single\<close>: the partial unique index, the column and the value at most one row may have there.\<close>

record table_schema =
  ts_columns :: "column list"
  ts_key :: "string list"
  ts_refs :: "(string \<times> string) list"
  ts_single :: "(string \<times> sql_value) option"

type_synonym schema = "string \<Rightarrow> table_schema"
type_synonym database = "string \<Rightarrow> row list"

definition has_type :: "col_type \<Rightarrow> sql_value \<Rightarrow> bool" where
  "has_type ty v \<longleftrightarrow>
     (case v of
        SNull \<Rightarrow> True
      | SText _ \<Rightarrow> ty = T_text \<or> ty = T_uuid
      | STime _ \<Rightarrow> ty = T_time
      | SJson _ \<Rightarrow> ty = T_json
      | STexts _ \<Rightarrow> ty = T_texts)"

section \<open>Parameters\<close>

definition hex_lower :: "char \<Rightarrow> bool" where
  "hex_lower c \<longleftrightarrow> is_digit c \<or> 97 \<le> code_of c \<and> code_of c \<le> (102 :: nat)"

text \<open>The canonical form of a UUID, which is the only one the server sends.\<close>

definition is_uuid :: "string \<Rightarrow> bool" where
  "is_uuid s \<longleftrightarrow> length s = 36 \<and>
     (\<forall>i < 36. if i \<in> {8, 13, 18, 23} then s ! i = CHR ''-'' else hex_lower (s ! i))"

fun json_nul :: "json \<Rightarrow> bool" where
  "json_nul (JStr s) \<longleftrightarrow> CHR 0x00 \<in> set s"
| "json_nul (JArr js) \<longleftrightarrow> list_ex json_nul js"
| "json_nul (JObj ms) \<longleftrightarrow> list_ex (\<lambda>m. CHR 0x00 \<in> set (fst m) \<or> json_nul (snd m)) ms"
| "json_nul _ \<longleftrightarrow> False"

text \<open>A parameter as a value of the type of its column. Text holds no NUL; an object is stored with its
  members sorted.\<close>

definition encode :: "col_type \<Rightarrow> js_param \<Rightarrow> string + sql_value" where
  "encode ty p =
     (case (ty, p) of
        (_, PNull) \<Rightarrow> Inr SNull
      | (T_text, PStr s) \<Rightarrow> if CHR 0x00 \<in> set s then Inl ''22021'' else Inr (SText s)
      | (T_uuid, PStr s) \<Rightarrow> if is_uuid s then Inr (SText s) else Inl ''22P02''
      | (T_time, PDate t) \<Rightarrow> Inr (STime t)
      | (T_json, PObj j) \<Rightarrow> if json_nul j then Inl ''22P05'' else Inr (SJson (json_canon j))
      | (T_texts, PStrs ss) \<Rightarrow> if list_ex (\<lambda>s. CHR 0x00 \<in> set s) ss then Inl ''22021'' else Inr (STexts ss)
      | _ \<Rightarrow> Inl ''42804'')"

definition type_of :: "table_schema \<Rightarrow> string \<Rightarrow> col_type option" where
  "type_of t c = map_of (map (\<lambda>col. (co_name col, co_type col)) (ts_columns t)) c"

text \<open>The parameter \<open>$n\<close>, for a column.\<close>

definition param_for :: "table_schema \<Rightarrow> js_param list \<Rightarrow> string \<Rightarrow> nat \<Rightarrow> string + sql_value" where
  "param_for t ps c n =
     (case type_of t c of
        None \<Rightarrow> Inl ''42703''
      | Some ty \<Rightarrow> if 0 < n \<and> n \<le> length ps then encode ty (ps ! (n - 1)) else Inl ''08P01'')"

section \<open>Statements\<close>

text \<open>\<open>c = $n\<close>, \<open>c > $n\<close>, \<open>c <= $n\<close>, \<open>c is null\<close>, \<open>c is not null\<close>, \<open>and\<close>.\<close>

datatype cond = Everything | Equals string nat | After string nat | Up_to string nat | Is_null string
  | Not_null string | And cond cond

text \<open>What a column is set to: a parameter, the value of the row proposed for insertion, or \<open>now()\<close>.\<close>

datatype source = From_param nat | From_excluded | From_clock

datatype on_conflict = Conflict_error | Conflict_update "(string \<times> source) list" cond

datatype statement =
    Select "string list option" string cond "string option"
  | Insert string "string list" on_conflict
  | Update string "(string \<times> source) list" cond "string list option"
  | Delete_some string cond nat
  | Select_one

record result =
  rs_rows :: "row list"
  rs_count :: nat

section \<open>Their execution\<close>

fun bind_cond :: "table_schema \<Rightarrow> js_param list \<Rightarrow> cond \<Rightarrow> string + (row \<Rightarrow> bool)" where
  "bind_cond t ps Everything = Inr (\<lambda>r. True)"
| "bind_cond t ps (Equals c n) = bindR (param_for t ps c n) (\<lambda>v. Inr (\<lambda>r. v \<noteq> SNull \<and> r c = Some v))"
| "bind_cond t ps (After c n) = bindR (param_for t ps c n) (\<lambda>v.
     Inr (\<lambda>r. case (r c, v) of (Some (STime a), STime b) \<Rightarrow> b < a | _ \<Rightarrow> False))"
| "bind_cond t ps (Up_to c n) = bindR (param_for t ps c n) (\<lambda>v.
     Inr (\<lambda>r. case (r c, v) of (Some (STime a), STime b) \<Rightarrow> a \<le> b | _ \<Rightarrow> False))"
| "bind_cond t ps (Is_null c) = Inr (\<lambda>r. r c = Some SNull)"
| "bind_cond t ps (Not_null c) = Inr (\<lambda>r. r c \<noteq> Some SNull)"
| "bind_cond t ps (And a b) = bindR (bind_cond t ps a) (\<lambda>p. bindR (bind_cond t ps b) (\<lambda>q. Inr (\<lambda>r. p r \<and> q r)))"

text \<open>The new version of a row, given the row proposed for insertion.\<close>

fun bind_sets :: "table_schema \<Rightarrow> int \<Rightarrow> js_param list \<Rightarrow> (string \<times> source) list \<Rightarrow> string + (row \<Rightarrow> row \<Rightarrow> row)" where
  "bind_sets t now ps [] = Inr (\<lambda>new r. r)"
| "bind_sets t now ps ((c, src) # sets) =
     bindR (case src of
              From_param n \<Rightarrow> bindR (param_for t ps c n) (\<lambda>v. Inr (\<lambda>new. Some v))
            | From_excluded \<Rightarrow> Inr (\<lambda>new. new c)
            | From_clock \<Rightarrow> Inr (\<lambda>new. Some (STime now))) (\<lambda>v.
     bindR (bind_sets t now ps sets) (\<lambda>f. Inr (\<lambda>new r. (f new r)(c := v new))))"

fun bind_values :: "table_schema \<Rightarrow> js_param list \<Rightarrow> nat \<Rightarrow> string list \<Rightarrow> string + (string \<times> sql_value) list" where
  "bind_values t ps n [] = Inr []"
| "bind_values t ps n (c # cs) =
     bindR (param_for t ps c n) (\<lambda>v. bindR (bind_values t ps (Suc n) cs) (\<lambda>vs. Inr ((c, v) # vs)))"

definition default_row :: "table_schema \<Rightarrow> int \<Rightarrow> row" where
  "default_row t now = map_of (map (\<lambda>col. (co_name col, if co_now col then STime now else SNull)) (ts_columns t))"

definition key_of :: "table_schema \<Rightarrow> row \<Rightarrow> sql_value option list" where
  "key_of t r = map r (ts_key t)"

definition required_ok :: "table_schema \<Rightarrow> row \<Rightarrow> bool" where
  "required_ok t r \<longleftrightarrow> list_all (\<lambda>col. co_required col \<longrightarrow> r (co_name col) \<noteq> Some SNull) (ts_columns t)"

text \<open>A row refers only to rows that exist; the referenced key has the name of the column.\<close>

definition refs_ok :: "table_schema \<Rightarrow> database \<Rightarrow> row \<Rightarrow> bool" where
  "refs_ok t db r \<longleftrightarrow> list_all (\<lambda>(c, other). list_ex (\<lambda>o'. o' c = r c) (db other)) (ts_refs t)"

definition single_ok :: "table_schema \<Rightarrow> row list \<Rightarrow> bool" where
  "single_ok t rows \<longleftrightarrow>
     (case ts_single t of None \<Rightarrow> True | Some (c, v) \<Rightarrow> length (filter (\<lambda>r. r c = Some v) rows) \<le> 1)"

definition project :: "string list option \<Rightarrow> row \<Rightarrow> row" where
  "project cols r = (case cols of None \<Rightarrow> r | Some cs \<Rightarrow> r |` set cs)"

definition row_time :: "string \<Rightarrow> row \<Rightarrow> int" where
  "row_time c r = (case r c of Some (STime t) \<Rightarrow> t | _ \<Rightarrow> 0)"

text \<open>The first \<open>n\<close> rows that satisfy a condition are left out.\<close>

fun drop_first :: "nat \<Rightarrow> (row \<Rightarrow> bool) \<Rightarrow> row list \<Rightarrow> row list" where
  "drop_first n p [] = []"
| "drop_first n p (r # rs) = (if p r \<and> 0 < n then drop_first (n - 1) p rs else r # drop_first n p rs)"

definition insert_row :: "table_schema \<Rightarrow> database \<Rightarrow> string \<Rightarrow> row \<Rightarrow> string + database" where
  "insert_row t db name r =
     bindR (throwIfR (\<not> single_ok t (db name @ [r])) ''23505'') (\<lambda>_.
     bindR (throwIfR (\<not> refs_ok t db r) ''23503'') (\<lambda>_.
     Inr (db(name := db name @ [r]))))"

definition update_rows :: "table_schema \<Rightarrow> database \<Rightarrow> string \<Rightarrow> (row \<Rightarrow> bool) \<Rightarrow> (row \<Rightarrow> row) \<Rightarrow> string + database" where
  "update_rows t db name p f =
     (let rows = map (\<lambda>r. if p r then f r else r) (db name)
      in bindR (throwIfR (\<not> list_all (required_ok t) rows) ''23502'') (\<lambda>_.
         bindR (throwIfR (\<not> single_ok t rows) ''23505'') (\<lambda>_.
         Inr (db(name := rows)))))"

fun execute :: "schema \<Rightarrow> int \<Rightarrow> js_param list \<Rightarrow> statement \<Rightarrow> database \<Rightarrow> string + (result \<times> database)" where
  "execute sch now ps (Select cols name c order) db =
     bindR (bind_cond (sch name) ps c) (\<lambda>p.
     let rows = filter p (db name);
         sorted_rows = (case order of None \<Rightarrow> rows | Some o' \<Rightarrow> sort_key (row_time o') rows)
     in Inr (\<lparr>rs_rows = map (project cols) sorted_rows, rs_count = length rows\<rparr>, db))"
| "execute sch now ps (Insert name cols conflict) db =
     bindR (bind_values (sch name) ps 1 cols) (\<lambda>vs.
     let new = default_row (sch name) now ++ map_of vs; same = (\<lambda>r. key_of (sch name) r = key_of (sch name) new)
     in bindR (throwIfR (\<not> required_ok (sch name) new) ''23502'') (\<lambda>_.
        case conflict of
          Conflict_error \<Rightarrow>
            bindR (throwIfR (list_ex same (db name)) ''23505'') (\<lambda>_.
            bindR (insert_row (sch name) db name new) (\<lambda>db'. Inr (\<lparr>rs_rows = [], rs_count = 1\<rparr>, db')))
        | Conflict_update sets c \<Rightarrow>
            bindR (bind_cond (sch name) ps c) (\<lambda>p.
            bindR (bind_sets (sch name) now ps sets) (\<lambda>f.
            if list_ex same (db name)
            then bindR (update_rows (sch name) db name (\<lambda>r. same r \<and> p r) (f new)) (\<lambda>db'.
                   Inr (\<lparr>rs_rows = [], rs_count = length (filter (\<lambda>r. same r \<and> p r) (db name))\<rparr>, db'))
            else bindR (insert_row (sch name) db name new) (\<lambda>db'. Inr (\<lparr>rs_rows = [], rs_count = 1\<rparr>, db'))))))"
| "execute sch now ps (Update name sets c returning) db =
     bindR (bind_cond (sch name) ps c) (\<lambda>p.
     bindR (bind_sets (sch name) now ps sets) (\<lambda>f.
     bindR (update_rows (sch name) db name p (\<lambda>r. f r r)) (\<lambda>db'.
     let rows = map (\<lambda>r. f r r) (filter p (db name))
     in Inr (\<lparr>rs_rows = map (project returning) rows, rs_count = length rows\<rparr>, db'))))"
| "execute sch now ps (Delete_some name c n) db =
     bindR (bind_cond (sch name) ps c) (\<lambda>p.
     let rows = drop_first n p (db name)
     in Inr (\<lparr>rs_rows = [], rs_count = length (db name) - length rows\<rparr>, db(name := rows)))"
| "execute sch now ps Select_one db = Inr (\<lparr>rs_rows = [Map.empty], rs_count = 1\<rparr>, db)"

section \<open>Well-formed tables\<close>

definition typed :: "table_schema \<Rightarrow> row \<Rightarrow> bool" where
  "typed t r \<longleftrightarrow>
     (\<forall>col \<in> set (ts_columns t). \<exists>v. r (co_name col) = Some v \<and> has_type (co_type col) v \<and> (co_required col \<longrightarrow> v \<noteq> SNull))"

definition table_ok :: "table_schema \<Rightarrow> row list \<Rightarrow> bool" where
  "table_ok t rows \<longleftrightarrow> (\<forall>r \<in> set rows. typed t r) \<and> distinct (map (key_of t) rows)"

definition db_ok :: "schema \<Rightarrow> database \<Rightarrow> bool" where
  "db_ok sch db \<longleftrightarrow> (\<forall>name. table_ok (sch name) (db name))"

text \<open>What a schema and a statement have to be for that to be kept: no key column is assigned to, and \<open>now()\<close> only
  goes into columns of times.\<close>

definition schema_ok :: "table_schema \<Rightarrow> bool" where
  "schema_ok t \<longleftrightarrow> distinct (map co_name (ts_columns t)) \<and> (\<forall>col \<in> set (ts_columns t). co_now col \<longrightarrow> co_type col = T_time)"

definition sets_ok :: "table_schema \<Rightarrow> (string \<times> source) list \<Rightarrow> bool" where
  "sets_ok t sets \<longleftrightarrow> (\<forall>(c, src) \<in> set sets. c \<notin> set (ts_key t) \<and> type_of t c \<noteq> None \<and>
     (src = From_clock \<longrightarrow> type_of t c = Some T_time))"

fun statement_ok :: "schema \<Rightarrow> statement \<Rightarrow> bool" where
  "statement_ok sch (Insert name cols (Conflict_update sets c)) \<longleftrightarrow> schema_ok (sch name) \<and> sets_ok (sch name) sets"
| "statement_ok sch (Insert name cols Conflict_error) \<longleftrightarrow> schema_ok (sch name)"
| "statement_ok sch (Update name sets c returning) \<longleftrightarrow>
     schema_ok (sch name) \<and> sets_ok (sch name) sets \<and> From_excluded \<notin> snd ` set sets"
| "statement_ok sch _ \<longleftrightarrow> True"

lemma type_of_column:
  assumes "schema_ok t" and "col \<in> set (ts_columns t)"
  shows "type_of t (co_name col) = Some (co_type col)"
proof -
  have "distinct (map fst (map (\<lambda>col. (co_name col, co_type col)) (ts_columns t)))"
    using assms(1) by (simp add: schema_ok_def comp_def)
  moreover have "(co_name col, co_type col) \<in> set (map (\<lambda>col. (co_name col, co_type col)) (ts_columns t))"
    using assms(2) by auto
  ultimately show ?thesis unfolding type_of_def by (rule map_of_is_SomeI)
qed

lemma encode_has_type: "encode ty p = Inr v \<Longrightarrow> has_type ty v"
  by (cases ty; cases p) (auto simp: encode_def has_type_def split: if_splits)

lemma param_for_has_type: "param_for t ps c n = Inr v \<Longrightarrow> type_of t c = Some ty \<Longrightarrow> has_type ty v"
  by (auto simp: param_for_def dest: encode_has_type split: if_splits)

lemma bind_values_has_type:
  "bind_values t ps n cols = Inr vs \<Longrightarrow> map_of vs c = Some v \<Longrightarrow> type_of t c = Some ty \<Longrightarrow> has_type ty v"
  by (induction t ps n cols arbitrary: vs rule: bind_values.induct)
    (auto simp: act_iff dest: param_for_has_type split: if_splits)

definition typed_at :: "table_schema \<Rightarrow> row \<Rightarrow> string \<Rightarrow> bool" where
  "typed_at t r c \<longleftrightarrow> (\<forall>ty. type_of t c = Some ty \<longrightarrow> (\<exists>v. r c = Some v \<and> has_type ty v))"

lemma typed_iff:
  "schema_ok t \<Longrightarrow> typed t r \<longleftrightarrow> (\<forall>c. typed_at t r c) \<and> required_ok t r"
proof (rule iffI, goal_cases)
  case 1
  have "typed_at t r c" for c
  proof -
    { fix ty assume "type_of t c = Some ty"
      then have "(c, ty) \<in> set (map (\<lambda>col. (co_name col, co_type col)) (ts_columns t))"
        unfolding type_of_def by (rule map_of_SomeD)
      with 1(2) have "\<exists>v. r c = Some v \<and> has_type ty v" by (auto simp: typed_def) }
    then show ?thesis by (simp add: typed_at_def)
  qed
  moreover from 1(2) have "required_ok t r" by (auto simp: typed_def required_ok_def list_all_iff)
  ultimately show ?case by blast
next
  case 2
  have "\<exists>v. r (co_name col) = Some v \<and> has_type (co_type col) v \<and> (co_required col \<longrightarrow> v \<noteq> SNull)"
    if col: "col \<in> set (ts_columns t)" for col
  proof -
    from 2(2) type_of_column [OF 2(1) col] obtain v where "r (co_name col) = Some v" "has_type (co_type col) v"
      by (auto simp: typed_at_def)
    moreover from 2(2) col have "co_required col \<longrightarrow> r (co_name col) \<noteq> Some SNull"
      by (auto simp: required_ok_def list_all_iff)
    ultimately show ?thesis by simp
  qed
  then show ?case by (simp add: typed_def)
qed

lemma default_row_typed:
  assumes "schema_ok t"
  shows "typed_at t (default_row t now) c"
proof -
  { fix ty assume "type_of t c = Some ty"
    then have "(c, ty) \<in> set (map (\<lambda>col. (co_name col, co_type col)) (ts_columns t))"
      unfolding type_of_def by (rule map_of_SomeD)
    then obtain col where col: "col \<in> set (ts_columns t)" "co_name col = c" "co_type col = ty" by auto
    have "distinct (map fst (map (\<lambda>col. (co_name col, if co_now col then STime now else SNull)) (ts_columns t)))"
      using assms by (simp add: schema_ok_def comp_def)
    moreover have "(c, if co_now col then STime now else SNull) \<in>
        set (map (\<lambda>col. (co_name col, if co_now col then STime now else SNull)) (ts_columns t))" using col by auto
    ultimately have "default_row t now c = Some (if co_now col then STime now else SNull)"
      unfolding default_row_def by (rule map_of_is_SomeI)
    with assms col have "\<exists>v. default_row t now c = Some v \<and> has_type ty v"
      by (auto simp: schema_ok_def has_type_def) }
  then show ?thesis by (simp add: typed_at_def)
qed

lemma new_row_typed:
  assumes "schema_ok t" and "bind_values t ps n cols = Inr vs"
  shows "typed_at t (default_row t now ++ map_of vs) c"
  using default_row_typed [OF assms(1), of now c] bind_values_has_type [OF assms(2), of c]
  by (auto simp: typed_at_def map_add_def split: option.splits)

lemma bind_sets_typed:
  assumes "bind_sets t now ps sets = Inr f" and "sets_ok t sets"
    and "\<And>c. typed_at t r c" and "From_excluded \<in> snd ` set sets \<Longrightarrow> \<forall>c. typed_at t new c"
  shows "typed_at t (f new r) c \<and> (\<forall>k \<in> set (ts_key t). f new r k = r k)"
  using assms
proof (induction t now ps sets arbitrary: f rule: bind_sets.induct)
  case (2 t now ps c' src sets)
  from 2(2) obtain v f' where v: "(case src of From_param n \<Rightarrow> bindR (param_for t ps c' n) (\<lambda>v. Inr (\<lambda>new. Some v))
            | From_excluded \<Rightarrow> Inr (\<lambda>new. new c') | From_clock \<Rightarrow> Inr (\<lambda>new. Some (STime now))) = Inr v"
    "bind_sets t now ps sets = Inr f'" and f: "f = (\<lambda>new r. (f' new r)(c' := v new))"
    by (auto simp: act_iff)
  have ih: "typed_at t (f' new r) c \<and> (\<forall>k \<in> set (ts_key t). f' new r k = r k)"
    by (rule 2(1) [OF v(2)]) (use 2(3-5) in \<open>auto simp: sets_ok_def\<close>)
  have "typed_at t (\<lambda>x. v new) c'"
  proof (cases src)
    case (From_param n)
    with v(1) obtain w where "param_for t ps c' n = Inr w" "v = (\<lambda>new. Some w)" by (auto simp: act_iff)
    then show ?thesis by (auto simp: typed_at_def dest: param_for_has_type)
  next
    case From_excluded
    with v(1) 2(5) show ?thesis by (auto simp: typed_at_def)
  next
    case From_clock
    with v(1) 2(3) show ?thesis by (auto simp: typed_at_def sets_ok_def has_type_def)
  qed
  with ih 2(3) show ?case by (auto simp: f typed_at_def sets_ok_def)
qed simp

lemma set_drop_first: "set (drop_first n p rs) \<subseteq> set rs"
  by (induction n p rs rule: drop_first.induct) auto

lemma drop_first_distinct: "distinct (map k rs) \<Longrightarrow> distinct (map k (drop_first n p rs))"
proof (induction n p rs rule: drop_first.induct)
  case (2 n p r rs)
  have "k ` set (drop_first n p rs) \<subseteq> k ` set rs" by (rule image_mono) (rule set_drop_first)
  with 2 show ?case by auto
qed simp

lemma key_of_cong: "(\<And>k. k \<in> set (ts_key t) \<Longrightarrow> r k = r' k) \<Longrightarrow> key_of t r = key_of t r'"
  by (simp add: key_of_def)

lemma insert_row_ok:
  assumes "insert_row (sch name) db name r = Inr db'" and "db_ok sch db" and "typed (sch name) r"
    and "\<not> list_ex (\<lambda>o'. key_of (sch name) o' = key_of (sch name) r) (db name)"
  shows "db_ok sch db'"
proof -
  from assms(1) have d: "db' = db(name := db name @ [r])" by (simp add: insert_row_def act_iff)
  from assms(2-4) have "table_ok (sch name) (db name @ [r])"
    by (auto simp: db_ok_def table_ok_def list_ex_iff)
  with assms(2) show ?thesis by (simp add: d db_ok_def)
qed

lemma update_rows_ok:
  assumes "update_rows (sch name) db name p f = Inr db'" and "db_ok sch db" and "schema_ok (sch name)"
    and "\<And>r c. r \<in> set (db name) \<Longrightarrow> typed (sch name) r \<Longrightarrow> typed_at (sch name) (f r) c \<and> (\<forall>k \<in> set (ts_key (sch name)). f r k = r k)"
  shows "db_ok sch db'"
proof -
  let ?t = "sch name" and ?rows = "map (\<lambda>r. if p r then f r else r) (db name)"
  from assms(1) have d: "db' = db(name := ?rows)" "list_all (required_ok ?t) ?rows"
    by (auto simp: update_rows_def Let_def act_iff)
  from assms(2) have t: "\<And>r. r \<in> set (db name) \<Longrightarrow> typed ?t r" "distinct (map (key_of ?t) (db name))"
    by (auto simp: db_ok_def table_ok_def)
  have "key_of ?t (if p r then f r else r) = key_of ?t r" if "r \<in> set (db name)" for r
    using assms(4) [OF that t(1) [OF that]] by (auto intro: key_of_cong)
  then have keys: "map (key_of ?t) ?rows = map (key_of ?t) (db name)" by simp
  have "typed ?t r" if "r \<in> set ?rows" for r
    using that d(2) assms(4) t(1) typed_iff [OF assms(3)] by (auto simp: list_all_iff)
  with t(2) have "table_ok ?t ?rows" unfolding table_ok_def keys by blast
  with assms(2) show ?thesis by (simp add: d(1) db_ok_def)
qed

text \<open>Every statement keeps the tables well formed.\<close>

theorem execute_ok:
  assumes "execute sch now ps st db = Inr (res, db')" and "statement_ok sch st" and "db_ok sch db"
  shows "db_ok sch db'"
proof (cases st)
  case (Select cols name c order)
  with assms show ?thesis by (auto simp: act_iff Let_def)
next
  case (Insert name cols conflict)
  let ?t = "sch name"
  from assms(2) have sch: "schema_ok ?t" unfolding Insert by (cases conflict) simp_all
  from assms(1) obtain vs new where vs: "bind_values ?t ps 1 cols = Inr vs" "new = default_row ?t now ++ map_of vs"
    "required_ok ?t new" by (auto simp: Insert act_iff Let_def)
  then have new: "typed ?t new" "\<And>c. typed_at ?t new c"
    using new_row_typed [OF sch vs(1)] typed_iff [OF sch] by auto
  show ?thesis
  proof (cases conflict)
    case Conflict_error
    with assms(1) vs obtain "insert_row ?t db name new = Inr db'"
      "\<not> list_ex (\<lambda>r. key_of ?t r = key_of ?t new) (db name)"
      by (auto simp: Insert act_iff Let_def)
    then show ?thesis using insert_row_ok assms(3) new(1) by blast
  next
    case (Conflict_update sets c)
    let ?there = "list_ex (\<lambda>r. key_of ?t r = key_of ?t new) (db name)"
    from Conflict_update assms(1) vs obtain p f where p: "bind_sets ?t now ps sets = Inr f"
      "?there \<longrightarrow> update_rows ?t db name (\<lambda>r. key_of ?t r = key_of ?t new \<and> p r) (f new) = Inr db'"
      "\<not> ?there \<longrightarrow> insert_row ?t db name new = Inr db'"
      by (cases ?there) (auto simp: Insert act_iff Let_def)
    have so: "sets_ok ?t sets" using assms(2) by (simp add: Insert Conflict_update)
    show ?thesis
    proof (cases ?there)
      case True
      with p(2) have u: "update_rows ?t db name (\<lambda>r. key_of ?t r = key_of ?t new \<and> p r) (f new) = Inr db'" by simp
      have f: "typed_at ?t (f new r) d \<and> (\<forall>k \<in> set (ts_key ?t). f new r k = r k)" if "typed ?t r" for r d
        using bind_sets_typed [OF p(1) so] that new(2) typed_iff [OF sch] by blast
      show ?thesis by (rule update_rows_ok [OF u assms(3) sch f])
    next
      case False
      with p(3) have "insert_row ?t db name new = Inr db'" by blast
      from insert_row_ok [OF this assms(3) new(1) False] show ?thesis .
    qed
  qed
next
  case (Update name sets c returning)
  let ?t = "sch name"
  from assms(1) obtain p f where f: "bind_sets ?t now ps sets = Inr f" "update_rows ?t db name p (\<lambda>r. f r r) = Inr db'"
    by (auto simp: Update act_iff Let_def)
  from assms(2) have so: "schema_ok ?t" "sets_ok ?t sets" by (simp_all add: Update)
  have "typed_at ?t (f r r) d \<and> (\<forall>k \<in> set (ts_key ?t). f r r k = r k)" if "typed ?t r" for r d
    using bind_sets_typed [OF f(1) so(2)] that typed_iff [OF so(1)] by blast
  then show ?thesis by (rule update_rows_ok [OF f(2) assms(3) so(1)])
next
  case (Delete_some name c n)
  with assms(1) obtain p where d: "db' = db(name := drop_first n p (db name))" by (auto simp: act_iff Let_def)
  from assms(3) have "table_ok (sch name) (drop_first n p (db name))"
    using set_drop_first [of n p "db name"] by (auto simp: db_ok_def table_ok_def intro: drop_first_distinct)
  with assms(3) show ?thesis by (simp add: d db_ok_def)
next
  case Select_one
  with assms show ?thesis by simp
qed

section \<open>The row under a key\<close>

definition at_key :: "row list \<Rightarrow> string \<Rightarrow> string \<Rightarrow> row option" where
  "at_key rows k x = find (\<lambda>r. r k = Some (SText x)) rows"

lemma at_key_Some: "at_key rows k x = Some r \<Longrightarrow> r \<in> set rows \<and> r k = Some (SText x)"
  by (auto simp: at_key_def find_Some_iff)

lemma filter_key:
  assumes "table_ok t rows" and "ts_key t = [k]"
  shows "filter (\<lambda>r. r k = Some (SText x) \<and> p r) rows =
    (case at_key rows k x of Some r \<Rightarrow> if p r then [r] else [] | None \<Rightarrow> [])"
proof -
  have "distinct (map (\<lambda>r. r k) rows)"
    using assms by (simp add: table_ok_def key_of_def distinct_map inj_on_def)
  then show ?thesis unfolding at_key_def
  proof (induction rows)
    case (Cons r rows)
    show ?case
    proof (cases "r k = Some (SText x)")
      case True
      with Cons.prems have "filter (\<lambda>r. r k = Some (SText x) \<and> p r) rows = []"
        by (auto simp: filter_empty_conv image_iff)
      with True show ?thesis by simp
    next
      case False
      with Cons show ?thesis by simp
    qed
  qed simp
qed

lemma at_key_update:
  assumes "\<And>r. r \<in> set rows \<Longrightarrow> f r k = r k"
  shows "at_key (map (\<lambda>r. if p r then f r else r) rows) k x = map_option (\<lambda>r. if p r then f r else r) (at_key rows k x)"
  using assms by (induction rows) (auto simp: at_key_def)

lemma at_key_append:
  "at_key (rows @ [r]) k x = (case at_key rows k x of Some q \<Rightarrow> Some q | None \<Rightarrow> if r k = Some (SText x) then Some r else None)"
  by (induction rows) (auto simp: at_key_def)

lemma at_key_fresh:
  assumes "\<not> list_ex (\<lambda>r. key_of t r = key_of t new) rows" and "ts_key t = [k]" and "new k = Some (SText x)"
  shows "at_key rows k x = None"
  using assms by (auto simp: at_key_def find_None_iff key_of_def list_ex_iff)

end
