(* ===== verification/PgStorage.thy ===== *)
theory PgStorage
  imports Sql
begin

text \<open>
  The PostgreSQL storage adapter (\<open>src/db/repositories/pg.ts\<close>, the schema in \<open>src/db/migrations\<close>, \<open>pingDb\<close> of
  \<open>src/db/pool.ts\<close>): one definition per repository class, with the statement and the parameters every method sends and the
  record it makes of a row. The interpretation \<open>pg\<close> shows that the adapter meets the storage contract.
\<close>

section \<open>The schema\<close>

abbreviation text_col :: "string \<Rightarrow> column" where
  "text_col c \<equiv> \<lparr>co_name = c, co_type = T_text, co_required = True, co_now = False\<rparr>"

abbreviation null_col :: "string \<Rightarrow> col_type \<Rightarrow> column" where
  "null_col c ty \<equiv> \<lparr>co_name = c, co_type = ty, co_required = False, co_now = False\<rparr>"

abbreviation need_col :: "string \<Rightarrow> col_type \<Rightarrow> column" where
  "need_col c ty \<equiv> \<lparr>co_name = c, co_type = ty, co_required = True, co_now = False\<rparr>"

abbreviation now_col :: "string \<Rightarrow> column" where
  "now_col c \<equiv> \<lparr>co_name = c, co_type = T_time, co_required = True, co_now = True\<rparr>"

definition clients_table :: table_schema where
  "clients_table =
     \<lparr>ts_columns = [text_col ''client_id'', null_col ''client_name'' T_text, need_col ''metadata'' T_json,
        now_col ''created_at'', now_col ''updated_at''],
      ts_key = [''client_id''], ts_refs = [], ts_single = None\<rparr>"

definition signing_keys_table :: table_schema where
  "signing_keys_table =
     \<lparr>ts_columns = [text_col ''kid'', text_col ''alg'', text_col ''status'', need_col ''private_jwk'' T_json,
        need_col ''public_jwk'' T_json, now_col ''created_at'', null_col ''retired_at'' T_time],
      ts_key = [''kid''], ts_refs = [], ts_single = Some (''status'', SText ''active'')\<rparr>"

definition par_requests_table :: table_schema where
  "par_requests_table =
     \<lparr>ts_columns = [text_col ''request_uri'', text_col ''client_id'', need_col ''params'' T_json,
        null_col ''dpop_jkt'' T_text, need_col ''expires_at'' T_time, null_col ''consumed_at'' T_time],
      ts_key = [''request_uri''], ts_refs = [(''client_id'', ''clients'')], ts_single = None\<rparr>"

definition grants_table :: table_schema where
  "grants_table =
     \<lparr>ts_columns = [need_col ''grant_id'' T_uuid, text_col ''client_id'', text_col ''subject'', text_col ''scope'',
        need_col ''auth_time'' T_time, now_col ''created_at'', null_col ''revoked_at'' T_time],
      ts_key = [''grant_id''], ts_refs = [(''client_id'', ''clients'')], ts_single = None\<rparr>"

definition authorization_codes_table :: table_schema where
  "authorization_codes_table =
     \<lparr>ts_columns = [text_col ''code_hash'', need_col ''grant_id'' T_uuid, text_col ''client_id'', text_col ''redirect_uri'',
        text_col ''code_challenge'', text_col ''code_challenge_method'', null_col ''dpop_jkt'' T_text,
        null_col ''nonce'' T_text, need_col ''expires_at'' T_time, null_col ''consumed_at'' T_time],
      ts_key = [''code_hash''], ts_refs = [(''grant_id'', ''grants'')], ts_single = None\<rparr>"

definition access_tokens_table :: table_schema where
  "access_tokens_table =
     \<lparr>ts_columns = [text_col ''jti'', need_col ''grant_id'' T_uuid, text_col ''client_id'', text_col ''subject'',
        text_col ''scope'', null_col ''cnf_jkt'' T_text, need_col ''expires_at'' T_time, null_col ''revoked_at'' T_time],
      ts_key = [''jti''], ts_refs = [(''grant_id'', ''grants'')], ts_single = None\<rparr>"

definition refresh_tokens_table :: table_schema where
  "refresh_tokens_table =
     \<lparr>ts_columns = [text_col ''token_hash'', need_col ''grant_id'' T_uuid, text_col ''client_id'', text_col ''scope'',
        need_col ''expires_at'' T_time, null_col ''revoked_at'' T_time],
      ts_key = [''token_hash''], ts_refs = [(''grant_id'', ''grants'')], ts_single = None\<rparr>"

definition jti_replay_table :: table_schema where
  "jti_replay_table =
     \<lparr>ts_columns = [text_col ''context'', text_col ''jti'', need_col ''expires_at'' T_time],
      ts_key = [''context'', ''jti''], ts_refs = [], ts_single = None\<rparr>"

definition interactions_table :: table_schema where
  "interactions_table =
     \<lparr>ts_columns = [text_col ''id'', text_col ''client_id'', text_col ''request_uri'', null_col ''subject'' T_text,
        null_col ''auth_time'' T_time, null_col ''acr'' T_text, null_col ''amr'' T_texts, now_col ''created_at'',
        null_col ''completed_at'' T_time, need_col ''expires_at'' T_time],
      ts_key = [''id''], ts_refs = [(''client_id'', ''clients'')], ts_single = None\<rparr>"

definition pg_schema :: schema where
  "pg_schema name =
     (case map_of
        [(''clients'', clients_table), (''signing_keys'', signing_keys_table), (''par_requests'', par_requests_table),
         (''grants'', grants_table), (''authorization_codes'', authorization_codes_table),
         (''access_tokens'', access_tokens_table), (''refresh_tokens'', refresh_tokens_table),
         (''jti_replay'', jti_replay_table), (''interactions'', interactions_table)] name of
        Some t \<Rightarrow> t
      | None \<Rightarrow> \<lparr>ts_columns = [], ts_key = [], ts_refs = [], ts_single = None\<rparr>)"

section \<open>The connection\<close>

text \<open>
  The state of the adapter is the database behind the pool, with its clock; what the connection
  does with the coming queries (by its errors and timeouts a query may not reach the database, or run there and lose its
  reply; when the list is used up all are answered); and the coming values of
  \<open>Math.random()\<close>.
\<close>

datatype fault = Answered | Not_run | Reply_lost

record pg_state =
  pg_db :: database
  pg_clock :: int
  pg_faults :: "fault list"
  pg_random :: "rat list"

definition query_fault :: "pg_state \<Rightarrow> fault" where
  "query_fault s = (case pg_faults s of [] \<Rightarrow> Answered | f # _ \<Rightarrow> f)"

text \<open>\<open>pool.query(text, values)\<close>.\<close>

definition pool_query :: "statement \<Rightarrow> js_param list \<Rightarrow> (pg_state, exn, result) act" where
  "pool_query st ps =
     (\<lambda>s. let s1 = s\<lparr>pg_faults := tl (pg_faults s)\<rparr>
      in if query_fault s = Not_run then (Inl (JsExn None), s1)
         else case execute pg_schema (pg_clock s) ps st (pg_db s) of
                Inl code \<Rightarrow> (Inl (JsExn (Some code)), s1)
              | Inr (res, db) \<Rightarrow> (if query_fault s = Reply_lost then Inl (JsExn None) else Inr res, s1\<lparr>pg_db := db\<rparr>))"

definition math_random :: "(pg_state, exn, rat) act" where
  "math_random = (\<lambda>s. (Inr (case pg_random s of [] \<Rightarrow> 1 / 2 | r # _ \<Rightarrow> r), s\<lparr>pg_random := tl (pg_random s)\<rparr>))"

section \<open>Reading a row\<close>

text \<open>The members of a row as the type the record declares for them.\<close>

definition as_text :: "row \<Rightarrow> string \<Rightarrow> string" where
  "as_text r c = (case r c of Some (SText s) \<Rightarrow> s | _ \<Rightarrow> [])"

definition as_text_opt :: "row \<Rightarrow> string \<Rightarrow> string option" where
  "as_text_opt r c = (case r c of Some (SText s) \<Rightarrow> Some s | _ \<Rightarrow> None)"

definition as_time :: "row \<Rightarrow> string \<Rightarrow> int" where
  "as_time r c = (case r c of Some (STime t) \<Rightarrow> t | _ \<Rightarrow> 0)"

definition as_time_opt :: "row \<Rightarrow> string \<Rightarrow> int option" where
  "as_time_opt r c = (case r c of Some (STime t) \<Rightarrow> Some t | _ \<Rightarrow> None)"

definition as_json :: "row \<Rightarrow> string \<Rightarrow> json" where
  "as_json r c = (case r c of Some (SJson j) \<Rightarrow> j | _ \<Rightarrow> JNull)"

definition as_object :: "row \<Rightarrow> string \<Rightarrow> jobj" where
  "as_object r c = (case as_json r c of JObj ms \<Rightarrow> ms | _ \<Rightarrow> [])"

text \<open>\<open>Record<string, string>\<close>\<close>

definition as_strings :: "row \<Rightarrow> string \<Rightarrow> (string \<times> string) list" where
  "as_strings r c = map (\<lambda>(k, v). (k, case v of JStr s \<Rightarrow> s | _ \<Rightarrow> [])) (as_object r c)"

text \<open>\<open>string | null\<close> and \<open>string[] | null\<close> of an authentication context.\<close>

definition as_acr :: "row \<Rightarrow> string \<Rightarrow> json option" where
  "as_acr r c = map_option JStr (as_text_opt r c)"

definition as_amr :: "row \<Rightarrow> string \<Rightarrow> json option" where
  "as_amr r c = (case r c of Some (STexts ss) \<Rightarrow> Some (JArr (map JStr ss)) | _ \<Rightarrow> None)"

section \<open>Parameters\<close>

definition opt_str :: "string option \<Rightarrow> js_param" where
  "opt_str v = (case v of None \<Rightarrow> PNull | Some s \<Rightarrow> PStr s)"

definition opt_date :: "int option \<Rightarrow> js_param" where
  "opt_date v = (case v of None \<Rightarrow> PNull | Some t \<Rightarrow> PDate t)"

text \<open>The declared types are \<open>string | null\<close> and \<open>string[] | null\<close>. A value of another type, which the type system
  excludes, is an object no text column takes.\<close>

definition acr_param :: "json option \<Rightarrow> js_param" where
  "acr_param v = (case v of None \<Rightarrow> PNull | Some (JStr s) \<Rightarrow> PStr s | Some j \<Rightarrow> PObj j)"

definition strings_of :: "json list \<Rightarrow> string list option" where
  "strings_of js = those (map (\<lambda>j. case j of JStr s \<Rightarrow> Some s | _ \<Rightarrow> None) js)"

definition amr_param :: "json option \<Rightarrow> js_param" where
  "amr_param v =
     (case v of
        None \<Rightarrow> PNull
      | Some (JArr js) \<Rightarrow> (case strings_of js of Some ss \<Rightarrow> PStrs ss | None \<Rightarrow> PObj (JArr js))
      | Some j \<Rightarrow> PObj j)"

definition status_text :: "key_status \<Rightarrow> string" where
  "status_text st = (case st of active \<Rightarrow> ''active'' | retired \<Rightarrow> ''retired'')"

definition string_members :: "(string \<times> string) list \<Rightarrow> json" where
  "string_members ps = JObj (map (\<lambda>(k, v). (k, JStr v)) ps)"

text \<open>What most methods do with the result.\<close>

definition ignored :: "result \<Rightarrow> unit" where
  "ignored res = ()"

definition first_row :: "(row \<Rightarrow> 'r) \<Rightarrow> result \<Rightarrow> 'r option" where
  "first_row f res = (case rs_rows res of [] \<Rightarrow> None | r # _ \<Rightarrow> Some (f r))"

definition query_then :: "statement \<Rightarrow> js_param list \<Rightarrow> (result \<Rightarrow> 'a) \<Rightarrow> (pg_state, exn, 'a) act" where
  "query_then st ps f = bindE (pool_query st ps) (\<lambda>res. returnE (f res))"

section \<open>PgSigningKeys\<close>

definition key_row :: "row \<Rightarrow> signing_key" where
  "key_row r =
     \<lparr>sk_kid = as_text r ''kid'', sk_alg = as_text r ''alg'',
      sk_status = (if as_text r ''status'' = ''active'' then active else retired),
      sk_privateJwk = as_object r ''private_jwk'', sk_publicJwk = as_object r ''public_jwk'',
      sk_createdAt = as_time r ''created_at'', sk_retiredAt = as_time_opt r ''retired_at''\<rparr>"

definition key_columns :: "string list" where
  "key_columns = [''kid'', ''alg'', ''status'', ''private_jwk'', ''public_jwk'', ''created_at'', ''retired_at'']"

definition pg_keys :: "pg_state signing_key_repo" where
  "pg_keys =
     \<lparr>sk_list = query_then (Select (Some key_columns) ''signing_keys'' Everything (Some ''created_at'')) []
        (\<lambda>res. map key_row (rs_rows res)),
      sk_insert = (\<lambda>k. query_then (Insert ''signing_keys'' key_columns Conflict_error)
        [PStr (sk_kid k), PStr (sk_alg k), PStr (status_text (sk_status k)), PObj (JObj (sk_privateJwk k)),
         PObj (JObj (sk_publicJwk k)), PDate (sk_createdAt k), opt_date (sk_retiredAt k)] ignored),
      sk_setStatus = (\<lambda>kid status retiredAt. query_then
        (Update ''signing_keys'' [(''status'', From_param 2), (''retired_at'', From_param 3)] (Equals ''kid'' 1) (Some []))
        [PStr kid, PStr (status_text status), opt_date retiredAt] ignored)\<rparr>"

section \<open>PgClients\<close>

definition client_row :: "row \<Rightarrow> client_rec" where
  "client_row r = \<lparr>cr_clientId = as_text r ''client_id'', cr_clientName = as_text_opt r ''client_name'',
     cr_metadata = as_json r ''metadata''\<rparr>"

definition pg_clients :: "pg_state client_repo" where
  "pg_clients =
     \<lparr>cl_findById = (\<lambda>i. query_then
        (Select (Some [''client_id'', ''client_name'', ''metadata'']) ''clients'' (Equals ''client_id'' 1) None)
        [PStr i] (first_row client_row)),
      cl_upsert = (\<lambda>c. query_then
        (Insert ''clients'' [''client_id'', ''client_name'', ''metadata'']
          (Conflict_update [(''client_name'', From_excluded), (''metadata'', From_excluded), (''updated_at'', From_clock)] Everything))
        [PStr (cr_clientId c), opt_str (cr_clientName c), PObj (cr_metadata c)] ignored)\<rparr>"

section \<open>PgParRequests\<close>

definition par_row :: "row \<Rightarrow> par_rec" where
  "par_row r =
     \<lparr>par_requestUri = as_text r ''request_uri'', par_clientId = as_text r ''client_id'', par_params = as_strings r ''params'',
      par_dpopJkt = as_text_opt r ''dpop_jkt'', par_expiresAt = as_time r ''expires_at''\<rparr>"

definition par_columns :: "string list" where
  "par_columns = [''request_uri'', ''client_id'', ''params'', ''dpop_jkt'', ''expires_at'']"

definition par_unused :: cond where
  "par_unused = And (Equals ''request_uri'' 1) (And (Is_null ''consumed_at'') (After ''expires_at'' 2))"

definition pg_par :: "pg_state par_repo" where
  "pg_par =
     \<lparr>par_insert = (\<lambda>p. query_then (Insert ''par_requests'' par_columns Conflict_error)
        [PStr (par_requestUri p), PStr (par_clientId p), PObj (string_members (par_params p)), opt_str (par_dpopJkt p),
         PDate (par_expiresAt p)] ignored),
      par_peek = (\<lambda>u now. query_then (Select (Some par_columns) ''par_requests'' par_unused None) [PStr u, PDate now]
        (first_row par_row)),
      par_consume = (\<lambda>u now. query_then
        (Update ''par_requests'' [(''consumed_at'', From_param 2)] par_unused (Some par_columns)) [PStr u, PDate now]
        (first_row par_row))\<rparr>"

section \<open>PgGrants\<close>

definition grant_row :: "row \<Rightarrow> grant_rec" where
  "grant_row r =
     \<lparr>grant_grantId = as_text r ''grant_id'', grant_clientId = as_text r ''client_id'', grant_subject = as_text r ''subject'',
      grant_scope = as_text r ''scope'', grant_authTime = as_time r ''auth_time'', grant_createdAt = as_time r ''created_at'',
      grant_revokedAt = as_time_opt r ''revoked_at''\<rparr>"

definition grant_columns :: "string list" where
  "grant_columns = [''grant_id'', ''client_id'', ''subject'', ''scope'', ''auth_time'', ''created_at'', ''revoked_at'']"

definition pg_grants :: "pg_state grant_repo" where
  "pg_grants =
     \<lparr>grant_insert = (\<lambda>g. query_then (Insert ''grants'' grant_columns Conflict_error)
        [PStr (grant_grantId g), PStr (grant_clientId g), PStr (grant_subject g), PStr (grant_scope g),
         PDate (grant_authTime g), PDate (grant_createdAt g), opt_date (grant_revokedAt g)] ignored),
      grant_find = (\<lambda>i. query_then (Select (Some grant_columns) ''grants'' (Equals ''grant_id'' 1) None) [PStr i]
        (first_row grant_row)),
      grant_revoke = (\<lambda>i t. query_then
        (Update ''grants'' [(''revoked_at'', From_param 2)] (And (Equals ''grant_id'' 1) (Is_null ''revoked_at'')) (Some []))
        [PStr i, PDate t] ignored)\<rparr>"

section \<open>PgAuthorizationCodes\<close>

definition codeRowToRecord :: "row \<Rightarrow> code_rec" where
  "codeRowToRecord r =
     \<lparr>code_codeHash = as_text r ''code_hash'', code_grantId = as_text r ''grant_id'', code_clientId = as_text r ''client_id'',
      code_redirectUri = as_text r ''redirect_uri'', code_codeChallenge = as_text r ''code_challenge'',
      code_codeChallengeMethod = as_text r ''code_challenge_method'', code_dpopJkt = as_text_opt r ''dpop_jkt'',
      code_nonce = as_text_opt r ''nonce'', code_expiresAt = as_time r ''expires_at''\<rparr>"

definition code_columns :: "string list" where
  "code_columns = [''code_hash'', ''grant_id'', ''client_id'', ''redirect_uri'', ''code_challenge'',
     ''code_challenge_method'', ''dpop_jkt'', ''nonce'', ''expires_at'']"

text \<open>The two queries of \<open>redeem\<close>: the one that uses the code, and the one that looks for a used code.\<close>

definition code_use :: "string \<Rightarrow> int \<Rightarrow> (pg_state, exn, result) act" where
  "code_use codeHash now =
     pool_query (Update ''authorization_codes'' [(''consumed_at'', From_param 2)]
       (And (Equals ''code_hash'' 1) (And (Is_null ''consumed_at'') (After ''expires_at'' 2))) None)
       [PStr codeHash, PDate now]"

definition code_look :: "string \<Rightarrow> (pg_state, exn, result) act" where
  "code_look codeHash =
     pool_query (Select None ''authorization_codes'' (And (Equals ''code_hash'' 1) (Not_null ''consumed_at'')) None)
       [PStr codeHash]"

definition pg_codes_redeem :: "string \<Rightarrow> int \<Rightarrow> (pg_state, exn, code_redemption) act" where
  "pg_codes_redeem codeHash now =
     bindE (code_use codeHash now) (\<lambda>upd.
     case rs_rows upd of
       r # _ \<Rightarrow> returnE (Redeem_ok (codeRowToRecord r))
     | [] \<Rightarrow>
         bindE (code_look codeHash) (\<lambda>sel.
         case rs_rows sel of
           r # _ \<Rightarrow> returnE (Redeem_consumed (codeRowToRecord r))
         | [] \<Rightarrow> returnE Redeem_invalid))"

definition pg_codes :: "pg_state code_repo" where
  "pg_codes =
     \<lparr>code_insert = (\<lambda>c. query_then (Insert ''authorization_codes'' code_columns Conflict_error)
        [PStr (code_codeHash c), PStr (code_grantId c), PStr (code_clientId c), PStr (code_redirectUri c),
         PStr (code_codeChallenge c), PStr (code_codeChallengeMethod c), opt_str (code_dpopJkt c), opt_str (code_nonce c),
         PDate (code_expiresAt c)] ignored),
      code_redeem = pg_codes_redeem\<rparr>"

section \<open>PgAccessTokens and PgRefreshTokens\<close>

definition at_row :: "row \<Rightarrow> at_rec" where
  "at_row r =
     \<lparr>at_jti = as_text r ''jti'', at_grantId = as_text r ''grant_id'', at_clientId = as_text r ''client_id'',
      at_subject = as_text r ''subject'', at_scope = as_text r ''scope'', at_cnfJkt = as_text_opt r ''cnf_jkt'',
      at_expiresAt = as_time r ''expires_at'', at_revokedAt = as_time_opt r ''revoked_at''\<rparr>"

definition at_columns :: "string list" where
  "at_columns = [''jti'', ''grant_id'', ''client_id'', ''subject'', ''scope'', ''cnf_jkt'', ''expires_at'', ''revoked_at'']"

definition pg_accessTokens :: "pg_state at_repo" where
  "pg_accessTokens =
     \<lparr>at_insert = (\<lambda>a. query_then (Insert ''access_tokens'' at_columns Conflict_error)
        [PStr (at_jti a), PStr (at_grantId a), PStr (at_clientId a), PStr (at_subject a), PStr (at_scope a),
         opt_str (at_cnfJkt a), PDate (at_expiresAt a), opt_date (at_revokedAt a)] ignored),
      at_findByJti = (\<lambda>j. query_then (Select (Some at_columns) ''access_tokens'' (Equals ''jti'' 1) None) [PStr j]
        (first_row at_row)),
      at_revoke = (\<lambda>j t. query_then
        (Update ''access_tokens'' [(''revoked_at'', From_param 2)] (And (Equals ''jti'' 1) (Is_null ''revoked_at'')) (Some []))
        [PStr j, PDate t] ignored),
      at_revokeByGrant = (\<lambda>g t. query_then
        (Update ''access_tokens'' [(''revoked_at'', From_param 2)] (And (Equals ''grant_id'' 1) (Is_null ''revoked_at'')) (Some []))
        [PStr g, PDate t] ignored)\<rparr>"

definition rt_row :: "row \<Rightarrow> rt_rec" where
  "rt_row r =
     \<lparr>rt_tokenHash = as_text r ''token_hash'', rt_grantId = as_text r ''grant_id'', rt_clientId = as_text r ''client_id'',
      rt_scope = as_text r ''scope'', rt_expiresAt = as_time r ''expires_at'', rt_revokedAt = as_time_opt r ''revoked_at''\<rparr>"

definition rt_columns :: "string list" where
  "rt_columns = [''token_hash'', ''grant_id'', ''client_id'', ''scope'', ''expires_at'', ''revoked_at'']"

definition pg_refreshTokens :: "pg_state rt_repo" where
  "pg_refreshTokens =
     \<lparr>rt_insert = (\<lambda>w. query_then (Insert ''refresh_tokens'' rt_columns Conflict_error)
        [PStr (rt_tokenHash w), PStr (rt_grantId w), PStr (rt_clientId w), PStr (rt_scope w), PDate (rt_expiresAt w),
         opt_date (rt_revokedAt w)] ignored),
      rt_findByHash = (\<lambda>h. query_then (Select (Some rt_columns) ''refresh_tokens'' (Equals ''token_hash'' 1) None) [PStr h]
        (first_row rt_row)),
      rt_revoke = (\<lambda>h t. query_then
        (Update ''refresh_tokens'' [(''revoked_at'', From_param 2)] (And (Equals ''token_hash'' 1) (Is_null ''revoked_at'')) (Some []))
        [PStr h, PDate t] ignored),
      rt_revokeByGrant = (\<lambda>g t. query_then
        (Update ''refresh_tokens'' [(''revoked_at'', From_param 2)] (And (Equals ''grant_id'' 1) (Is_null ''revoked_at'')) (Some []))
        [PStr g, PDate t] ignored)\<rparr>"

section \<open>PgJtiReplay\<close>

text \<open>The occasional reaping of expired rows, with the given probability.\<close>

definition reap :: "rat \<Rightarrow> string \<Rightarrow> int \<Rightarrow> (pg_state, exn, unit) act" where
  "reap probability table now =
     bindE math_random (\<lambda>r.
     if r < probability
     then bindE (pool_query (Delete_some table (Up_to ''expires_at'' 1) 1000) [PDate now]) (\<lambda>_. returnE ())
     else returnE ())"

definition jti_claim :: "string \<Rightarrow> string \<Rightarrow> int \<Rightarrow> int \<Rightarrow> (pg_state, exn, bool) act" where
  "jti_claim context jti expiresAt now =
     query_then
       (Insert ''jti_replay'' [''context'', ''jti'', ''expires_at'']
         (Conflict_update [(''expires_at'', From_excluded)] (Up_to ''expires_at'' 4)))
       [PStr context, PStr jti, PDate expiresAt, PDate now] (\<lambda>res. rs_count res = 1)"

definition pg_jti :: "pg_state jti_repo" where
  "pg_jti =
     \<lparr>jti_register = (\<lambda>context jti expiresAt now.
        bindE (reap (1 / 100) ''jti_replay'' now) (\<lambda>_. jti_claim context jti expiresAt now))\<rparr>"

section \<open>PgInteractions\<close>

definition interactionRow :: "row \<Rightarrow> int_rec" where
  "interactionRow r =
     \<lparr>int_id = as_text r ''id'', int_clientId = as_text r ''client_id'', int_requestUri = as_text r ''request_uri'',
      int_subject = as_text_opt r ''subject'', int_authTime = as_time_opt r ''auth_time'', int_acr = as_acr r ''acr'',
      int_amr = as_amr r ''amr'', int_createdAt = as_time r ''created_at'', int_expiresAt = as_time r ''expires_at''\<rparr>"

definition int_columns :: "string list" where
  "int_columns = [''id'', ''client_id'', ''request_uri'', ''subject'', ''auth_time'', ''acr'', ''amr'', ''created_at'', ''expires_at'']"

definition int_open :: cond where
  "int_open = And (Equals ''id'' 1) (And (Is_null ''completed_at'') (After ''expires_at'' 2))"

definition int_add :: "int_rec \<Rightarrow> (pg_state, exn, unit) act" where
  "int_add r =
     query_then (Insert ''interactions'' int_columns Conflict_error)
       [PStr (int_id r), PStr (int_clientId r), PStr (int_requestUri r), opt_str (int_subject r),
        opt_date (int_authTime r), acr_param (int_acr r), amr_param (int_amr r), PDate (int_createdAt r),
        PDate (int_expiresAt r)] ignored"

definition pg_interactions :: "pg_state int_repo" where
  "pg_interactions =
     \<lparr>int_insert = (\<lambda>r. bindE (reap (2 / 100) ''interactions'' (int_createdAt r)) (\<lambda>_. int_add r)),
      int_find = (\<lambda>i now. query_then (Select None ''interactions'' int_open None) [PStr i, PDate now]
        (first_row interactionRow)),
      int_setSubject = (\<lambda>i subject authTime acr amr. query_then
        (Update ''interactions''
          [(''subject'', From_param 2), (''auth_time'', From_param 3), (''acr'', From_param 4), (''amr'', From_param 5)]
          (And (Equals ''id'' 1) (Is_null ''completed_at'')) (Some []))
        [PStr i, PStr subject, PDate authTime, acr_param acr, amr_param amr] ignored),
      int_complete = (\<lambda>i now. query_then
        (Update ''interactions'' [(''completed_at'', From_param 2)] int_open None) [PStr i, PDate now]
        (first_row interactionRow))\<rparr>"

section \<open>createPgStorage\<close>

definition pingDb :: "(pg_state, exn, bool) act" where
  "pingDb = catchE (bindE (pool_query Select_one []) (\<lambda>_. returnE True)) (\<lambda>e. returnE False)"

definition createPgStorage :: "pg_state storage" where
  "createPgStorage =
     \<lparr>st_keys = pg_keys, st_clients = pg_clients, st_par = pg_par, st_grants = pg_grants, st_codes = pg_codes,
      st_accessTokens = pg_accessTokens, st_refreshTokens = pg_refreshTokens, st_jti = pg_jti,
      st_interactions = pg_interactions, st_ping = pingDb\<rparr>"

end
