(* ===== verification/PgStatements.thy ===== *)
theory PgStatements
  imports PgStorage
begin

text \<open>
  What the statements of the PostgreSQL adapter do to the abstract store. The view \<open>db_view\<close> reads the row under a
  primary key as the record the adapter makes of it. One lemma per shape of statement follows it through \<open>execute\<close>:
  a row is inserted under a fresh key or found there, rows are revoked, a row is used once, expired rows are reaped.
\<close>

section \<open>The tables of the schema\<close>

lemma pg_schema_simps [simp]:
  "pg_schema ''clients'' = clients_table" "pg_schema ''signing_keys'' = signing_keys_table"
  "pg_schema ''par_requests'' = par_requests_table" "pg_schema ''grants'' = grants_table"
  "pg_schema ''authorization_codes'' = authorization_codes_table" "pg_schema ''access_tokens'' = access_tokens_table"
  "pg_schema ''refresh_tokens'' = refresh_tokens_table" "pg_schema ''jti_replay'' = jti_replay_table"
  "pg_schema ''interactions'' = interactions_table"
  by (simp_all add: pg_schema_def)

lemmas table_defs = clients_table_def signing_keys_table_def par_requests_table_def grants_table_def
  authorization_codes_table_def access_tokens_table_def refresh_tokens_table_def jti_replay_table_def interactions_table_def

lemma tables_ok [simp]:
  "schema_ok clients_table" "schema_ok signing_keys_table" "schema_ok par_requests_table" "schema_ok grants_table"
  "schema_ok authorization_codes_table" "schema_ok access_tokens_table" "schema_ok refresh_tokens_table"
  "schema_ok jti_replay_table" "schema_ok interactions_table"
  by (simp_all add: schema_ok_def table_defs)

lemma table_keys [simp]:
  "ts_key clients_table = [''client_id'']" "ts_key signing_keys_table = [''kid'']"
  "ts_key par_requests_table = [''request_uri'']" "ts_key grants_table = [''grant_id'']"
  "ts_key authorization_codes_table = [''code_hash'']" "ts_key access_tokens_table = [''jti'']"
  "ts_key refresh_tokens_table = [''token_hash'']" "ts_key jti_replay_table = [''context'', ''jti'']"
  "ts_key interactions_table = [''id'']"
  by (simp_all add: table_defs)

lemma type_of_simps:
  "type_of clients_table c = map_of [(''client_id'', T_text), (''client_name'', T_text), (''metadata'', T_json),
     (''created_at'', T_time), (''updated_at'', T_time)] c"
  "type_of par_requests_table c = map_of [(''request_uri'', T_text), (''client_id'', T_text), (''params'', T_json),
     (''dpop_jkt'', T_text), (''expires_at'', T_time), (''consumed_at'', T_time)] c"
  "type_of grants_table c = map_of [(''grant_id'', T_uuid), (''client_id'', T_text), (''subject'', T_text), (''scope'', T_text),
     (''auth_time'', T_time), (''created_at'', T_time), (''revoked_at'', T_time)] c"
  "type_of authorization_codes_table c = map_of [(''code_hash'', T_text), (''grant_id'', T_uuid), (''client_id'', T_text),
     (''redirect_uri'', T_text), (''code_challenge'', T_text), (''code_challenge_method'', T_text), (''dpop_jkt'', T_text),
     (''nonce'', T_text), (''expires_at'', T_time), (''consumed_at'', T_time)] c"
  "type_of access_tokens_table c = map_of [(''jti'', T_text), (''grant_id'', T_uuid), (''client_id'', T_text),
     (''subject'', T_text), (''scope'', T_text), (''cnf_jkt'', T_text), (''expires_at'', T_time), (''revoked_at'', T_time)] c"
  "type_of refresh_tokens_table c = map_of [(''token_hash'', T_text), (''grant_id'', T_uuid), (''client_id'', T_text),
     (''scope'', T_text), (''expires_at'', T_time), (''revoked_at'', T_time)] c"
  "type_of jti_replay_table c = map_of [(''context'', T_text), (''jti'', T_text), (''expires_at'', T_time)] c"
  "type_of interactions_table c = map_of [(''id'', T_text), (''client_id'', T_text), (''request_uri'', T_text),
     (''subject'', T_text), (''auth_time'', T_time), (''acr'', T_text), (''amr'', T_texts), (''created_at'', T_time),
     (''completed_at'', T_time), (''expires_at'', T_time)] c"
  "type_of signing_keys_table c = map_of [(''kid'', T_text), (''alg'', T_text), (''status'', T_text), (''private_jwk'', T_json),
     (''public_jwk'', T_json), (''created_at'', T_time), (''retired_at'', T_time)] c"
  by (simp_all add: type_of_def table_defs)

section \<open>The view\<close>

definition db_live :: "row list \<Rightarrow> string \<Rightarrow> string \<Rightarrow> int \<Rightarrow> bool" where
  "db_live rows c j t \<longleftrightarrow>
     list_ex (\<lambda>r. r ''context'' = Some (SText c) \<and> r ''jti'' = Some (SText j) \<and> t < as_time r ''expires_at'') rows"

definition db_view :: "database \<Rightarrow> astore" where
  "db_view db =
     \<lparr>a_clients = (\<lambda>i. map_option client_row (at_key (db ''clients'') ''client_id'' i)),
      a_par = (\<lambda>u. map_option (\<lambda>r. (par_row r, as_time_opt r ''consumed_at'')) (at_key (db ''par_requests'') ''request_uri'' u)),
      a_grants = (\<lambda>g. map_option grant_row (at_key (db ''grants'') ''grant_id'' g)),
      a_codes = (\<lambda>h. map_option (\<lambda>r. (codeRowToRecord r, as_time_opt r ''consumed_at''))
        (at_key (db ''authorization_codes'') ''code_hash'' h)),
      a_at = (\<lambda>j. map_option at_row (at_key (db ''access_tokens'') ''jti'' j)),
      a_rt = (\<lambda>h. map_option rt_row (at_key (db ''refresh_tokens'') ''token_hash'' h)),
      a_int = (\<lambda>i. map_option (\<lambda>r. (interactionRow r, as_time_opt r ''completed_at'')) (at_key (db ''interactions'') ''id'' i)),
      a_live = db_live (db ''jti_replay'')\<rparr>"

definition pg_view :: "pg_state \<Rightarrow> astore" where
  "pg_view s = db_view (pg_db s)"

definition pg_ok :: "pg_state \<Rightarrow> bool" where
  "pg_ok s \<longleftrightarrow> db_ok pg_schema (pg_db s)"

section \<open>One statement\<close>

lemma obeys_query:
  assumes "statement_ok pg_schema st"
    and "\<And>db now res db'. db_ok pg_schema db \<Longrightarrow> execute pg_schema now ps st db = Inr (res, db') \<Longrightarrow>
           R (db_view db) (f res) (db_view db')"
  shows "obeys pg_ok pg_view (query_then st ps f) R"
proof -
  have "pg_ok s' \<and> (case r of Inl e \<Rightarrow> pg_view s' = pg_view s \<or> (\<exists>x. R (pg_view s) x (pg_view s'))
      | Inr x \<Rightarrow> R (pg_view s) x (pg_view s'))"
    if ok: "pg_ok s" and run: "query_then st ps f s = (r, s')" for s r s'
  proof (cases "query_fault s = Not_run")
    case True
    with run ok show ?thesis
      by (auto simp: query_then_def pool_query_def Let_def bindE_def pg_ok_def pg_view_def)
  next
    case False
    show ?thesis
    proof (cases "execute pg_schema (pg_clock s) ps st (pg_db s)")
      case (Inl code)
      with False run ok show ?thesis
        by (auto simp: query_then_def pool_query_def Let_def bindE_def pg_ok_def pg_view_def)
    next
      case (Inr p)
      obtain res db where p: "p = (res, db)" by (cases p)
      with False run Inr have r: "r = Inr (f res) \<or> r = Inl (JsExn None)" "pg_db s' = db"
        by (auto simp: query_then_def pool_query_def Let_def bindE_def returnE_def split: if_splits)
      from execute_ok [OF Inr [unfolded p] assms(1)] assms(2) [OF _ Inr [unfolded p]] ok r(1) show ?thesis
        by (auto simp: r(2) pg_ok_def pg_view_def)
    qed
  qed
  then show ?thesis by (auto simp: obeys_def)
qed

section \<open>Parameters and columns\<close>

lemma encode_iff:
  "encode T_text (PStr s) = Inr v \<longleftrightarrow> CHR 0x00 \<notin> set s \<and> v = SText s"
  "encode T_uuid (PStr s) = Inr v \<longleftrightarrow> is_uuid s \<and> v = SText s"
  "encode T_time (PDate t) = Inr v \<longleftrightarrow> v = STime t"
  "encode T_json (PObj j) = Inr v \<longleftrightarrow> \<not> json_nul j \<and> v = SJson (json_canon j)"
  "encode T_text (opt_str so) = Inr v \<longleftrightarrow>
     (case so of None \<Rightarrow> v = SNull | Some s \<Rightarrow> CHR 0x00 \<notin> set s \<and> v = SText s)"
  "encode T_time (opt_date po) = Inr v \<longleftrightarrow> v = (case po of None \<Rightarrow> SNull | Some t \<Rightarrow> STime t)"
  by (auto simp: encode_def opt_str_def opt_date_def split: option.splits)

lemma filter_only_key:
  assumes "table_ok t rows" and "ts_key t = [k]"
  shows "filter (\<lambda>r. r k = Some (SText x)) rows = (case at_key rows k x of Some r \<Rightarrow> [r] | None \<Rightarrow> [])"
  using filter_key [OF assms, of x "\<lambda>r. True"] by (simp cong: option.case_cong)

lemma db_okD: "db_ok sch db \<Longrightarrow> table_ok (sch name) (db name)"
  by (simp add: db_ok_def)

lemmas row_defs = client_row_def par_row_def grant_row_def codeRowToRecord_def at_row_def rt_row_def interactionRow_def
  as_text_def as_text_opt_def as_time_def as_time_opt_def as_json_def as_strings_def as_object_def as_acr_def as_amr_def

lemma db_view_upd:
  "db_view (db(''clients'' := rows)) = (db_view db)\<lparr>a_clients := (\<lambda>i. map_option client_row (at_key rows ''client_id'' i))\<rparr>"
  "db_view (db(''par_requests'' := rows)) =
     (db_view db)\<lparr>a_par := (\<lambda>u. map_option (\<lambda>r. (par_row r, as_time_opt r ''consumed_at'')) (at_key rows ''request_uri'' u))\<rparr>"
  "db_view (db(''grants'' := rows)) = (db_view db)\<lparr>a_grants := (\<lambda>i. map_option grant_row (at_key rows ''grant_id'' i))\<rparr>"
  "db_view (db(''authorization_codes'' := rows)) =
     (db_view db)\<lparr>a_codes := (\<lambda>u. map_option (\<lambda>r. (codeRowToRecord r, as_time_opt r ''consumed_at'')) (at_key rows ''code_hash'' u))\<rparr>"
  "db_view (db(''access_tokens'' := rows)) = (db_view db)\<lparr>a_at := (\<lambda>i. map_option at_row (at_key rows ''jti'' i))\<rparr>"
  "db_view (db(''refresh_tokens'' := rows)) = (db_view db)\<lparr>a_rt := (\<lambda>i. map_option rt_row (at_key rows ''token_hash'' i))\<rparr>"
  "db_view (db(''interactions'' := rows)) =
     (db_view db)\<lparr>a_int := (\<lambda>u. map_option (\<lambda>r. (interactionRow r, as_time_opt r ''completed_at'')) (at_key rows ''id'' u))\<rparr>"
  "db_view (db(''jti_replay'' := rows)) = (db_view db)\<lparr>a_live := db_live rows\<rparr>"
  "db_view (db(''signing_keys'' := rows)) = db_view db"
  by (simp_all add: db_view_def)

lemma type_ofD: "typed t r \<Longrightarrow> schema_ok t \<Longrightarrow> type_of t c = Some ty \<Longrightarrow> \<exists>v. r c = Some v \<and> has_type ty v"
  using typed_iff by (auto simp: typed_at_def)

lemma time_column:
  assumes "typed t r" and "schema_ok t" and "type_of t c = Some T_time"
  shows "r c = Some SNull \<longleftrightarrow> as_time_opt r c = None"
proof -
  from type_ofD [OF assms] obtain v where "r c = Some v" "has_type T_time v" by blast
  then show ?thesis by (cases v) (simp_all add: has_type_def as_time_opt_def)
qed

text \<open>The same for a column that must not be null.\<close>

lemma time_required:
  assumes "typed t r" and "schema_ok t" and "need_col c T_time \<in> set (ts_columns t)"
  shows "r c = Some (STime (as_time r c))"
proof -
  from assms(1,3) obtain v where "r c = Some v" "has_type T_time v" "v \<noteq> SNull" by (auto simp: typed_def)
  then show ?thesis by (cases v) (simp_all add: has_type_def as_time_def)
qed

definition text_value :: "string option \<Rightarrow> sql_value" where
  "text_value so = (case so of None \<Rightarrow> SNull | Some s \<Rightarrow> SText s)"

definition time_value :: "int option \<Rightarrow> sql_value" where
  "time_value po = (case po of None \<Rightarrow> SNull | Some t \<Rightarrow> STime t)"

lemma encode_opt:
  "encode T_text (opt_str so) = Inr v \<longleftrightarrow> (\<forall>s. so = Some s \<longrightarrow> CHR 0x00 \<notin> set s) \<and> v = text_value so"
  "encode T_time (opt_date po) = Inr v \<longleftrightarrow> v = time_value po"
  by (auto simp: encode_def opt_str_def opt_date_def text_value_def time_value_def split: option.splits)

lemmas bind_eval = act_iff param_for_def type_of_simps encode_iff(1-4) encode_opt

lemma as_values:
  "r c = Some (SText s) \<Longrightarrow> as_text r c = s" "r c = Some (text_value so) \<Longrightarrow> as_text_opt r c = so"
  "r c = Some (STime i) \<Longrightarrow> as_time r c = i" "r c = Some (time_value io) \<Longrightarrow> as_time_opt r c = io"
  "r c = Some (SJson j) \<Longrightarrow> as_json r c = j"  "r c = Some SNull \<Longrightarrow> as_time_opt r c = None"
  "r c = Some (STime i) \<Longrightarrow> as_time_opt r c = Some i" "r c = Some (SText s) \<Longrightarrow> as_text_opt r c = Some s"
  by (simp_all add: as_text_def as_text_opt_def as_time_def as_time_opt_def as_json_def text_value_def time_value_def
      split: option.split)

lemma as_other:
  "d \<noteq> c \<Longrightarrow> as_text (r(c \<mapsto> v)) d = as_text r d" "d \<noteq> c \<Longrightarrow> as_text_opt (r(c \<mapsto> v)) d = as_text_opt r d"
  "d \<noteq> c \<Longrightarrow> as_time (r(c \<mapsto> v)) d = as_time r d" "d \<noteq> c \<Longrightarrow> as_time_opt (r(c \<mapsto> v)) d = as_time_opt r d"
  "d \<noteq> c \<Longrightarrow> as_json (r(c \<mapsto> v)) d = as_json r d" "d \<noteq> c \<Longrightarrow> as_strings (r(c \<mapsto> v)) d = as_strings r d"
  "d \<noteq> c \<Longrightarrow> as_acr (r(c \<mapsto> v)) d = as_acr r d" "d \<noteq> c \<Longrightarrow> as_amr (r(c \<mapsto> v)) d = as_amr r d"
  by (simp_all add: row_defs)

lemma as_project:
  "d \<in> set cs \<Longrightarrow> as_text (project (Some cs) r) d = as_text r d"
  "d \<in> set cs \<Longrightarrow> as_text_opt (project (Some cs) r) d = as_text_opt r d"
  "d \<in> set cs \<Longrightarrow> as_time (project (Some cs) r) d = as_time r d"
  "d \<in> set cs \<Longrightarrow> as_time_opt (project (Some cs) r) d = as_time_opt r d"
  "d \<in> set cs \<Longrightarrow> as_json (project (Some cs) r) d = as_json r d"
  "d \<in> set cs \<Longrightarrow> as_strings (project (Some cs) r) d = as_strings r d"
  by (simp_all add: row_defs project_def)

lemma project_all [simp]: "project None r = r"
  by (simp add: project_def)

lemma at_key_typed: "db_ok sch db \<Longrightarrow> at_key (db name) k x = Some r \<Longrightarrow> typed (sch name) r"
  by (auto simp: db_ok_def table_ok_def dest!: at_key_Some)

section \<open>Inserting and updating by key\<close>

lemma view_insert: "m' = m(x \<mapsto> new) \<Longrightarrow> (\<lambda>i. map_option F (m' i)) = (\<lambda>i. map_option F (m i))(x \<mapsto> F new)"
  by auto

text \<open>The row a statement inserts is found under its key, the others as before.\<close>

lemma insert_at_key:
  assumes "insert_row t db name new = Inr db'" and "\<not> list_ex (\<lambda>r. key_of t r = key_of t new) (db name)"
    and "ts_key t = [k]" and "new k = Some (SText x)"
  obtains rows where "db' = db(name := rows)" and "at_key rows k = (at_key (db name) k)(x \<mapsto> new)" and "at_key (db name) k x = None"
proof (rule that)
  show "at_key (db name) k x = None" by (rule at_key_fresh [OF assms(2-4)])
  show "db' = db(name := db name @ [new])" using assms(1) by (auto simp: insert_row_def act_iff)
  show "at_key (db name @ [new]) k = (at_key (db name) k)(x \<mapsto> new)"
    using at_key_fresh [OF assms(2-4)] assms(4) by (auto simp: at_key_append fun_eq_iff split: option.split)
qed

lemma execute_insert_at_key:
  assumes "execute sch now ps (Insert name cols Conflict_error) db = Inr (res, db')" and "ts_key (sch name) = [k]"
    and "\<And>vs. bind_values (sch name) ps 1 cols = Inr vs \<Longrightarrow> (default_row (sch name) now ++ map_of vs) k = Some (SText x)"
  obtains vs rows where "bind_values (sch name) ps 1 cols = Inr vs" and "db' = db(name := rows)"
    and "at_key rows k = (at_key (db name) k)(x \<mapsto> default_row (sch name) now ++ map_of vs)" and "at_key (db name) k x = None"
proof -
  from assms(1) obtain vs where vs: "bind_values (sch name) ps 1 cols = Inr vs"
    and i: "insert_row (sch name) db name (default_row (sch name) now ++ map_of vs) = Inr db'"
    and f: "\<not> list_ex (\<lambda>r. key_of (sch name) r = key_of (sch name) (default_row (sch name) now ++ map_of vs)) (db name)"
    by (auto simp: act_iff Let_def)
  from insert_at_key [OF i f assms(2) assms(3) [OF vs]] obtain rows where
    "db' = db(name := rows)" "at_key rows k = (at_key (db name) k)(x \<mapsto> default_row (sch name) now ++ map_of vs)"
    "at_key (db name) k x = None" .
  from that [OF vs this] show thesis .
qed

text \<open>Rows that are updated are found where they were.\<close>

lemma update_at_key:
  assumes "update_rows t db name p f = Inr db'" and "\<And>r. f r k = r k"
  obtains rows where "db' = db(name := rows)"
    and "at_key rows k = (\<lambda>x. map_option (\<lambda>r. if p r then f r else r) (at_key (db name) k x))"
proof (rule that)
  show "db' = db(name := map (\<lambda>r. if p r then f r else r) (db name))" using assms(1) by (auto simp: update_rows_def Let_def act_iff)
  show "at_key (map (\<lambda>r. if p r then f r else r) (db name)) k = (\<lambda>x. map_option (\<lambda>r. if p r then f r else r) (at_key (db name) k x))"
    by (rule ext, rule at_key_update, rule assms(2))
qed

lemma bind_sets_other: "bind_sets t now ps sets = Inr f \<Longrightarrow> k \<notin> fst ` set sets \<Longrightarrow> f n r k = r k"
  by (induction t now ps sets arbitrary: f rule: bind_sets.induct) (auto simp: act_iff)

lemma execute_update_at_key:
  assumes "execute sch now ps (Update name sets c returning) db = Inr (res, db')" and "k \<notin> fst ` set sets"
  obtains p f rows where "bind_cond (sch name) ps c = Inr p" and "bind_sets (sch name) now ps sets = Inr f"
    and "db' = db(name := rows)" and "at_key rows k = (\<lambda>x. map_option (\<lambda>r. if p r then f r r else r) (at_key (db name) k x))"
    and "rs_rows res = map (project returning) (map (\<lambda>r. f r r) (filter p (db name)))"
proof -
  from assms(1) obtain p f where pf: "bind_cond (sch name) ps c = Inr p" "bind_sets (sch name) now ps sets = Inr f"
    and u: "update_rows (sch name) db name p (\<lambda>r. f r r) = Inr db'"
    and r: "rs_rows res = map (project returning) (map (\<lambda>r. f r r) (filter p (db name)))"
    by (auto simp: act_iff Let_def)
  from update_at_key [OF u, of k, OF bind_sets_other [OF pf(2) assms(2)]] obtain rows where
    "db' = db(name := rows)" "at_key rows k = (\<lambda>x. map_option (\<lambda>r. if p r then f r r else r) (at_key (db name) k x))" .
  from that [OF pf this r] show thesis .
qed

text \<open>An upsert leaves the row that was proposed, or one that reads the same.\<close>

lemma execute_upsert_at_key:
  assumes run: "execute sch now ps (Insert name cols (Conflict_update sets c)) db = Inr (res, db')" and ok: "db_ok sch db"
    and k: "ts_key (sch name) = [k]" "k \<notin> fst ` set sets"
    and c: "bind_cond (sch name) ps c = Inr (\<lambda>r. True)"
    and new: "\<And>vs. bind_values (sch name) ps 1 cols = Inr vs \<Longrightarrow> (default_row (sch name) now ++ map_of vs) k = Some (SText x)"
    and upd: "\<And>vs f r. bind_values (sch name) ps 1 cols = Inr vs \<Longrightarrow> bind_sets (sch name) now ps sets = Inr f \<Longrightarrow>
        r k = Some (SText x) \<Longrightarrow> F (f (default_row (sch name) now ++ map_of vs) r) = F (default_row (sch name) now ++ map_of vs)"
  obtains vs rows where "bind_values (sch name) ps 1 cols = Inr vs" and "db' = db(name := rows)"
    and "(\<lambda>i. map_option F (at_key rows k i)) =
      (\<lambda>i. map_option F (at_key (db name) k i))(x \<mapsto> F (default_row (sch name) now ++ map_of vs))"
proof -
  from run obtain vs where vs: "bind_values (sch name) ps 1 cols = Inr vs" by (auto simp: act_iff)
  let ?new = "default_row (sch name) now ++ map_of vs"
  let ?same = "\<lambda>r. key_of (sch name) r = key_of (sch name) ?new"
  obtain f where f: "bind_sets (sch name) now ps sets = Inr f"
  proof (cases "bind_sets (sch name) now ps sets")
    case (Inl e)
    with run c vs show ?thesis by (simp add: Let_def act_iff)
  qed
  show thesis
  proof (cases "list_ex ?same (db name)")
    case True
    have same: "?same r \<longleftrightarrow> r k = Some (SText x)" for r using new [OF vs] by (simp add: key_of_def k(1))
    from run c vs f True have u: "update_rows (sch name) db name (\<lambda>r. ?same r \<and> True) (f ?new) = Inr db'"
      by (auto simp: act_iff Let_def)
    from update_at_key [OF u, of k, OF bind_sets_other [OF f k(2)]] obtain rows where rows: "db' = db(name := rows)"
      "at_key rows k = (\<lambda>i. map_option (\<lambda>r. if ?same r \<and> True then f ?new r else r) (at_key (db name) k i))" .
    have "at_key (db name) k x \<noteq> None"
      using True same by (auto simp: at_key_def find_None_iff list_ex_iff)
    then obtain q where "at_key (db name) k x = Some q" by blast
    then have "map_option F (at_key rows k i) = ((\<lambda>i. map_option F (at_key (db name) k i))(x \<mapsto> F ?new)) i" for i
      using upd [OF vs f] by (cases "at_key (db name) k i") (auto simp: rows(2) same dest: at_key_Some)
    then show thesis by (intro that [OF vs rows(1)] ext)
  next
    case False
    with run c vs f have i: "insert_row (sch name) db name ?new = Inr db'" by (auto simp: act_iff Let_def)
    from insert_at_key [OF i False k(1) new [OF vs]] obtain rows where rows: "db' = db(name := rows)"
      "at_key rows k = (at_key (db name) k)(x \<mapsto> ?new)" .
    from that [OF vs rows(1) view_insert [OF rows(2)]] show thesis .
  qed
qed

section \<open>Reading by key\<close>

lemma execute_find:
  assumes "execute pg_schema now [PStr i] (Select cols name (Equals k 1) None) db = Inr (res, db')" and "db_ok pg_schema db"
    and "ts_key (pg_schema name) = [k]" and "type_of (pg_schema name) k \<in> {Some T_text, Some T_uuid}"
  shows "db' = db" and "rs_rows res = (case at_key (db name) k i of Some r \<Rightarrow> [project cols r] | None \<Rightarrow> [])"
proof -
  note rows = filter_only_key [OF db_okD [OF assms(2)] assms(3), of i]
  show "db' = db" using assms(1) by (auto simp: act_iff Let_def)
  show "rs_rows res = (case at_key (db name) k i of Some r \<Rightarrow> [project cols r] | None \<Rightarrow> [])"
    using assms(1,4) rows by (auto simp: act_iff Let_def param_for_def encode_iff split: option.split if_splits)
qed

section \<open>Revocation\<close>

lemma execute_revoke:
  assumes run: "execute pg_schema now [PStr i, PDate t]
      (Update name [(''revoked_at'', From_param 2)] (And (Equals c 1) (Is_null ''revoked_at'')) (Some [])) db = Inr (res, db')"
    and ok: "db_ok pg_schema db" and t: "schema_ok (pg_schema name)" "type_of (pg_schema name) ''revoked_at'' = Some T_time"
    and c: "type_of (pg_schema name) c \<in> {Some T_text, Some T_uuid}" and k: "k \<noteq> ''revoked_at''"
  obtains rows where "db' = db(name := rows)"
    and "at_key rows k = (\<lambda>x. map_option (\<lambda>r. if r c = Some (SText i) \<and> as_time_opt r ''revoked_at'' = None
           then r(''revoked_at'' \<mapsto> STime t) else r) (at_key (db name) k x))"
proof (rule execute_update_at_key [OF run, of k])
  show "k \<notin> fst ` set [(''revoked_at'', From_param 2)]" using k by simp
next
  fix p f rows
  assume pf: "bind_cond (pg_schema name) [PStr i, PDate t] (And (Equals c 1) (Is_null ''revoked_at'')) = Inr p"
      "bind_sets (pg_schema name) now [PStr i, PDate t] [(''revoked_at'', From_param 2)] = Inr f"
    and rows: "db' = db(name := rows)"
      "at_key rows k = (\<lambda>x. map_option (\<lambda>r. if p r then f r r else r) (at_key (db name) k x))"
  have p: "p r \<longleftrightarrow> r c = Some (SText i) \<and> r ''revoked_at'' = Some SNull" for r
    using pf(1) c by (auto simp: act_iff param_for_def encode_iff split: if_splits)
  have f: "f n r = r(''revoked_at'' \<mapsto> STime t)" for n r
    using pf(2) t(2) by (auto simp: act_iff param_for_def encode_iff)
  show thesis
  proof (rule that [OF rows(1)], rule ext)
    fix x
    show "at_key rows k x = map_option (\<lambda>r. if r c = Some (SText i) \<and> as_time_opt r ''revoked_at'' = None
           then r(''revoked_at'' \<mapsto> STime t) else r) (at_key (db name) k x)"
      using time_column [OF at_key_typed [OF ok] t] by (auto simp: rows(2) p f intro!: option.map_cong)
  qed
qed

section \<open>Single use\<close>

text \<open>The row, if it is neither used nor expired.\<close>

definition open_row :: "string \<Rightarrow> int \<Rightarrow> row option \<Rightarrow> row option" where
  "open_row col t row =
     (case row of None \<Rightarrow> None
      | Some r \<Rightarrow> if as_time_opt r col = None \<and> t < as_time r ''expires_at'' then Some r else None)"

lemma usable_open_row:
  "(\<And>r. expiry (F r) = as_time r ''expires_at'') \<Longrightarrow>
     usable expiry t (map_option (\<lambda>r. (F r, as_time_opt r col)) row) = map_option F (open_row col t row)"
  by (auto simp: usable_def open_row_def split: option.split)

abbreviation open_cond :: "string \<Rightarrow> string \<Rightarrow> cond" where
  "open_cond k col \<equiv> And (Equals k 1) (And (Is_null col) (After ''expires_at'' 2))"

lemma open_filter:
  assumes p: "bind_cond (pg_schema name) [PStr i, PDate t] (open_cond k col) = Inr p" and ok: "db_ok pg_schema db"
    and t: "schema_ok (pg_schema name)" "type_of (pg_schema name) col = Some T_time"
      "need_col ''expires_at'' T_time \<in> set (ts_columns (pg_schema name))"
    and k: "ts_key (pg_schema name) = [k]" "type_of (pg_schema name) k = Some T_text"
  shows "at_key (db name) k x = Some r \<Longrightarrow> p r \<longleftrightarrow> x = i \<and> open_row col t (Some r) = Some r"
    and "filter p (db name) = (case open_row col t (at_key (db name) k i) of Some r \<Rightarrow> [r] | None \<Rightarrow> [])"
proof -
  have ex: "type_of (pg_schema name) ''expires_at'' = Some T_time" using type_of_column [OF t(1,3)] by simp
  have open_iff: "r col = Some SNull \<and> (\<exists>e. r ''expires_at'' = Some (STime e) \<and> t < e) \<longleftrightarrow> open_row col t (Some r) = Some r"
    if r: "typed (pg_schema name) r" for r
    using time_column [OF r t(1,2)] time_required [OF r t(1,3)] by (simp add: open_row_def)
  have pe: "p = (\<lambda>r. r k = Some (SText i) \<and> r col = Some SNull \<and>
      (case (r ''expires_at'', STime t) of (Some (STime a), STime b) \<Rightarrow> b < a | _ \<Rightarrow> False))"
    using p k(2) ex by (auto simp: act_iff param_for_def encode_iff)
  have pr: "p r \<longleftrightarrow> r k = Some (SText i) \<and> (r col = Some SNull \<and> (\<exists>e. r ''expires_at'' = Some (STime e) \<and> t < e))" for r
    unfolding pe by (cases "r ''expires_at''") (auto split: sql_value.split)
  show "p r \<longleftrightarrow> x = i \<and> open_row col t (Some r) = Some r" if "at_key (db name) k x = Some r"
    using at_key_Some [OF that] open_iff [OF at_key_typed [OF ok that]] by (auto simp: pr)
  have flt: "filter p (db name) = (case at_key (db name) k i of
      Some r \<Rightarrow> if r col = Some SNull \<and> (\<exists>e. r ''expires_at'' = Some (STime e) \<and> t < e) then [r] else [] | None \<Rightarrow> [])"
    unfolding filter_key [OF db_okD [OF ok] k(1), symmetric] by (rule filter_cong) (simp_all add: pr)
  show "filter p (db name) = (case open_row col t (at_key (db name) k i) of Some r \<Rightarrow> [r] | None \<Rightarrow> [])"
  proof (cases "at_key (db name) k i")
    case None
    with flt show ?thesis by (simp add: pr open_row_def)
  next
    case (Some r)
    with flt open_iff [OF at_key_typed [OF ok Some]] show ?thesis
      by (auto simp: open_row_def split: if_splits)
  qed
qed

lemma execute_peek:
  assumes "execute pg_schema now [PStr i, PDate t] (Select cols name (open_cond k col) None) db = Inr (res, db')"
    and "db_ok pg_schema db" and "schema_ok (pg_schema name)" and "type_of (pg_schema name) col = Some T_time"
    and "need_col ''expires_at'' T_time \<in> set (ts_columns (pg_schema name))"
    and "ts_key (pg_schema name) = [k]" and "type_of (pg_schema name) k = Some T_text"
  shows "db' = db"
    and "rs_rows res = (case open_row col t (at_key (db name) k i) of Some r \<Rightarrow> [project cols r] | None \<Rightarrow> [])"
proof -
  from assms(1) obtain p where p: "bind_cond (pg_schema name) [PStr i, PDate t] (open_cond k col) = Inr p"
    and r: "db' = db" "rs_rows res = map (project cols) (filter p (db name))" by (auto simp: act_iff Let_def)
  show "db' = db" by (rule r)
  show "rs_rows res = (case open_row col t (at_key (db name) k i) of Some r \<Rightarrow> [project cols r] | None \<Rightarrow> [])"
    by (simp add: r(2) open_filter(2) [OF p assms(2-7)] split: option.split)
qed

lemma execute_use:
  assumes run: "execute pg_schema now [PStr i, PDate t] (Update name [(col, From_param 2)] (open_cond k col) cols) db = Inr (res, db')"
    and ok: "db_ok pg_schema db" and t: "schema_ok (pg_schema name)" "type_of (pg_schema name) col = Some T_time"
      "need_col ''expires_at'' T_time \<in> set (ts_columns (pg_schema name))"
    and k: "ts_key (pg_schema name) = [k]" "type_of (pg_schema name) k = Some T_text" and kc: "k \<noteq> col"
  obtains rows where "db' = db(name := rows)"
    and "at_key rows k = (case open_row col t (at_key (db name) k i) of
           Some r \<Rightarrow> (at_key (db name) k)(i \<mapsto> r(col \<mapsto> STime t)) | None \<Rightarrow> at_key (db name) k)"
    and "rs_rows res = (case open_row col t (at_key (db name) k i) of
           Some r \<Rightarrow> [project cols (r(col \<mapsto> STime t))] | None \<Rightarrow> [])"
proof (rule execute_update_at_key [OF run, of k])
  show "k \<notin> fst ` set [(col, From_param 2)]" using kc by simp
next
  fix p f rows
  assume pf: "bind_cond (pg_schema name) [PStr i, PDate t] (open_cond k col) = Inr p"
      "bind_sets (pg_schema name) now [PStr i, PDate t] [(col, From_param 2)] = Inr f"
    and rows: "db' = db(name := rows)"
      "at_key rows k = (\<lambda>x. map_option (\<lambda>r. if p r then f r r else r) (at_key (db name) k x))"
    and res: "rs_rows res = map (project cols) (map (\<lambda>r. f r r) (filter p (db name)))"
  have f: "f n r = r(col \<mapsto> STime t)" for n r
    using pf(2) t(2) by (auto simp: act_iff param_for_def encode_iff)
  note flt = open_filter [OF pf(1) ok t k]
  show thesis
  proof (rule that [OF rows(1)])
    show "rs_rows res = (case open_row col t (at_key (db name) k i) of
           Some r \<Rightarrow> [project cols (r(col \<mapsto> STime t))] | None \<Rightarrow> [])"
      by (simp add: res flt(2) f split: option.split)
    show "at_key rows k = (case open_row col t (at_key (db name) k i) of
           Some r \<Rightarrow> (at_key (db name) k)(i \<mapsto> r(col \<mapsto> STime t)) | None \<Rightarrow> at_key (db name) k)"
    proof (rule ext)
      fix x
      show "at_key rows k x = (case open_row col t (at_key (db name) k i) of
           Some r \<Rightarrow> (at_key (db name) k)(i \<mapsto> r(col \<mapsto> STime t)) | None \<Rightarrow> at_key (db name) k) x"
      proof (cases "at_key (db name) k x")
        case None
        then show ?thesis by (auto simp: rows(2) open_row_def split: option.split)
      next
        case (Some r)
        from flt(1) [OF Some] Some show ?thesis
          by (auto simp: rows(2) f open_row_def split: option.splits if_splits)
      qed
    qed
  qed
qed

section \<open>The view of what was written\<close>

lemma db_view_sel:
  "a_clients (db_view db) = (\<lambda>i. map_option client_row (at_key (db ''clients'') ''client_id'' i))"
  "a_par (db_view db) = (\<lambda>u. map_option (\<lambda>r. (par_row r, as_time_opt r ''consumed_at'')) (at_key (db ''par_requests'') ''request_uri'' u))"
  "a_grants (db_view db) = (\<lambda>g. map_option grant_row (at_key (db ''grants'') ''grant_id'' g))"
  "a_codes (db_view db) = (\<lambda>h. map_option (\<lambda>r. (codeRowToRecord r, as_time_opt r ''consumed_at''))
     (at_key (db ''authorization_codes'') ''code_hash'' h))"
  "a_at (db_view db) = (\<lambda>j. map_option at_row (at_key (db ''access_tokens'') ''jti'' j))"
  "a_rt (db_view db) = (\<lambda>h. map_option rt_row (at_key (db ''refresh_tokens'') ''token_hash'' h))"
  "a_int (db_view db) = (\<lambda>i. map_option (\<lambda>r. (interactionRow r, as_time_opt r ''completed_at'')) (at_key (db ''interactions'') ''id'' i))"
  "a_live (db_view db) = db_live (db ''jti_replay'')"
  by (simp_all add: db_view_def)

lemma view_mark:
  assumes "m' = (\<lambda>x. map_option (\<lambda>r. if P r then upd r else r) (m x))" and "\<And>x r. m x = Some r \<Longrightarrow> F (if P r then upd r else r) = G x (F r)"
  shows "(\<lambda>i. map_option F (m' i)) = (\<lambda>i. map_option (G i) (map_option F (m i)))"
  using assms by (auto simp: fun_eq_iff option.map_comp comp_def intro!: option.map_cong)

lemma view_mark_at:
  assumes "m' = (\<lambda>x. map_option (\<lambda>r. if P r then upd r else r) (m x))"
    and "\<And>x r. m x = Some r \<Longrightarrow> F (if P r then upd r else r) = (if x = g then f (F r) else F r)"
  shows "(\<lambda>i. map_option F (m' i)) = (\<lambda>i. map_option F (m i))(g := map_option f (map_option F (m g)))"
  using assms by (auto simp: fun_eq_iff option.map_comp comp_def intro!: option.map_cong)

lemma view_use:
  assumes "m' = (case open_row col t (m i) of Some r \<Rightarrow> m(i \<mapsto> r(col \<mapsto> STime t)) | None \<Rightarrow> m)"
    and "\<And>r v. F (r(col \<mapsto> v)) = F r"
  shows "(\<lambda>x. map_option (\<lambda>r. (F r, as_time_opt r col)) (m' x)) =
    (case open_row col t (m i) of
       Some r \<Rightarrow> (\<lambda>x. map_option (\<lambda>r. (F r, as_time_opt r col)) (m x))(i \<mapsto> (F r, Some t))
     | None \<Rightarrow> (\<lambda>x. map_option (\<lambda>r. (F r, as_time_opt r col)) (m x)))"
  using assms by (auto simp: fun_eq_iff as_values split: option.split)

lemma expires_columns [simp]:
  "need_col ''expires_at'' T_time \<in> set (ts_columns par_requests_table)"
  "need_col ''expires_at'' T_time \<in> set (ts_columns authorization_codes_table)"
  "need_col ''expires_at'' T_time \<in> set (ts_columns interactions_table)"
  "need_col ''expires_at'' T_time \<in> set (ts_columns jti_replay_table)"
  by (simp_all add: table_defs)

lemmas row_readers = client_row_def par_row_def grant_row_def codeRowToRecord_def at_row_def rt_row_def interactionRow_def

lemmas columns = par_columns_def grant_columns_def code_columns_def at_columns_def rt_columns_def int_columns_def

lemma project_rows:
  "client_row (project (Some [''client_id'', ''client_name'', ''metadata'']) r) = client_row r"
  "par_row (project (Some par_columns) r) = par_row r" "grant_row (project (Some grant_columns) r) = grant_row r"
  "at_row (project (Some at_columns) r) = at_row r" "rt_row (project (Some rt_columns) r) = rt_row r"
  by (simp_all add: row_readers columns as_project)

lemma used_rows:
  "par_row (r(''consumed_at'' \<mapsto> v)) = par_row r" "codeRowToRecord (r(''consumed_at'' \<mapsto> v)) = codeRowToRecord r"
  "interactionRow (r(''completed_at'' \<mapsto> v)) = interactionRow r"
  by (simp_all add: row_readers as_other)

lemma revoked_rows:
  "grant_row (r(''revoked_at'' \<mapsto> STime t)) = (grant_row r)\<lparr>grant_revokedAt := Some t\<rparr>"
  "at_row (r(''revoked_at'' \<mapsto> STime t)) = (at_row r)\<lparr>at_revokedAt := Some t\<rparr>"
  "rt_row (r(''revoked_at'' \<mapsto> STime t)) = (rt_row r)\<lparr>rt_revokedAt := Some t\<rparr>"
  by (simp_all add: row_readers as_other as_values)

lemma row_sel [simp]:
  "grant_revokedAt (grant_row r) = as_time_opt r ''revoked_at''" "at_revokedAt (at_row r) = as_time_opt r ''revoked_at''"
  "rt_revokedAt (rt_row r) = as_time_opt r ''revoked_at''" "at_grantId (at_row r) = as_text r ''grant_id''"
  "rt_grantId (rt_row r) = as_text r ''grant_id''" "par_expiresAt (par_row r) = as_time r ''expires_at''"
  "code_expiresAt (codeRowToRecord r) = as_time r ''expires_at''" "int_expiresAt (interactionRow r) = as_time r ''expires_at''"
  by (simp_all add: row_readers)

lemmas pg_repo = createPgStorage_def pg_clients_def pg_par_def pg_grants_def pg_codes_def pg_accessTokens_def
  pg_refreshTokens_def pg_jti_def pg_interactions_def storage.select_convs client_repo.select_convs par_repo.select_convs
  grant_repo.select_convs code_repo.select_convs at_repo.select_convs rt_repo.select_convs jti_repo.select_convs
  int_repo.select_convs

lemmas sets_eval = sets_ok_def type_of_simps

section \<open>Reaping\<close>

definition expired_row :: "int \<Rightarrow> row \<Rightarrow> bool" where
  "expired_row now r \<longleftrightarrow> r ''expires_at'' \<noteq> None \<and> r ''expires_at'' \<noteq> Some SNull \<and> as_time r ''expires_at'' \<le> now"

lemma reap_moves:
  assumes "type_of (pg_schema table) ''expires_at'' = Some T_time"
    and "\<And>db. db_ok pg_schema db \<Longrightarrow> F (db_view db) (db_view db)"
    and "\<And>db p. db_ok pg_schema db \<Longrightarrow> (\<And>r. typed (pg_schema table) r \<Longrightarrow> p r \<Longrightarrow> expired_row now r) \<Longrightarrow>
      F (db_view db) (db_view (db(table := drop_first 1000 p (db table))))"
  shows "moves pg_ok pg_view F (reap probability table now)"
proof -
  have q: "pg_ok s' \<and> F (pg_view s) (pg_view s')"
    if ok: "pg_ok s" and run: "pool_query (Delete_some table (Up_to ''expires_at'' 1) 1000) [PDate now] s = (r, s')" for s r s'
  proof (cases "query_fault s = Not_run")
    case True
    with run ok assms(2) show ?thesis by (auto simp: pool_query_def Let_def pg_ok_def pg_view_def)
  next
    case False
    let ?st = "Delete_some table (Up_to ''expires_at'' 1) 1000"
    let ?p = "\<lambda>r. case (r ''expires_at'', STime now) of (Some (STime a), STime b) \<Rightarrow> a \<le> b | _ \<Rightarrow> False"
    have e: "execute pg_schema (pg_clock s) [PDate now] ?st (pg_db s) =
       Inr (\<lparr>rs_rows = [], rs_count = length (pg_db s table) - length (drop_first 1000 ?p (pg_db s table))\<rparr>,
         (pg_db s)(table := drop_first 1000 ?p (pg_db s table)))"
      using assms(1) by (simp add: act_iff param_for_def encode_def Let_def)
    have "expired_row now r" if "?p r" for r
      using that by (auto simp: expired_row_def as_time_def split: option.splits sql_value.splits)
    with assms(3) ok have "F (pg_view s) (db_view ((pg_db s)(table := drop_first 1000 ?p (pg_db s table))))"
      by (simp add: pg_ok_def pg_view_def)
    moreover have "pg_db s' = (pg_db s)(table := drop_first 1000 ?p (pg_db s table))"
      using run False unfolding pool_query_def Let_def e by auto
    moreover have "pg_ok s'"
      using execute_ok [OF e] ok by (simp add: pg_ok_def calculation(2))
    ultimately show ?thesis by (simp add: pg_view_def)
  qed
  have "pg_ok s' \<and> F (pg_view s) (pg_view s')"
    if ok: "pg_ok s" and run: "reap probability table now s = (r, s')" for s r s'
  proof -
    obtain x s1 where m: "math_random s = (Inr x, s1)" and d: "pg_db s1 = pg_db s"
      by (simp add: math_random_def)
    show ?thesis
    proof (cases "x < probability")
      case True
      from d ok have "pg_ok s1" "pg_view s1 = pg_view s" by (simp_all add: pg_ok_def pg_view_def)
      with q [of s1] run m True show ?thesis
        by (auto simp: reap_def bindE_def returnE_def split: prod.splits sum.splits)
    next
      case False
      with run m d ok assms(2) show ?thesis by (auto simp: reap_def bindE_def returnE_def pg_ok_def pg_view_def)
    qed
  qed
  then show ?thesis by (auto simp: moves_def)
qed

lemma obeys_or_after:
  assumes f: "moves ok view F m1" and m: "obeys ok view m R" and R: "\<And>a a1 x a2. F a a1 \<Longrightarrow> R a1 x a2 \<Longrightarrow> R' a x a2"
  shows "obeys_or ok view F (bindE m1 (\<lambda>_. m)) R'"
proof -
  have "ok s' \<and> (case r of Inl e \<Rightarrow> F (view s) (view s') \<or> (\<exists>x. R' (view s) x (view s')) | Inr x \<Rightarrow> R' (view s) x (view s'))"
    if ok: "ok s" and run: "bindE m1 (\<lambda>_. m) s = (r, s')" for s r s'
  proof -
    obtain r1 s1 where 1: "m1 s = (r1, s1)" by fastforce
    from movesD [OF f ok 1] have s1: "ok s1" "F (view s) (view s1)" by blast+
    show ?thesis
    proof (cases r1)
      case (Inl e)
      with 1 run s1 show ?thesis by (auto simp: bindE_def)
    next
      case (Inr y)
      with 1 run have 2: "m s1 = (r, s')" by (simp add: bindE_def)
      show ?thesis
      proof (cases r)
        case (Inl e)
        with obeys_throwD [OF m s1(1)] 2 s1 R show ?thesis by fastforce
      next
        case (Inr x)
        with obeysD [OF m s1(1)] 2 s1 R show ?thesis by auto
      qed
    qed
  qed
  then show ?thesis by (auto simp: obeys_or_def)
qed

end
