(* ===== verification/PgContract.thy ===== *)
theory PgContract
  imports PgStatements RunGuarantees
begin

text \<open>
  The PostgreSQL adapter meets the storage contract: \<open>pg\<close> interprets the port of every repository, and
  \<open>pgsrv\<close> the server that runs on it.
\<close>

lemma obeys_mono: "obeys ok view m R \<Longrightarrow> (\<And>a x a'. R a x a' \<Longrightarrow> S a x a') \<Longrightarrow> obeys ok view m S"
  unfolding obeys_def by (elim all_forward imp_forward conj_forward) (auto split: sum.splits)

section \<open>Grants\<close>

lemma pg_grant_insert:
  "obeys pg_ok pg_view (grant_insert (st_grants createPgStorage) g) (\<lambda>v x v'. a_grants v (grant_grantId g) = None \<and> v' = spec_grant_insert g v)"
  unfolding pg_repo
proof (rule obeys_query, goal_cases)
  case (2 db now res db')
  show ?case
  proof (rule execute_insert_at_key [OF 2(2), of "''grant_id''" "grant_grantId g"], goal_cases)
    case (3 vs rows)
    have "grant_row (default_row grants_table now ++ map_of vs) = g"
      using 3(1) by (auto simp: bind_eval grant_columns_def grant_row_def as_values)
    with 3(2,4) view_insert [OF 3(3), of grant_row] show ?case by (simp add: db_view_upd db_view_sel spec_grant_insert_def)
  qed (auto simp: bind_eval grant_columns_def)
qed simp

lemma pg_grant_find: "obeys pg_ok pg_view (grant_find (st_grants createPgStorage) i) (reads (\<lambda>a. a_grants a i))"
  unfolding pg_repo
proof (rule obeys_query, goal_cases)
  case (2 db now res db')
  from execute_find [OF 2(2,1)] show ?case
    by (simp add: type_of_simps first_row_def db_view_sel project_rows split: option.split)
qed simp

lemma pg_grant_revoke: "obeys pg_ok pg_view (grant_revoke (st_grants createPgStorage) i t) (writes (spec_grant_revoke i t))"
  unfolding pg_repo
proof (rule obeys_query, goal_cases)
  case (2 db now res db')
  show ?case
  proof (rule execute_revoke [OF 2(2,1), of "''grant_id''"], goal_cases)
    case (5 rows)
    have "grant_row (if r ''grant_id'' = Some (SText i) \<and> as_time_opt r ''revoked_at'' = None then r(''revoked_at'' \<mapsto> STime t) else r) =
        (if x = i then grant_mark t (grant_row r) else grant_row r)"
      if "at_key (db ''grants'') ''grant_id'' x = Some r" for x r
      using at_key_Some [OF that] by (auto simp: revoked_rows grant_mark_def)
    from view_mark_at [OF 5(2), where F = grant_row, OF this] 5(1) show ?case
      by (simp add: db_view_upd db_view_sel spec_grant_revoke_def)
  qed (simp_all add: type_of_simps)
qed (simp add: sets_eval)

interpretation pg: grant_port createPgStorage pg_view pg_ok
  by unfold_locales (rule obeys_mono [OF pg_grant_insert], blast, rule pg_grant_find, rule pg_grant_revoke)

section \<open>Pushed requests\<close>

lemma string_members_row:
  "r c = Some (SJson (json_canon (string_members ps))) \<Longrightarrow> as_strings r c = sort_members ps"
  by (simp add: as_strings_def as_object_def as_json_def string_members_def comp_def case_prod_beta sort_members_map [where f = JStr, unfolded case_prod_beta])

lemma pg_par_insert:
  "obeys pg_ok pg_view (par_insert (st_par createPgStorage) p) (\<lambda>a x a'. \<exists>p'. keeps_request p p' \<and>
     a_par a (par_requestUri p) = None \<and> a' = spec_par_insert p' a)"
  unfolding pg_repo
proof (rule obeys_query, goal_cases)
  case (2 db now res db')
  show ?case
  proof (rule execute_insert_at_key [OF 2(2), of "''request_uri''" "par_requestUri p"], goal_cases)
    case (3 vs rows)
    let ?r = "default_row par_requests_table now ++ map_of vs"
    have r: "par_row ?r = p\<lparr>par_params := sort_members (par_params p)\<rparr>" "as_time_opt ?r ''consumed_at'' = None"
      using 3(1) by (auto simp: bind_eval par_columns_def par_row_def as_values string_members_row)
        (simp add: default_row_def par_requests_table_def as_time_opt_def)
    show ?case
      by (rule exI [of _ "par_row ?r"])
        (use 3(2,4) view_insert [OF 3(3), of "\<lambda>r. (par_row r, as_time_opt r ''consumed_at'')"] r in
          \<open>simp add: db_view_upd db_view_sel spec_par_insert_def keeps_request_def\<close>)
  qed (auto simp: bind_eval par_columns_def)
qed simp

interpretation pg: par_port createPgStorage pg_view pg_ok
proof (unfold_locales, goal_cases)
  case (1 p)
  show ?case by (rule obeys_mono [OF pg_par_insert]) blast
next
  case (2 u t)
  show ?case unfolding pg_repo par_unused_def
  proof (rule obeys_query, goal_cases)
    case (2 db now res db')
    from execute_peek [OF 2(2,1)] show ?case
      by (simp add: type_of_simps first_row_def db_view_sel project_rows spec_par_peek_def usable_open_row split: option.split)
  qed simp
next
  case (3 u t)
  show ?case unfolding pg_repo par_unused_def
  proof (rule obeys_query, goal_cases)
    case (2 db now res db')
    show ?case
    proof (rule execute_use [OF 2(2,1)], goal_cases)
      case (7 rows)
      from view_use [OF 7(2), where F = par_row] 7(1,3) show ?case
        by (auto simp: db_view_upd db_view_sel spec_par_consume_def spec_par_peek_def usable_open_row first_row_def project_rows
            used_rows split: option.split)
    qed (simp_all add: type_of_simps)
  qed (simp add: sets_eval)
qed

section \<open>Clients\<close>

interpretation pg: client_port createPgStorage pg_view pg_ok
proof (unfold_locales, unfold pg_repo, goal_cases)
  case (1 i)
  show ?case
  proof (rule obeys_query, goal_cases)
    case (2 db now res db')
    from execute_find [OF 2(2,1)] show ?case
      by (simp add: type_of_simps first_row_def db_view_sel project_rows split: option.split)
  qed simp
next
  case (2 c)
  show ?case
  proof (rule obeys_query, goal_cases)
    case (2 db now res db')
    show ?case
    proof (rule execute_upsert_at_key [OF 2(2,1), of "''client_id''" "cr_clientId c" client_row], goal_cases)
      case (6 vs rows)
      let ?r = "default_row clients_table now ++ map_of vs"
      have "client_row ?r = c\<lparr>cr_metadata := json_canon (cr_metadata c)\<rparr>"
        using 6(1) by (auto simp: bind_eval client_row_def as_values)
      with 6(2,3) show ?case
        by (intro exI [of _ "client_row ?r"]) (simp add: db_view_upd db_view_sel spec_client_upsert_def keeps_client_def)
    qed (auto simp: bind_eval client_row_def as_values)
  qed (simp add: sets_eval)
qed

section \<open>Codes\<close>

lemma query_id: "pool_query st ps = query_then st ps (\<lambda>res. res)"
  by (auto simp: fun_eq_iff query_then_def bindE_def returnE_def split: prod.split sum.split)

definition code_used :: "string \<Rightarrow> int \<Rightarrow> astore \<Rightarrow> result \<Rightarrow> astore \<Rightarrow> bool" where
  "code_used h t a upd a' \<longleftrightarrow>
     (case spec_code_redemption h t a of
        Redeem_ok c \<Rightarrow> map codeRowToRecord (rs_rows upd) = [c] \<and> a' = spec_code_redeem h t a
      | _ \<Rightarrow> rs_rows upd = [] \<and> a' = a)"

definition code_found :: "string \<Rightarrow> astore \<Rightarrow> result \<Rightarrow> astore \<Rightarrow> bool" where
  "code_found h a sel a' \<longleftrightarrow>
     a' = a \<and> map codeRowToRecord (rs_rows sel) = (case a_codes a h of Some (c, Some _) \<Rightarrow> [c] | _ \<Rightarrow> [])"

lemma redemption_open_row:
  "spec_code_redemption h t (db_view db) =
     (case open_row ''consumed_at'' t (at_key (db ''authorization_codes'') ''code_hash'' h) of
        Some r \<Rightarrow> Redeem_ok (codeRowToRecord r)
      | None \<Rightarrow> (case at_key (db ''authorization_codes'') ''code_hash'' h of
          Some r \<Rightarrow> if as_time_opt r ''consumed_at'' = None then Redeem_invalid else Redeem_consumed (codeRowToRecord r)
        | None \<Rightarrow> Redeem_invalid))"
  by (auto simp: spec_code_redemption_def db_view_sel open_row_def split: option.split)

lemma pg_code_use:
  "obeys pg_ok pg_view (code_use h t) (code_used h t)"
  unfolding code_use_def query_id
proof (rule obeys_query, goal_cases)
  case (2 db now res db')
  show ?case
  proof (rule execute_use [OF 2(2,1)], goal_cases)
    case (7 rows)
    from view_use [OF 7(2), where F = codeRowToRecord] 7(1,3) show ?case
      by (auto simp: db_view_upd db_view_sel code_used_def redemption_open_row spec_code_redeem_def used_rows split: option.split)
  qed (simp_all add: type_of_simps)
qed (simp add: sets_eval)

lemma pg_code_look:
  "obeys pg_ok pg_view (code_look h) (code_found h)"
  unfolding code_look_def query_id
proof (rule obeys_query, goal_cases)
  case (2 db now res db')
  from db_okD [OF 2(1), of "''authorization_codes''"]
  have t: "table_ok authorization_codes_table (db ''authorization_codes'')" by simp
  have n: "r ''consumed_at'' = Some SNull \<longleftrightarrow> as_time_opt r ''consumed_at'' = None"
    if "at_key (db ''authorization_codes'') ''code_hash'' h = Some r" for r
    using at_key_typed [OF 2(1) that] by (simp add: time_column [where t = authorization_codes_table] type_of_simps)
  from 2(2) show ?case
    by (cases "at_key (db ''authorization_codes'') ''code_hash'' h")
      (auto simp: bind_eval Let_def filter_key [OF t] code_found_def db_view_sel n split: option.splits)
qed simp

lemma pg_code_redeem:
  "obeys pg_ok pg_view (pg_codes_redeem h t) (steps (spec_code_redemption h t) (spec_code_redeem h t))"
proof -
  have "pg_ok s' \<and> (case r of Inl e \<Rightarrow> pg_view s' = pg_view s \<or>
          (\<exists>x. x = spec_code_redemption h t (pg_view s) \<and> pg_view s' = spec_code_redeem h t (pg_view s))
      | Inr x \<Rightarrow> x = spec_code_redemption h t (pg_view s) \<and> pg_view s' = spec_code_redeem h t (pg_view s))"
    if ok: "pg_ok s" and run: "pg_codes_redeem h t s = (r, s')" for s r s'
  proof -
    obtain r1 s1 where u: "code_use h t s = (r1, s1)" by fastforce
    show ?thesis
    proof (cases r1)
      case (Inl e)
      from obeys_throwD [OF pg_code_use ok u [unfolded Inl]] have "pg_ok s1"
        "pg_view s1 = pg_view s \<or> pg_view s1 = spec_code_redeem h t (pg_view s)"
        by (cases "spec_code_redemption h t (pg_view s)"; fastforce simp: code_used_def)+
      with u run Inl show ?thesis by (auto simp: pg_codes_redeem_def bindE_def)
    next
      case (Inr upd)
      from obeysD [OF pg_code_use ok u [unfolded Inr]] have s1: "pg_ok s1" "code_used h t (pg_view s) upd (pg_view s1)" by blast+
      show ?thesis
      proof (cases "rs_rows upd")
        case (Cons row rows)
        with s1 u run Inr show ?thesis
          by (auto simp: pg_codes_redeem_def bindE_def returnE_def code_used_def split: code_redemption.splits)
      next
        case Nil
        obtain r2 s2 where l: "code_look h s1 = (r2, s2)" by fastforce
        from Nil s1(2) have v: "pg_view s1 = pg_view s" "\<forall>c. spec_code_redemption h t (pg_view s) \<noteq> Redeem_ok c"
          by (auto simp: code_used_def split: code_redemption.splits)
        have red: "spec_code_redemption h t (pg_view s) =
            (case a_codes (pg_view s) h of Some (c, Some _) \<Rightarrow> Redeem_consumed c | _ \<Rightarrow> Redeem_invalid)"
          using v(2) by (auto simp: spec_code_redemption_def split: option.splits if_splits)
        show ?thesis
        proof (cases r2)
          case (Inl e)
          from obeys_throwD [OF pg_code_look s1(1) l [unfolded Inl]] v(1) have "pg_ok s2" "pg_view s2 = pg_view s"
            by (auto simp: code_found_def)
          with u l Inr Nil run Inl show ?thesis by (auto simp: pg_codes_redeem_def bindE_def)
        next
          case (Inr sel)
          from obeysD [OF pg_code_look s1(1) l [unfolded Inr]] have "pg_ok s2" "code_found h (pg_view s) sel (pg_view s2)"
            by (simp_all add: v(1))
          with u l \<open>r1 = Inr upd\<close> Inr Nil run show ?thesis
            by (auto simp: pg_codes_redeem_def bindE_def returnE_def code_found_def spec_code_redeem_def red
                split: option.splits list.splits)
        qed
      qed
    qed
  qed
  then show ?thesis unfolding obeys_def by blast
qed

lemma pg_code_insert:
  "obeys pg_ok pg_view (code_insert (st_codes createPgStorage) c) (\<lambda>v x v'. a_codes v (code_codeHash c) = None \<and> v' = spec_code_insert c v)"
  unfolding pg_repo
proof (rule obeys_query, goal_cases)
  case (2 db now res db')
  show ?case
  proof (rule execute_insert_at_key [OF 2(2), of "''code_hash''" "code_codeHash c"], goal_cases)
    case (3 vs rows)
    let ?r = "default_row authorization_codes_table now ++ map_of vs"
    have "codeRowToRecord ?r = c" "as_time_opt ?r ''consumed_at'' = None"
      using 3(1) by (auto simp: bind_eval code_columns_def codeRowToRecord_def as_values)
        (simp add: default_row_def authorization_codes_table_def as_time_opt_def)
    with 3(2,4) view_insert [OF 3(3), of "\<lambda>r. (codeRowToRecord r, as_time_opt r ''consumed_at'')"] show ?case
      by (simp add: db_view_upd db_view_sel spec_code_insert_def)
  qed (auto simp: bind_eval code_columns_def)
qed simp

interpretation pg: code_port createPgStorage pg_view pg_ok
proof (unfold_locales, goal_cases)
  case (1 c)
  show ?case by (rule obeys_mono [OF pg_code_insert]) blast
next
  case (2 h t)
  show ?case using pg_code_redeem by (simp add: createPgStorage_def pg_codes_def)
qed

section \<open>Tokens\<close>

lemma text_required:
  assumes "typed t r" and "need_col c ty \<in> set (ts_columns t)" and "ty \<in> {T_text, T_uuid}"
  shows "r c = Some (SText (as_text r c))"
proof -
  from assms(1,2) obtain v where "r c = Some v" "has_type ty v" "v \<noteq> SNull" by (auto simp: typed_def)
  with assms(3) show ?thesis by (cases v) (auto simp: has_type_def as_text_def)
qed

lemma grant_id_column:
  "typed access_tokens_table r \<Longrightarrow> r ''grant_id'' = Some (SText g) \<longleftrightarrow> as_text r ''grant_id'' = g"
  "typed refresh_tokens_table r \<Longrightarrow> r ''grant_id'' = Some (SText g) \<longleftrightarrow> as_text r ''grant_id'' = g"
  by (auto simp: text_required [of access_tokens_table _ _ T_uuid] text_required [of refresh_tokens_table _ _ T_uuid] table_defs)

lemma at_marks:
  "at_row (if P \<and> as_time_opt r ''revoked_at'' = None then r(''revoked_at'' \<mapsto> STime t) else r) =
     (if P then at_mark t (at_row r) else at_row r)"
  "rt_row (if P \<and> as_time_opt r ''revoked_at'' = None then r(''revoked_at'' \<mapsto> STime t) else r) =
     (if P then rt_mark t (rt_row r) else rt_row r)"
  by (simp_all add: revoked_rows at_mark_def rt_mark_def)

lemma pg_at_insert:
  "obeys pg_ok pg_view (at_insert (st_accessTokens createPgStorage) a) (\<lambda>v x v'. a_at v (at_jti a) = None \<and> v' = spec_at_insert a v)"
  unfolding pg_repo
proof (rule obeys_query, goal_cases)
  case (2 db now res db')
  show ?case
  proof (rule execute_insert_at_key [OF 2(2), of "''jti''" "at_jti a"], goal_cases)
    case (3 vs rows)
    have "at_row (default_row access_tokens_table now ++ map_of vs) = a"
      using 3(1) by (auto simp: bind_eval at_columns_def at_row_def as_values)
    with 3(2,4) view_insert [OF 3(3), of at_row] show ?case by (simp add: db_view_upd db_view_sel spec_at_insert_def)
  qed (auto simp: bind_eval at_columns_def)
qed simp

lemma pg_rt_insert:
  "obeys pg_ok pg_view (rt_insert (st_refreshTokens createPgStorage) w) (\<lambda>v x v'. a_rt v (rt_tokenHash w) = None \<and> v' = spec_rt_insert w v)"
  unfolding pg_repo
proof (rule obeys_query, goal_cases)
  case (2 db now res db')
  show ?case
  proof (rule execute_insert_at_key [OF 2(2), of "''token_hash''" "rt_tokenHash w"], goal_cases)
    case (3 vs rows)
    have "rt_row (default_row refresh_tokens_table now ++ map_of vs) = w"
      using 3(1) by (auto simp: bind_eval rt_columns_def rt_row_def as_values)
    with 3(2,4) view_insert [OF 3(3), of rt_row] show ?case by (simp add: db_view_upd db_view_sel spec_rt_insert_def)
  qed (auto simp: bind_eval rt_columns_def)
qed simp

lemma pg_at_revoke: "obeys pg_ok pg_view (at_revoke (st_accessTokens createPgStorage) j t) (writes (spec_at_revoke j t))"
  unfolding pg_repo
proof (rule obeys_query, goal_cases)
  case (2 db now res db')
  show ?case
  proof (rule execute_revoke [OF 2(2,1), of "''jti''"], goal_cases)
    case (5 rows)
    have "(\<lambda>x. map_option at_row (at_key rows ''jti'' x)) =
      (\<lambda>x. map_option at_row (at_key (db ''access_tokens'') ''jti'' x))
        (j := map_option (at_mark t) (map_option at_row (at_key (db ''access_tokens'') ''jti'' j)))"
      by (rule view_mark_at [OF 5(2)]) (auto simp: at_marks dest: at_key_Some)
    with 5(1) show ?case by (simp add: db_view_upd db_view_sel spec_at_revoke_def)
  qed (simp_all add: type_of_simps)
qed (simp add: sets_eval)

lemma pg_rt_revoke: "obeys pg_ok pg_view (rt_revoke (st_refreshTokens createPgStorage) h t) (writes (spec_rt_revoke h t))"
  unfolding pg_repo
proof (rule obeys_query, goal_cases)
  case (2 db now res db')
  show ?case
  proof (rule execute_revoke [OF 2(2,1), of "''token_hash''"], goal_cases)
    case (5 rows)
    have "(\<lambda>x. map_option rt_row (at_key rows ''token_hash'' x)) =
      (\<lambda>x. map_option rt_row (at_key (db ''refresh_tokens'') ''token_hash'' x))
        (h := map_option (rt_mark t) (map_option rt_row (at_key (db ''refresh_tokens'') ''token_hash'' h)))"
      by (rule view_mark_at [OF 5(2)]) (auto simp: at_marks dest: at_key_Some)
    with 5(1) show ?case by (simp add: db_view_upd db_view_sel spec_rt_revoke_def)
  qed (simp_all add: type_of_simps)
qed (simp add: sets_eval)

lemma pg_at_revokeByGrant:
  "obeys pg_ok pg_view (at_revokeByGrant (st_accessTokens createPgStorage) g t) (writes (spec_at_revokeByGrant g t))"
  unfolding pg_repo
proof (rule obeys_query, goal_cases)
  case (2 db now res db')
  note ok = 2(1)
  show ?case
  proof (rule execute_revoke [OF 2(2,1), of "''jti''"], goal_cases)
    case (5 rows)
    from view_mark [OF 5(2), where F = at_row and G = "\<lambda>j r. if at_grantId r = g then at_mark t r else r"] 5(1)
      grant_id_column(1) at_key_typed [OF ok, of "''access_tokens''"] show ?case
      by (simp add: db_view_upd db_view_sel spec_at_revokeByGrant_def at_marks)
  qed (simp_all add: type_of_simps)
qed (simp add: sets_eval)

lemma pg_rt_revokeByGrant:
  "obeys pg_ok pg_view (rt_revokeByGrant (st_refreshTokens createPgStorage) g t) (writes (spec_rt_revokeByGrant g t))"
  unfolding pg_repo
proof (rule obeys_query, goal_cases)
  case (2 db now res db')
  note ok = 2(1)
  show ?case
  proof (rule execute_revoke [OF 2(2,1), of "''token_hash''"], goal_cases)
    case (5 rows)
    from view_mark [OF 5(2), where F = rt_row and G = "\<lambda>j r. if rt_grantId r = g then rt_mark t r else r"] 5(1)
      grant_id_column(2) at_key_typed [OF ok, of "''refresh_tokens''"] show ?case
      by (simp add: db_view_upd db_view_sel spec_rt_revokeByGrant_def at_marks)
  qed (simp_all add: type_of_simps)
qed (simp add: sets_eval)

lemma pg_at_find: "obeys pg_ok pg_view (at_findByJti (st_accessTokens createPgStorage) j) (reads (\<lambda>v. a_at v j))"
  unfolding pg_repo
proof (rule obeys_query, goal_cases)
  case (2 db now res db')
  from execute_find [OF 2(2,1)] show ?case
    by (simp add: type_of_simps first_row_def db_view_sel project_rows split: option.split)
qed simp

lemma pg_rt_find: "obeys pg_ok pg_view (rt_findByHash (st_refreshTokens createPgStorage) h) (reads (\<lambda>v. a_rt v h))"
  unfolding pg_repo
proof (rule obeys_query, goal_cases)
  case (2 db now res db')
  from execute_find [OF 2(2,1)] show ?case
    by (simp add: type_of_simps first_row_def db_view_sel project_rows split: option.split)
qed simp

interpretation pg: token_port createPgStorage pg_view pg_ok
proof (unfold_locales, goal_cases)
  case (1 a)
  show ?case by (rule obeys_mono [OF pg_at_insert]) blast
next
  case (5 w)
  show ?case by (rule obeys_mono [OF pg_rt_insert]) blast
qed (rule pg_at_find pg_at_revoke pg_at_revokeByGrant pg_rt_find pg_rt_revoke pg_rt_revokeByGrant)+

section \<open>Interactions\<close>

lemma as_acr_param: "encode T_text (acr_param v) = Inr w \<Longrightarrow> r c = Some w \<Longrightarrow> as_acr r c = v"
  by (auto simp: acr_param_def encode_def as_acr_def as_text_opt_def split: option.splits json.splits if_splits)

lemma strings_of_Some: "strings_of js = Some ss \<Longrightarrow> map JStr ss = js"
  by (induction js arbitrary: ss) (auto simp: strings_of_def split: json.splits)

lemma as_amr_param: "encode T_texts (amr_param v) = Inr w \<Longrightarrow> r c = Some w \<Longrightarrow> as_amr r c = v"
  by (auto simp: amr_param_def encode_def as_amr_def strings_of_Some split: option.splits json.splits if_splits)

lemma at_key_drop:
  "at_key (drop_first n p rows) k x = at_key rows k x \<or>
     at_key (drop_first n p rows) k x = None \<and> (\<exists>r. at_key rows k x = Some r \<and> p r)"
  if "distinct (map (\<lambda>r. r k) rows)" for rows
  using that
proof (induction n p rows rule: drop_first.induct)
  case (2 n p r rows)
  have none: "at_key rs k x = None" if "r k = Some (SText x)" "set rs \<subseteq> set rows" for rs
  proof -
    have "\<forall>r' \<in> set rows. r' k \<noteq> r k" using 2(3) by (metis (mono_tags, lifting) distinct.simps(2) image_eqI list.set_map list.simps(9))
    with that show ?thesis by (auto simp: at_key_def find_None_iff)
  qed
  show ?case
  proof (cases "p r \<and> 0 < n")
    case True
    with 2 none [OF _ set_drop_first] show ?thesis by (cases "r k = Some (SText x)") (auto simp: at_key_def)
  next
    case False
    with 2 show ?thesis by (auto simp: at_key_def)
  qed
qed simp

lemma interactions_reap: "moves pg_ok pg_view (spec_int_sweep now) (reap prob ''interactions'' now)"
proof (rule reap_moves, goal_cases)
  case (2 db)
  show ?case by (auto simp: spec_int_sweep_def intro!: exI [of _ "a_int (db_view db)"])
next
  case (3 db p)
  let ?rows = "db ''interactions''"
  have t: "table_ok interactions_table ?rows" using db_okD [OF 3(1), of "''interactions''"] by simp
  then have "distinct (map (\<lambda>r. r ''id'') ?rows)" by (simp add: table_ok_def key_of_def distinct_map inj_on_def)
  from at_key_drop [OF this, of 1000 p] at_key_typed [OF 3(1), of "''interactions''"] 3(2)
  have d: "at_key (drop_first 1000 p ?rows) ''id'' i = at_key ?rows ''id'' i \<or>
      at_key (drop_first 1000 p ?rows) ''id'' i = None \<and> (\<exists>r. at_key ?rows ''id'' i = Some r \<and> expired_row now r)" for i
    by fastforce
  let ?m = "a_int (db_view (db(''interactions'' := drop_first 1000 p ?rows)))"
  have "db_view (db(''interactions'' := drop_first 1000 p ?rows)) = (db_view db)\<lparr>a_int := ?m\<rparr>"
    by (simp add: db_view_upd db_view_sel)
  moreover have "?m i = a_int (db_view db) i \<or>
      ?m i = None \<and> (case a_int (db_view db) i of Some (n, _) \<Rightarrow> int_expiresAt n \<le> now | None \<Rightarrow> False)" for i
    using d [of i] by (auto simp: db_view_upd db_view_sel expired_row_def)
  ultimately show ?case unfolding spec_int_sweep_def by blast
qed (simp add: type_of_simps)

lemma pg_int_add: "obeys pg_ok pg_view (int_add n) (\<lambda>a x a'. a' = a\<lparr>a_int := (a_int a)(int_id n \<mapsto> (n, None))\<rparr>)"
  unfolding int_add_def
proof (rule obeys_query, goal_cases)
  case (2 db now res db')
  show ?case
  proof (rule execute_insert_at_key [OF 2(2), of "''id''" "int_id n"], goal_cases)
    case (3 vs rows)
    let ?r = "default_row interactions_table now ++ map_of vs"
    have "interactionRow ?r = n" "as_time_opt ?r ''completed_at'' = None"
      using 3(1) by (auto simp: bind_eval int_columns_def interactionRow_def as_values as_acr_param as_amr_param)
        (simp add: default_row_def interactions_table_def as_time_opt_def)
    with 3(2) view_insert [OF 3(3), of "\<lambda>r. (interactionRow r, as_time_opt r ''completed_at'')"] show ?case
      by (simp add: db_view_upd db_view_sel)
  qed (auto simp: bind_eval int_columns_def)
qed simp

lemma pg_int_insert:
  "obeys_or pg_ok pg_view (spec_int_sweep (int_createdAt n)) (int_insert (st_interactions createPgStorage) n)
     (\<lambda>a x a'. spec_int_insert n a a')"
  unfolding pg_repo
proof (rule obeys_or_after [OF interactions_reap pg_int_add])
  fix a a1 a2 x
  assume "spec_int_sweep (int_createdAt n) a a1" "a2 = a1\<lparr>a_int := (a_int a1)(int_id n \<mapsto> (n, None))\<rparr>"
  then show "spec_int_insert n a a2" by (fastforce simp: spec_int_sweep_def spec_int_insert_def)
qed

lemma pg_int_setSubject:
  "obeys pg_ok pg_view (int_setSubject (st_interactions createPgStorage) i sub tm acr amr) (writes (spec_int_setSubject i sub tm acr amr))"
  unfolding pg_repo
proof (rule obeys_query, goal_cases)
  case (2 db now res db')
  note ok = 2(1)
  show ?case
  proof (rule execute_update_at_key [OF 2(2), of "''id''"], goal_cases)
    case (2 p f rows)
    let ?F = "\<lambda>r. (interactionRow r, as_time_opt r ''completed_at'')"
    let ?G = "\<lambda>v. case v of (n, None) \<Rightarrow> (set_subject sub tm acr amr n, None) | _ \<Rightarrow> v"
    have "?F (if p r then f r r else r) = (if x = i then ?G (?F r) else ?F r)"
      if r: "at_key (db ''interactions'') ''id'' x = Some r" for x r
    proof -
      have n: "r ''completed_at'' = Some SNull \<longleftrightarrow> as_time_opt r ''completed_at'' = None"
        using at_key_typed [OF ok r] by (simp add: time_column [where t = interactions_table] type_of_simps)
      from at_key_Some [OF r] 2(1,2) n show ?thesis
        by (auto simp: bind_eval interactionRow_def set_subject_def as_other as_values as_acr_param as_amr_param split: option.splits)
    qed
    from view_mark_at [OF 2(4), where F = ?F and g = i and f = ?G, OF this] 2(3) show ?case
      by (auto simp: db_view_upd db_view_sel spec_int_setSubject_def fun_eq_iff split: option.splits)
  qed auto
qed (simp add: sets_eval)

interpretation pg: int_port createPgStorage pg_view pg_ok
proof (unfold_locales, goal_cases)
  case (1 n)
  show ?case by (rule pg_int_insert)
next
  case (2 i t)
  show ?case unfolding pg_repo int_open_def
  proof (rule obeys_query, goal_cases)
    case (2 db now res db')
    from execute_peek [OF 2(2,1)] show ?case
      by (simp add: type_of_simps first_row_def db_view_sel spec_int_find_def usable_open_row split: option.split)
  qed simp
next
  case (3 i sub tm acr amr)
  show ?case by (rule pg_int_setSubject)
next
  case (4 i t)
  show ?case unfolding pg_repo int_open_def
  proof (rule obeys_query, goal_cases)
    case (2 db now res db')
    show ?case
    proof (rule execute_use [OF 2(2,1)], goal_cases)
      case (7 rows)
      from view_use [OF 7(2), where F = interactionRow] 7(1,3) show ?case
        by (auto simp: db_view_upd db_view_sel spec_int_complete_def spec_int_find_def usable_open_row first_row_def
            used_rows split: option.split)
    qed (simp_all add: type_of_simps)
  qed (simp add: sets_eval)
qed

section \<open>Replay identifiers\<close>

lemma drop_first_kept: "r \<in> set rows \<Longrightarrow> \<not> p r \<Longrightarrow> r \<in> set (drop_first n p rows)"
  by (induction n p rows rule: drop_first.induct) auto

lemma jti_reap: "moves pg_ok pg_view (\<lambda>a. spec_jti_register c j e now a False) (reap prob ''jti_replay'' now)"
proof (rule reap_moves, goal_cases)
  case (2 db)
  show ?case by (auto simp: spec_jti_register_def intro!: exI [of _ "a_live (db_view db)"])
next
  case (3 db p)
  let ?rows = "drop_first 1000 p (db ''jti_replay'')"
  from db_okD [OF 3(1), of "''jti_replay''"] have t: "r \<in> set (db ''jti_replay'') \<Longrightarrow> typed jti_replay_table r" for r
    by (simp add: table_ok_def)
  have "db_live ?rows c' j' t" if "now \<le> t" and l: "db_live (db ''jti_replay'') c' j' t" for c' j' t
  proof -
    from l obtain r where r: "r \<in> set (db ''jti_replay'')" "r ''context'' = Some (SText c')" "r ''jti'' = Some (SText j')"
      "t < as_time r ''expires_at''" by (auto simp: db_live_def list_ex_iff)
    from r(4) that(1) have "\<not> expired_row now r" by (simp add: expired_row_def)
    with 3(2) t r(1) have "\<not> p r" by auto
    with r drop_first_kept show ?thesis by (auto simp: db_live_def list_ex_iff)
  qed
  then show ?case by (simp add: spec_jti_register_def db_view_upd db_view_sel) blast
qed (simp add: type_of_simps)

abbreviation jti_row :: "string \<Rightarrow> string \<Rightarrow> row \<Rightarrow> bool" where
  "jti_row c j r \<equiv> r ''context'' = Some (SText c) \<and> r ''jti'' = Some (SText j)"

lemma filter_one: "distinct rows \<Longrightarrow> r \<in> set rows \<Longrightarrow> (\<And>q. q \<in> set rows \<Longrightarrow> P q \<longleftrightarrow> q = r) \<Longrightarrow> filter P rows = [r]"
  by (induction rows) (auto simp: filter_empty_conv)

text \<open>What the upsert does to the rows: a fresh identifier is added, an expired one gets the new expiry.\<close>

lemma jti_upsert:
  assumes run: "execute pg_schema clock [PStr c, PStr j, PDate e, PDate now] (Insert ''jti_replay'' [''context'', ''jti'', ''expires_at'']
      (Conflict_update [(''expires_at'', From_excluded)] (Up_to ''expires_at'' 4))) db = Inr (res, db')"
    and ok: "db_ok pg_schema db"
  obtains (insert) new where "jti_row c j new" and "as_time new ''expires_at'' = e" and "\<forall>r \<in> set (db ''jti_replay''). \<not> jti_row c j r"
      and "db' = db(''jti_replay'' := db ''jti_replay'' @ [new])"
    | (claim) r where "r \<in> set (db ''jti_replay'')" and "jti_row c j r" and "as_time r ''expires_at'' \<le> now" and "rs_count res = 1"
      and "db' = db(''jti_replay'' := map (\<lambda>q. if q = r then r(''expires_at'' \<mapsto> STime e) else q) (db ''jti_replay''))"
    | (refuse) "rs_count res \<noteq> 1" and "db' = db"
proof -
  let ?t = jti_replay_table and ?rows = "db ''jti_replay''"
  let ?ps = "[PStr c, PStr j, PDate e, PDate now]"
  let ?vs = "[(''context'', SText c), (''jti'', SText j), (''expires_at'', STime e)]"
  let ?new = "default_row ?t clock ++ map_of ?vs"
  let ?p = "\<lambda>r. case (r ''expires_at'', STime now) of (Some (STime a), STime b) \<Rightarrow> a \<le> b | _ \<Rightarrow> False"
  have t: "table_ok ?t ?rows" using db_okD [OF ok, of "''jti_replay''"] by simp
  from run have vs: "bind_values ?t ?ps 1 [''context'', ''jti'', ''expires_at''] = Inr ?vs"
    by (auto simp: act_iff param_for_def type_of_simps encode_iff)
  have same: "key_of ?t r = key_of ?t ?new \<longleftrightarrow> jti_row c j r" for r by (simp add: key_of_def)
  have c: "param_for ?t ?ps ''expires_at'' 4 = Inr (STime now)" by (simp add: param_for_def type_of_simps encode_def)
  have p: "?p r \<longleftrightarrow> as_time r ''expires_at'' \<le> now" if "r \<in> set ?rows" for r
    using time_required [of ?t r "''expires_at''"] t that by (auto simp: table_ok_def split: option.split)
  have one: "q = r" if "q \<in> set ?rows" "r \<in> set ?rows" "jti_row c j q" "jti_row c j r" for q r
    using t that by (auto simp: table_ok_def key_of_def distinct_map inj_on_def)
  show thesis
  proof (cases "list_ex (jti_row c j) ?rows")
    case False
    with run vs c same have "insert_row ?t db ''jti_replay'' ?new = Inr db'" by (auto simp: act_iff Let_def)
    with False show thesis
      by (intro insert [of ?new]) (auto simp: insert_row_def act_iff as_values list_ex_iff)
  next
    case True
    then obtain r where r: "r \<in> set ?rows" "jti_row c j r" by (auto simp: list_ex_iff)
    from True run vs c same have u: "update_rows ?t db ''jti_replay'' (\<lambda>r. jti_row c j r \<and> ?p r) (\<lambda>r. r(''expires_at'' \<mapsto> STime e)) = Inr db'"
      and n: "rs_count res = length (filter (\<lambda>r. jti_row c j r \<and> ?p r) ?rows)"
      by (auto simp: act_iff Let_def)
    from u have d: "db' = db(''jti_replay'' := map (\<lambda>r. if jti_row c j r \<and> ?p r then r(''expires_at'' \<mapsto> STime e) else r) ?rows)"
      by (simp add: update_rows_def Let_def act_iff)
    have distinct: "distinct ?rows" using t by (simp add: table_ok_def distinct_map)
    show thesis
    proof (cases "as_time r ''expires_at'' \<le> now")
      case True
      have iff: "jti_row c j q \<and> ?p q \<longleftrightarrow> q = r" if "q \<in> set ?rows" for q
        using one [OF that r(1)] r p [OF that] True by blast
      have m: "map (\<lambda>q. if jti_row c j q \<and> ?p q then q(''expires_at'' \<mapsto> STime e) else q) ?rows =
          map (\<lambda>q. if q = r then r(''expires_at'' \<mapsto> STime e) else q) ?rows"
        by (rule map_cong [OF refl]) (simp only: iff, auto)
      have f: "filter (\<lambda>r. jti_row c j r \<and> ?p r) ?rows = [r]" by (rule filter_one [OF distinct r(1) iff])
      have "rs_count res = 1" unfolding n f by simp
      from claim [OF r True this d [unfolded m]] show thesis .
    next
      case False
      have iff: "\<not> (jti_row c j q \<and> ?p q)" if "q \<in> set ?rows" for q
        using one [OF that r(1)] r p [OF that] False by blast
      have "map (\<lambda>q. if jti_row c j q \<and> ?p q then q(''expires_at'' \<mapsto> STime e) else q) ?rows = ?rows"
        by (rule map_idI) (simp only: iff if_False)
      moreover have "filter (\<lambda>r. jti_row c j r \<and> ?p r) ?rows = []" using iff by (simp only: filter_empty_conv) blast
      ultimately show thesis using d n by (intro refuse) simp_all
    qed
  qed
qed

lemma pg_jti_insert:
  "obeys pg_ok pg_view (jti_claim c j e now) (spec_jti_register c j e now)"
  unfolding jti_claim_def
proof (rule obeys_query, goal_cases)
  case (2 db clock res db')
  let ?rows = "db ''jti_replay''"
  have live: "spec_jti_register c j e now (db_view db) (rs_count res = 1) (db_view (db(''jti_replay'' := rows)))"
    if "\<And>c' j' t. now \<le> t \<Longrightarrow> db_live ?rows c' j' t \<Longrightarrow> db_live rows c' j' t"
      and "rs_count res = 1 \<Longrightarrow> \<not> db_live ?rows c j now \<and> (\<forall>t < e. db_live rows c j t)" for rows
    using that by (auto simp: spec_jti_register_def db_view_upd db_view_sel)
  show ?case
  proof (rule jti_upsert [OF 2(2,1)])
    fix new
    assume new: "jti_row c j new" "as_time new ''expires_at'' = e" "\<forall>r \<in> set ?rows. \<not> jti_row c j r"
      and d: "db' = db(''jti_replay'' := ?rows @ [new])"
    show ?thesis unfolding d by (rule live) (use new in \<open>auto simp: db_live_def list_ex_iff\<close>)
  next
    fix r
    let ?r = "r(''expires_at'' \<mapsto> STime e)"
    assume r: "r \<in> set ?rows" "jti_row c j r" "as_time r ''expires_at'' \<le> now"
      and d: "db' = db(''jti_replay'' := map (\<lambda>q. if q = r then ?r else q) ?rows)"
    have t: "table_ok jti_replay_table ?rows" using db_okD [OF 2(1), of "''jti_replay''"] by simp
    have one: "q = r" if "q \<in> set ?rows" "jti_row c j q" for q
      using t that r by (auto simp: table_ok_def key_of_def distinct_map inj_on_def)
    have new: "?r \<in> set (map (\<lambda>q. if q = r then ?r else q) ?rows)" using r(1) by force
    have kept: "q \<in> set (map (\<lambda>q. if q = r then ?r else q) ?rows)" if "q \<in> set ?rows" "q \<noteq> r" for q using that by force
    show ?thesis unfolding d
    proof (rule live)
      show "db_live (map (\<lambda>q. if q = r then ?r else q) ?rows) c' j' t" if "now \<le> t" "db_live ?rows c' j' t" for c' j' t
        using that r(3) kept unfolding db_live_def list_ex_iff by fastforce
      have "db_live (map (\<lambda>q. if q = r then ?r else q) ?rows) c j t" if "t < e" for t
        unfolding db_live_def list_ex_iff using new r(2) that by (intro bexI [of _ ?r]) (auto simp: as_values)
      moreover have "\<not> db_live ?rows c j now" using one r(3) by (fastforce simp: db_live_def list_ex_iff)
      ultimately show "\<not> db_live ?rows c j now \<and> (\<forall>t < e. db_live (map (\<lambda>q. if q = r then ?r else q) ?rows) c j t)" by blast
    qed
  next
    assume "rs_count res \<noteq> 1" "db' = db"
    with live [of ?rows] show ?thesis by simp
  qed
qed (simp add: sets_eval)

interpretation pg: jti_port createPgStorage pg_view pg_ok
proof (unfold_locales, unfold pg_repo, rule obeys_or_after [OF jti_reap pg_jti_insert])
  fix c j e t a a1 x a2
  assume "spec_jti_register c j e t a False a1" "spec_jti_register c j e t a1 x a2"
  then show "spec_jti_register c j e t a x a2" by (auto simp: spec_jti_register_def)
qed

section \<open>The adapter as a whole\<close>

interpretation pg: storage_contract createPgStorage pg_view pg_ok
  by unfold_locales

text \<open>The keys are rows of a table of their own.\<close>

lemma pg_keys_quiet:
  "statement_ok pg_schema st \<Longrightarrow> (\<And>db now res db'. db_ok pg_schema db \<Longrightarrow> execute pg_schema now ps st db = Inr (res, db') \<Longrightarrow>
     db_view db' = db_view db) \<Longrightarrow> quiet pg_ok pg_view (query_then st ps f)"
  by (rule moves_obeys [where R = "\<lambda>a x a'. a' = a"], rule obeys_query) auto

interpretation pg: key_rows "st_keys createPgStorage" pg_view pg_ok
proof (unfold_locales, unfold createPgStorage_def pg_keys_def storage.select_convs signing_key_repo.select_convs, goal_cases)
  case 1
  show ?case by (rule pg_keys_quiet) (auto simp: act_iff Let_def)
next
  case (2 k)
  show ?case by (rule pg_keys_quiet) (auto simp: act_iff Let_def insert_row_def db_view_upd)
next
  case (3 kid status t)
  show ?case by (rule pg_keys_quiet) (auto simp: act_iff Let_def update_rows_def db_view_upd sets_eval)
qed

interpretation pgsrv: endpoint_deps "build_deps x pdp auth config paths urls createPgStorage"
  "srv_view pg_view" "srv_ok config pg_ok" for x pdp auth config paths urls
  by (rule server_endpoint_deps [OF pg.storage_contract_axioms pg.ks.key_port_axioms])

end
