(* ===== verification/PgInterleaving.thy ===== *)
theory PgInterleaving
  imports PgContract History
begin

text \<open>
  Concurrent requests on PostgreSQL. Each query is atomic, and between two queries of a handler the database may serve
  any query of any other handler. \<open>pg_step\<close> is one such query, with arbitrary arguments, answered or failed; its
  closure is what the database can have been through. No row is ever overwritten or forgotten: a code or a pushed request
  is used at most once, a grant or a token that was revoked stays so, whatever the interleaving.
\<close>

section \<open>The steps\<close>

inductive pg_step :: "pg_state \<Rightarrow> pg_state \<Rightarrow> bool" where
  elapse: "pg_step s (s\<lparr>pg_clock := now, pg_faults := fs, pg_random := rs\<rparr>)"
| find_client: "pg_step s (snd (cl_findById pg_clients i s))"
| insert_request: "pg_step s (snd (par_insert pg_par p s))"
| peek_request: "pg_step s (snd (par_peek pg_par u t s))"
| consume_request: "pg_step s (snd (par_consume pg_par u t s))"
| insert_grant: "pg_step s (snd (grant_insert pg_grants g s))"
| find_grant: "pg_step s (snd (grant_find pg_grants i s))"
| revoke_grant: "pg_step s (snd (grant_revoke pg_grants i t s))"
| insert_code: "pg_step s (snd (code_insert pg_codes c s))"
| use_code: "pg_step s (snd (code_use h t s))"
| look_code: "pg_step s (snd (code_look h s))"
| insert_at: "pg_step s (snd (at_insert pg_accessTokens a s))"
| find_at: "pg_step s (snd (at_findByJti pg_accessTokens j s))"
| revoke_at: "pg_step s (snd (at_revoke pg_accessTokens j t s))"
| revoke_ats: "pg_step s (snd (at_revokeByGrant pg_accessTokens i t s))"
| insert_rt: "pg_step s (snd (rt_insert pg_refreshTokens w s))"
| find_rt: "pg_step s (snd (rt_findByHash pg_refreshTokens h s))"
| revoke_rt: "pg_step s (snd (rt_revoke pg_refreshTokens h t s))"
| revoke_rts: "pg_step s (snd (rt_revokeByGrant pg_refreshTokens i t s))"
| reap_jti: "pg_step s (snd (reap prob ''jti_replay'' t s))"
| claim_jti: "pg_step s (snd (jti_claim cx j e t s))"
| reap_interactions: "pg_step s (snd (reap prob ''interactions'' t s))"
| add_interaction: "pg_step s (snd (int_add n s))"
| find_interaction: "pg_step s (snd (int_find pg_interactions i t s))"
| set_subject: "pg_step s (snd (int_setSubject pg_interactions i sub t acr amr s))"
| complete_interaction: "pg_step s (snd (int_complete pg_interactions i t s))"
| list_keys: "pg_step s (snd (sk_list pg_keys s))"
| insert_key: "pg_step s (snd (sk_insert pg_keys k s))"
| set_status: "pg_step s (snd (sk_setStatus pg_keys kid status ret s))"

section \<open>What every step keeps\<close>

text \<open>A row that is there stays, used or marked at most once.\<close>

definition row_lasts :: "('r \<times> int option) option \<Rightarrow> ('r \<times> int option) option \<Rightarrow> bool" where
  "row_lasts row row' \<longleftrightarrow> row = None \<or> uses row row'"

definition mark_lasts :: "(int \<Rightarrow> 'r \<Rightarrow> 'r) \<Rightarrow> 'r option \<Rightarrow> 'r option \<Rightarrow> bool" where
  "mark_lasts mark row row' \<longleftrightarrow> row = None \<or> ages mark row row'"

definition rows_last :: "astore \<Rightarrow> astore \<Rightarrow> bool" where
  "rows_last a a' \<longleftrightarrow>
     (\<forall>u. row_lasts (a_par a u) (a_par a' u)) \<and> (\<forall>h. row_lasts (a_codes a h) (a_codes a' h)) \<and>
     (\<forall>g. mark_lasts grant_mark (a_grants a g) (a_grants a' g)) \<and>
     (\<forall>j. mark_lasts at_mark (a_at a j) (a_at a' j)) \<and> (\<forall>h. mark_lasts rt_mark (a_rt a h) (a_rt a' h))"

lemma row_lasts_refl [simp]: "row_lasts row row"
  by (simp add: row_lasts_def)

lemma mark_lasts_refl [simp]: "mark_lasts mark row row"
  by (simp add: mark_lasts_def)

lemma row_lasts_trans: "row_lasts a b \<Longrightarrow> row_lasts b c \<Longrightarrow> row_lasts a c"
  unfolding row_lasts_def by (auto intro: uses_trans) (auto simp: uses_def)

lemma mark_lasts_trans:
  assumes "\<And>t u r. mark u (mark t r) = mark t r" and "mark_lasts mark a b" and "mark_lasts mark b c"
  shows "mark_lasts mark a c"
proof (cases "a = None \<or> b = None")
  case True
  with assms(2) show ?thesis by (auto simp: mark_lasts_def ages_def)
next
  case False
  with assms ages_trans [OF assms(1)] show ?thesis by (auto simp: mark_lasts_def)
qed

lemma grant_lasts_trans: "mark_lasts grant_mark a b \<Longrightarrow> mark_lasts grant_mark b c \<Longrightarrow> mark_lasts grant_mark a c"
  by (rule mark_lasts_trans) (rule mark_mark)

lemma at_lasts_trans: "mark_lasts at_mark a b \<Longrightarrow> mark_lasts at_mark b c \<Longrightarrow> mark_lasts at_mark a c"
  by (rule mark_lasts_trans) (rule mark_mark)

lemma rt_lasts_trans: "mark_lasts rt_mark a b \<Longrightarrow> mark_lasts rt_mark b c \<Longrightarrow> mark_lasts rt_mark a c"
  by (rule mark_lasts_trans) (rule mark_mark)

lemma rows_last_refl [simp]: "rows_last a a"
  by (simp add: rows_last_def)

lemma reflp_rows_last [simp, intro]: "reflp rows_last"
  by (auto intro: reflpI)

lemma transp_rows_last [simp, intro]: "transp rows_last"
proof (rule transpI)
  fix a b c assume "rows_last a b" "rows_last b c"
  then show "rows_last a c"
    unfolding rows_last_def using row_lasts_trans grant_lasts_trans at_lasts_trans rt_lasts_trans by meson
qed

text \<open>The operations of the abstract store keep it; an insertion does because its key was free.\<close>

lemma rows_last_same: "same_tables a a' \<Longrightarrow> rows_last a a'"
  by (auto simp: rows_last_def dest: same_tables_D)

lemma rows_last_int [simp]: "rows_last a (a\<lparr>a_int := m\<rparr>)"
  by (simp add: rows_last_def)

lemma rows_last_par:
  "a_par a (par_requestUri r) = None \<Longrightarrow> rows_last a (spec_par_insert r a)" "rows_last a (spec_par_consume u t a)"
  by (auto simp: rows_last_def row_lasts_def spec_par_insert_def spec_par_consume_def spec_par_peek_def usable_def uses_def
      split: option.splits prod.splits if_splits)

lemma rows_last_codes:
  "a_codes a (code_codeHash r) = None \<Longrightarrow> rows_last a (spec_code_insert r a)" "rows_last a (spec_code_redeem h t a)"
  by (auto simp: rows_last_def row_lasts_def spec_code_insert_def spec_code_redeem_def spec_code_redemption_def uses_def
      split: option.splits prod.splits if_splits)

lemma rows_last_inserts:
  "a_grants a (grant_grantId g) = None \<Longrightarrow> rows_last a (spec_grant_insert g a)"
  "a_at a (at_jti r) = None \<Longrightarrow> rows_last a (spec_at_insert r a)"
  "a_rt a (rt_tokenHash w) = None \<Longrightarrow> rows_last a (spec_rt_insert w a)"
  by (auto simp: rows_last_def mark_lasts_def spec_grant_insert_def spec_at_insert_def spec_rt_insert_def)

lemma rows_last_revokes:
  "rows_last a (spec_grant_revoke g t a)" "rows_last a (spec_at_revoke j t a)" "rows_last a (spec_rt_revoke h t a)"
  "rows_last a (spec_at_revokeByGrant g t a)" "rows_last a (spec_rt_revokeByGrant g t a)"
  by (auto simp: rows_last_def mark_lasts_def spec_grant_revoke_def spec_at_revoke_def spec_rt_revoke_def
      spec_at_revokeByGrant_def spec_rt_revokeByGrant_def ages_if [where mark = at_mark] ages_if [where mark = rt_mark])
    (auto simp: ages_def)

lemma rows_last_used: "code_used h t a upd a' \<Longrightarrow> rows_last a a'"
  using rows_last_codes(2) by (auto simp: code_used_def split: code_redemption.splits)

lemma pg_sel:
  "st_keys createPgStorage = pg_keys" "st_clients createPgStorage = pg_clients" "st_par createPgStorage = pg_par"
  "st_grants createPgStorage = pg_grants" "st_codes createPgStorage = pg_codes" "st_accessTokens createPgStorage = pg_accessTokens"
  "st_refreshTokens createPgStorage = pg_refreshTokens" "st_interactions createPgStorage = pg_interactions"
  by (simp_all add: createPgStorage_def)

text \<open>Each query moves the tables along \<open>rows_last\<close>.\<close>

lemma reads_last: "obeys pg_ok pg_view m (reads f) \<Longrightarrow> moves pg_ok pg_view rows_last m"
  by (erule moves_obeys) auto

lemma insert_request_last: "moves pg_ok pg_view rows_last (par_insert pg_par p)"
proof (rule moves_obeys [OF pg_par_insert [unfolded pg_sel]])
  fix a a' and x :: unit
  assume "\<exists>p'. keeps_request p p' \<and> a_par a (par_requestUri p) = None \<and> a' = spec_par_insert p' a"
  then obtain p' where "keeps_request p p'" "a_par a (par_requestUri p) = None" "a' = spec_par_insert p' a" by blast
  then show "rows_last a a'" by (auto intro!: rows_last_par dest: keeps_requestD)
qed simp

lemma query_last:
  "moves pg_ok pg_view rows_last (cl_findById pg_clients i)"
  "moves pg_ok pg_view rows_last (par_peek pg_par u t)"
  "moves pg_ok pg_view rows_last (par_consume pg_par u t)"
  "moves pg_ok pg_view rows_last (grant_insert pg_grants g)"
  "moves pg_ok pg_view rows_last (grant_find pg_grants i)"
  "moves pg_ok pg_view rows_last (grant_revoke pg_grants i t)"
  "moves pg_ok pg_view rows_last (code_insert pg_codes c)"
  "moves pg_ok pg_view rows_last (code_use h t)"
  "moves pg_ok pg_view rows_last (code_look h)"
  using reads_last [OF pg.cl_findById] reads_last [OF pg.par_peek]
    moves_obeys [OF pg.par_consume, of rows_last] moves_obeys [OF pg_grant_insert, of rows_last] reads_last [OF pg.grant_find]
    moves_obeys [OF pg.grant_revoke, of rows_last] moves_obeys [OF pg_code_insert, of rows_last]
    moves_obeys [OF pg_code_use, of rows_last] moves_obeys [OF pg_code_look, of rows_last]
  by (auto simp: pg_sel code_found_def rows_last_par rows_last_inserts rows_last_revokes rows_last_codes rows_last_used)

lemma token_query_last:
  "moves pg_ok pg_view rows_last (at_insert pg_accessTokens a)"
  "moves pg_ok pg_view rows_last (at_findByJti pg_accessTokens j)"
  "moves pg_ok pg_view rows_last (at_revoke pg_accessTokens j t)"
  "moves pg_ok pg_view rows_last (at_revokeByGrant pg_accessTokens i t)"
  "moves pg_ok pg_view rows_last (rt_insert pg_refreshTokens w)"
  "moves pg_ok pg_view rows_last (rt_findByHash pg_refreshTokens h)"
  "moves pg_ok pg_view rows_last (rt_revoke pg_refreshTokens h t)"
  "moves pg_ok pg_view rows_last (rt_revokeByGrant pg_refreshTokens i t)"
  using moves_obeys [OF pg_at_insert, of rows_last] reads_last [OF pg.at_findByJti] moves_obeys [OF pg.at_revoke, of rows_last]
    moves_obeys [OF pg.at_revokeByGrant, of rows_last] moves_obeys [OF pg_rt_insert, of rows_last]
    reads_last [OF pg.rt_findByHash] moves_obeys [OF pg.rt_revoke, of rows_last] moves_obeys [OF pg.rt_revokeByGrant, of rows_last]
  by (auto simp: pg_sel rows_last_inserts rows_last_revokes)

lemma int_writes: "rows_last a (spec_int_setSubject i sub t acr amr a)" "rows_last a (spec_int_complete i t a)"
  by (simp_all add: spec_int_setSubject_def spec_int_complete_def split: option.split prod.split)

lemma int_query_last:
  "moves pg_ok pg_view rows_last (int_add n)"
  "moves pg_ok pg_view rows_last (int_find pg_interactions i t)"
  "moves pg_ok pg_view rows_last (int_setSubject pg_interactions i sub t acr amr)"
  "moves pg_ok pg_view rows_last (int_complete pg_interactions i t)"
  using moves_obeys [OF pg_int_add, of rows_last] reads_last [OF pg.int_find] moves_obeys [OF pg.int_setSubject, of rows_last]
    moves_obeys [OF pg.int_complete, of rows_last]
  by (auto simp: pg_sel int_writes)

lemma jti_query_last: "moves pg_ok pg_view rows_last (jti_claim cx j e t)"
  by (rule moves_obeys [OF pg_jti_insert]) (auto dest: spec_jti_same_tables intro: rows_last_same)

lemma reap_last:
  "moves pg_ok pg_view rows_last (reap prob ''jti_replay'' t)" "moves pg_ok pg_view rows_last (reap prob ''interactions'' t)"
  by (rule moves_mono [OF jti_reap], blast intro: rows_last_same spec_jti_same_tables)
    (rule moves_mono [OF interactions_reap], auto simp: spec_int_sweep_def)

lemma key_query_last:
  "moves pg_ok pg_view rows_last (sk_list pg_keys)" "moves pg_ok pg_view rows_last (sk_insert pg_keys k)"
  "moves pg_ok pg_view rows_last (sk_setStatus pg_keys kid status ret)"
  using quiet_moves [OF pg.sk_list, of rows_last] quiet_moves [OF pg.sk_insert, of rows_last]
    quiet_moves [OF pg.sk_setStatus, of rows_last] by (simp_all add: pg_sel)

lemma moves_snd: "moves ok view T m \<Longrightarrow> ok s \<Longrightarrow> ok (snd (m s)) \<and> T (view s) (view (snd (m s)))"
  by (cases "m s") (auto dest: movesD)

lemma pg_step_last: "pg_step s s' \<Longrightarrow> pg_ok s \<Longrightarrow> pg_ok s' \<and> rows_last (pg_view s) (pg_view s')"
proof (induction rule: pg_step.induct)
  case (elapse s now fs rs)
  then show ?case by (simp add: pg_ok_def pg_view_def)
qed (rule moves_snd; (rule query_last token_query_last int_query_last jti_query_last reap_last key_query_last
      insert_request_last | assumption))+

lemma pg_steps_last: "pg_step\<^sup>*\<^sup>* s s' \<Longrightarrow> pg_ok s \<Longrightarrow> pg_ok s' \<and> rows_last (pg_view s) (pg_view s')"
proof (induction rule: rtranclp_induct)
  case (step s1 s2)
  with pg_step_last [OF step.hyps(2)] show ?case by (blast intro: transpD [OF transp_rows_last])
qed simp

section \<open>Races for one code\<close>

lemma used_code_stays:
  assumes "pg_ok s" and "code_use h t s = (Inr upd, s1)" and "rs_rows upd = r # rows"
  shows "pg_ok s1" and "a_codes (pg_view s1) h = Some (codeRowToRecord r, Some t)" and "rows = []"
proof -
  from obeysD [OF pg_code_use assms(1,2)] have "pg_ok s1" "code_used h t (pg_view s) upd (pg_view s1)" by blast+
  with assms(3) show "pg_ok s1" "a_codes (pg_view s1) h = Some (codeRowToRecord r, Some t)" "rows = []"
    by (auto simp: code_used_def spec_code_redeem_def split: code_redemption.splits)
qed

lemma used_code_later:
  assumes "pg_ok s" and "a_codes (pg_view s) h = Some (c, Some t)" and "pg_step\<^sup>*\<^sup>* s s'"
  shows "pg_ok s' \<and> a_codes (pg_view s') h = Some (c, Some t)"
proof -
  from pg_steps_last [OF assms(3,1)] have "pg_ok s'" "row_lasts (a_codes (pg_view s) h) (a_codes (pg_view s') h)"
    by (auto simp: rows_last_def)
  with assms(2) show ?thesis by (auto simp: row_lasts_def uses_def)
qed

text \<open>Property C13. The PostgreSQL adapter refines the abstract store: on every well-formed database each of its operations
  keeps the database well formed and, if it returns, acts on the view of the database as the specification of the
  operation says; if it throws, for whatever reason the database or the connection gives, the view is as it was or, where
  only the reply was lost, as the operation makes it, expired rows aside.\<close>

theorem postgres_refines_store: "storage_contract createPgStorage pg_view pg_ok"
  by (rule pg.storage_contract_axioms)

text \<open>Property C14. However the queries of concurrent requests interleave, a code is used once: after one request has used
  it, the query of another finds nothing to use, and its second query, whenever it comes, finds the code used, so
  that the replay is seen.\<close>

theorem postgres_code_used_once:
  assumes "pg_ok s" and "code_use h t s = (Inr upd, s1)" and "rs_rows upd = r # rows"
    and "pg_step\<^sup>*\<^sup>* s1 s2" and "code_use h t' s2 = (Inr upd', s3)"
    and "pg_step\<^sup>*\<^sup>* s3 s4" and "code_look h s4 = (Inr sel, s5)"
  shows "rs_rows upd' = [] \<and> map codeRowToRecord (rs_rows sel) = [codeRowToRecord r]"
proof -
  note first = used_code_stays [OF assms(1-3)]
  from used_code_later [OF first(1,2) assms(4)] have s2: "pg_ok s2" "a_codes (pg_view s2) h = Some (codeRowToRecord r, Some t)"
    by blast+
  from obeysD [OF pg_code_use s2(1) assms(5)] have u: "pg_ok s3" "code_used h t' (pg_view s2) upd' (pg_view s3)" by blast+
  with s2(2) have e: "rs_rows upd' = []" "a_codes (pg_view s3) h = Some (codeRowToRecord r, Some t)"
    by (auto simp: code_used_def spec_code_redemption_def)
  from used_code_later [OF u(1) e(2) assms(6)] have s4: "pg_ok s4" "a_codes (pg_view s4) h = Some (codeRowToRecord r, Some t)"
    by blast+
  from obeysD [OF pg_code_look s4(1) assms(7)] s4(2) e(1) show ?thesis by (auto simp: code_found_def)
qed

definition sample_uuid :: string where
  "sample_uuid = ''00000000-0000-4000-8000-000000000000''"

definition sample_code_row :: row where
  "sample_code_row =
     [''code_hash'' \<mapsto> SText ''h'', ''grant_id'' \<mapsto> SText sample_uuid, ''client_id'' \<mapsto> SText ''c'',
      ''redirect_uri'' \<mapsto> SText ''https://c/cb'', ''code_challenge'' \<mapsto> SText ''x'',
      ''code_challenge_method'' \<mapsto> SText ''S256'', ''dpop_jkt'' \<mapsto> SNull, ''nonce'' \<mapsto> SNull,
      ''expires_at'' \<mapsto> STime 2000, ''consumed_at'' \<mapsto> SNull]"

definition sample_pg :: pg_state where
  "sample_pg = \<lparr>pg_db = (\<lambda>t. if t = ''authorization_codes'' then [sample_code_row] else []), pg_clock = 1000,
     pg_faults = [], pg_random = []\<rparr>"

lemma sample_pg_ok: "pg_ok sample_pg"
  by (simp add: pg_ok_def db_ok_def sample_pg_def table_ok_def typed_def authorization_codes_table_def has_type_def
      sample_code_row_def)

lemmas pg_eval = pool_query_def query_fault_def query_then_def Let_def bindR_def bindE_def returnE_def throwIfR_def param_for_def type_of_def
  encode_def update_rows_def insert_row_def required_ok_def single_ok_def refs_ok_def default_row_def key_of_def project_def

definition sample_used_pg :: pg_state where
  "sample_used_pg = sample_pg
     \<lparr>pg_db := (pg_db sample_pg)(''authorization_codes'' := [sample_code_row(''consumed_at'' \<mapsto> STime 1000)])\<rparr>"

lemma sample_code_use:
  "code_use ''h'' 1000 sample_pg =
     (Inr \<lparr>rs_rows = [sample_code_row(''consumed_at'' \<mapsto> STime 1000)], rs_count = 1\<rparr>, sample_used_pg)"
  by (simp add: code_use_def pg_eval sample_pg_def sample_used_pg_def sample_code_row_def authorization_codes_table_def fun_upd_def)

lemma sample_code_use_again: "code_use ''h'' 1500 sample_used_pg = (Inr \<lparr>rs_rows = [], rs_count = 0\<rparr>, sample_used_pg)"
  by (simp add: code_use_def pg_eval sample_pg_def sample_used_pg_def sample_code_row_def authorization_codes_table_def)

lemma sample_code_look:
  "code_look ''h'' sample_used_pg =
     (Inr \<lparr>rs_rows = [sample_code_row(''consumed_at'' \<mapsto> STime 1000)], rs_count = 1\<rparr>, sample_used_pg)"
  by (simp add: code_look_def pg_eval sample_pg_def sample_used_pg_def sample_code_row_def authorization_codes_table_def)

lemma postgres_code_used_once_witness:
  "\<exists>s1 s2. fst (code_use ''h'' 1000 sample_pg) \<noteq> Inr \<lparr>rs_rows = [], rs_count = 0\<rparr> \<and>
     code_use ''h'' 1000 sample_pg = (Inr s1, sample_used_pg) \<and> code_look ''h'' sample_used_pg = (Inr s2, sample_used_pg) \<and>
     map codeRowToRecord (rs_rows s2) = map codeRowToRecord (rs_rows s1)"
  using postgres_code_used_once [OF sample_pg_ok sample_code_use _ _ sample_code_use_again _ sample_code_look]
  by (simp add: sample_code_use sample_code_look)

text \<open>Property C15. Whatever queries any number of requests send, in whatever order and with whatever failures: the database
  stays well formed, a grant or a token that is revoked stays as it is, and so does a code or a pushed request that is
  used.\<close>

theorem postgres_marks_last:
  assumes "pg_ok s" and "pg_step\<^sup>*\<^sup>* s s'"
  shows "pg_ok s' \<and>
    (\<forall>g r. a_grants (pg_view s) g = Some r \<longrightarrow> grant_revokedAt r \<noteq> None \<longrightarrow> a_grants (pg_view s') g = Some r) \<and>
    (\<forall>j r. a_at (pg_view s) j = Some r \<longrightarrow> at_revokedAt r \<noteq> None \<longrightarrow> a_at (pg_view s') j = Some r) \<and>
    (\<forall>h r. a_rt (pg_view s) h = Some r \<longrightarrow> rt_revokedAt r \<noteq> None \<longrightarrow> a_rt (pg_view s') h = Some r) \<and>
    (\<forall>h c t. a_codes (pg_view s) h = Some (c, Some t) \<longrightarrow> a_codes (pg_view s') h = Some (c, Some t)) \<and>
    (\<forall>u p t. a_par (pg_view s) u = Some (p, Some t) \<longrightarrow> a_par (pg_view s') u = Some (p, Some t))"
proof -
  from pg_steps_last [OF assms(2,1)] have "pg_ok s'" and l: "rows_last (pg_view s) (pg_view s')" by blast+
  have "a_grants (pg_view s') g = Some r" if "a_grants (pg_view s) g = Some r" "grant_revokedAt r \<noteq> None" for g r
    using l that by (auto simp: rows_last_def mark_lasts_def ages_def grant_mark_def dest!: spec [of _ g])
  moreover have "a_at (pg_view s') j = Some r" if "a_at (pg_view s) j = Some r" "at_revokedAt r \<noteq> None" for j r
    using l that by (auto simp: rows_last_def mark_lasts_def ages_def at_mark_def dest!: spec [of _ j])
  moreover have "a_rt (pg_view s') h = Some r" if "a_rt (pg_view s) h = Some r" "rt_revokedAt r \<noteq> None" for h r
    using l that by (auto simp: rows_last_def mark_lasts_def ages_def rt_mark_def dest!: spec [of _ h])
  moreover have "a_codes (pg_view s') h = Some (c, Some t)" if "a_codes (pg_view s) h = Some (c, Some t)" for h c t
    using used_code_later [OF assms(1) that assms(2)] by blast
  moreover have "a_par (pg_view s') u = Some (p, Some t)" if "a_par (pg_view s) u = Some (p, Some t)" for u p t
    using l that by (auto simp: rows_last_def row_lasts_def uses_def dest!: spec [of _ u])
  ultimately show ?thesis using \<open>pg_ok s'\<close> by blast
qed

lemma sample_used_pg_ok: "pg_ok sample_used_pg"
  using obeysD [OF pg_code_use sample_pg_ok sample_code_use] by blast

lemma sample_used_view: "a_codes (pg_view sample_used_pg) ''h'' = Some (codeRowToRecord sample_code_row, Some 1000)"
  by (simp add: pg_view_def db_view_sel sample_used_pg_def sample_pg_def at_key_def sample_code_row_def codeRowToRecord_def
      as_text_def as_text_opt_def as_time_def as_time_opt_def)

lemma postgres_marks_last_witness:
  "a_codes (pg_view (snd (code_insert pg_codes (codeRowToRecord sample_code_row) sample_used_pg))) ''h'' =
     Some (codeRowToRecord sample_code_row, Some 1000)"
  using postgres_marks_last [OF sample_used_pg_ok r_into_rtranclp [of pg_step, OF insert_code]] sample_used_view by blast

text \<open>Nothing ties the insertion of a token to its grant being alive: when the replay of a code revokes a grant
  and its tokens while the first exchange, which has found the grant alive, is still signing, the token that is then
  inserted is live although its grant is revoked, and whatever follows short of a further revocation leaves it so.\<close>

theorem postgres_late_token_lives:
  assumes "pg_ok s" and "a_grants (pg_view s) g \<noteq> None" and "grant_revoke pg_grants g t s = (Inr (), s1)"
    and "at_revokeByGrant pg_accessTokens g t s1 = (Inr (), s2)" and "rt_revokeByGrant pg_refreshTokens g t s2 = (Inr (), s3)"
    and "at_insert pg_accessTokens a s3 = (Inr (), s4)" and "at_grantId a = g" and "at_revokedAt a = None"
  shows "a_at (pg_view s4) (at_jti a) = Some a \<and>
    (\<exists>r. a_grants (pg_view s4) (at_grantId a) = Some r \<and> grant_revokedAt r \<noteq> None)"
proof -
  from obeysD [OF pg.grant_revoke assms(1) assms(3) [folded pg_sel]]
  have s1: "pg_ok s1" "pg_view s1 = spec_grant_revoke g t (pg_view s)" by blast+
  from obeysD [OF pg.at_revokeByGrant s1(1) assms(4) [folded pg_sel]]
  have s2: "pg_ok s2" "pg_view s2 = spec_at_revokeByGrant g t (pg_view s1)" by blast+
  from obeysD [OF pg.rt_revokeByGrant s2(1) assms(5) [folded pg_sel]]
  have s3: "pg_ok s3" "pg_view s3 = spec_rt_revokeByGrant g t (pg_view s2)" by blast+
  from obeysD [OF pg.at_insert s3(1) assms(6) [folded pg_sel]] have v: "pg_view s4 = spec_at_insert a (pg_view s3)" by blast
  from assms(2) obtain r where "a_grants (pg_view s) g = Some r" by blast
  then have "a_grants (pg_view s4) (at_grantId a) = Some (grant_mark t r)" "a_at (pg_view s4) (at_jti a) = Some a"
    using assms(7) by (simp_all add: v s3(2) s2(2) s1(2) spec_defs)
  then show ?thesis using marks(1) by blast
qed

text \<open>The race on a small database.\<close>

definition sample_race_pg :: pg_state where
  "sample_race_pg = sample_used_pg
     \<lparr>pg_db := (pg_db sample_used_pg)(''grants'' :=
        [[''grant_id'' \<mapsto> SText sample_uuid, ''client_id'' \<mapsto> SText ''c'', ''subject'' \<mapsto> SText ''alice'',
          ''scope'' \<mapsto> SText ''openid'', ''auth_time'' \<mapsto> STime 900, ''created_at'' \<mapsto> STime 950, ''revoked_at'' \<mapsto> SNull]])\<rparr>"

definition sample_late_token :: at_rec where
  "sample_late_token = \<lparr>at_jti = ''J'', at_grantId = sample_uuid, at_clientId = ''c'', at_subject = ''alice'',
     at_scope = ''openid'', at_cnfJkt = Some ''k'', at_expiresAt = 5000, at_revokedAt = None\<rparr>"

lemma sample_race_ok: "pg_ok sample_race_pg"
  using sample_used_pg_ok
  by (auto simp: pg_ok_def db_ok_def sample_race_pg_def table_ok_def typed_def grants_table_def has_type_def)

lemma sample_race_grant: "a_grants (pg_view sample_race_pg) sample_uuid \<noteq> None"
  by (simp add: pg_view_def db_view_sel sample_race_pg_def at_key_def)

lemma sample_is_uuid: "is_uuid sample_uuid"
  by code_simp

lemma postgres_late_token_lives_witness:
  "\<exists>s1 s2 s3 s4. grant_revoke pg_grants sample_uuid 1500 sample_race_pg = (Inr (), s1) \<and>
     at_revokeByGrant pg_accessTokens sample_uuid 1500 s1 = (Inr (), s2) \<and>
     rt_revokeByGrant pg_refreshTokens sample_uuid 1500 s2 = (Inr (), s3) \<and>
     at_insert pg_accessTokens sample_late_token s3 = (Inr (), s4) \<and>
     a_at (pg_view s4) ''J'' = Some sample_late_token"
proof -
  note tables = grants_table_def access_tokens_table_def refresh_tokens_table_def sample_race_pg_def sample_used_pg_def sample_pg_def
    sample_is_uuid ignored_def at_columns_def sample_late_token_def opt_str_def opt_date_def
  obtain s1 s2 s3 s4 where "grant_revoke pg_grants sample_uuid 1500 sample_race_pg = (Inr (), s1)"
    "at_revokeByGrant pg_accessTokens sample_uuid 1500 s1 = (Inr (), s2)"
    "rt_revokeByGrant pg_refreshTokens sample_uuid 1500 s2 = (Inr (), s3)"
    "at_insert pg_accessTokens sample_late_token s3 = (Inr (), s4)"
    by (simp add: pg_grants_def pg_accessTokens_def pg_refreshTokens_def pg_eval tables)
  with postgres_late_token_lives [OF sample_race_ok sample_race_grant this] show ?thesis
    by (auto simp: sample_late_token_def)
qed

end
