(* ===== verification/PgIntegrity.thy ===== *)
theory PgIntegrity
  imports PgInterleaving
begin

text \<open>
  The constraints of the schema along every interleaving of queries: a row refers only to rows that exist, and at most
  one signing key is active. The database checks a row when it is written; that it stays so needs that no statement of
  the adapter deletes a row others refer to, nor assigns to a column that is a reference or is referred to.
\<close>

section \<open>Constraints\<close>

definition refs_hold :: "schema \<Rightarrow> database \<Rightarrow> bool" where
  "refs_hold sch db \<longleftrightarrow> (\<forall>name. \<forall>r \<in> set (db name). refs_ok (sch name) db r)"

definition single_hold :: "schema \<Rightarrow> database \<Rightarrow> bool" where
  "single_hold sch db \<longleftrightarrow> (\<forall>name. single_ok (sch name) (db name))"

text \<open>A column that takes part in no reference of the table or to it.\<close>

definition free_column :: "schema \<Rightarrow> string \<Rightarrow> string \<Rightarrow> bool" where
  "free_column sch name c \<longleftrightarrow> c \<notin> fst ` set (ts_refs (sch name)) \<and> (\<forall>other. (c, name) \<notin> set (ts_refs (sch other)))"

fun keeps_refs :: "schema \<Rightarrow> statement \<Rightarrow> bool" where
  "keeps_refs sch (Insert name cols (Conflict_update sets c)) \<longleftrightarrow> (\<forall>k \<in> fst ` set sets. free_column sch name k)"
| "keeps_refs sch (Update name sets c returning) \<longleftrightarrow> (\<forall>k \<in> fst ` set sets. free_column sch name k)"
| "keeps_refs sch (Delete_some name c n) \<longleftrightarrow> (\<forall>other k. (k, name) \<notin> set (ts_refs (sch other)))"
| "keeps_refs sch _ \<longleftrightarrow> True"

lemma refs_ok_iff: "refs_ok t db r \<longleftrightarrow> (\<forall>(c, other) \<in> set (ts_refs t). \<exists>o' \<in> set (db other). o' c = r c)"
  by (auto simp: refs_ok_def list_all_iff list_ex_iff)

lemma insert_row_refs:
  assumes "insert_row (sch name) db name r = Inr db'" and "refs_hold sch db"
  shows "refs_hold sch db'"
proof -
  from assms(1) have d: "db' = db(name := db name @ [r])" "refs_ok (sch name) db r" by (auto simp: insert_row_def act_iff)
  have grow: "refs_ok t db q \<Longrightarrow> refs_ok t db' q" for t q unfolding refs_ok_iff d(1) by fastforce
  show ?thesis unfolding refs_hold_def
  proof (intro allI ballI)
    fix n q assume "q \<in> set (db' n)"
    then have "q \<in> set (db n) \<or> n = name \<and> q = r" by (auto simp: d(1) split: if_splits)
    with assms(2) d(2) grow show "refs_ok (sch n) db' q" by (auto simp: refs_hold_def)
  qed
qed

lemma update_rows_refs:
  assumes "update_rows (sch name) db name p f = Inr db'" and "refs_hold sch db"
    and f: "\<And>r k. \<not> free_column sch name k \<Longrightarrow> f r k = r k"
  shows "refs_hold sch db'"
proof -
  let ?g = "\<lambda>r. if p r then f r else r"
  from assms(1) have d: "db' = db(name := map ?g (db name))" by (auto simp: update_rows_def Let_def act_iff)
  have g: "\<not> free_column sch name k \<Longrightarrow> ?g r k = r k" for r k using f by simp
  have moved: "\<exists>o'' \<in> set (db' other). o'' k = o' k" if "o' \<in> set (db other)" "(k, other) \<in> set (ts_refs (sch n))" for o' other k n
  proof (cases "other = name")
    case True
    have "\<not> free_column sch name k" using that(2) by (auto simp: True free_column_def)
    with that(1) g True have "?g o' \<in> set (db' other)" "?g o' k = o' k" by (auto simp: d)
    then show ?thesis by blast
  next
    case False
    with that(1) show ?thesis by (auto simp: d)
  qed
  show ?thesis unfolding refs_hold_def
  proof (intro allI ballI)
    fix n q assume "q \<in> set (db' n)"
    then obtain r where r: "r \<in> set (db n)" "q = (if n = name then ?g r else r)" by (auto simp: d split: if_splits)
    show "refs_ok (sch n) db' q" unfolding refs_ok_iff
    proof (intro ballI, clarify)
      fix k other assume k: "(k, other) \<in> set (ts_refs (sch n))"
      from assms(2) r(1) k obtain o' where o': "o' \<in> set (db other)" "o' k = r k"
        unfolding refs_hold_def refs_ok_iff by fastforce
      have "q k = r k"
      proof (cases "n = name")
        case True
        have "\<not> free_column sch name k" using k True by (force simp: free_column_def)
        with g r(2) True show ?thesis by simp
      qed (simp add: r(2))
      with moved [OF o'(1) k] o'(2) show "\<exists>o' \<in> set (db' other). o' k = q k" by simp
    qed
  qed
qed

lemma bind_sets_free:
  assumes "bind_sets t now ps sets = Inr f" and "\<forall>k \<in> fst ` set sets. free_column sch name k"
  shows "\<not> free_column sch name k \<Longrightarrow> f new r k = r k"
  using bind_sets_other [OF assms(1), of k new r] assms(2) by blast

lemma execute_insertE:
  assumes "execute sch now ps (Insert name cols conflict) db = Inr (res, db')"
  obtains (added) new where "insert_row (sch name) db name new = Inr db'"
    | (updated) sets c p f new where "conflict = Conflict_update sets c" and "bind_sets (sch name) now ps sets = Inr f"
        and "update_rows (sch name) db name p (f new) = Inr db'"
proof (cases conflict)
  case Conflict_error
  with assms added show thesis by (auto simp: act_iff Let_def)
next
  case (Conflict_update sets c)
  with assms obtain vs where vs: "bind_values (sch name) ps 1 cols = Inr vs" by (auto simp: act_iff)
  let ?new = "default_row (sch name) now ++ map_of vs"
  show thesis
    by (cases "list_ex (\<lambda>r. key_of (sch name) r = key_of (sch name) ?new) (db name)")
      (use assms vs Conflict_update in \<open>auto simp: act_iff Let_def intro: added updated\<close>)
qed

lemma execute_refs:
  assumes run: "execute sch now ps st db = Inr (res, db')" and "keeps_refs sch st" and ok: "refs_hold sch db"
  shows "refs_hold sch db'"
proof (cases st)
  case (Select cols name c order)
  with run ok show ?thesis by (auto simp: act_iff Let_def)
next
  case (Insert name cols conflict)
  show ?thesis
  proof (rule execute_insertE [OF run [unfolded Insert]])
    fix new assume "insert_row (sch name) db name new = Inr db'"
    from insert_row_refs [OF this ok] show ?thesis .
  next
    fix sets c p f new
    assume c: "conflict = Conflict_update sets c" and f: "bind_sets (sch name) now ps sets = Inr f"
      and u: "update_rows (sch name) db name p (f new) = Inr db'"
    have "\<forall>k \<in> fst ` set sets. free_column sch name k" using assms(2) by (simp add: Insert c)
    with update_rows_refs [OF u ok] bind_sets_free [OF f] show ?thesis by blast
  qed
next
  case (Update name sets c returning)
  from run obtain p f where f: "bind_sets (sch name) now ps sets = Inr f"
    "update_rows (sch name) db name p (\<lambda>r. f r r) = Inr db'" by (auto simp: Update act_iff Let_def)
  have "\<forall>k \<in> fst ` set sets. free_column sch name k" using assms(2) by (simp add: Update)
  with update_rows_refs [OF f(2) ok] bind_sets_free [OF f(1)] show ?thesis by blast
next
  case (Delete_some name c n)
  from run obtain p where d: "db' = db(name := drop_first n p (db name))" by (auto simp: Delete_some act_iff Let_def)
  have "refs_ok (sch m) db' r" if r: "r \<in> set (db' m)" for m r
  proof -
    have "r \<in> set (db m)" using r set_drop_first [of n p "db name"] by (auto simp: d split: if_splits)
    with ok have "refs_ok (sch m) db r" by (simp add: refs_hold_def)
    moreover have "db' other = db other" if "(k, other) \<in> set (ts_refs (sch m))" for k other
      using that assms(2) by (auto simp: d Delete_some)
    ultimately show ?thesis unfolding refs_ok_iff by fastforce
  qed
  then show ?thesis by (simp add: refs_hold_def)
next
  case Select_one
  with run ok show ?thesis by simp
qed

lemma single_drop: "single_ok t rows \<Longrightarrow> single_ok t (drop_first n p rows)"
proof -
  have "length (filter P (drop_first n p rows)) \<le> length (filter P rows)" for P
    by (induction n p rows rule: drop_first.induct) auto
  then show "single_ok t rows \<Longrightarrow> single_ok t (drop_first n p rows)"
    by (auto simp: single_ok_def split: option.splits prod.splits intro: order_trans)
qed

lemma execute_single:
  assumes run: "execute sch now ps st db = Inr (res, db')" and ok: "single_hold sch db"
  shows "single_hold sch db'"
proof -
  have ins: "single_hold sch db'" if "insert_row (sch name) db name r = Inr db'" for name r
    using that ok by (auto simp: insert_row_def act_iff single_hold_def)
  have upd: "single_hold sch db'" if "update_rows (sch name) db name p f = Inr db'" for name p f
    using that ok by (auto simp: update_rows_def Let_def act_iff single_hold_def)
  show ?thesis
  proof (cases st)
    case (Insert name cols conflict)
    show ?thesis by (rule execute_insertE [OF run [unfolded Insert]]) (blast intro: ins upd)+
  next
    case (Delete_some name c n)
    with run ok show ?thesis by (auto simp: act_iff Let_def single_hold_def single_drop)
  qed (use run ok upd in \<open>auto simp: act_iff Let_def\<close>)
qed

section \<open>The statements of the adapter\<close>

lemma pg_refs: "set (ts_refs (pg_schema name)) \<subseteq> {(''client_id'', ''clients''), (''grant_id'', ''grants'')}"
  by (simp add: pg_schema_def table_defs split: option.split)

lemma pg_free_column: "c \<notin> {''client_id'', ''grant_id''} \<Longrightarrow> free_column pg_schema name c"
  using pg_refs by (fastforce simp: free_column_def)

lemma pg_not_referenced: "name \<notin> {''clients'', ''grants''} \<Longrightarrow> (k, name) \<notin> set (ts_refs (pg_schema other))"
  using pg_refs by fastforce

definition pg_whole :: "pg_state \<Rightarrow> bool" where
  "pg_whole s \<longleftrightarrow> refs_hold pg_schema (pg_db s) \<and> single_hold pg_schema (pg_db s)"

lemma pool_query_whole: "keeps_refs pg_schema st \<Longrightarrow> pg_whole s \<Longrightarrow> pg_whole (snd (pool_query st ps s))"
  by (auto simp: pool_query_def Let_def pg_whole_def split: sum.split intro: execute_refs execute_single)

lemma query_then_whole: "keeps_refs pg_schema st \<Longrightarrow> pg_whole s \<Longrightarrow> pg_whole (snd (query_then st ps f s))"
  using pool_query_whole [of st s ps]
  by (auto simp: query_then_def bindE_def returnE_def split: prod.splits sum.splits)

lemma reap_whole:
  assumes "table \<notin> {''clients'', ''grants''}" and "pg_whole s"
  shows "pg_whole (snd (reap prob table t s))"
proof -
  let ?st = "Delete_some table (Up_to ''expires_at'' 1) 1000"
  have k: "keeps_refs pg_schema ?st" using pg_not_referenced [OF assms(1)] by simp
  obtain r s1 where m: "math_random s = (Inr r, s1)" and d: "pg_db s1 = pg_db s" by (simp add: math_random_def)
  have "pg_whole s1" using assms(2) d by (simp add: pg_whole_def)
  from pool_query_whole [OF k this, of "[PDate t]"] m \<open>pg_whole s1\<close> show ?thesis
    by (auto simp: reap_def bindE_def returnE_def split: prod.splits sum.splits)
qed

lemmas pg_ops = pg_clients_def pg_par_def pg_grants_def pg_codes_def pg_accessTokens_def pg_refreshTokens_def
  pg_interactions_def pg_keys_def code_use_def code_look_def jti_claim_def int_add_def
  client_repo.select_convs par_repo.select_convs grant_repo.select_convs code_repo.select_convs at_repo.select_convs
  rt_repo.select_convs int_repo.select_convs signing_key_repo.select_convs

lemma pg_step_whole: "pg_step s s' \<Longrightarrow> pg_whole s \<Longrightarrow> pg_whole s'"
proof (induction rule: pg_step.induct)
  case (elapse s now fs rs)
  then show ?case by (simp add: pg_whole_def)
next
  case (reap_jti prob t s)
  then show ?case by (simp add: reap_whole)
next
  case (reap_interactions prob t s)
  then show ?case by (simp add: reap_whole)
qed (unfold pg_ops, (rule query_then_whole pool_query_whole; simp add: pg_free_column)+)

lemma pg_steps_whole: "pg_step\<^sup>*\<^sup>* s s' \<Longrightarrow> pg_whole s \<Longrightarrow> pg_whole s'"
  by (induction rule: rtranclp_induct) (auto intro: pg_step_whole)

text \<open>Property C17. Along every interleaving of queries the constraints of the schema hold: every code and every token belongs to a
  grant that exists, every grant, pushed request and interaction to a client that exists, and no two signing
  keys are active at once, so a concurrent rotation cannot leave two.\<close>

theorem postgres_constraints_hold:
  assumes "pg_whole s" and "pg_step\<^sup>*\<^sup>* s s'"
  shows "(\<forall>name \<in> {''authorization_codes'', ''access_tokens'', ''refresh_tokens''}. \<forall>r \<in> set (pg_db s' name).
            \<exists>g \<in> set (pg_db s' ''grants''). g ''grant_id'' = r ''grant_id'') \<and>
    (\<forall>name \<in> {''grants'', ''par_requests'', ''interactions''}. \<forall>r \<in> set (pg_db s' name).
            \<exists>c \<in> set (pg_db s' ''clients''). c ''client_id'' = r ''client_id'') \<and>
    length (filter (\<lambda>r. r ''status'' = Some (SText ''active'')) (pg_db s' ''signing_keys'')) \<le> 1"
proof -
  from pg_steps_whole [OF assms(2,1)] have refs: "refs_ok (pg_schema name) (pg_db s') r" if "r \<in> set (pg_db s' name)" for name r
    using that by (simp add: pg_whole_def refs_hold_def)
  from pg_steps_whole [OF assms(2,1)] have "single_ok signing_keys_table (pg_db s' ''signing_keys'')"
    by (metis pg_whole_def single_hold_def pg_schema_simps(2))
  moreover have "\<exists>g \<in> set (pg_db s' ''grants''). g ''grant_id'' = r ''grant_id''"
    if "name \<in> {''authorization_codes'', ''access_tokens'', ''refresh_tokens''}" "r \<in> set (pg_db s' name)" for name r
    using refs [OF that(2)] that(1) by (auto simp: refs_ok_iff table_defs)
  moreover have "\<exists>c \<in> set (pg_db s' ''clients''). c ''client_id'' = r ''client_id''"
    if "name \<in> {''grants'', ''par_requests'', ''interactions''}" "r \<in> set (pg_db s' name)" for name r
    using refs [OF that(2)] that(1) by (auto simp: refs_ok_iff table_defs)
  ultimately show ?thesis by (simp add: single_ok_def signing_keys_table_def)
qed

definition empty_pg :: pg_state where
  "empty_pg = \<lparr>pg_db = (\<lambda>t. []), pg_clock = 0, pg_faults = [], pg_random = []\<rparr>"

definition sample_signing_key :: signing_key where
  "sample_signing_key = \<lparr>sk_kid = ''k'', sk_alg = ''ES256'', sk_status = active, sk_privateJwk = [], sk_publicJwk = [],
     sk_createdAt = 0, sk_retiredAt = None\<rparr>"

lemma empty_pg_whole: "pg_whole empty_pg"
  by (simp add: pg_whole_def refs_hold_def single_hold_def single_ok_def empty_pg_def split: option.split)

lemma postgres_constraints_hold_witness:
  "length (filter (\<lambda>r. r ''status'' = Some (SText ''active''))
     (pg_db (snd (sk_insert pg_keys sample_signing_key (snd (sk_insert pg_keys sample_signing_key empty_pg)))) ''signing_keys'')) \<le> 1"
  using postgres_constraints_hold [OF empty_pg_whole converse_rtranclp_into_rtranclp [of pg_step, OF insert_key
      r_into_rtranclp [of pg_step, OF insert_key]]] by blast

end
