(* ===== verification/CommandLine.thy ===== *)
theory CommandLine
  imports PgIntegrity LoadConfig "HOL-Library.List_Lexorder" "HOL-Library.Char_ord"
begin

text \<open>
  The command line tools (\<open>src/db/migrate.ts\<close>, \<open>seed-clients.ts\<close>, \<open>keys-rotate.ts\<close>) and the shared pool
  (\<open>getPool\<close>, \<open>closePool\<close> of \<open>pool.ts\<close>). What the database does with the text of a migration is a parameter.
\<close>

section \<open>The pool\<close>

record pool_options =
  po_connectionString :: string
  po_max :: nat
  po_connectionTimeoutMillis :: nat
  po_idleTimeoutMillis :: nat
  po_statement_timeout :: nat
  po_query_timeout :: nat
  po_rejectUnauthorized :: "bool option"

definition pool_for :: "string \<Rightarrow> bool \<Rightarrow> pool_options" where
  "pool_for databaseUrl ssl =
     \<lparr>po_connectionString = databaseUrl, po_max = 10, po_connectionTimeoutMillis = 5000, po_idleTimeoutMillis = 30000,
      po_statement_timeout = 10000, po_query_timeout = 10000, po_rejectUnauthorized = (if ssl then Some True else None)\<rparr>"

text \<open>The module keeps one pool: the options of the first call count, until it is closed.\<close>

definition getPool :: "string \<Rightarrow> bool \<Rightarrow> pool_options option \<Rightarrow> pool_options \<times> pool_options option" where
  "getPool databaseUrl ssl pool = (case pool of Some p \<Rightarrow> (p, pool) | None \<Rightarrow> (pool_for databaseUrl ssl, Some (pool_for databaseUrl ssl)))"

definition closePool :: "pool_options option \<Rightarrow> pool_options option" where
  "closePool pool = None"

section \<open>Migrations\<close>

text \<open>The tables, the rows of \<open>schema_migrations\<close> in the order they were added, and what the connection does with the coming
  queries.\<close>

record 'db mig_state =
  mg_tables :: 'db
  mg_applied :: "string list"
  mg_faults :: "fault list"

definition mig_fault :: "'db mig_state \<Rightarrow> fault" where
  "mig_fault s = (case mg_faults s of [] \<Rightarrow> Answered | f # _ \<Rightarrow> f)"

text \<open>A query without effect on the tables. Without its reply the caller cannot go on, whether or not it ran.\<close>

definition mig_query :: "('db mig_state, exn, unit) act" where
  "mig_query =
     (\<lambda>s. (if mig_fault s = Answered then Inr () else Inl (JsExn None), s\<lparr>mg_faults := tl (mg_faults s)\<rparr>))"

definition mig_rows :: "string \<Rightarrow> ('db mig_state, exn, bool) act" where
  "mig_rows file = bindE mig_query (\<lambda>_ s. (Inr (file \<in> set (mg_applied s)), s))"

text \<open>What the client sends from \<open>begin\<close> until before \<open>commit\<close>. A transaction that does not reach its commit has no effect,
  whether or not the \<open>rollback\<close> arrives; if it does not, its error replaces the first one. A commit may run though its reply is
  lost: then the error is thrown although the migration is in place.\<close>

definition mig_exec :: "(string \<Rightarrow> 'db \<Rightarrow> string + 'db) \<Rightarrow> string \<Rightarrow> ('db mig_state, exn, unit) act" where
  "mig_exec exec sql =
     bindE mig_query (\<lambda>_ s.
     case exec sql (mg_tables s) of
       Inl code \<Rightarrow> (Inl (JsExn (Some code)), s)
     | Inr db \<Rightarrow> (Inr (), s\<lparr>mg_tables := db\<rparr>))"

definition mig_log :: "string \<Rightarrow> ('db mig_state, exn, unit) act" where
  "mig_log file =
     bindE mig_query (\<lambda>_ s.
     if file \<in> set (mg_applied s) then (Inl (JsExn (Some ''23505'')), s)
     else (Inr (), s\<lparr>mg_applied := mg_applied s @ [file]\<rparr>))"

definition mig_script :: "(string \<Rightarrow> 'db \<Rightarrow> string + 'db) \<Rightarrow> string \<Rightarrow> string \<Rightarrow> ('db mig_state, exn, unit) act" where
  "mig_script exec sql file =
     bindE mig_query (\<lambda>_. bindE (mig_exec exec sql) (\<lambda>_. mig_log file))"

definition mig_rollback :: "exn \<Rightarrow> ('db mig_state, exn, unit) act" where
  "mig_rollback err = bindE mig_query (\<lambda>_. throwE err)"

definition mig_transaction :: "(string \<Rightarrow> 'db \<Rightarrow> string + 'db) \<Rightarrow> string \<Rightarrow> string \<Rightarrow> ('db mig_state, exn, unit) act" where
  "mig_transaction exec sql file =
     (\<lambda>s. case mig_script exec sql file s of
            (Inl err, s') \<Rightarrow> mig_rollback err (s\<lparr>mg_faults := mg_faults s'\<rparr>)
          | (Inr _, s') \<Rightarrow>
              (case mig_query s' of
                 (Inr u, s'') \<Rightarrow> (Inr u, s'')
               | (Inl err, s'') \<Rightarrow>
                   mig_rollback err (if mig_fault s' = Reply_lost then s'' else s\<lparr>mg_faults := mg_faults s''\<rparr>)))"

definition migrate_file :: "(string \<Rightarrow> 'db \<Rightarrow> string + 'db) \<Rightarrow> (string \<Rightarrow> string) \<Rightarrow> string \<Rightarrow> ('db mig_state, exn, unit) act" where
  "migrate_file exec content file =
     bindE (mig_rows file) (\<lambda>applied.
     if applied then returnE ()
     else bindE mig_query (\<lambda>_. mig_transaction exec (content file) file))"

fun migrate_files :: "(string \<Rightarrow> 'db \<Rightarrow> string + 'db) \<Rightarrow> (string \<Rightarrow> string) \<Rightarrow> string list \<Rightarrow> ('db mig_state, exn, unit) act" where
  "migrate_files exec content [] = returnE ()"
| "migrate_files exec content (file # files) =
     bindE (migrate_file exec content file) (\<lambda>_. migrate_files exec content files)"

definition ends_with :: "string \<Rightarrow> string \<Rightarrow> bool" where
  "ends_with suffix s \<longleftrightarrow> length suffix \<le> length s \<and> drop (length s - length suffix) s = suffix"

text \<open>\<open>directory\<close>: the names \<open>readdir\<close> gives. The names are compared by their characters.\<close>

definition migration_files :: "string list \<Rightarrow> string list" where
  "migration_files directory = sort (filter (ends_with ''.sql'') directory)"

definition runMigrations ::
  "(string \<Rightarrow> 'db \<Rightarrow> string + 'db) \<Rightarrow> (string \<Rightarrow> string) \<Rightarrow> string list \<Rightarrow> ('db mig_state, exn, unit) act" where
  "runMigrations exec content directory =
     bindE mig_query (\<lambda>_. migrate_files exec content (migration_files directory))"

section \<open>Seeding clients\<close>

record seed_entry =
  se_client_id :: string
  se_client_name :: "string option"
  se_metadata :: json

definition z_nullable_string :: "json \<Rightarrow> string option option" where
  "z_nullable_string j = (case j of JNull \<Rightarrow> Some None | JStr s \<Rightarrow> Some (Some s) | _ \<Rightarrow> None)"

definition z_record :: "json \<Rightarrow> json option" where
  "z_record j = (case j of JObj m \<Rightarrow> Some (JObj m) | _ \<Rightarrow> None)"

definition seed_entry_of :: "json \<Rightarrow> seed_entry option" where
  "seed_entry_of j =
     (case j of
        JObj m \<Rightarrow>
          Option.bind (z_required z_string (jget m ''client_id'')) (\<lambda>cid.
          if cid = [] then None
          else Option.bind (z_default None z_nullable_string (jget m ''client_name'')) (\<lambda>name.
               map_option (\<lambda>md. \<lparr>se_client_id = cid, se_client_name = name, se_metadata = md\<rparr>)
                 (z_required z_record (jget m ''metadata''))))
      | _ \<Rightarrow> None)"

text \<open>\<open>seedSchema\<close>\<close>

definition seed_entries :: "json \<Rightarrow> seed_entry list option" where
  "seed_entries = z_array seed_entry_of"

definition seed_record :: "seed_entry \<Rightarrow> client_rec" where
  "seed_record e = \<lparr>cr_clientId = se_client_id e, cr_clientName = se_client_name e, cr_metadata = se_metadata e\<rparr>"

fun seed_all :: "ext \<Rightarrow> 's client_repo \<Rightarrow> seed_entry list \<Rightarrow> ('s, exn, unit) act" where
  "seed_all x repo [] = returnE ()"
| "seed_all x repo (e # es) =
     bindE (liftE (parseClientMetadata x (se_metadata e))) (\<lambda>_.
     bindE (cl_upsert repo (seed_record e)) (\<lambda>_.
     seed_all x repo es))"

definition seedClients :: "ext \<Rightarrow> 's client_repo \<Rightarrow> string \<Rightarrow> ('s, exn, nat) act" where
  "seedClients x repo json =
     (case Option.bind (x_json_parse x json) seed_entries of
        None \<Rightarrow> throwE (JsExn None)
      | Some entries \<Rightarrow> bindE (seed_all x repo entries) (\<lambda>_. returnE (length entries)))"

section \<open>Rotating the signing key\<close>

text \<open>A keystore of its own, over the keys of the PostgreSQL storage.\<close>

definition rotate_stored :: "ext \<Rightarrow> string option \<Rightarrow> key_env \<Rightarrow> key_env \<Rightarrow> (pg_state kstate, exn, string \<times> string) act" where
  "rotate_stored x kek env1 env2 =
     bindE (ensure x kek pg_keys env1) (\<lambda>_.
     bindE activeKid (\<lambda>oldKid.
     bindE (rotate x kek pg_keys env2) (\<lambda>newKid.
     returnE (oldKid, newKid))))"

definition rotateKeys ::
  "ext \<Rightarrow> environment \<Rightarrow> string \<Rightarrow> string \<Rightarrow> key_env \<Rightarrow> key_env \<Rightarrow> (pg_state, exn, string \<times> string) act" where
  "rotateKeys x env sessionBytes nonceBytes env1 env2 =
     (case loadConfig x env sessionBytes nonceBytes of
        Inl e \<Rightarrow> throwE (JsExn None)
      | Inr config \<Rightarrow>
          if cfg_storage config \<noteq> ''postgres'' then throwE (JsExn None)
          else (\<lambda>s. case rotate_stored x (cfg_keystoreKek config) env1 env2 (fresh_keystore, s) of (r, (k, s')) \<Rightarrow> (r, s')))"

section \<open>The programs\<close>

text \<open>The \<open>main\<close> functions, less their logging and the closing of the pool. \<open>argument\<close> is \<open>process.argv[2]\<close>,
  \<open>read\<close> what reading a file gives. A program exits with 1 exactly if its \<open>main\<close> throws.\<close>

definition migrate_main ::
  "ext \<Rightarrow> environment \<Rightarrow> string \<Rightarrow> string \<Rightarrow> (string \<Rightarrow> 'db \<Rightarrow> string + 'db) \<Rightarrow> (string \<Rightarrow> string) \<Rightarrow> string list \<Rightarrow>
    ('db mig_state, exn, unit) act" where
  "migrate_main x env sessionBytes nonceBytes exec content directory =
     (case loadConfig x env sessionBytes nonceBytes of
        Inl e \<Rightarrow> throwE (JsExn None)
      | Inr config \<Rightarrow> runMigrations exec content directory)"

definition seed_main ::
  "ext \<Rightarrow> environment \<Rightarrow> string \<Rightarrow> string \<Rightarrow> string option \<Rightarrow> (string \<Rightarrow> exn + string) \<Rightarrow> (pg_state, exn, nat) act" where
  "seed_main x env sessionBytes nonceBytes argument read =
     (if \<not> truthy argument then throwE (JsExn None)
      else case loadConfig x env sessionBytes nonceBytes of
        Inl e \<Rightarrow> throwE (JsExn None)
      | Inr config \<Rightarrow>
          bindE (throwIf (cfg_storage config \<noteq> ''postgres'') (JsExn None)) (\<lambda>_.
          bindE (liftE (read (the argument))) (\<lambda>json.
          seedClients x (st_clients createPgStorage) json)))"

definition rotate_main ::
  "ext \<Rightarrow> environment \<Rightarrow> string \<times> string \<Rightarrow> string \<times> string \<Rightarrow> key_env \<Rightarrow> key_env \<Rightarrow> (pg_state, exn, string \<times> string) act" where
  "rotate_main x env bytes1 bytes2 env1 env2 =
     bindE (rotateKeys x env (fst bytes1) (snd bytes1) env1 env2) (\<lambda>kids.
     case loadConfig x env (fst bytes2) (snd bytes2) of
       Inl e \<Rightarrow> throwE (JsExn None)
     | Inr config \<Rightarrow> returnE kids)"

definition exitCode :: "exn + 'a \<Rightarrow> nat" where
  "exitCode r = (case r of Inl e \<Rightarrow> 1 | Inr v \<Rightarrow> 0)"

end
