(* ===== verification/CommandProperties.thy ===== *)
theory CommandProperties
  imports CommandLine ConfigProperties
begin

text \<open>
  What the command line tools leave behind: the migrations that ran (\<open>run_scripts\<close> is the reference), the key after a
  rotation and the clients after a seeding, each with a failure at any point.
\<close>

section \<open>What a run of the migrations does\<close>

fun run_scripts :: "(string \<Rightarrow> 'db \<Rightarrow> string + 'db) \<Rightarrow> (string \<Rightarrow> string) \<Rightarrow> string list \<Rightarrow> 'db \<Rightarrow> string + 'db" where
  "run_scripts exec content [] db = Inr db"
| "run_scripts exec content (file # files) db =
     bindR (exec (content file) db) (\<lambda>db'. run_scripts exec content files db')"

lemma mig_query_keeps:
  "mig_query s = (r, s') \<Longrightarrow> mg_tables s' = mg_tables s \<and> mg_applied s' = mg_applied s"
  by (auto simp: mig_query_def)

lemma mig_exec_Inr:
  "mig_exec exec sql s = (Inr u, s') \<Longrightarrow> exec sql (mg_tables s) = Inr (mg_tables s') \<and> mg_applied s' = mg_applied s"
  by (cases "exec sql (mg_tables s)") (auto simp: mig_exec_def act_iff dest!: mig_query_keeps)

lemma mig_log_Inr:
  "mig_log file s = (Inr u, s') \<Longrightarrow>
     file \<notin> set (mg_applied s) \<and> mg_tables s' = mg_tables s \<and> mg_applied s' = mg_applied s @ [file]"
  by (auto simp: mig_log_def act_iff split: if_splits dest!: mig_query_keeps)

lemma mig_script_Inr:
  "mig_script exec sql file s = (Inr u, s') \<Longrightarrow>
     file \<notin> set (mg_applied s) \<and> exec sql (mg_tables s) = Inr (mg_tables s') \<and> mg_applied s' = mg_applied s @ [file]"
  by (auto simp: mig_script_def act_iff dest!: mig_query_keeps mig_exec_Inr mig_log_Inr)

text \<open>A transaction takes effect as a whole or not at all, and if it returns it did.\<close>

definition mig_none :: "'db mig_state \<Rightarrow> 'db mig_state \<Rightarrow> bool" where
  "mig_none s s' \<longleftrightarrow> mg_tables s' = mg_tables s \<and> mg_applied s' = mg_applied s"

definition mig_done ::
  "(string \<Rightarrow> 'db \<Rightarrow> string + 'db) \<Rightarrow> string \<Rightarrow> string \<Rightarrow> 'db mig_state \<Rightarrow> 'db mig_state \<Rightarrow> bool" where
  "mig_done exec sql file s s' \<longleftrightarrow>
     file \<notin> set (mg_applied s) \<and> exec sql (mg_tables s) = Inr (mg_tables s') \<and> mg_applied s' = mg_applied s @ [file]"

lemma mig_rollback_cases: "mig_rollback err s = (r, s') \<Longrightarrow> (\<exists>e. r = Inl e) \<and> mig_none s s'"
  by (cases r) (auto simp: mig_rollback_def mig_none_def act_iff dest!: mig_query_keeps)

lemma mig_transaction_cases:
  assumes "mig_transaction exec sql file s = (r, s')"
  shows "(\<exists>e. r = Inl e) \<and> mig_none s s' \<or> mig_done exec sql file s s'"
proof -
  obtain r1 s1 where 1: "mig_script exec sql file s = (r1, s1)" by fastforce
  obtain r2 s2 where 2: "mig_query s1 = (r2, s2)" by fastforce
  show ?thesis
  proof (cases r1)
    case (Inl err)
    with assms 1 have "mig_rollback err (s\<lparr>mg_faults := mg_faults s1\<rparr>) = (r, s')" by (simp add: mig_transaction_def)
    from mig_rollback_cases [OF this] show ?thesis by (simp add: mig_none_def)
  next
    case (Inr u)
    with mig_script_Inr 1 mig_query_keeps [OF 2] have d: "mig_done exec sql file s s2" by (fastforce simp: mig_done_def)
    show ?thesis
    proof (cases r2)
      case ok: (Inr v)
      with assms 1 2 Inr d show ?thesis by (simp add: mig_transaction_def)
    next
      case (Inl err)
      with assms 1 2 Inr have "mig_rollback err (if mig_fault s1 = Reply_lost then s2 else s\<lparr>mg_faults := mg_faults s2\<rparr>) = (r, s')"
        by (simp add: mig_transaction_def)
      from mig_rollback_cases [OF this] d show ?thesis by (auto simp: mig_none_def mig_done_def split: if_splits)
    qed
  qed
qed

lemma migrate_file_cases:
  assumes "migrate_file exec content file s = (r, s')"
  shows "mig_none s s' \<and> (r = Inr () \<longrightarrow> file \<in> set (mg_applied s)) \<or> mig_done exec (content file) file s s'"
proof -
  obtain r1 s1 where 1: "mig_query s = (r1, s1)" by fastforce
  obtain r2 s2 where 2: "mig_query s1 = (r2, s2)" by fastforce
  have same: "mig_none s s1" "mig_none s s2" using mig_query_keeps [OF 1] mig_query_keeps [OF 2] by (simp_all add: mig_none_def)
  have "mig_none s s' \<and> (r = Inr () \<longrightarrow> file \<in> set (mg_applied s)) \<or> mig_transaction exec (content file) file s2 = (r, s')"
    using assms 1 2 same
    by (cases r1; cases r2) (auto simp: migrate_file_def mig_rows_def mig_none_def bindE_def returnE_def split: if_splits)
  then show ?thesis
  proof
    assume "mig_transaction exec (content file) file s2 = (r, s')"
    from mig_transaction_cases [OF this] same show ?thesis by (auto simp: mig_none_def mig_done_def)
  qed blast
qed

lemma migrate_files_prefix:
  assumes "migrate_files exec content files s = (r, s')" and "distinct files"
  shows "\<exists>done' rest. filter (\<lambda>f. f \<notin> set (mg_applied s)) files = done' @ rest \<and> mg_applied s' = mg_applied s @ done' \<and>
    run_scripts exec content done' (mg_tables s) = Inr (mg_tables s') \<and> (r = Inr () \<longrightarrow> rest = [])"
  using assms
proof (induction files arbitrary: s)
  case Nil
  then show ?case by (auto simp: act_iff)
next
  case (Cons name names)
  obtain r1 s1 where 1: "migrate_file exec content name s = (r1, s1)" by fastforce
  have d: "distinct names" "name \<notin> set names" using Cons.prems(2) by simp_all
  have rest: "(\<exists>e. r1 = Inl e) \<and> r = r1 \<and> s' = s1 \<or> r1 = Inr () \<and> migrate_files exec content names s1 = (r, s')"
    using Cons.prems(1) 1 by (cases r1) (auto simp: bindE_def)
  from migrate_file_cases [OF 1] show ?case
  proof (elim disjE conjE)
    assume n: "mig_none s s1" and a: "r1 = Inr () \<longrightarrow> name \<in> set (mg_applied s)"
    from rest show ?thesis
    proof (elim disjE conjE exE)
      assume "r1 = Inr ()" "migrate_files exec content names s1 = (r, s')"
      with Cons.IH [OF this(2) d(1)] n a show ?thesis by (simp add: mig_none_def)
    next
      fix e
      assume "r1 = Inl e" "r = r1" "s' = s1"
      with n show ?thesis by (simp add: mig_none_def)
    qed
  next
    assume m: "mig_done exec (content name) name s s1"
    have f: "filter (\<lambda>f. f \<notin> set (mg_applied s1)) names = filter (\<lambda>f. f \<notin> set (mg_applied s)) names"
      using d(2) m by (intro filter_cong) (auto simp: mig_done_def)
    from rest show ?thesis
    proof (elim disjE conjE exE)
      assume "r1 = Inr ()" "migrate_files exec content names s1 = (r, s')"
      from Cons.IH [OF this(2) d(1)] obtain done' later where ih: "filter (\<lambda>f. f \<notin> set (mg_applied s)) names = done' @ later"
        "mg_applied s' = mg_applied s1 @ done'" "run_scripts exec content done' (mg_tables s1) = Inr (mg_tables s')"
        "r = Inr () \<longrightarrow> later = []" unfolding f by blast
      with m show ?thesis by (intro exI [of _ "name # done'"] exI [of _ later]) (simp add: mig_done_def)
    next
      fix e
      assume "r1 = Inl e" "r = r1" "s' = s1"
      with m show ?thesis by (intro exI [of _ "[name]"] exI [of _ "filter (\<lambda>f. f \<notin> set (mg_applied s)) names"])
        (simp add: mig_done_def)
    qed
  qed
qed

text \<open>Property C33. A run of the migrations applies, in the order of their names and each in one transaction with its entry in
  the log, a first part of those that are not yet logged, and all of them if it returns; so after a failure the next
  run goes on where the last one stopped, and none is ever applied twice.\<close>

theorem migrations_apply_once:
  assumes "runMigrations exec content directory s = (r, s')" and "distinct directory"
  shows "\<exists>done' rest. filter (\<lambda>f. f \<notin> set (mg_applied s)) (migration_files directory) = done' @ rest \<and>
    mg_applied s' = mg_applied s @ done' \<and> run_scripts exec content done' (mg_tables s) = Inr (mg_tables s') \<and>
    (r = Inr () \<longrightarrow> rest = [])"
proof -
  have d: "distinct (migration_files directory)" using assms(2) by (simp add: migration_files_def)
  obtain q s1 where c: "mig_query s = (q, s1)" by fastforce
  note k = mig_query_keeps [OF c]
  show ?thesis
  proof (cases q)
    case (Inl e)
    with assms(1) c have "r = Inl e" "s' = s1" by (simp_all add: runMigrations_def bindE_def)
    with k show ?thesis by simp
  next
    case (Inr u)
    with assms(1) c have "migrate_files exec content (migration_files directory) s1 = (r, s')"
      by (simp add: runMigrations_def bindE_def)
    from migrate_files_prefix [OF this d] k show ?thesis by simp
  qed
qed

text \<open>The reply to the commit of the first migration is lost.\<close>

definition sample_migrations :: "string list mig_state" where
  "sample_migrations = \<lparr>mg_tables = [], mg_applied = [], mg_faults = [Answered, Answered, Answered, Answered, Answered, Answered, Reply_lost]\<rparr>"

lemma migrations_apply_once_witness:
  "\<exists>s'. mg_applied s' = [''1.sql''] \<and> mg_tables s' = [''1.sql''] \<and>
     runMigrations (\<lambda>sql db. Inr (db @ [sql])) (\<lambda>f. f) [''2.sql'', ''readme'', ''1.sql''] sample_migrations = (Inl (JsExn None), s')"
proof -
  let ?run = "runMigrations (\<lambda>sql db. Inr (db @ [sql])) (\<lambda>f. f) [''2.sql'', ''readme'', ''1.sql''] sample_migrations"
  have f: "migration_files [''2.sql'', ''readme'', ''1.sql''] = [''1.sql'', ''2.sql'']" by code_simp
  have e: "fst ?run = Inl (JsExn None)" "mg_applied (snd ?run) = [''1.sql'']"
    by (simp_all add: runMigrations_def f migrate_file_def mig_rows_def mig_transaction_def mig_script_def mig_exec_def
        mig_log_def mig_query_def mig_fault_def mig_rollback_def throwE_def bindE_def returnE_def Let_def sample_migrations_def)
  obtain r s' where run: "?run = (r, s')" by fastforce
  have "mg_tables s' = [''1.sql'']"
    using migrations_apply_once [OF run] e [unfolded run] by (auto simp: f sample_migrations_def)
  with run e show ?thesis by (intro exI [of _ s']) simp
qed

section \<open>What a rotation leaves\<close>

abbreviation pg_sound :: "pg_state \<Rightarrow> bool" where
  "pg_sound s \<equiv> pg_ok s \<and> pg_whole s"

lemma pg_keys_sound:
  assumes "quiet pg_ok pg_view m" and "\<And>s. pg_whole s \<Longrightarrow> pg_whole (snd (m s))"
  shows "quiet pg_sound pg_view m"
proof -
  have "pg_sound s' \<and> pg_view s' = pg_view s" if "pg_sound s" "m s = (r, s')" for s r s'
  proof -
    from that(1) have o': "pg_ok s" "pg_whole s" by blast+
    from movesD [OF assms(1) o'(1) that(2)] have "pg_ok s' \<and> pg_view s' = pg_view s" .
    moreover have "pg_whole s'" using assms(2) [OF o'(2)] by (simp add: that(2))
    ultimately show ?thesis by blast
  qed
  then show ?thesis unfolding moves_def by blast
qed

lemma pg_keys_whole:
  "pg_whole s \<Longrightarrow> pg_whole (snd (sk_list pg_keys s))" "pg_whole s \<Longrightarrow> pg_whole (snd (sk_insert pg_keys k s))"
  "pg_whole s \<Longrightarrow> pg_whole (snd (sk_setStatus pg_keys kid status t s))"
  by (blast intro: pg_step_whole pg_step.intros)+

interpretation pgw: key_rows pg_keys pg_view pg_sound
  by unfold_locales (blast intro: pg_keys_sound pg_keys_whole pg.sk_list [unfolded pg_sel] pg.sk_insert [unfolded pg_sel]
    pg.sk_setStatus [unfolded pg_sel])+

text \<open>A row that holds the active key under the given identifier.\<close>

definition active_row :: "string \<Rightarrow> row \<Rightarrow> bool" where
  "active_row kid r \<longleftrightarrow> r ''status'' = Some (SText ''active'') \<and> r ''kid'' = Some (SText kid)"

definition stored_active :: "string \<Rightarrow> pg_state \<Rightarrow> bool" where
  "stored_active kid s \<longleftrightarrow> (\<exists>r \<in> set (pg_db s ''signing_keys''). active_row kid r)"

lemma pool_query_Inr:
  "pool_query st ps s = (Inr res, s') \<Longrightarrow> execute pg_schema (pg_clock s) ps st (pg_db s) = Inr (res, pg_db s')"
  by (auto simp: pool_query_def Let_def split: sum.splits prod.splits if_splits)

lemma query_then_Inr:
  assumes "query_then st ps f s = (Inr y, s')"
  obtains res where "execute pg_schema (pg_clock s) ps st (pg_db s) = Inr (res, pg_db s')" and "y = f res"
  using assms pool_query_Inr by (auto simp: query_then_def act_iff)

lemma insert_key_stored:
  assumes "sk_insert pg_keys k s = (Inr (), s')" and "sk_status k = active"
  shows "stored_active (sk_kid k) s'"
proof -
  from assms(1) [unfolded pg_keys_def signing_key_repo.select_convs] obtain res where
    e: "execute pg_schema (pg_clock s) [PStr (sk_kid k), PStr (sk_alg k), PStr (status_text (sk_status k)), PObj (JObj (sk_privateJwk k)),
         PObj (JObj (sk_publicJwk k)), PDate (sk_createdAt k), opt_date (sk_retiredAt k)]
       (Insert ''signing_keys'' key_columns Conflict_error) (pg_db s) = Inr (res, pg_db s')"
    by (rule query_then_Inr)
  show ?thesis
  proof (rule execute_insert_at_key [OF e, of "''kid''" "sk_kid k"], goal_cases)
    case (3 vs rows)
    let ?r = "default_row signing_keys_table (pg_clock s) ++ map_of vs"
    have "active_row (sk_kid k) ?r"
      using 3(1) assms(2) by (auto simp: active_row_def bind_eval key_columns_def status_text_def)
    moreover have "?r \<in> set rows"
      using 3(3) at_key_Some [of rows "''kid''" "sk_kid k" ?r] by simp
    ultimately show ?case by (auto simp: stored_active_def 3(2))
  qed (auto simp: bind_eval key_columns_def)
qed

lemma listed_key_stored:
  assumes "pg_ok s" and "sk_list pg_keys s = (Inr ks, s')" and "k \<in> set ks" and "sk_status k = active"
  shows "stored_active (sk_kid k) s'"
proof -
  from assms(2) [unfolded pg_keys_def signing_key_repo.select_convs] obtain res where
    e: "execute pg_schema (pg_clock s) [] (Select (Some key_columns) ''signing_keys'' Everything (Some ''created_at'')) (pg_db s)
       = Inr (res, pg_db s')" and ks: "ks = map key_row (rs_rows res)"
    by (rule query_then_Inr)
  from e have rows: "rs_rows res = map (project (Some key_columns)) (sort_key (row_time ''created_at'') (pg_db s ''signing_keys''))"
    and d: "pg_db s' = pg_db s" by (auto simp: Let_def)
  from assms(3) obtain r where r: "r \<in> set (pg_db s ''signing_keys'')" "k = key_row (project (Some key_columns) r)"
    unfolding ks rows by auto
  have t: "typed signing_keys_table r"
    using db_okD [OF assms(1) [unfolded pg_ok_def], of "''signing_keys''"] r(1) by (simp add: table_ok_def)
  have cells: "r ''kid'' = Some (SText (as_text r ''kid''))" "r ''status'' = Some (SText (as_text r ''status''))"
    by (rule text_required [OF t, of _ T_text]; simp add: signing_keys_table_def)+
  have "as_text r ''status'' = ''active''" "sk_kid k = as_text r ''kid''"
    using assms(4) by (auto simp: r(2) key_row_def key_columns_def as_project split: if_splits)
  with cells r(1) d show ?thesis by (auto simp: stored_active_def active_row_def)
qed

lemma on_repo_iff: "on_repo m (k, s) = (r, (k', s')) \<longleftrightarrow> m s = (r, s') \<and> k' = k"
  by (auto simp: on_repo_def split: prod.split)

lemma put_keys_iff: "put_keys f (k, s) = (r, (k', s')) \<longleftrightarrow> r = Inr () \<and> k' = f k \<and> s' = s"
  by (auto simp: put_keys_def)

lemma adopted_stored:
  assumes "adopt_winner x kek pg_keys err (k, s) = (Inr new, (k', s'))" and "pg_ok s"
  shows "stored_active new s'"
proof -
  from assms(1) obtain ks s1 w where l: "sk_list pg_keys s = (Inr ks, s1)" and w: "List.find (\<lambda>r. sk_status r = active) ks = Some w"
    and new: "new = sk_kid w" "s' = s1"
    unfolding adopt_winner_def
    by (auto simp: act_iff on_repo_iff put_keys_iff split: option.splits)
  from w have "w \<in> set ks" "sk_status w = active" by (auto simp: find_Some_iff)
  with listed_key_stored [OF assms(2) l] show ?thesis by (simp add: new)
qed

lemma rotated_stored:
  assumes run: "rotate x kek pg_keys env (k, s) = (Inr new, (k', s'))" and sound: "pg_sound s"
  shows "stored_active new s'"
proof -
  let ?retire = "case kx_active k of
              None \<Rightarrow> returnE ()
            | Some prev \<Rightarrow>
                bindE (put_keys (\<lambda>k. k\<lparr>kx_keys := map (\<lambda>(i, v). if i = prev then (i, retire (ke_t_previous env) v) else (i, v))
                                        (kx_keys k)\<rparr>)) (\<lambda>_.
                on_repo (sk_setStatus pg_keys prev retired (Some (ke_t_previous env))))"
  let ?insert = "\<lambda>kid. bindE (on_repo (sk_insert pg_keys (new_record x kek env kid))) (\<lambda>_.
            bindE (put_keys (\<lambda>k. k\<lparr>kx_keys := map_set kid \<lparr>lk_record = new_record x kek env kid, lk_privateKey = ke_privateKey env\<rparr> (kx_keys k),
                                  kx_active := Some kid\<rparr>)) (\<lambda>_.
            returnE kid))"
  from run [unfolded rotate_def Let_def bindE_Inr_iff] obtain k0 q0 u q1 where g: "get_keys (k, s) = (Inr k0, q0)"
    and pre0: "(case kx_active k0 of
              None \<Rightarrow> returnE ()
            | Some prev \<Rightarrow>
                bindE (put_keys (\<lambda>k. k\<lparr>kx_keys := map (\<lambda>(i, v). if i = prev then (i, retire (ke_t_previous env) v) else (i, v))
                                        (kx_keys k)\<rparr>)) (\<lambda>_.
                on_repo (sk_setStatus pg_keys prev retired (Some (ke_t_previous env))))) q0 = (Inr u, q1)"
    and ins0: "(case x_thumbprint x (JObj (toPublicJwk (ke_privateJwk env))) of
       None \<Rightarrow> throwE (JsExn None)
     | Some kid \<Rightarrow> catchE (?insert kid) (adopt_winner x kek pg_keys)) q1 = (Inr new, (k', s'))"
    by blast
  from g have "k0 = k" "q0 = (k, s)" by (auto simp: get_keys_def)
  with pre0 have pre: "?retire (k, s) = (Inr u, q1)" by simp
  from ins0 obtain kid where ins: "catchE (?insert kid) (adopt_winner x kek pg_keys) q1 = (Inr new, (k', s'))"
    by (cases "x_thumbprint x (JObj (toPublicJwk (ke_privateJwk env)))") (simp_all add: throwE_iff)
  have "quiet (k_ok pg_sound) (k_view pg_view) ?retire"
    by (cases "kx_active k") (auto intro!: moves_intro pgw.sk_setStatus)
  from movesD [OF this _ pre] sound obtain k1 s1 where q1: "q1 = (k1, s1)" "pg_sound s1" by (cases q1) auto
  have quiet: "quiet (k_ok pg_sound) (k_view pg_view) (?insert kid)"
    by (intro moves_intro pgw.sk_insert transp_eq' reflp_eq')
  from ins [unfolded catchE_Inr_iff q1(1)] show ?thesis
  proof (elim disjE exE conjE)
    assume "?insert kid (k1, s1) = (Inr new, (k', s'))"
    then have i: "sk_insert pg_keys (new_record x kek env kid) s1 = (Inr (), s')" "new = kid"
      by (auto simp: act_iff on_repo_def put_keys_def split: prod.splits)
    from insert_key_stored [OF i(1)] show ?thesis by (simp add: i(2) new_record_def Let_def)
  next
    fix e t
    assume f: "?insert kid (k1, s1) = (Inl e, t)" and a: "adopt_winner x kek pg_keys e t = (Inr new, (k', s'))"
    obtain k2 s2 where t: "t = (k2, s2)" by (cases t)
    from movesD [OF quiet _ f] q1(2) have "pg_ok s2" by (simp add: t)
    with adopted_stored a t show ?thesis by blast
  qed
qed

lemma rotated_single:
  assumes "pg_ok s" and "pg_whole s" and "rotateKeys x env sessionBytes nonceBytes env1 env2 s = (Inr (old, new), s')"
  shows "\<exists>r. filter (\<lambda>r. r ''status'' = Some (SText ''active'')) (pg_db s' ''signing_keys'') = [r] \<and> r ''kid'' = Some (SText new)"
proof -
  from assms(3) obtain config :: app_config and k' where run: "rotate_stored x (cfg_keystoreKek config) env1 env2 (fresh_keystore, s) = (Inr (old, new), (k', s'))"
    by (auto simp: rotateKeys_def act_iff split: sum.splits if_splits prod.splits)
  then obtain k1 s1 where e: "bindE (ensure x (cfg_keystoreKek config) pg_keys env1) (\<lambda>_. activeKid) (fresh_keystore, s) = (Inr old, (k1, s1))"
    and r: "rotate x (cfg_keystoreKek config) pg_keys env2 (k1, s1) = (Inr new, (k', s'))"
    by (auto simp: rotate_stored_def act_iff)
  have "quiet (k_ok pg_sound) (k_view pg_view) (bindE (ensure x (cfg_keystoreKek config) pg_keys env1) (\<lambda>_. activeKid))"
    by (auto simp: activeKid_def intro!: moves_intro pgw.ensure_quiet)
  from movesD [OF this _ e] assms(1,2) have s1: "pg_sound s1" by simp
  from movesD [OF pgw.rotate_quiet _ r] s1 have s': "pg_sound s'" by simp
  let ?rows = "filter (\<lambda>r. r ''status'' = Some (SText ''active'')) (pg_db s' ''signing_keys'')"
  have "single_ok signing_keys_table (pg_db s' ''signing_keys'')"
    using s' by (metis pg_whole_def single_hold_def pg_schema_simps(2))
  then have "length ?rows \<le> 1" by (simp add: single_ok_def signing_keys_table_def)
  moreover from rotated_stored [OF r s1] obtain row where "row \<in> set ?rows" "row ''kid'' = Some (SText new)"
    by (auto simp: stored_active_def active_row_def)
  ultimately show ?thesis by (cases ?rows) (auto simp: Suc_le_eq)
qed

text \<open>Property C30. When the rotation tool reports a new key, the database holds exactly one active key, and it is the one
  reported, whether the tool inserted it or lost a race against another rotation.\<close>

theorem rotation_leaves_new_key:
  assumes "pg_ok s" and "pg_whole s" and "rotateKeys x env sessionBytes nonceBytes env1 env2 s = (Inr (old, new), s')"
  shows "\<exists>r. filter (\<lambda>r. r ''status'' = Some (SText ''active'')) (pg_db s' ''signing_keys'') = [r] \<and> r ''kid'' = Some (SText new)"
  by (rule rotated_single [OF assms])

definition sample_defaults :: environment where
  "sample_defaults = map_of [(''ISSUER'', ''https://as.example'')]"

definition rotate_ext :: ext where
  "rotate_ext = sample_ext\<lparr>x_thumbprint := \<lambda>_. Some ''n''\<rparr>"

lemma rotate_ext_simps [simp]:
  "x_url rotate_ext = sample_url" "x_thumbprint rotate_ext j = Some ''n''" "x_import_jwk rotate_ext m = Some ''key''"
  by (simp_all add: rotate_ext_def sample_ext_def)

lemma sample_defaults_load:
  "\<exists>config. loadConfig rotate_ext sample_defaults sb nb = Inr config \<and> cfg_storage config = ''postgres'' \<and>
     cfg_keystoreKek config = None \<and> cfg_tls config = None"
proof -
  obtain p where p: "parse_settings rotate_ext sample_defaults = Some p" "STORAGE p = ''postgres''" "KEYSTORE_KEK p = []" "TLS_CERT_FILE p = []"
    "ISSUER p = ''https://as.example''" "settings_ok p (the (sample_url ''https://as.example''))"
    by (simp add: parse_settings_def sample_defaults_def z_one_of_def z_text_def settings_ok_def FAPI2_JWS_ALGS_def)
  have u: "sample_url (ISSUER p) = Some (the (sample_url ''https://as.example''))" by (simp add: p)
  have "loadConfig rotate_ext sample_defaults sb nb = Inr (config_of p sb nb (dev_grade rotate_ext p (the (sample_url ''https://as.example''))))"
    unfolding loadConfig_Inr using p u
    by (intro exI [of _ p] exI [of _ "the (sample_url ''https://as.example'')"]) (simp add: sample_defaults_def)
  then show ?thesis by (simp add: config_of_def p)
qed

definition sample_key_row :: row where
  "sample_key_row =
     [''kid'' \<mapsto> SText ''k'', ''alg'' \<mapsto> SText ''ES256'', ''status'' \<mapsto> SText ''active'', ''private_jwk'' \<mapsto> SJson (JObj []),
      ''public_jwk'' \<mapsto> SJson (JObj []), ''created_at'' \<mapsto> STime 5, ''retired_at'' \<mapsto> SNull]"

definition sample_key_pg :: pg_state where
  "sample_key_pg = \<lparr>pg_db = (\<lambda>t. if t = ''signing_keys'' then [sample_key_row] else []), pg_clock = 1000,
     pg_faults = [], pg_random = []\<rparr>"

lemma sample_key_pg_sound: "pg_ok sample_key_pg" "pg_whole sample_key_pg"
  by (simp_all add: pg_ok_def db_ok_def sample_key_pg_def table_ok_def typed_def signing_keys_table_def has_type_def
      sample_key_row_def pg_whole_def refs_hold_def single_hold_def single_ok_def refs_ok_def split: option.split)

definition sample_key :: signing_key where
  "sample_key = \<lparr>sk_kid = ''k'', sk_alg = ''ES256'', sk_status = active, sk_privateJwk = [], sk_publicJwk = [], sk_createdAt = 5,
     sk_retiredAt = None\<rparr>"

definition sample_new_key :: signing_key where
  "sample_new_key = \<lparr>sk_kid = ''n'', sk_alg = ''ES256'', sk_status = active,
     sk_privateJwk = [(''kty'', JStr ''EC''), (''d'', JStr ''secret''), (''kid'', JStr ''n''), (''alg'', JStr ''ES256''), (''use'', JStr ''sig'')],
     sk_publicJwk = [(''kty'', JStr ''EC''), (''kid'', JStr ''n''), (''alg'', JStr ''ES256''), (''use'', JStr ''sig'')],
     sk_createdAt = 1000000,
     sk_retiredAt = None\<rparr>"

definition sample_retired_pg :: pg_state where
  "sample_retired_pg = sample_key_pg\<lparr>pg_db := (\<lambda>t. if t = ''signing_keys''
     then [sample_key_row(''status'' \<mapsto> SText ''retired'', ''retired_at'' \<mapsto> STime 1000000)] else [])\<rparr>"

lemma sample_list: "sk_list pg_keys sample_key_pg = (Inr [sample_key], sample_key_pg)"
  by (simp add: pg_keys_def pg_eval sample_key_pg_def key_columns_def key_row_def row_defs sample_key_row_def sample_key_def signing_keys_table_def)

lemma sample_retire: "sk_setStatus pg_keys ''k'' retired (Some 1000000) sample_key_pg = (Inr (), sample_retired_pg)"
  by (simp add: pg_keys_def pg_eval sample_key_pg_def sample_key_row_def signing_keys_table_def sample_retired_pg_def status_text_def
      opt_date_def ignored_def fun_eq_iff)

lemma sample_insert: "\<exists>s'. sk_insert pg_keys sample_new_key sample_retired_pg = (Inr (), s')"
  by (simp add: pg_keys_def pg_eval sample_key_pg_def sample_key_row_def signing_keys_table_def sample_retired_pg_def status_text_def
      opt_date_def ignored_def sample_new_key_def key_columns_def sample_key_def)

lemma sample_new_record: "new_record rotate_ext None sample_key_env ''n'' = sample_new_key"
  by (simp add: new_record_def sample_key_env_def toPublicJwk_def public_members_def List.map_filter_simps sample_new_key_def)

lemma sample_rotation:
  "\<exists>s'. rotateKeys rotate_ext sample_defaults [] [] sample_key_env sample_key_env sample_key_pg = (Inr (''k'', ''n''), s')"
proof -
  obtain config where c: "loadConfig rotate_ext sample_defaults [] [] = Inr config" "cfg_storage config = ''postgres''"
    "cfg_keystoreKek config = None" using sample_defaults_load by blast
  obtain s' where i: "sk_insert pg_keys sample_new_key sample_retired_pg = (Inr (), s')" using sample_insert ..
  have t: "ke_t_previous sample_key_env = 1000000" by (simp add: sample_key_env_def)
  show ?thesis
    by (simp add: rotateKeys_def c rotate_stored_def ensure_def init_def rotate_def activeKid_def get_keys_def put_keys_def on_repo_def
        bindE_def catchE_def returnE_def liftE_def bindR_def fresh_keystore_def sample_list sample_retire i t sample_new_record
        importPrivate_def isEncrypted_def actives_of_def retire_def mustActive_def kid_of_def sample_key_def Let_def)
qed

lemma rotation_leaves_new_key_witness:
  "\<exists>s' r. rotateKeys rotate_ext sample_defaults [] [] sample_key_env sample_key_env sample_key_pg = (Inr (''k'', ''n''), s') \<and>
     filter (\<lambda>r. r ''status'' = Some (SText ''active'')) (pg_db s' ''signing_keys'') = [r] \<and> r ''kid'' = Some (SText ''n'')"
proof -
  obtain s' where run: "rotateKeys rotate_ext sample_defaults [] [] sample_key_env sample_key_env sample_key_pg = (Inr (''k'', ''n''), s')"
    using sample_rotation ..
  from rotation_leaves_new_key [OF sample_key_pg_sound run] run show ?thesis by blast
qed

text \<open>Property C31. A running server does not see the rotation. A keystore that has loaded its keys reads the database no more: after
  the tool stored the new key, which is now the only active one, the server goes on signing with the key it had,
  and publishes the keys it had, without the new one.\<close>

theorem rotation_not_seen:
  assumes "pg_ok s" and "pg_whole s" and "rotateKeys x env sessionBytes nonceBytes env1 env2 s = (Inr (old, new), s')"
    and "kx_ready k" and "mustActive k = Inr a" and "ks = key_store x kek pg_keys"
    and "\<forall>l\<in>set (map snd (kx_keys k)). jget (sk_publicJwk (lk_record l)) ''kid'' = Some (JStr (kid_of l))"
    and "new \<notin> set (map (kid_of \<circ> snd) (kx_keys k))"
  shows "(\<exists>r. filter (\<lambda>r. r ''status'' = Some (SText ''active'')) (pg_db s' ''signing_keys'') = [r] \<and> r ''kid'' = Some (SText new)) \<and>
    bindE (ks_ensure ks kenv) (\<lambda>_. ks_signJwt ks claims jwt_typ) (k, s')
      = (Inr (x_sign_jwt x (lk_privateKey a) ([(''alg'', JStr ''ES256''), (''kid'', JStr (kid_of a))] @
          (if truthy jwt_typ then [(''typ'', JStr (the jwt_typ))] else [])) claims), (k, s')) \<and>
    (\<exists>keys. bindE (ks_ensure ks kenv) (\<lambda>_. ks_publicJwks ks now) (k, s') = (Inr keys, (k, s')) \<and>
       (\<forall>j\<in>set keys. jget j ''kid'' \<noteq> Some (JStr new)))"
proof (intro conjI)
  show "bindE (ks_ensure ks kenv) (\<lambda>_. ks_signJwt ks claims jwt_typ) (k, s')
      = (Inr (x_sign_jwt x (lk_privateKey a) ([(''alg'', JStr ''ES256''), (''kid'', JStr (kid_of a))] @
          (if truthy jwt_typ then [(''typ'', JStr (the jwt_typ))] else [])) claims), (k, s'))"
    using assms(4,5) by (simp add: assms(6) key_store_def ensure_def signJwt_def get_keys_def bindE_def liftE_def returnE_def)
  have kid: "jget (toPublicJwk p) ''kid'' = jget p ''kid''" for p
    by (simp add: toPublicJwk_get public_members_def)
  have "jget j ''kid'' \<noteq> Some (JStr new)" if j: "j \<in> set (publicJwks_of now (kx_keys k))" for j
  proof -
    from j obtain v where v: "v \<in> set (kx_keys k)" and pub: "j = toPublicJwk (sk_publicJwk (lk_record (snd v)))"
      by (auto simp: publicJwks_of_def Let_def)
    with assms(7) have "jget j ''kid'' = Some (JStr (kid_of (snd v)))" by (simp add: kid)
    moreover have "new \<noteq> kid_of (snd v)" using assms(8) v by auto
    ultimately show ?thesis by simp
  qed
  then show "\<exists>keys. bindE (ks_ensure ks kenv) (\<lambda>_. ks_publicJwks ks now) (k, s') = (Inr keys, (k, s')) \<and>
       (\<forall>j\<in>set keys. jget j ''kid'' \<noteq> Some (JStr new))"
    using assms(4) by (simp add: assms(6) key_store_def ensure_def publicJwks_def get_keys_def bindE_def returnE_def)
qed (rule rotated_single [OF assms(1-3)])

definition sample_loaded :: keystore_state where
  "sample_loaded = \<lparr>kx_keys = [(''k'', \<lparr>lk_record = sample_key\<lparr>sk_publicJwk := [(''kid'', JStr ''k'')]\<rparr>, lk_privateKey = ''key''\<rparr>)],
     kx_active = Some ''k'', kx_ready = True\<rparr>"

lemma rotation_not_seen_witness:
  "\<exists>s' token. rotateKeys rotate_ext sample_defaults [] [] sample_key_env sample_key_env sample_key_pg = (Inr (''k'', ''n''), s') \<and>
     bindE (ensure rotate_ext None pg_keys sample_key_env) (\<lambda>_. signJwt rotate_ext [] None) (sample_loaded, s') = (Inr token, (sample_loaded, s'))"
proof -
  obtain s' where run: "rotateKeys rotate_ext sample_defaults [] [] sample_key_env sample_key_env sample_key_pg = (Inr (''k'', ''n''), s')"
    using sample_rotation ..
  have "kx_ready sample_loaded" by (simp add: sample_loaded_def)
  moreover obtain a where "mustActive sample_loaded = Inr a" by (simp add: sample_loaded_def mustActive_def)
  moreover have "\<forall>l\<in>set (map snd (kx_keys sample_loaded)). jget (sk_publicJwk (lk_record l)) ''kid'' = Some (JStr (kid_of l))"
    by (simp add: sample_loaded_def kid_of_def sample_key_def)
  moreover have "''n'' \<notin> set (map (kid_of \<circ> snd) (kx_keys sample_loaded))"
    by (simp add: sample_loaded_def kid_of_def sample_key_def)
  ultimately show ?thesis
    using rotation_not_seen [OF sample_key_pg_sound run _ _ refl, where kek = None and kenv = sample_key_env and claims = "[]" and jwt_typ = None and k = sample_loaded] run
    by (auto simp: key_store_def)
qed

section \<open>What a seeding stores\<close>

text \<open>Entry \<open>e\<close> passed the check of the client metadata and was stored as \<open>c\<close>.\<close>

definition seeded :: "ext \<Rightarrow> seed_entry \<Rightarrow> client_rec \<Rightarrow> bool" where
  "seeded x e c \<longleftrightarrow> keeps_client (seed_record e) c \<and> (\<exists>md. parseClientMetadata x (se_metadata e) = Inr md \<and> registration_ok x md)"

context client_port begin

lemma seed_all_stores:
  assumes "ok s" and "seed_all x (st_clients st) es s = (r, s')"
  shows "ok s' \<and> (\<exists>kept. list_all2 (seeded x) (take (length kept) es) kept \<and>
    view s' = fold spec_client_upsert kept (view s) \<and> (r = Inr () \<longrightarrow> length kept = length es))"
  using assms
proof (induction es arbitrary: s)
  case Nil
  then show ?case by (auto simp: act_iff)
next
  case (Cons e es)
  have stop: ?case if "view s' = view s" "ok s'" "r \<noteq> Inr ()"
    using that by (intro conjI exI [of _ "[]"]) simp_all
  show ?case
  proof (cases "parseClientMetadata x (se_metadata e)")
    case (Inl err)
    with Cons.prems(2) have "r = Inl err" "s' = s" by (simp_all add: liftE_def bindE_def throwE_def)
    with stop Cons.prems(1) show ?thesis by simp
  next
    case valid: (Inr md)
    obtain u s1 where up: "cl_upsert (st_clients st) (seed_record e) s = (u, s1)" by fastforce
    show ?thesis
    proof (cases u)
      case (Inl err)
      with Cons.prems(2) valid up have "r = Inl err" "s' = s1" by (simp_all add: liftE_def bindE_def returnE_def)
      from obeys_throwD [OF cl_upsert Cons.prems(1) up [unfolded Inl]]
      have "ok s1" and v: "view s1 = view s \<or> (\<exists>c. keeps_client (seed_record e) c \<and> view s1 = spec_client_upsert c (view s))"
        by blast+
      from v show ?thesis
      proof (elim disjE exE conjE)
        assume "view s1 = view s"
        with stop \<open>r = Inl err\<close> \<open>s' = s1\<close> \<open>ok s1\<close> show ?thesis by simp
      next
        fix c
        assume c: "keeps_client (seed_record e) c" "view s1 = spec_client_upsert c (view s)"
        with parseClientMetadata_ok [OF valid] valid have "seeded x e c" by (auto simp: seeded_def)
        with c \<open>r = Inl err\<close> \<open>s' = s1\<close> \<open>ok s1\<close> show ?thesis by (intro conjI exI [of _ "[c]"]) simp_all
      qed
    next
      case ok: (Inr v)
      from obeysD [OF cl_upsert Cons.prems(1)] up ok obtain c where c: "ok s1" "keeps_client (seed_record e) c"
        "view s1 = spec_client_upsert c (view s)" by blast
      from Cons.prems(2) valid up ok have "seed_all x (st_clients st) es s1 = (r, s')" by (simp add: liftE_def bindE_def returnE_def)
      from Cons.IH [OF c(1) this] obtain kept where k: "ok s'" "list_all2 (seeded x) (take (length kept) es) kept"
        "view s' = fold spec_client_upsert kept (view s1)" "r = Inr () \<longrightarrow> length kept = length es" by blast
      have "seeded x e c" using c(2) parseClientMetadata_ok [OF valid] valid by (auto simp: seeded_def)
      with k c(3) show ?thesis by (intro conjI exI [of _ "c # kept"]) simp_all
    qed
  qed
qed

lemma seedClients_stores:
  assumes "ok s" and "seedClients x (st_clients st) json s = (r, s')"
    and "Option.bind (x_json_parse x json) seed_entries = Some es"
  shows "ok s' \<and> (\<exists>kept. list_all2 (seeded x) (take (length kept) es) kept \<and>
    view s' = fold spec_client_upsert kept (view s) \<and> (\<forall>n. r = Inr n \<longrightarrow> n = length es \<and> length kept = n))"
proof -
  obtain u s1 where run: "seed_all x (st_clients st) es s = (u, s1)" by fastforce
  with assms(2,3) have "s' = s1" "\<forall>n. r = Inr n \<longrightarrow> u = Inr () \<and> n = length es"
    by (auto simp: seedClients_def bindE_def returnE_def split: sum.splits)
  with seed_all_stores [OF assms(1) run] show ?thesis by metis
qed

end

text \<open>Property C32. However a seeding of the PostgreSQL storage ends, what it changed is that a first part of the entries of the
  file were stored as clients, one after the other, each with a registration that passed the checks; and if it
  reports a number, that is the number of the entries and all of them are stored.\<close>

theorem seeding_stores_valid_clients:
  assumes "pg_ok s" and "seedClients x (st_clients createPgStorage) json s = (r, s')"
    and "Option.bind (x_json_parse x json) seed_entries = Some es"
  shows "pg_ok s' \<and> (\<exists>kept. list_all2 (seeded x) (take (length kept) es) kept \<and>
    pg_view s' = fold spec_client_upsert kept (pg_view s) \<and> (\<forall>n. r = Inr n \<longrightarrow> n = length es \<and> length kept = n))"
  by (rule pg.seedClients_stores [OF assms])

definition seed_ext :: ext where
  "seed_ext = sample_ext\<lparr>x_json_parse := \<lambda>_. Some (JArr
     [JObj [(''client_id'', JStr ''d''), (''metadata'', sample_registration)]])\<rparr>"

definition sample_entry :: seed_entry where
  "sample_entry = \<lparr>se_client_id = ''d'', se_client_name = None, se_metadata = sample_registration\<rparr>"

lemma sample_seed_parses: "Option.bind (x_json_parse seed_ext []) seed_entries = Some [sample_entry]"
  by (simp add: seed_ext_def seed_entries_def seed_entry_of_def sample_entry_def z_array_def z_record_def
      z_nullable_string_def z_required_def z_default_def z_string_def sample_registration_def)

lemma sample_seed_valid: "parseClientMetadata seed_ext sample_registration = Inr (metadata sample_client)"
  by (simp add: seed_ext_def sample_eval)

lemma sample_seed_upsert: "\<exists>s1. cl_upsert (st_clients createPgStorage) (seed_record sample_entry) sample_pg = (Inr (), s1)"
  by (simp add: createPgStorage_def pg_clients_def pg_eval sample_pg_def clients_table_def opt_str_def ignored_def seed_record_def
      sample_entry_def sample_registration_def)

lemma seeding_stores_valid_clients_witness:
  "\<exists>c s'. seedClients seed_ext (st_clients createPgStorage) [] sample_pg = (Inr 1, s') \<and>
     a_clients (pg_view s') ''d'' = Some c \<and> keeps_client (seed_record sample_entry) c"
proof -
  obtain s1 where "cl_upsert (st_clients createPgStorage) (seed_record sample_entry) sample_pg = (Inr (), s1)"
    using sample_seed_upsert ..
  then have run: "seedClients seed_ext (st_clients createPgStorage) [] sample_pg = (Inr 1, s1)"
    by (simp add: seedClients_def sample_seed_parses sample_seed_valid sample_entry_def liftE_def bindE_def returnE_def)
  from seeding_stores_valid_clients [OF sample_pg_ok run sample_seed_parses] obtain c where
    c: "seeded seed_ext sample_entry c" "pg_view s1 = spec_client_upsert c (pg_view sample_pg)"
    by (auto simp: length_Suc_conv)
  then have "keeps_client (seed_record sample_entry) c" by (simp add: seeded_def)
  moreover from this have "cr_clientId c = ''d''" by (auto simp: keeps_client_def seed_record_def sample_entry_def)
  ultimately show ?thesis using run c(2) by (auto simp: spec_client_upsert_def)
qed

end
