(* ===== verification/App.thy ===== *)
theory App
  imports CommandLine
begin

text \<open>
  Starting the server and its health endpoints (\<open>src/index.ts\<close>): the choice of the storage, the options of the HTTP
  server, and \<open>/healthz\<close>, whose ping of the storage is cached for two seconds and shared by the requests that
  arrive while it runs. Requests that wait for the same ping overlap, so \<open>/healthz\<close> is a step relation: a request
  arrives, or a ping ends.
\<close>

section \<open>Starting\<close>

datatype backend = Postgres pool_options | Memory

text \<open>The storage where none is injected; \<open>pool\<close>: the pool the process already has.\<close>

definition choose_backend :: "app_config \<Rightarrow> pool_options option \<Rightarrow> backend" where
  "choose_backend config pool =
     (if cfg_storage config = ''postgres''
      then Postgres (fst (getPool (cfg_databaseUrl config) (cfg_databaseSsl config) pool))
      else Memory)"

record tls_options =
  tls_key :: string
  tls_cert :: string
  tls_minVersion :: string
  tls_honorCipherOrder :: bool
  tls_ciphers :: string

definition tls_suites :: "string list" where
  "tls_suites =
     [''ECDHE-ECDSA-AES128-GCM-SHA256'', ''ECDHE-RSA-AES128-GCM-SHA256'', ''ECDHE-ECDSA-AES256-GCM-SHA384'',
      ''ECDHE-RSA-AES256-GCM-SHA384'', ''ECDHE-ECDSA-CHACHA20-POLY1305'', ''ECDHE-RSA-CHACHA20-POLY1305'',
      ''DHE-RSA-AES128-GCM-SHA256'', ''DHE-RSA-AES256-GCM-SHA384'']"

text \<open>\<open>read\<close> gives the text of a file, or what \<open>readFileSync\<close> throws.\<close>

definition tls_for :: "(string \<Rightarrow> exn + string) \<Rightarrow> app_config \<Rightarrow> exn + tls_options option" where
  "tls_for read config =
     (case cfg_tls config of
        None \<Rightarrow> Inr None
      | Some (certFile, keyFile) \<Rightarrow>
          bindR (read keyFile) (\<lambda>key.
          bindR (read certFile) (\<lambda>cert.
          Inr (Some \<lparr>tls_key = key, tls_cert = cert, tls_minVersion = ''TLSv1.2'', tls_honorCipherOrder = True,
                     tls_ciphers = join_text '':'' tls_suites\<rparr>))))"

record server_options =
  so_https :: "tls_options option"
  so_level :: string
  so_redact :: "string list"
  so_remove :: bool
  so_bodyLimit :: nat
  so_trustProxy :: trust_proxy

definition server_options_for :: "app_config \<Rightarrow> tls_options option \<Rightarrow> server_options" where
  "server_options_for config https =
     \<lparr>so_https = https, so_level = cfg_logLevel config,
      so_redact = [''req.headers.authorization'', ''req.headers.dpop'', ''req.headers.cookie'', ''req.body.client_assertion'',
        ''*.client_assertion'', ''*.privateJwk'', ''err.record.privateJwk''],
      so_remove = True, so_bodyLimit = 256 * 1024, so_trustProxy = cfg_trustProxy config\<rparr>"

text \<open>The server as \<open>main\<close> starts it: the endpoints over the chosen storage, the pool and the options of the HTTP
  server, the warnings it logs and where it listens.\<close>

datatype endpoints = On_postgres "pg_state server deps" | On_memory "mem_store server deps"

record started =
  sd_endpoints :: endpoints
  sd_backend :: backend
  sd_options :: server_options
  sd_warnings :: "string list"
  sd_port :: int
  sd_host :: string

datatype start_error = Refused_config config_error | Start_exn exn

definition endpoints_on ::
  "ext \<Rightarrow> (http_request \<Rightarrow> fetch_outcome) \<Rightarrow> app_config \<Rightarrow> backend \<Rightarrow> endpoints option" where
  "endpoints_on x fetch config b =
     (case b of
        Postgres pool \<Rightarrow> map_option On_postgres (buildApp x fetch None None config createPgStorage)
      | Memory \<Rightarrow> map_option On_memory (buildApp x fetch None None config createMemoryStorage))"

definition main ::
  "ext \<Rightarrow> (http_request \<Rightarrow> fetch_outcome) \<Rightarrow> (string \<Rightarrow> exn + string) \<Rightarrow> environment \<Rightarrow> string \<Rightarrow> string \<Rightarrow>
    start_error + started" where
  "main x fetch read env sessionBytes nonceBytes =
     (case loadConfig x env sessionBytes nonceBytes of
        Inl e \<Rightarrow> Inl (Refused_config e)
      | Inr config \<Rightarrow>
          let b = choose_backend config None
          in case tls_for read config of
               Inl e \<Rightarrow> Inl (Start_exn e)
             | Inr https \<Rightarrow>
                 (case endpoints_on x fetch config b of
                    None \<Rightarrow> Inl (Start_exn (JsExn None))
                  | Some eps \<Rightarrow>
                      Inr \<lparr>sd_endpoints = eps, sd_backend = b, sd_options = server_options_for config https,
                           sd_warnings = cfg_devModeWarnings config, sd_port = cfg_port config, sd_host = ''0.0.0.0''\<rparr>))"

section \<open>Health\<close>

definition health :: reply where
  "health = reply_with 200 [] (Json_body [(''status'', JStr ''ok'')])"

text \<open>
  A ping that has answered clears \<open>pendingPing\<close> itself, so what is left there is a ping that still runs or one
  that was rejected. \<open>hz_waiting\<close>: the requests that await it.
\<close>

datatype pending_ping = In_flight | Rejected exn

record healthz_state =
  hz_lastPing :: "(int \<times> bool) option"
  hz_pendingPing :: "pending_ping option"
  hz_waiting :: "nat list"

definition fresh_healthz :: healthz_state where
  "fresh_healthz = \<lparr>hz_lastPing = None, hz_pendingPing = None, hz_waiting = []\<rparr>"

definition recent_ping :: "int \<Rightarrow> healthz_state \<Rightarrow> bool option" where
  "recent_ping now h = (case hz_lastPing h of None \<Rightarrow> None | Some (at', up) \<Rightarrow> if now - at' > 2000 then None else Some up)"

definition healthz_reply :: "app_config \<Rightarrow> bool \<Rightarrow> bool \<Rightarrow> reply" where
  "healthz_reply config injected dbUp =
     reply_with (if dbUp then 200 else 503) []
       (Json_body [(''status'', JStr (if dbUp then ''ok'' else ''degraded'')), (''db'', JStr (if dbUp then ''up'' else ''down'')),
          (''storage'', JStr (if injected then ''injected'' else cfg_storage config))])"

definition healthz_request :: "app_config \<Rightarrow> bool \<Rightarrow> int \<Rightarrow> nat \<Rightarrow> healthz_state \<Rightarrow> (nat \<times> reply) list \<times> healthz_state" where
  "healthz_request config injected now req h =
     (case recent_ping now h of
        Some up \<Rightarrow> ([(req, healthz_reply config injected up)], h)
      | None \<Rightarrow>
          (case hz_pendingPing h of
             Some (Rejected err) \<Rightarrow> ([(req, handle_error err)], h)
           | _ \<Rightarrow> ([], h\<lparr>hz_pendingPing := Some In_flight, hz_waiting := hz_waiting h @ [req]\<rparr>)))"

definition healthz_pinged ::
  "app_config \<Rightarrow> bool \<Rightarrow> int \<Rightarrow> exn + bool \<Rightarrow> healthz_state \<Rightarrow> (nat \<times> reply) list \<times> healthz_state" where
  "healthz_pinged config injected now outcome h =
     (case outcome of
        Inr up \<Rightarrow>
          (map (\<lambda>req. (req, healthz_reply config injected up)) (hz_waiting h),
           \<lparr>hz_lastPing = Some (now, up), hz_pendingPing = None, hz_waiting = []\<rparr>)
      | Inl err \<Rightarrow>
          (map (\<lambda>req. (req, handle_error err)) (hz_waiting h),
           h\<lparr>hz_pendingPing := Some (Rejected err), hz_waiting := []\<rparr>))"

text \<open>The events, with the replies each causes. The state of the storage may change between them.\<close>

datatype healthz_event = Arrives int nat "(nat \<times> reply) list" | Pinged int "exn + bool" "(nat \<times> reply) list"

inductive healthz_step ::
  "app_config \<Rightarrow> bool \<Rightarrow> 's storage \<Rightarrow> healthz_state \<times> 's \<Rightarrow> healthz_event option \<Rightarrow> healthz_state \<times> 's \<Rightarrow> bool"
  for config :: app_config and injected :: bool and st :: "'s storage" where
  arrives: "healthz_request config injected now req h = (replies, h') \<Longrightarrow>
    healthz_step config injected st (h, s) (Some (Arrives now req replies)) (h', s)"
| pinged: "hz_pendingPing h = Some In_flight \<Longrightarrow> st_ping st s = (outcome, s') \<Longrightarrow>
    healthz_pinged config injected now outcome h = (replies, h') \<Longrightarrow>
    healthz_step config injected st (h, s) (Some (Pinged now outcome replies)) (h', s')"
| elsewhere: "healthz_step config injected st (h, s) None (h, s')"

inductive_cases healthz_stepE: "healthz_step config injected st (h, s) e hs"

inductive healthz_run ::
  "app_config \<Rightarrow> bool \<Rightarrow> 's storage \<Rightarrow> healthz_state \<times> 's \<Rightarrow> healthz_event list \<Rightarrow> healthz_state \<times> 's \<Rightarrow> bool"
  for config :: app_config and injected :: bool and st :: "'s storage" where
  start: "healthz_run config injected st p [] p"
| step: "healthz_run config injected st p es p' \<Longrightarrow> healthz_step config injected st p' e p'' \<Longrightarrow>
    healthz_run config injected st p (es @ (case e of None \<Rightarrow> [] | Some e \<Rightarrow> [e])) p''"

end
