(* ===== verification/AppProperties.thy ===== *)
theory AppProperties
  imports App CommandProperties
begin

text \<open>
  What starting the server can end in, and what \<open>/healthz\<close> promises to those who probe it: that everybody is answered
  when the ping that is waited for ends, from a ping at most two seconds old, at a bounded rate of pings; and what it does after a ping that rejects.
\<close>

section \<open>Starting\<close>

lemma loaded_issuer: "loadConfig x env sb nb = Inr config \<Longrightarrow> \<exists>u. x_url x (cfg_issuer config) = Some u"
  by (auto simp: loadConfig_Inr config_of_def)

text \<open>A configuration that loads, with TLS files that can be read, always starts the server: over PostgreSQL exactly
  if the configuration says so, with TLS exactly if it names the files, and with a warning for everything that is only
  fit for development.\<close>

theorem loaded_configuration_starts:
  assumes "loadConfig x env sb nb = Inr config"
    and "\<And>cert key. cfg_tls config = Some (cert, key) \<Longrightarrow> (\<exists>t. read key = Inr t) \<and> (\<exists>t. read cert = Inr t)"
  shows "\<exists>sv. main x fetch read env sb nb = Inr sv \<and>
    ((\<exists>d. sd_endpoints sv = On_postgres d) \<longleftrightarrow> cfg_storage config = ''postgres'') \<and>
    (so_https (sd_options sv) \<noteq> None \<longleftrightarrow> cfg_tls config \<noteq> None) \<and>
    (env ''NODE_ENV'' = Some ''production'' \<longrightarrow> sd_warnings sv = [])"
proof -
  from loaded_issuer [OF assms(1)] obtain u where u: "x_url x (cfg_issuer config) = Some u" ..
  then obtain paths where p: "endpointPaths x config = Some paths" by (auto simp: endpointPaths_def Let_def)
  with u obtain urls where us: "endpointUrls x config = Some urls" by (auto simp: endpointUrls_def)
  have w: "env ''NODE_ENV'' = Some ''production'' \<Longrightarrow> cfg_devModeWarnings config = []"
    using assms(1) by (auto simp: loadConfig_Inr config_of_def)
  obtain https where t: "tls_for read config = Inr https" "https \<noteq> None \<longleftrightarrow> cfg_tls config \<noteq> None"
  proof (cases "cfg_tls config")
    case (Some files)
    with assms(2) obtain cert key a b where "files = (cert, key)" "read key = Inr a" "read cert = Inr b" by (cases files) blast
    with Some that show ?thesis by (auto simp: tls_for_def bindR_def)
  qed (use that in \<open>auto simp: tls_for_def\<close>)
  with w show ?thesis
    by (auto simp: main_def assms(1) t(1) Let_def choose_backend_def endpoints_on_def buildApp_def p us server_options_for_def)
qed

lemma loaded_configuration_starts_witness:
  "\<exists>sv. main rotate_ext (\<lambda>_. Fetch_error []) (\<lambda>_. Inl (JsExn None)) sample_defaults [] [] = Inr sv \<and>
     (\<exists>d. sd_endpoints sv = On_postgres d) \<and> so_https (sd_options sv) = None"
proof -
  obtain config where c: "loadConfig rotate_ext sample_defaults [] [] = Inr config" "cfg_storage config = ''postgres''"
    "cfg_tls config = None" using sample_defaults_load by blast
  from loaded_configuration_starts [OF c(1), where read = "\<lambda>_. Inl (JsExn None)" and fetch = "\<lambda>_. Fetch_error []"] c(2,3)
  show ?thesis by fastforce
qed

section \<open>What /healthz keeps\<close>

fun last_up :: "healthz_event list \<Rightarrow> (int \<times> bool) option" where
  "last_up [] = None"
| "last_up (e # es) =
     (case last_up es of Some p \<Rightarrow> Some p | None \<Rightarrow> (case e of Pinged t (Inr up) rs \<Rightarrow> Some (t, up) | _ \<Rightarrow> None))"

fun event_time :: "healthz_event \<Rightarrow> int" where
  "event_time (Arrives t i rs) = t"
| "event_time (Pinged t r rs) = t"

fun event_replies :: "healthz_event \<Rightarrow> (nat \<times> reply) list" where
  "event_replies (Arrives t i rs) = rs"
| "event_replies (Pinged t r rs) = rs"

fun is_ping :: "healthz_event \<Rightarrow> bool" where
  "is_ping (Arrives t i rs) \<longleftrightarrow> False"
| "is_ping (Pinged t r rs) \<longleftrightarrow> True"

definition pings :: "healthz_event list \<Rightarrow> nat" where
  "pings es = length (filter is_ping es)"

lemma last_up_snoc [simp]:
  "last_up (es @ [e]) = (case e of Pinged t (Inr up) rs \<Rightarrow> Some (t, up) | _ \<Rightarrow> last_up es)"
  by (induction es) (auto split: healthz_event.splits sum.splits option.splits)

lemmas healthz_cases = healthz_request_def healthz_pinged_def recent_ping_def

text \<open>What holds at every point of a run from the start: nobody waits without a ping, and the cached answer is that of the
  last ping that answered.\<close>

definition healthz_inv :: "healthz_event list \<Rightarrow> healthz_state \<Rightarrow> bool" where
  "healthz_inv es h \<longleftrightarrow> (hz_waiting h \<noteq> [] \<longrightarrow> hz_pendingPing h = Some In_flight) \<and> hz_lastPing h = last_up es"

lemma healthz_run_inv:
  assumes "healthz_run config injected st (fresh_healthz, s) es (h, s')"
  shows "healthz_inv es h"
  using assms
proof (induction "(fresh_healthz, s)" es "(h, s')" arbitrary: h s' rule: healthz_run.induct)
  case start
  then show ?case by (simp add: healthz_inv_def fresh_healthz_def)
next
  case (step es p' e)
  obtain h1 s1 where p': "p' = (h1, s1)" by (cases p')
  from step.hyps(2) [OF p'] have i: "healthz_inv es h1" .
  from step.hyps(3) [unfolded p'] i show ?case
    by (cases rule: healthz_step.cases) (auto simp: healthz_inv_def healthz_cases split: option.splits pending_ping.splits sum.splits if_splits)
qed

text \<open>A ping of PostgreSQL answers, whatever the database does.\<close>

lemma pingDb_answers: "\<exists>up s'. pingDb s = (Inr up, s')"
  by (cases "pool_query Select_one [] s") (auto simp: pingDb_def catchE_def bindE_def returnE_def split: sum.splits)

lemma storages_give_verdicts:
  "\<exists>up s'. st_ping createPgStorage s = (Inr up, s')" "\<exists>up m'. st_ping createMemoryStorage m = (Inr up, m')"
  using pingDb_answers [of s] by (auto simp: createPgStorage_def createMemoryStorage_def returnE_def)

lemma verdicts_never_rejected:
  assumes "healthz_run config injected st (fresh_healthz, s) es (h, s')"
    and verdict: "\<And>s. \<exists>up s'. st_ping st s = (Inr up, s')"
  shows "\<not> (\<exists>err. hz_pendingPing h = Some (Rejected err)) \<and>
    (\<forall>e \<in> set es. \<forall>(i, rp) \<in> set (event_replies e). \<exists>up. rp = healthz_reply config injected up)"
  using assms(1)
proof (induction "(fresh_healthz, s)" es "(h, s')" arbitrary: h s' rule: healthz_run.induct)
  case start
  then show ?case by (simp add: fresh_healthz_def)
next
  case (step es p' e)
  obtain h1 s1 where p': "p' = (h1, s1)" by (cases p')
  note ih = step.hyps(2) [OF p']
  from step.hyps(3) [unfolded p'] show ?case
  proof (cases rule: healthz_step.cases)
    case (arrives now req replies)
    with ih show ?thesis
      by (auto simp: healthz_cases split: option.splits pending_ping.splits if_splits)
  next
    case (pinged outcome now replies)
    with verdict [of s1] obtain up where "outcome = Inr up" by auto
    with pinged ih show ?thesis by (auto simp: healthz_cases)
  next
    case elsewhere
    with ih show ?thesis by simp
  qed
qed

text \<open>The probes that arrived, and those that were answered.\<close>

fun event_arrival :: "healthz_event \<Rightarrow> nat list" where
  "event_arrival (Arrives t i rs) = [i]"
| "event_arrival (Pinged t r rs) = []"

definition arrived :: "healthz_event list \<Rightarrow> nat multiset" where
  "arrived es = mset (concat (map event_arrival es))"

definition answered :: "healthz_event list \<Rightarrow> nat multiset" where
  "answered es = mset (concat (map (\<lambda>e. map fst (event_replies e)) es))"

lemma healthz_run_accounts:
  assumes "healthz_run config injected st (fresh_healthz, s) es (h, s')"
  shows "arrived es = answered es + mset (hz_waiting h)"
  using assms
proof (induction "(fresh_healthz, s)" es "(h, s')" arbitrary: h s' rule: healthz_run.induct)
  case start
  then show ?case by (simp add: arrived_def answered_def fresh_healthz_def)
next
  case (step es p' e)
  obtain h1 s1 where p': "p' = (h1, s1)" by (cases p')
  have w: "hz_waiting h1 \<noteq> [] \<longrightarrow> hz_pendingPing h1 = Some In_flight"
    using healthz_run_inv [OF step.hyps(1) [unfolded p']] by (simp add: healthz_inv_def)
  from step.hyps(3) [unfolded p'] step.hyps(2) [OF p'] w show ?case
    by (cases rule: healthz_step.cases)
      (auto simp: arrived_def answered_def healthz_cases multiset.map_comp comp_def split: option.splits pending_ping.splits sum.splits if_splits)
qed

text \<open>Property C34. Every probe of \<open>/healthz\<close> is accounted for, over any storage: the probes that arrived are those that
  were answered, each as often, and those that wait. As long as one waits, a ping runs, and when the ping ends, however it
  ends, every probe that waits is answered: with its verdict, or with the error it rejected with. Over a storage whose ping always gives a
  verdict, as PostgreSQL's and the in-memory one's does, every answer is a 200 or a 503; over an injected one that rejects
  it is that error.\<close>

theorem healthz_answers_every_probe:
  assumes "healthz_run config injected st (fresh_healthz, s) es (h, s')"
  shows "arrived es = answered es + mset (hz_waiting h) \<and>
    (hz_waiting h \<noteq> [] \<longrightarrow> (\<forall>now outcome s''. st_ping st s' = (outcome, s'') \<longrightarrow> (\<exists>h'. hz_waiting h' = [] \<and>
       healthz_step config injected st (h, s')
         (Some (Pinged now outcome (map (\<lambda>req. (req, case outcome of Inr up \<Rightarrow> healthz_reply config injected up
            | Inl err \<Rightarrow> handle_error err)) (hz_waiting h)))) (h', s'')))) \<and>
    ((\<forall>s. \<exists>up s''. st_ping st s = (Inr up, s'')) \<longrightarrow>
       (\<forall>e \<in> set es. \<forall>(i, rp) \<in> set (event_replies e). rp_status rp \<in> {200, 503}))"
proof (intro conjI impI allI)
  show "arrived es = answered es + mset (hz_waiting h)" by (rule healthz_run_accounts [OF assms])
next
  assume "\<forall>s. \<exists>up s''. st_ping st s = (Inr up, s'')"
  then show "\<forall>e \<in> set es. \<forall>(i, rp) \<in> set (event_replies e). rp_status rp \<in> {200, 503}"
    using verdicts_never_rejected [OF assms] by (fastforce simp: healthz_reply_def reply_with_def split: if_splits)
next
  fix now outcome s''
  assume "hz_waiting h \<noteq> []" and p: "st_ping st s' = (outcome, s'')"
  with healthz_run_inv [OF assms] have "hz_pendingPing h = Some In_flight" by (simp add: healthz_inv_def)
  with p show "\<exists>h'. hz_waiting h' = [] \<and> healthz_step config injected st (h, s')
         (Some (Pinged now outcome (map (\<lambda>req. (req, case outcome of Inr up \<Rightarrow> healthz_reply config injected up
            | Inl err \<Rightarrow> handle_error err)) (hz_waiting h)))) (h', s'')"
    by (cases outcome) (intro exI conjI healthz_step.pinged; auto simp: healthz_pinged_def)+
qed

lemma sample_probes:
  "healthz_run sample_config False createPgStorage (fresh_healthz, sample_pg) [Arrives 1000 1 [], Arrives 1500 2 []]
     (\<lparr>hz_lastPing = None, hz_pendingPing = Some In_flight, hz_waiting = [1, 2]\<rparr>, sample_pg)"
proof -
  let ?h = "\<lambda>w. \<lparr>hz_lastPing = None, hz_pendingPing = Some In_flight, hz_waiting = w\<rparr>"
  have "healthz_run sample_config False createPgStorage (fresh_healthz, sample_pg)
     ([] @ (case Some (Arrives 1000 1 []) of None \<Rightarrow> [] | Some e \<Rightarrow> [e])) (?h [1], sample_pg)"
    by (rule healthz_run.step [OF healthz_run.start healthz_step.arrives]) (simp add: healthz_cases fresh_healthz_def)
  then have 1: "healthz_run sample_config False createPgStorage (fresh_healthz, sample_pg) [Arrives 1000 1 []] (?h [1], sample_pg)"
    by simp
  have "healthz_run sample_config False createPgStorage (fresh_healthz, sample_pg)
     ([Arrives 1000 1 []] @ (case Some (Arrives 1500 2 []) of None \<Rightarrow> [] | Some e \<Rightarrow> [e])) (?h [1, 2], sample_pg)"
    by (rule healthz_run.step [OF 1 healthz_step.arrives]) (simp add: healthz_cases)
  then show ?thesis by simp
qed

lemma healthz_answers_every_probe_witness:
  "arrived [Arrives 1000 1 [], Arrives 1500 2 []] = {#1, 2#} \<and>
   (\<exists>up h' s''. hz_waiting h' = [] \<and>
     healthz_step sample_config False createPgStorage
       (\<lparr>hz_lastPing = None, hz_pendingPing = Some In_flight, hz_waiting = [1, 2]\<rparr>, sample_pg)
       (Some (Pinged 1600 (Inr up) [(1, healthz_reply sample_config False up), (2, healthz_reply sample_config False up)])) (h', s''))"
proof -
  obtain up s'' where "st_ping createPgStorage sample_pg = (Inr up, s'')" using storages_give_verdicts(1) by blast
  with healthz_answers_every_probe [OF sample_probes] show ?thesis by (fastforce simp: answered_def)
qed

text \<open>What \<open>/healthz\<close> tells a request that it answers at once is the verdict of the last ping that answered, and that
  ping ended at most two seconds ago; over any storage.\<close>

theorem healthz_verdict_is_recent:
  assumes "healthz_run config injected st (fresh_healthz, s) es (h, s')"
    and "healthz_step config injected st (h, s') (Some (Arrives now req replies)) (h', s'')" and "(i, rp) \<in> set replies"
  shows "i = req \<and>
    ((\<exists>t up. last_up es = Some (t, up) \<and> now - t \<le> 2000 \<and> rp = healthz_reply config injected up) \<or>
     (\<exists>err. hz_pendingPing h = Some (Rejected err) \<and> rp = handle_error err))"
  using healthz_run_inv [OF assms(1)] assms(2,3)
  by (auto simp: healthz_inv_def healthz_cases elim!: healthz_step.cases split: option.splits pending_ping.splits if_splits)

definition sample_cached :: healthz_state where
  "sample_cached = \<lparr>hz_lastPing = Some (1100, True), hz_pendingPing = None, hz_waiting = []\<rparr>"

definition sample_verdict :: "healthz_event list" where
  "sample_verdict = [Arrives 1000 1 [], Pinged 1100 (Inr True) [(1, healthz_reply sample_config False True)]]"

lemma sample_verdict_run:
  "healthz_run sample_config False createMemoryStorage (fresh_healthz, sample_store) sample_verdict (sample_cached, sample_store)"
proof -
  let ?h = "\<lparr>hz_lastPing = None, hz_pendingPing = Some In_flight, hz_waiting = [1]\<rparr>"
  have "healthz_run sample_config False createMemoryStorage (fresh_healthz, sample_store)
     ([] @ (case Some (Arrives 1000 1 []) of None \<Rightarrow> [] | Some e \<Rightarrow> [e])) (?h, sample_store)"
    by (rule healthz_run.step [OF healthz_run.start healthz_step.arrives]) (simp add: healthz_cases fresh_healthz_def)
  then have 1: "healthz_run sample_config False createMemoryStorage (fresh_healthz, sample_store) [Arrives 1000 1 []] (?h, sample_store)"
    by simp
  have "healthz_run sample_config False createMemoryStorage (fresh_healthz, sample_store)
     ([Arrives 1000 1 []] @ (case Some (Pinged 1100 (Inr True) [(1, healthz_reply sample_config False True)]) of None \<Rightarrow> [] | Some e \<Rightarrow> [e]))
     (sample_cached, sample_store)"
    by (rule healthz_run.step [OF 1 healthz_step.pinged]) (simp_all add: healthz_cases createMemoryStorage_def returnE_def sample_cached_def)
  then show ?thesis by (simp add: sample_verdict_def)
qed

lemma healthz_verdict_is_recent_witness:
  "last_up sample_verdict = Some (1100, True) \<and> (3100::int) - 1100 \<le> 2000"
proof -
  have "healthz_step sample_config False createMemoryStorage (sample_cached, sample_store)
      (Some (Arrives 3100 2 [(2, healthz_reply sample_config False True)])) (sample_cached, sample_store)"
    by (rule healthz_step.arrives) (simp add: healthz_cases sample_cached_def)
  from healthz_verdict_is_recent [OF sample_verdict_run this] show ?thesis
    by (auto simp: sample_cached_def sample_verdict_def)
qed

text \<open>The bound that holds all along a run: a ping in flight was started more than two seconds after the last one ended.\<close>

definition healthz_rate :: "healthz_event list \<Rightarrow> healthz_state \<Rightarrow> bool" where
  "healthz_rate es h \<longleftrightarrow>
     (if es = [] then h = fresh_healthz
      else let n = int (pings es); t0 = event_time (hd es); t1 = event_time (last es)
           in case hz_pendingPing h of
                None \<Rightarrow> (case hz_lastPing h of None \<Rightarrow> n = 0 | Some (t, up) \<Rightarrow> 2001 * n \<le> t - t0 + 2001 \<and> t \<le> t1)
              | Some In_flight \<Rightarrow> 2001 * n \<le> t1 - t0
              | Some (Rejected err) \<Rightarrow> 2001 * n \<le> t1 - t0 + 2001)"

lemma pings_simps [simp]: "pings [] = 0" "pings [e] = (if is_ping e then 1 else 0)" "pings (es @ [e]) = pings es + (if is_ping e then 1 else 0)"
  by (simp_all add: pings_def)

lemma healthz_rate_step:
  assumes "healthz_rate es h" and "healthz_step config injected st (h, s) (Some e) (h', s')"
    and "sorted (map event_time (es @ [e]))"
  shows "healthz_rate (es @ [e]) h'"
proof -
  have t: "es \<noteq> [] \<Longrightarrow> event_time (hd es) \<le> event_time (last es) \<and> event_time (last es) \<le> event_time e"
    using assms(3) by (cases es) (auto simp: sorted_append)
  from assms(2) show ?thesis
  proof (cases rule: healthz_step.cases)
    case (arrives now req replies)
    with assms(1) t show ?thesis
      by (cases "es = []") (auto simp: healthz_rate_def healthz_cases fresh_healthz_def Let_def
          split: option.splits pending_ping.splits if_splits)
  next
    case (pinged outcome now replies)
    with assms(1) t show ?thesis
      by (cases "es = []") (auto simp: healthz_rate_def healthz_cases fresh_healthz_def Let_def split: sum.splits)
  qed
qed

lemma healthz_run_rate:
  assumes "healthz_run config injected st (fresh_healthz, s) es (h, s')" and "sorted (map event_time es)"
  shows "healthz_rate es h"
  using assms
proof (induction "(fresh_healthz, s)" es "(h, s')" arbitrary: h s' rule: healthz_run.induct)
  case start
  then show ?case by (simp add: healthz_rate_def)
next
  case (step es p' e)
  obtain h1 s1 where p': "p' = (h1, s1)" by (cases p')
  have "sorted (map event_time es)" using step.prems by (auto simp: sorted_append split: option.splits)
  from step.hyps(2) [OF p' this] have r: "healthz_rate es h1" .
  show ?case
  proof (cases e)
    case None
    with step.hyps(3) [unfolded p'] have "h = h1" by (auto elim: healthz_step.cases)
    with r None show ?thesis by simp
  next
    case (Some e')
    with step.prems step.hyps(3) [unfolded p'] show ?thesis using healthz_rate_step [OF r] by simp
  qed
qed

text \<open>However often \<open>/healthz\<close> is probed, the storage is pinged at most once in two seconds: with a clock that does not
  go back, \<open>n\<close> pings take more than \<open>2000 (n - 1)\<close> milliseconds; over any storage.\<close>

theorem healthz_pings_bounded:
  assumes "healthz_run config injected st (fresh_healthz, s) es (h, s')" and "sorted (map event_time es)" and "es \<noteq> []"
  shows "2001 * (int (pings es) - 1) \<le> event_time (last es) - event_time (hd es)"
proof -
  have "event_time (hd es) \<le> event_time (last es)" using assms(2,3) by (cases es) auto
  with healthz_run_rate [OF assms(1,2)] assms(3) show ?thesis
    by (auto simp: healthz_rate_def Let_def split: option.splits pending_ping.splits)
qed

lemma healthz_pings_bounded_witness: "pings sample_verdict = 1 \<and> 2001 * (int (pings sample_verdict) - 1) \<le> (1100::int) - 1000"
  using healthz_pings_bounded [OF sample_verdict_run] by (simp add: sample_verdict_def pings_def)

text \<open>A ping that rejects is never cleared: from then on the storage is never pinged again, and every probe that finds no
  verdict of the last two seconds is answered with the error of that one ping, though the storage may long be well.
  Neither storage of the server rejects, but an injected one may.\<close>

theorem healthz_stuck_after_rejection:
  assumes "healthz_run config injected st (h, s) es (h', s')" and "hz_pendingPing h = Some (Rejected err)" and "hz_waiting h = []"
  shows "h' = h \<and> pings es = 0 \<and>
    (\<forall>now req replies. Arrives now req replies \<in> set es \<longrightarrow> recent_ping now h = None \<longrightarrow> replies = [(req, handle_error err)])"
  using assms
proof (induction "(h, s)" es "(h', s')" arbitrary: h' s' rule: healthz_run.induct)
  case start
  then show ?case by (simp add: pings_def)
next
  case (step es p' e)
  obtain h1 s1 where p': "p' = (h1, s1)" by (cases p')
  from step.hyps(2) [OF p'] step.prems have ih: "h1 = h" "pings es = 0"
    "\<forall>now req replies. Arrives now req replies \<in> set es \<longrightarrow> recent_ping now h = None \<longrightarrow> replies = [(req, handle_error err)]" by blast+
  from step.hyps(3) [unfolded p'] ih step.prems show ?case
    by (cases rule: healthz_step.cases) (auto simp: healthz_request_def pings_def split: option.splits)
qed

definition sample_stuck :: healthz_state where
  "sample_stuck = snd (healthz_pinged sample_config True 1100 (Inl (JsExn None))
     \<lparr>hz_lastPing = None, hz_pendingPing = Some In_flight, hz_waiting = [1]\<rparr>)"

lemma healthz_stuck_after_rejection_witness:
  "hz_pendingPing sample_stuck = Some (Rejected (JsExn None)) \<and>
   healthz_run sample_config True createMemoryStorage (sample_stuck, sample_store)
     [Arrives 99000 2 [(2, handle_error (JsExn None))]] (sample_stuck, sample_store) \<and>
   pings [Arrives 99000 2 [(2, handle_error (JsExn None))]] = 0"
proof -
  have h: "hz_pendingPing sample_stuck = Some (Rejected (JsExn None))" "hz_waiting sample_stuck = []"
    by (simp_all add: sample_stuck_def healthz_cases)
  have "healthz_run sample_config True createMemoryStorage (sample_stuck, sample_store)
     ([] @ (case Some (Arrives 99000 2 [(2, handle_error (JsExn None))]) of None \<Rightarrow> [] | Some e \<Rightarrow> [e])) (sample_stuck, sample_store)"
    by (rule healthz_run.step [OF healthz_run.start healthz_step.arrives]) (simp add: healthz_cases sample_stuck_def)
  then have run: "healthz_run sample_config True createMemoryStorage (sample_stuck, sample_store)
     [Arrives 99000 2 [(2, handle_error (JsExn None))]] (sample_stuck, sample_store)" by simp
  from healthz_stuck_after_rejection [OF this h] h run show ?thesis by blast
qed

end
