(* ===== verification/RemoteKeys.thy ===== *)
theory RemoteKeys
  imports Samples
begin

text \<open>
  The key sets of clients that register a \<open>jwks_uri\<close> (\<open>clientKeyResolver\<close>, \<open>src/crypto/jws.ts\<close>): one resolver
  per URI is kept in a \<open>Map\<close> of the module, at most 1024 of them. The rest of the model takes the key source as a
  function of the registration; here the cache is modelled and shown to be invisible to it. A resolver is whatever
  \<open>createRemoteJWKSet\<close> of the library returns for a URI; the argument \<open>create\<close> of a call is the library's function at that
  call.
\<close>

definition REMOTE_JWKS_CACHE_MAX :: nat where
  "REMOTE_JWKS_CACHE_MAX = 1024"

datatype 'r key_resolver = Local_resolver "jobj list" | Remote_resolver 'r

text \<open>The entry inserted first is the first of the map; it makes room. A \<open>jwks_uri\<close> that is no URL makes
  \<open>new URL\<close> throw before anything is dropped.\<close>

definition make_room :: "(string, 'r) jsmap \<Rightarrow> (string, 'r) jsmap" where
  "make_room cache = (if REMOTE_JWKS_CACHE_MAX \<le> length cache then drop 1 cache else cache)"

definition remoteResolver :: "ext \<Rightarrow> (string \<Rightarrow> 'r) \<Rightarrow> string \<Rightarrow> ((string, 'r) jsmap, exn, 'r key_resolver) act" where
  "remoteResolver x create uri cache =
     (case map_get cache uri of
        Some resolver \<Rightarrow> (Inr (Remote_resolver resolver), cache)
      | None \<Rightarrow>
          if x_url x uri = None then (Inl (JsExn None), cache)
          else (Inr (Remote_resolver (create uri)), map_set uri (create uri) (make_room cache)))"

definition cachedKeyResolver ::
  "ext \<Rightarrow> (string \<Rightarrow> 'r) \<Rightarrow> jobj list option \<Rightarrow> string option \<Rightarrow> ((string, 'r) jsmap, exn, 'r key_resolver) act" where
  "cachedKeyResolver x create keys jwksUri =
     (case keys of
        Some ks \<Rightarrow> returnE (Local_resolver ks)
      | None \<Rightarrow> if truthy jwksUri then remoteResolver x create (the jwksUri) else throwE JwsVerificationExn)"

section \<open>The cache is bounded and holds every resolver under its own URI\<close>

text \<open>\<open>made_for\<close> is the URI a resolver was created with.\<close>

definition cache_ok :: "('r \<Rightarrow> string) \<Rightarrow> (string, 'r) jsmap \<Rightarrow> bool" where
  "cache_ok made_for cache \<longleftrightarrow>
     map_ok cache \<and> length cache \<le> REMOTE_JWKS_CACHE_MAX \<and> (\<forall>(uri, r)\<in>set cache. made_for r = uri)"

lemma cache_ok_Nil [simp]: "cache_ok f []"
  by (simp add: cache_ok_def)

lemma cache_ok_get: "cache_ok f cache \<Longrightarrow> map_get cache uri = Some r \<Longrightarrow> f r = uri"
  by (auto simp: cache_ok_def dest: map_of_SomeD)

lemma make_room_subset: "set (make_room cache) \<subseteq> set cache"
  by (auto simp: make_room_def dest: in_set_dropD)

lemma make_room_ok:
  assumes "cache_ok f cache"
  shows "map_ok (make_room cache)" and "length (make_room cache) < REMOTE_JWKS_CACHE_MAX"
  using assms by (auto simp: cache_ok_def make_room_def map_ok_def drop_map [symmetric] REMOTE_JWKS_CACHE_MAX_def)

lemma length_update_le: "length (AList.update k v m) \<le> Suc (length m)"
  by (induction m) auto

lemma set_map_set: "set (AList.update k v m) \<subseteq> insert (k, v) (set m)"
  by (induction m) auto

lemma cache_ok_insert:
  assumes "cache_ok f cache" and "f r = uri"
  shows "cache_ok f (map_set uri r (make_room cache))"
proof -
  have "length (AList.update uri r (make_room cache)) \<le> REMOTE_JWKS_CACHE_MAX"
    using length_update_le [of uri r "make_room cache"] make_room_ok(2) [OF assms(1)] by linarith
  moreover have "\<forall>(u, q)\<in>set (AList.update uri r (make_room cache)). f q = u"
    using assms set_map_set [of uri r "make_room cache"] make_room_subset [of cache] by (fastforce simp: cache_ok_def)
  ultimately show ?thesis using make_room_ok(1) [OF assms(1)] by (simp add: cache_ok_def)
qed

text \<open>The source a resolver stands for.\<close>

fun source_of :: "('r \<Rightarrow> string) \<Rightarrow> 'r key_resolver \<Rightarrow> key_source" where
  "source_of made_for (Local_resolver ks) = Local_jwks ks"
| "source_of made_for (Remote_resolver r) = Remote_jwks (made_for r)"

text \<open>Property C40. The cache of remote key sets is invisible and bounded: whatever was looked up before, the resolver a
  client gets stands for the very key source its registration names, the errors are the same, save that a \<open>jwks_uri\<close> that
  is no URL throws; and never more than 1024 resolvers are kept, each under its own URI.\<close>

theorem key_cache_invisible:
  assumes "cache_ok made_for cache" and "\<forall>u. made_for (create u) = u"
    and "cachedKeyResolver x create keys jwksUri cache = (r, cache')"
  shows "cache_ok made_for cache' \<and>
    (if keys = None \<and> truthy jwksUri \<and> x_url x (the jwksUri) = None \<and> map_get cache (the jwksUri) = None
     then r = Inl (JsExn None) \<and> cache' = cache
     else map_sum id (source_of made_for) r = clientKeyResolver keys jwksUri)"
  using assms cache_ok_insert [of made_for cache "create (the jwksUri)" "the jwksUri"]
  by (auto simp: cachedKeyResolver_def remoteResolver_def clientKeyResolver_def returnE_def throwE_def cache_ok_get
      split: option.splits if_splits)

definition sample_cache :: "(string, string) jsmap" where
  "sample_cache = [(''https://a/jwks'', ''https://a/jwks'')]"

lemma key_cache_invisible_witness:
  "cachedKeyResolver sample_ext id None (Some ''https://as'') sample_cache
     = (Inr (Remote_resolver ''https://as''), sample_cache @ [(''https://as'', ''https://as'')]) \<and>
   cache_ok id (sample_cache @ [(''https://as'', ''https://as'')])"
proof -
  have run: "cachedKeyResolver sample_ext id None (Some ''https://as'') sample_cache
     = (Inr (Remote_resolver ''https://as''), sample_cache @ [(''https://as'', ''https://as'')])"
    by (simp add: cachedKeyResolver_def remoteResolver_def sample_cache_def sample_url_def make_room_def REMOTE_JWKS_CACHE_MAX_def
        truthy_def starts_with_def Let_def)
  have "cache_ok id sample_cache"
    by (simp add: cache_ok_def sample_cache_def map_ok_def REMOTE_JWKS_CACHE_MAX_def)
  from key_cache_invisible [where create = id, OF this _ run] run show ?thesis by simp
qed

text \<open>A hit does not count as use: the resolver that was inserted first is dropped for the next new URI even if it has
  just been asked for.\<close>

theorem used_resolver_dropped:
  assumes "map_ok cache" and "length cache = REMOTE_JWKS_CACHE_MAX" and "hd (map fst cache) = uri"
    and "map_get cache other = None" and "x_url x other \<noteq> None"
    and "cachedKeyResolver x c1 None (Some uri) cache = (r1, cache1)" and "uri \<noteq> []" and "other \<noteq> []"
    and "cachedKeyResolver x c2 None (Some other) cache1 = (r2, cache2)"
  shows "r1 \<noteq> Inl e \<and> map_get cache2 uri = None"
proof -
  obtain r rest where cache: "cache = (uri, r) # rest"
    using assms(2,3) by (cases cache) (auto simp: REMOTE_JWKS_CACHE_MAX_def)
  have "uri \<notin> fst ` set rest" using assms(1) cache by (simp add: map_ok_def)
  then have "map_of rest uri = None" by (simp add: map_of_eq_None_iff)
  with assms cache show ?thesis
    by (auto simp: cachedKeyResolver_def remoteResolver_def make_room_def truthy_def split: if_splits)
qed

end
