(* ===== verification/Spec2Isabelle.thy ===== *)
theory Spec2Isabelle
  imports DomainGuarantees ComponentProperties ConfigProperties EndpointProperties IssuedTokens RunGuarantees MemoryInterleaving PgIntegrity
    CommandProperties AppProperties RemoteKeys
begin

text \<open>
  A model of an OAuth 2.0 authorization server for the FAPI 2.0 security profile, written in TypeScript on
  Fastify, with its storage, its signing keys, its endpoints and its tools. The server pushes authorization requests
  (PAR), signs users in and asks for their consent, issues authorization codes and sender-constrained
  (DPoP) tokens to clients that authenticate with \<open>private_key_jwt\<close>, and answers UserInfo, introspection
  and revocation. The theories follow the source file by file, in the order in which the code builds on
  itself; names of definitions are the names of the source wherever they are free.

  \<^bold>\<open>How the code is modelled.\<close> An \<open>async\<close> function is an action \<open>'s \<Rightarrow> (exn + 'a) \<times> 's\<close> (Prelude): it passes
  the state and returns or throws; every \<open>throw\<close>, rejected promise and early return is a branch. The state
  \<open>'s\<close> is abstract in the domain layer and the endpoints, which only call the operations of a \<open>storage\<close>
  record and a \<open>keystore\<close> record (StoragePort, KeyPort), as the code only calls its interfaces. A string is a
  \<open>char list\<close>, a date the milliseconds since the epoch, a JSON number a rational, a JavaScript object the
  list of its members. Every reading of the clock and every random draw of a handler is a field of an
  environment record (\<open>token_env\<close>, \<open>consent_env\<close>, ...), in the order the code reads them, so that two
  readings in one request may differ. Loops are structural
  recursion, so there is no fuel; the only fixed bounds are those of the code: 50000 rate-limit windows,
  8192 replay identifiers in memory, 1024 remote key sets, 256 separators in a form body.

  \<^bold>\<open>Concurrency.\<close> In a run of the server a handler is one step. Beyond that, what two requests do to each other
  is covered where the state is shared: on the in-memory storage, every interleaving of its operations, which do not yield
  (MemoryInterleaving); on PostgreSQL, every interleaving of single queries (PgInterleaving), each answered, not run,
  or run with its reply lost; at \<open>/healthz\<close>, the overlapping probes that share a ping (App). Two first requests that load the
  keys at the same time, which the code makes share one promise, are not.

  \<^bold>\<open>The parts.\<close>
  \<^item> Foundations: Prelude (actions, JavaScript maps), JsText, JsNumber, Base64url, Json (strings, numbers and values),
    Externals (the libraries, as the fields of the record \<open>ext\<close>: SHA-256, HMAC, URL and JSON parsing, jose,
    AES-GCM), Errors (\<open>domain/errors.ts\<close>), Config (the types of \<open>config.ts\<close>) and LoadConfig (\<open>loadConfig\<close>, on the
    environment variables).
  \<^item> Interfaces: StoragePort (\<open>db/repositories/types.ts\<close>) with an abstract store of finite maps, a
    specification function for every operation, and the locale \<open>storage_contract\<close> that an adapter has to meet;
    KeyPort with the locale \<open>key_port\<close>. An operation that throws may have taken effect all the same.
  \<^item> The in-memory adapter: MemoryStorage (\<open>db/repositories/memory.ts\<close>), the interpretation \<open>mem\<close>.
  \<^item> The PostgreSQL adapter: Sql (the statements as data, and what the database does with them), PgStorage
    (\<open>db/repositories/pg.ts\<close>, the schema of the migrations), PgStatements (the effect of each statement),
    PgContract (the interpretation \<open>pg\<close> of the same contract).
  \<^item> KeyStore (\<open>crypto/keys.ts\<close>), a \<open>sublocale\<close> of \<open>key_rows\<close>; RateLimit; Authz (\<open>authz/\<close>); RemoteKeys (the cache
    of \<open>crypto/jws.ts\<close>).
  \<^item> Domain: Clients, ClientAuth (with \<open>crypto/jws.ts\<close>), Dpop, Pkce, AuthzRequest, Par, Sessions, Interaction,
    Grant, Tokens, TokenLookup, each for the file of \<open>src/domain\<close> of its name. RequestForm states what an acceptable
    authorization request looks like, apart from the code that checks it.
  \<^item> Endpoints: Http (\<open>form.ts\<close>, \<open>redirect.ts\<close>, error handler and hooks of \<open>endpoints/index.ts\<close>), Views, Discovery,
    EndpointDeps, TokenEndpoint, AuthorizeEndpoint, InteractionEndpoint, ResourceEndpoints (\<open>par.ts\<close>,
    \<open>revoke.ts\<close>, \<open>introspect.ts\<close>, \<open>userinfo.ts\<close>), proved inside the locale \<open>endpoint_deps\<close>.
  \<^item> Server (\<open>endpoints/index.ts\<close>): the parts put together, the routes, with a \<open>HEAD\<close> for every \<open>GET\<close>
    as the framework adds it, and the interpretations of
    \<open>endpoint_deps\<close> on the assembled server, \<open>srv\<close> with the in-memory storage and \<open>pgsrv\<close> (PgContract) with
    PostgreSQL. The state is the limiter, the keystore and the store.
  \<^item> App (\<open>src/index.ts\<close>): the choice of the storage, TLS material and options, \<open>/health\<close>, and \<open>/healthz\<close> as a step
    relation over overlapping probes. CommandLine: \<open>db/migrate.ts\<close>, \<open>seed-clients.ts\<close>, \<open>keys-rotate.ts\<close>, \<open>pool.ts\<close>.
  \<^item> History and RunGuarantees: what any sequence of requests does to the tables, over any storage that meets its
    contract. Samples: an instance of everything the model is parametric in, on which the witnesses evaluate.

  \<^bold>\<open>What is shown.\<close> DomainGuarantees: client authentication, proofs, codes, refresh tokens and pushed requests,
    on the in-memory storage. ComponentProperties: round trips, validations, bounds of the two tables
    that grow with traffic, pages, keystore. ConfigProperties: what a loaded configuration guarantees.
    EndpointProperties: what a token response, a new code, a UserInfo or
    introspection answer and a revocation mean; IssuedTokens: a token just issued is served. MemoryInterleaving, PgInterleaving
    and PgIntegrity: the marks of the rows and the constraints of the database under every interleaving; MemoryInterleaving
    also in which case an assertion or a proof can be accepted a second time. CommandProperties
    and AppProperties: migrations, seeding, rotation, start and health. RemoteKeys: the cache of key sets is invisible and
    bounded. This theory: what holds along every sequence of
    requests, over either storage. Identifiers drawn at random are not assumed to be fresh: where a property needs that an
    identifier is not drawn again it says so.

  \<^bold>\<open>What is not modelled.\<close> Routing, the parsing of bodies before the form parser, TLS, listening and logging, which are
  the framework's (a request that has no handler is no event of a run); the fetching of remote key sets, which is the
  library's (the key source is a parameter of the verification); indexes of the schema that only make queries
  faster; modules that only re-export, and the scripts that are not part of the server.
\<close>

section \<open>What holds along every run of the server\<close>

text \<open>The states of the in-memory server that the properties start from: the parts are well formed and the
  rows are filed under their own identifiers. Every run keeps it.\<close>

definition sound :: "app_config \<Rightarrow> mem_store server \<Rightarrow> bool" where
  "sound config s \<longleftrightarrow> server_ok config s \<and> keyed (tables_of s)"

lemma sound_run:
  assumes "sound config s"
  shows "sound config (run_server (memory_server x pdp auth config paths urls) es s)"
    and "history (drawn_in x es) (tables_of s) (tables_of (run_server (memory_server x pdp auth config paths urls) es s))"
    and "g \<notin> dr_grants (drawn_in x es) \<Longrightarrow> grant_gone g (tables_of s) \<Longrightarrow>
      grant_gone g (tables_of (run_server (memory_server x pdp auth config paths urls) es s))"
  using srv.run_kept [OF assms [unfolded sound_def], unfolded memory_server_sel] by (simp_all add: sound_def)

lemma sound_fresh: "sound config (fresh_server empty_store)"
proof -
  have "server_ok config (fresh_server empty_store)" by (rule srv_ok_fresh) simp
  then show ?thesis by (simp add: sound_def keyed_def fresh_server_def mem_view_def empty_store_def)
qed

lemma sample_state_sound: "sound sample_config sample_state"
  using sample_state_ok
  by (simp add: sound_def keyed_def sample_state_def fresh_server_def mem_view_def sample_store_def empty_store_def
      sample_grant_def sample_at_def sample_rt_def)

text \<open>A run of one request, for the witnesses: the code of the sample client is exchanged.\<close>

definition sample_call_env :: call_env where
  "sample_call_env =
     \<lparr>xe_key = sample_key_env, xe_t_keys = 1000000,
      xe_par = \<lparr>pe_t_rate = 1000000, pe_t_auth = 1000000, pe_t_dpop = 1000000, pe_t_push = 1000000, pe_bytes = ''par''\<rparr>,
      xe_authorize = sample_authorize_env,
      xe_dispatch = \<lparr>de_t_context = 1000000, de_t_session = 1000000, de_t_now = 1000000\<rparr>,
      xe_login = \<lparr>lo_t_context = 1000000, lo_t_auth = 1000000, lo_t_session = 1000000, lo_sid_bytes = ''sid''\<rparr>,
      xe_consent = sample_consent_env, xe_token = sample_token_env, xe_lookup = sample_lookup_env,
      xe_userinfo = sample_userinfo_env\<rparr>"

definition sample_run :: "event list" where
  "sample_run = [(sample_call_env, ''/token'', sample_code_request)]"

lemma sample_run_draws [simp]:
  "dr_par (drawn_in sample_ext sample_run) = {REQUEST_URI_PREFIX @ base64url ''par''}"
  "dr_grants (drawn_in sample_ext sample_run) = {''G''}"
  "dr_codes (drawn_in sample_ext sample_run) = {sha256Base64Url sample_ext (base64url ''new'')}"
  "dr_at (drawn_in sample_ext sample_run) = {''K''}"
  by (simp_all add: sample_run_def sample_call_env_def drawn_by_def Let_def sample_token_env_def sample_authorize_env_def
      sample_consent_env_def sample_code_env_def)

lemma sample_other_code:
  "sha256Base64Url sample_ext ''code'' \<noteq> sha256Base64Url sample_ext (base64url ''new'')"
  "''u'' \<noteq> REQUEST_URI_PREFIX @ base64url ''par''"
  by code_simp+

lemma sample_trim: "trim ''at'' = ''at''"
  by code_simp

text \<open>Property C7. Whatever requests a server handles, in whatever order, \<open>HEAD\<close> requests included, its parts stay well formed,
  and its rows
  change in one direction only: clients are unchanged; apart from rows under identifiers that were drawn
  at random in between, a code or a pushed request is at most used, and used ones stay used, a grant or a token is at
  most marked revoked, and revoked ones stay revoked; none disappears and none changes otherwise. Parked interactions and
  replay entries, which expire and are swept, are not covered.\<close>

theorem rows_age_along_runs:
  assumes "sound config s"
  shows "sound config (run_server (memory_server x pdp auth config paths urls) es s) \<and>
    history (drawn_in x es) (tables_of s) (tables_of (run_server (memory_server x pdp auth config paths urls) es s))"
  using sound_run [OF assms] by blast

lemma rows_age_along_runs_witness:
  "\<forall>es. sound sample_config (run_server sample_deps es sample_state)"
  unfolding sample_server using rows_age_along_runs [OF sample_state_sound] by blast

text \<open>Property C9. A code buys tokens once: after the token endpoint answered a code with tokens, it never answers
  that code with tokens again, whatever requests came in between, as long as no new code drawn in between
  has the same digest.\<close>

theorem code_buys_tokens_once:
  assumes "sound config s" and "d = memory_server x pdp auth config paths urls"
    and "succeeds (post_token d env rq) s" and "s1 = snd (post_token d env rq s)" and "s2 = run_server d es s1"
    and "sha256Base64Url x code \<notin> dr_codes (drawn_in x es)" and "presents_code code rq" and "presents_code code rq'"
  shows "\<not> succeeds (post_token d env' rq') s2"
  using srv.run_code_once [OF assms(1) [unfolded sound_def] assms(3) [unfolded assms(2)] assms(7,8), unfolded memory_server_sel,
    OF assms(6)] by (simp add: assms(2,4,5))

lemma code_buys_tokens_once_witness:
  "succeeds (post_token sample_deps sample_token_env sample_code_request) sample_state \<and>
   \<not> succeeds (post_token sample_deps sample_token_env sample_code_request)
       (run_server sample_deps sample_run (snd (post_token sample_deps sample_token_env sample_code_request sample_state)))"
proof -
  have first: "succeeds (post_token sample_deps sample_token_env sample_code_request) sample_state"
    using sample_tokens by (auto simp: succeeds_def)
  have "\<not> succeeds (post_token sample_deps sample_token_env sample_code_request)
       (run_server sample_deps sample_run (snd (post_token sample_deps sample_token_env sample_code_request sample_state)))"
    by (rule code_buys_tokens_once [OF sample_state_sound sample_server first refl refl, where code = "''code''"])
      (simp_all add: sample_other_code presents_code_def sample_code_request_def sample_request_def sample_body_def)
  with first show ?thesis by blast
qed

text \<open>Once an access token is marked revoked, UserInfo never answers to it again, whatever requests
  come in between, as long as none of them draws its identifier for a new token.\<close>

theorem revoked_token_stays_dead:
  assumes "sound config s" and "a_at (tables_of s) j = Some row" and "at_revokedAt row \<noteq> None"
    and "j \<notin> dr_at (drawn_in x es)" and "d = memory_server x pdp auth config paths urls"
    and "s' = run_server d es s"
    and "\<forall>keys i. verified_jti x config keys token = Some i \<longrightarrow> i = j"
    and "map_option trim (Option.bind (rq_authorization rq) dpop_credentials) = Some token"
  shows "\<not> succeeds (userinfo d env rq) s'"
  using srv.run_token_dead [OF assms(1) [unfolded sound_def] assms(2,3), unfolded memory_server_sel, OF assms(4,7,8)]
  by (simp add: assms(5,6))

definition sample_revoked_state :: "mem_store server" where
  "sample_revoked_state = fresh_server (sample_store
     \<lparr>m_grants := [(''g'', grant_mark 5 sample_grant)], m_accessTokens := [(''J'', at_mark 5 sample_at)],
      m_refreshTokens := [(base64url ''rt'', rt_mark 5 sample_rt)],
      m_par := [(''u'', (sample_par ''u'' None, Some 5))]\<rparr>)"

lemma sample_revoked_sound: "sound sample_config sample_revoked_state"
proof -
  have "server_ok sample_config sample_revoked_state"
    unfolding sample_revoked_state_def by (rule srv_ok_fresh) (simp add: mem_ok_def map_ok_def sample_store_def empty_store_def)
  then show ?thesis
    by (simp add: sound_def keyed_def sample_revoked_state_def fresh_server_def mem_view_def sample_store_def empty_store_def
        grant_mark_def at_mark_def rt_mark_def sample_grant_def sample_at_def sample_rt_def)
qed

lemma sample_revoked_rows:
  "a_at (tables_of sample_revoked_state) ''J'' = Some (at_mark 5 sample_at)"
  "a_par (tables_of sample_revoked_state) ''u'' = Some (sample_par ''u'' None, Some 5)"
  "grant_gone ''g'' (tables_of sample_revoked_state)"
  by (auto simp: grant_gone_def grant_dead_def sample_revoked_state_def fresh_server_def mem_view_def sample_store_def
      empty_store_def split: if_splits)

lemma revoked_token_stays_dead_witness:
  "\<not> succeeds (userinfo sample_deps sample_userinfo_env sample_userinfo_request)
       (run_server sample_deps sample_run sample_revoked_state)"
proof -
  have "\<forall>keys i. verified_jti sample_ext sample_config keys ''at'' = Some i \<longrightarrow> i = ''J''"
    by (simp add: verified_jti_def)
  then show ?thesis
    by (intro revoked_token_stays_dead [OF sample_revoked_sound sample_revoked_rows(1) marks(2) _ sample_server refl, where token = "''at''"])
      (simp_all add: sample_userinfo_request_def sample_trim)
qed

text \<open>Property C11. Once everything of a grant is revoked, as it is by the replay of its code, nothing comes to life
  under it: after any run, UserInfo answers only to tokens of other grants, and the token endpoint issues
  tokens only under other grants, as long as no run draws the grant's identifier for a new grant.\<close>

theorem gone_grant_stays_gone:
  assumes "sound config s" and "grant_gone g (tables_of s)" and "g \<notin> dr_grants (drawn_in x es)"
    and "d = memory_server x pdp auth config paths urls" and "s' = run_server d es s"
  shows "grant_gone g (tables_of s') \<and>
    (\<forall>env rq. succeeds (userinfo d env rq) s' \<longrightarrow>
       (\<exists>cred row. Option.bind (rq_authorization rq) dpop_credentials = Some cred \<and>
          access_row x config (published_keys (dp_keystore d) (ue_key env) (ue_t_keys env) s') (tables_of s') (trim cred)
            = Some row \<and> at_grantId row \<noteq> g)) \<and>
    (\<forall>env rq. succeeds (post_token d env rq) s' \<longrightarrow>
       (\<exists>row. a_at (tables_of (snd (post_token d env rq s'))) (ie_jti (te_issue env)) = Some row \<and>
          at_revokedAt row = None \<and> at_grantId row \<noteq> g))"
proof -
  have gone: "grant_gone g (tables_of s')" unfolding assms(4,5) by (rule sound_run(3) [OF assms(1,3,2)])
  have s': "server_ok config s' \<and> keyed (tables_of s')"
    using sound_run(1) [OF assms(1)] by (simp add: assms(4,5) sound_def)
  with gone srv.gone_not_answered [OF _ gone] srv.gone_not_issued [OF s' gone] show ?thesis
    unfolding assms(4) by fastforce
qed

lemma gone_grant_stays_gone_witness: "grant_gone ''g'' (tables_of (run_server sample_deps sample_run sample_revoked_state))"
  using gone_grant_stays_gone [OF sample_revoked_sound sample_revoked_rows(3) _ sample_server refl, of sample_run] by simp

text \<open>Property C6. A pushed request that was used yields no further code, after whatever run, as long as its
  reference is not drawn again.\<close>

theorem used_request_yields_no_code:
  assumes "sound config s" and "a_par (tables_of s) uri = Some (p, Some t)" and "uri \<notin> dr_par (drawn_in x es)"
    and "d = memory_server x pdp auth config paths urls" and "s' = run_server d es s"
  shows "a_codes (tables_of (snd (issueCodeForInteraction d env uri c request user s'))) = a_codes (tables_of s')"
  using srv.run_request_used [OF assms(1) [unfolded sound_def] assms(2), unfolded memory_server_sel, OF assms(3) refl]
  by (simp add: assms(4,5))

lemma used_request_yields_no_code_witness:
  "a_codes (tables_of (snd (issueCodeForInteraction sample_deps sample_code_env ''u'' sample_client
       (sample_authz_request None) \<lparr>au_sub = ''alice'', au_authTime = 990000, au_acr = None, au_amr = None\<rparr>
       (run_server sample_deps sample_run sample_revoked_state)))) =
   a_codes (tables_of (run_server sample_deps sample_run sample_revoked_state))"
  by (rule used_request_yields_no_code [OF sample_revoked_sound sample_revoked_rows(2) _ sample_server refl])
    (simp add: sample_other_code)

section \<open>The same over PostgreSQL\<close>

abbreviation postgres_server ::
  "ext \<Rightarrow> pdp \<Rightarrow> auth_provider \<Rightarrow> app_config \<Rightarrow> endpoint_paths \<Rightarrow> endpoint_urls \<Rightarrow> pg_state server deps" where
  "postgres_server x pdp auth config paths urls \<equiv> build_deps x pdp auth config paths urls createPgStorage"

abbreviation rows_of :: "pg_state server \<Rightarrow> astore" where
  "rows_of \<equiv> srv_view pg_view"

lemma postgres_server_sel [simp]:
  "dp_ext (postgres_server x pdp auth config paths urls) = x"
  "dp_config (postgres_server x pdp auth config paths urls) = config"
  by (simp_all add: build_deps_def)

text \<open>A row of the database is filed under its own key, so this is no condition on the state.\<close>

lemma pg_keyed: "keyed (srv_view pg_view s)"
  by (auto simp: keyed_def pg_view_def db_view_def row_defs split: prod.split dest!: at_key_Some)

lemma pg_intact: "srv_ok config pg_ok s \<Longrightarrow> srv_ok config pg_ok s \<and> keyed (rows_of s)"
  by (simp add: pg_keyed)

text \<open>Whatever requests the server over PostgreSQL handles one after the other, whichever queries fail: the database and
  the parts of the server stay well formed, clients are unchanged, and apart from rows under identifiers drawn
  in between a used code or pushed request stays used and a revoked grant or token stays revoked; and nothing comes
  to life under a grant of which everything is revoked.\<close>

theorem postgres_rows_age_along_runs:
  assumes "srv_ok config pg_ok s" and "s' = run_server (postgres_server x pdp auth config paths urls) es s"
  shows "srv_ok config pg_ok s' \<and> history (drawn_in x es) (rows_of s) (rows_of s') \<and>
    (\<forall>g. g \<notin> dr_grants (drawn_in x es) \<longrightarrow> grant_gone g (rows_of s) \<longrightarrow> grant_gone g (rows_of s'))"
  using pgsrv.run_kept [OF pg_intact [OF assms(1)], unfolded postgres_server_sel] by (simp add: assms(2))

text \<open>A database that holds the code of the sample request, used.\<close>

definition sample_paid_pg :: pg_state where
  "sample_paid_pg = \<lparr>pg_db = (\<lambda>t. if t = ''authorization_codes''
       then [sample_code_row(''code_hash'' \<mapsto> SText (base64url ''code''), ''consumed_at'' \<mapsto> STime 1000)] else []),
     pg_clock = 1000, pg_faults = [], pg_random = []\<rparr>"

lemma sample_paid_ok: "srv_ok sample_config pg_ok (fresh_server sample_paid_pg)"
proof -
  have n: "CHR 0x00 \<notin> set (base64url ''code'')" by code_simp
  have "pg_ok sample_paid_pg"
    by (simp add: pg_ok_def db_ok_def sample_paid_pg_def table_ok_def typed_def authorization_codes_table_def has_type_def
      sample_code_row_def n)
  then show ?thesis by (rule srv_ok_fresh)
qed

lemma sample_paid_code:
  "\<exists>r. a_codes (rows_of (fresh_server sample_paid_pg)) (sha256Base64Url sample_ext ''code'') = Some (r, Some 1000)"
proof -
  have h: "sha256Base64Url sample_ext ''code'' = base64url ''code''" by code_simp
  show ?thesis by (simp add: h fresh_server_def pg_view_def db_view_def sample_paid_pg_def at_key_def as_time_opt_def)
qed

abbreviation sample_pg_deps :: "pg_state server deps" where
  "sample_pg_deps \<equiv>
     postgres_server sample_ext mock_evaluate (dev_authenticate sample_config) sample_config sample_paths sample_urls"

lemma postgres_rows_age_along_runs_witness:
  "\<forall>es. srv_ok sample_config pg_ok (run_server sample_pg_deps es (fresh_server sample_paid_pg))"
  using postgres_rows_age_along_runs [OF sample_paid_ok refl] by blast

text \<open>Property C16. A code that the database holds as used never buys tokens: after whatever run of the server over PostgreSQL, as long as
  no new code drawn in it has the same digest.\<close>

theorem postgres_used_code_buys_nothing:
  assumes "srv_ok config pg_ok s" and "a_codes (rows_of s) (sha256Base64Url x code) = Some (r, Some t)"
    and "presents_code code rq" and "sha256Base64Url x code \<notin> dr_codes (drawn_in x es)"
    and "d = postgres_server x pdp auth config paths urls"
  shows "\<not> succeeds (post_token d env rq) (run_server d es s)"
  using pgsrv.run_used_code [OF pg_intact [OF assms(1)], unfolded postgres_server_sel, OF assms(2-4)] by (simp add: assms(5))

lemma postgres_used_code_buys_nothing_witness:
  "\<not> succeeds (post_token sample_pg_deps sample_token_env sample_code_request) (run_server sample_pg_deps sample_run (fresh_server sample_paid_pg))"
proof -
  obtain r where "a_codes (rows_of (fresh_server sample_paid_pg)) (sha256Base64Url sample_ext ''code'') = Some (r, Some 1000)"
    using sample_paid_code ..
  from postgres_used_code_buys_nothing [OF sample_paid_ok this _ _ refl] show ?thesis
    by (simp add: sample_other_code presents_code_def sample_code_request_def sample_request_def sample_body_def)
qed

end
